(* ===== verification/Prelude.thy ===== *)
theory Prelude
  imports Main "HOL-Library.Word" "HOL-Library.AList"
begin

text \<open>
  The shared base of the development: the Go standard library functions on strings that the
  program uses, JSON values, the \<^verbatim>\<open>http.ResponseWriter\<close>, Go maps, and the lemmas on them that
  several components need. Go strings are byte sequences, so they are Isabelle's
  \<^typ>\<open>string\<close> (8-bit characters); \<^verbatim>\<open>[]byte\<close> values are lists of 8-bit words.
\<close>

named_theorems gomap_simps \<open>lookup after update and delete of Go maps\<close>
named_theorems writer_simps \<open>equations of the response writer\<close>

type_synonym bytes = "8 word list"

text \<open>WhatsApp identifiers, in their string form.\<close>

type_synonym jid = string
type_synonym message_id = string

section \<open>Package strings and strconv\<close>

text \<open>\<^verbatim>\<open>strings.Split(s, sep)\<close> for a one-character separator.\<close>

fun Split :: "string \<Rightarrow> char \<Rightarrow> string list" where
  "Split [] c = [[]]"
| "Split (x # xs) c =
     (if x = c then [] # Split xs c
      else (case Split xs c of [] \<Rightarrow> [[x]] | w # ws \<Rightarrow> (x # w) # ws))"

text \<open>\<^verbatim>\<open>strings.Join\<close>.\<close>

fun Join :: "string list \<Rightarrow> string \<Rightarrow> string" where
  "Join [] sep = []"
| "Join [w] sep = w"
| "Join (w # v # ws) sep = w @ sep @ Join (v # ws) sep"

text \<open>
  The UTF-8 encodings of the code points for which \<^verbatim>\<open>unicode.IsSpace\<close> holds: tab, line feed,
  vertical tab, form feed, carriage return, space, U+0085, U+00A0, U+1680, U+2000 to U+200A,
  U+2028, U+2029, U+202F, U+205F and U+3000.
\<close>

definition space_seqs :: "string list" where
  "space_seqs =
     [[CHR 0x09], [CHR 0x0A], [CHR 0x0B], [CHR 0x0C], [CHR 0x0D], [CHR 0x20],
      [CHR 0xC2, CHR 0x85], [CHR 0xC2, CHR 0xA0], [CHR 0xE1, CHR 0x9A, CHR 0x80],
      [CHR 0xE2, CHR 0x80, CHR 0x80], [CHR 0xE2, CHR 0x80, CHR 0x81],
      [CHR 0xE2, CHR 0x80, CHR 0x82], [CHR 0xE2, CHR 0x80, CHR 0x83],
      [CHR 0xE2, CHR 0x80, CHR 0x84], [CHR 0xE2, CHR 0x80, CHR 0x85],
      [CHR 0xE2, CHR 0x80, CHR 0x86], [CHR 0xE2, CHR 0x80, CHR 0x87],
      [CHR 0xE2, CHR 0x80, CHR 0x88], [CHR 0xE2, CHR 0x80, CHR 0x89],
      [CHR 0xE2, CHR 0x80, CHR 0x8A], [CHR 0xE2, CHR 0x80, CHR 0xA8],
      [CHR 0xE2, CHR 0x80, CHR 0xA9], [CHR 0xE2, CHR 0x80, CHR 0xAF],
      [CHR 0xE2, CHR 0x81, CHR 0x9F], [CHR 0xE3, CHR 0x80, CHR 0x80]]"

definition HasPrefix :: "string \<Rightarrow> string \<Rightarrow> bool" where
  "HasPrefix s p \<longleftrightarrow> take (length p) s = p"

function strip_seqs :: "string list \<Rightarrow> string \<Rightarrow> string" where
  "strip_seqs ws s =
     (case find (\<lambda>w. w \<noteq> [] \<and> HasPrefix s w) ws of
        Some w \<Rightarrow> strip_seqs ws (drop (length w) s)
      | None \<Rightarrow> s)"
  by pat_completeness auto
termination
proof (relation "measure (\<lambda>(ws, s). length s)", goal_cases)
  case 1
  then show ?case by simp
next
  case (2 ws s w)
  then have "w \<noteq> []" and "take (length w) s = w"
    by (auto simp: find_Some_iff HasPrefix_def)
  then have "s \<noteq> []" by auto
  with \<open>w \<noteq> []\<close> show ?case by simp
qed

declare strip_seqs.simps [simp del]

text \<open>
  \<^verbatim>\<open>strings.ToUpper\<close> and \<^verbatim>\<open>strings.ToLower\<close>, for comparison with ASCII names: ASCII letters are mapped, and so
  are the two letters outside ASCII whose capitals are ASCII (the long s and the dotless i). Other
  characters are kept; no mapping makes them ASCII.
\<close>

definition ascii_upper :: "char \<Rightarrow> char" where
  "ascii_upper c = (let n = of_char c :: nat in if 97 \<le> n \<and> n \<le> 122 then char_of (n - 32) else c)"

definition ascii_lower :: "char \<Rightarrow> char" where
  "ascii_lower c = (let n = of_char c :: nat in if 65 \<le> n \<and> n \<le> 90 then char_of (n + 32) else c)"

fun ToUpper :: "string \<Rightarrow> string" where
  "ToUpper (c # d # s) =
     (if c = CHR 0xC5 \<and> d = CHR 0xBF then CHR ''S'' # ToUpper s
      else if c = CHR 0xC4 \<and> d = CHR 0xB1 then CHR ''I'' # ToUpper s
      else ascii_upper c # ToUpper (d # s))"
| "ToUpper s = map ascii_upper s"

definition ToLower :: "string \<Rightarrow> string" where
  "ToLower s = map ascii_lower s"

text \<open>\<^verbatim>\<open>strings.TrimSpace\<close>: white space is cut off at both ends.\<close>

definition TrimSpace :: "string \<Rightarrow> string" where
  "TrimSpace s = rev (strip_seqs (map rev space_seqs) (rev (strip_seqs space_seqs s)))"

fun Contains :: "string \<Rightarrow> string \<Rightarrow> bool" where
  "Contains [] p = (p = [])"
| "Contains (x # xs) p = (HasPrefix (x # xs) p \<or> Contains xs p)"

definition TrimPrefix :: "string \<Rightarrow> string \<Rightarrow> string" where
  "TrimPrefix s p = (if HasPrefix s p then drop (length p) s else s)"

text \<open>\<^verbatim>\<open>strings.TrimRight(s, cutset)\<close> for a one-character cutset.\<close>

definition TrimRight :: "string \<Rightarrow> char \<Rightarrow> string" where
  "TrimRight s c = rev (dropWhile (\<lambda>x. x = c) (rev s))"

text \<open>\<^verbatim>\<open>strings.ReplaceAll\<close> for one-character old and new strings.\<close>

definition ReplaceAll :: "string \<Rightarrow> char \<Rightarrow> char \<Rightarrow> string" where
  "ReplaceAll s a b = map (\<lambda>x. if x = a then b else x) s"

text \<open>\<^verbatim>\<open>strconv.Itoa\<close> and \<^verbatim>\<open>fmt.Sprintf("%d", n)\<close>.\<close>

definition digit_char :: "nat \<Rightarrow> char" where
  "digit_char d = char_of (48 + d)"

fun nat_digits :: "nat \<Rightarrow> string" where
  "nat_digits n = (if n < 10 then [digit_char n] else nat_digits (n div 10) @ [digit_char (n mod 10)])"

declare nat_digits.simps [simp del]

definition Itoa :: "int \<Rightarrow> string" where
  "Itoa n = (if n < 0 then ''-'' @ nat_digits (nat (- n)) else nat_digits (nat n))"

definition FormatBool :: "bool \<Rightarrow> string" where
  "FormatBool b = (if b then ''true'' else ''false'')"

text \<open>
  \<^verbatim>\<open>strconv.Atoi\<close> on a 64-bit platform: an optional sign, then decimal digits, in the range of
  \<^verbatim>\<open>int64\<close>. \<^term>\<open>None\<close> is the error result.
\<close>

definition is_digit :: "char \<Rightarrow> bool" where
  "is_digit c \<longleftrightarrow> 48 \<le> (of_char c :: nat) \<and> (of_char c :: nat) \<le> 57"

fun digits_value :: "nat \<Rightarrow> string \<Rightarrow> nat option" where
  "digits_value acc [] = Some acc"
| "digits_value acc (c # cs) =
     (if is_digit c then digits_value (acc * 10 + (of_char c - 48)) cs else None)"

definition Atoi :: "string \<Rightarrow> int option" where
  "Atoi s =
     (let neg = (s \<noteq> [] \<and> hd s = CHR ''-'');
          ds = (if s \<noteq> [] \<and> (hd s = CHR ''-'' \<or> hd s = CHR ''+'') then tl s else s)
      in if ds = [] then None
         else (case digits_value 0 ds of
                 None \<Rightarrow> None
               | Some n \<Rightarrow>
                   if neg then (if n \<le> 2 ^ 63 then Some (- int n) else None)
                   else (if n < 2 ^ 63 then Some (int n) else None)))"

section \<open>JSON values\<close>

text \<open>
  The value a JSON text denotes. \<^verbatim>\<open>json.Marshal\<close> followed by \<^verbatim>\<open>json.Unmarshal\<close> of what the
  program builds (string-keyed maps, slices, strings, booleans, numbers) is the identity on
  these values.
\<close>

datatype json =
    JNull
  | JBool bool
  | JNum int
  | JStr string
  | JArr "json list"
  | JObj "(string \<times> json) list"

section \<open>http.ResponseWriter\<close>

text \<open>
  A writer has a live header map; the first \<^verbatim>\<open>WriteHeader\<close> fixes the status and a snapshot of
  the headers, a later call has no effect; a write before any \<^verbatim>\<open>WriteHeader\<close> sends status 200.
\<close>

record writer =
  w_header :: "string \<rightharpoonup> string"
  w_sent :: "(nat \<times> (string \<rightharpoonup> string)) option"
  w_body :: "json list"

definition new_writer :: writer where
  "new_writer = \<lparr>w_header = Map.empty, w_sent = None, w_body = []\<rparr>"

definition SetHeader :: "string \<Rightarrow> string \<Rightarrow> writer \<Rightarrow> writer" where
  "SetHeader k v w = w\<lparr>w_header := (w_header w)(k \<mapsto> v)\<rparr>"

definition WriteHeader :: "nat \<Rightarrow> writer \<Rightarrow> writer" where
  "WriteHeader code w =
     (case w_sent w of None \<Rightarrow> w\<lparr>w_sent := Some (code, w_header w)\<rparr> | Some _ \<Rightarrow> w)"

definition WriteBody :: "json \<Rightarrow> writer \<Rightarrow> writer" where
  "WriteBody j w = (let w' = WriteHeader 200 w in w'\<lparr>w_body := w_body w' @ [j]\<rparr>)"

definition status_of :: "writer \<Rightarrow> nat option" where
  "status_of w = map_option fst (w_sent w)"

definition headers_of :: "writer \<Rightarrow> string \<rightharpoonup> string" where
  "headers_of w = (case w_sent w of None \<Rightarrow> Map.empty | Some (_, h) \<Rightarrow> h)"

section \<open>Lemmas on strings\<close>

lemma Split_not_Nil [simp]: "Split s c \<noteq> []"
  by (cases s) (auto split: list.splits)

lemma Split_no_sep [simp]: "c \<notin> set s \<Longrightarrow> Split s c = [s]"
  by (induction s) auto

lemma Split_append:
  "c \<notin> set w \<Longrightarrow> Split (w @ c # s) c = w # Split s c"
  by (induction w) auto

lemma Split_Join:
  "ws \<noteq> [] \<Longrightarrow> \<forall>w \<in> set ws. c \<notin> set w \<Longrightarrow> Split (Join ws [c]) c = ws"
proof (induction ws "[c]" rule: Join.induct)
  case (3 w v ws)
  then have "Split (Join (v # ws) [c]) c = v # ws" by simp
  with "3.prems" show ?case by (simp add: Split_append)
qed auto

lemma Join_Split: "Join (Split s c) [c] = s"
proof (induction s)
  case (Cons x xs)
  obtain w ws where sp: "Split xs c = w # ws" by (cases "Split xs c") auto
  show ?case
  proof (cases ws)
    case Nil
    with Cons sp show ?thesis by auto
  next
    case (Cons v vs)
    with sp \<open>Join (Split xs c) [c] = xs\<close> show ?thesis by auto
  qed
qed simp

lemma Split_parts_no_sep: "w \<in> set (Split s c) \<Longrightarrow> c \<notin> set w"
  by (induction s arbitrary: w) (auto split: if_splits list.splits)

lemma Join_eq_Nil_iff:
  "sep \<noteq> [] \<Longrightarrow> Join ws sep = [] \<longleftrightarrow> ws = [] \<or> ws = [[]]"
  by (induction ws sep rule: Join.induct) auto

lemma HasPrefix_iff: "HasPrefix s p \<longleftrightarrow> (\<exists>t. s = p @ t)"
proof
  assume "HasPrefix s p"
  then have "s = p @ drop (length p) s"
    by (metis HasPrefix_def append_take_drop_id)
  then show "\<exists>t. s = p @ t" by blast
qed (auto simp: HasPrefix_def)

lemma HasPrefix_append [simp]: "HasPrefix (p @ t) p"
  by (simp add: HasPrefix_def)

lemma strip_seqs_Nil [simp]: "strip_seqs ws [] = []"
proof -
  have "find (\<lambda>w. w \<noteq> [] \<and> HasPrefix [] w) ws = None"
    by (auto simp: find_None_iff HasPrefix_def)
  then show ?thesis by (subst strip_seqs.simps) simp
qed

text \<open>A string whose first character starts no separator is left as it is.\<close>

lemma strip_seqs_id:
  assumes "\<forall>w \<in> set ws. w = [] \<or> hd w \<noteq> hd s" "s \<noteq> []"
  shows "strip_seqs ws s = s"
proof -
  have "find (\<lambda>w. w \<noteq> [] \<and> HasPrefix s w) ws = None"
    using assms by (auto simp: find_None_iff HasPrefix_iff)
  then show ?thesis by (subst strip_seqs.simps) simp
qed

definition space_heads :: "char set" where
  "space_heads = hd ` set space_seqs \<union> last ` set space_seqs"

lemma TrimSpace_id:
  assumes "s \<noteq> []" "hd s \<notin> space_heads" "last s \<notin> space_heads"
  shows "TrimSpace s = s"
proof -
  have ne: "\<forall>w \<in> set space_seqs. w \<noteq> []" by (simp add: space_seqs_def)
  have "hd w \<noteq> hd s" "last w \<noteq> last s" if "w \<in> set space_seqs" for w
    using that assms(2,3) unfolding space_heads_def by (metis UnI1 UnI2 imageI)+
  then have l: "strip_seqs space_seqs s = s"
    and "strip_seqs (map rev space_seqs) (rev s) = rev s"
    using assms ne by (auto intro!: strip_seqs_id simp: hd_rev)
  with l show ?thesis by (simp add: TrimSpace_def)
qed

lemma TrimSpace_Nil [simp]: "TrimSpace [] = []"
  by (simp add: TrimSpace_def)

section \<open>Lemmas on numerals\<close>

lemma nat_digits_not_Nil [simp]: "nat_digits n \<noteq> []"
  by (subst nat_digits.simps) simp

lemma of_char_digit_char: "d < 10 \<Longrightarrow> (of_char (digit_char d) :: nat) = 48 + d"
  by (simp add: digit_char_def)

lemma is_digit_digit_char: "d < 10 \<Longrightarrow> is_digit (digit_char d)"
  by (simp add: is_digit_def of_char_digit_char)

lemma nat_digits_digits: "c \<in> set (nat_digits n) \<Longrightarrow> is_digit c"
proof (induction n rule: nat_digits.induct)
  case (1 n)
  show ?case
  proof (cases "n < 10")
    case True
    with "1.prems" show ?thesis
      by (simp add: nat_digits.simps [of n] is_digit_digit_char)
  next
    case False
    with 1 show ?thesis
      by (auto simp: nat_digits.simps [of n] is_digit_digit_char)
  qed
qed

lemma digits_value_append:
  "digits_value acc (s @ t) = Option.bind (digits_value acc s) (\<lambda>a. digits_value a t)"
  by (induction s arbitrary: acc) auto

lemma digits_value_nat_digits: "digits_value 0 (nat_digits n) = Some n"
proof (induction n rule: nat_digits.induct)
  case (1 n)
  show ?case
  proof (cases "n < 10")
    case True
    then show ?thesis
      by (simp add: nat_digits.simps [of n] is_digit_digit_char of_char_digit_char)
  next
    case False
    with 1 show ?thesis
      by (simp add: nat_digits.simps [of n] digits_value_append is_digit_digit_char
          of_char_digit_char)
  qed
qed

lemma Atoi_Itoa: "- (2 ^ 63) \<le> n \<Longrightarrow> n < 2 ^ 63 \<Longrightarrow> Atoi (Itoa n) = Some n"
proof (cases "n < 0")
  case True
  assume "- (2 ^ 63) \<le> n"
  with True have "nat (- n) \<le> 2 ^ 63" by simp
  with True show ?thesis
    by (simp add: Atoi_def Itoa_def Let_def digits_value_nat_digits)
next
  case False
  assume "n < 2 ^ 63"
  with False have le: "nat n < 2 ^ 63" by simp
  have d: "is_digit (hd (nat_digits (nat n)))"
    by (rule nat_digits_digits [of _ "nat n"]) simp
  then have "hd (nat_digits (nat n)) \<noteq> CHR ''-''" "hd (nat_digits (nat n)) \<noteq> CHR ''+''"
    by (auto simp: is_digit_def)
  with False le show ?thesis
    by (simp add: Atoi_def Itoa_def Let_def digits_value_nat_digits)
qed

text \<open>A byte is less than 256.\<close>

lemma unat_byte_less: "unat (b :: 8 word) < 256"
  using unsigned_less [of b, where ?'a = nat] by simp

section \<open>Lemmas on the response writer\<close>

lemma status_of_WriteHeader [writer_simps]:
  "status_of (WriteHeader c w) = (case status_of w of None \<Rightarrow> Some c | Some s \<Rightarrow> Some s)"
  by (simp add: status_of_def WriteHeader_def split: option.splits)

lemma status_of_SetHeader [writer_simps]: "status_of (SetHeader k v w) = status_of w"
  by (simp add: status_of_def SetHeader_def)

lemma status_of_WriteBody [writer_simps]:
  "status_of (WriteBody j w) = (case status_of w of None \<Rightarrow> Some 200 | Some s \<Rightarrow> Some s)"
  by (simp add: status_of_def WriteBody_def WriteHeader_def Let_def split: option.splits)

lemma status_of_new_writer [writer_simps]: "status_of new_writer = None"
  by (simp add: status_of_def new_writer_def)

lemma w_sent_iff_status: "w_sent w = None \<longleftrightarrow> status_of w = None"
  by (simp add: status_of_def)

section \<open>Go maps\<close>

text \<open>
  A Go map is an association list with distinct keys: \<^verbatim>\<open>m[k]\<close> is \<^const>\<open>map_of\<close>, \<^verbatim>\<open>m[k] = v\<close> is
  \<^const>\<open>AList.update\<close>, \<^verbatim>\<open>delete(m, k)\<close> is \<^const>\<open>AList.delete\<close>, \<^verbatim>\<open>len(m)\<close> is \<^const>\<open>length\<close>.
\<close>

type_synonym ('k, 'v) gomap = "('k \<times> 'v) list"

abbreviation gm_wf :: "('k, 'v) gomap \<Rightarrow> bool" where
  "gm_wf m \<equiv> distinct (map fst m)"

lemma find_append: "find P (xs @ ys) = (case find P xs of None \<Rightarrow> find P ys | Some x \<Rightarrow> Some x)"
  by (induction xs) auto

lemma gm_get_set [gomap_simps]:
  "map_of (AList.update k v m) k' = (if k' = k then Some v else map_of m k')"
  by (auto simp: update_conv' AList.update_conv)

lemma gm_get_delete [gomap_simps]:
  "map_of (AList.delete k m) k' = (if k' = k then None else map_of m k')"
  by (auto simp: delete_conv')

lemma gm_wf_update [gomap_simps]: "gm_wf m \<Longrightarrow> gm_wf (AList.update k v m)"
  by (rule distinct_update)

lemma gm_wf_delete [gomap_simps]: "gm_wf m \<Longrightarrow> gm_wf (AList.delete k m)"
  by (rule distinct_delete)

end
