(* ===== verification/Webp.thy ===== *)
theory Webp
  imports Prelude
begin

text \<open>
  Sticker metadata in WebP files, from \<^verbatim>\<open>cmd/api/helpers.go\<close>: the RIFF chunk parser
  \<^verbatim>\<open>parseWebPChunks\<close>, \<^verbatim>\<open>ensureVP8XWithEXIF\<close>, \<^verbatim>\<open>createVP8XChunk\<close>, \<^verbatim>\<open>assembleWebP\<close>,
  \<^verbatim>\<open>injectWebPEXIF\<close>, the EXIF builder and the sticker pipeline around them. Slice accesses that can
  panic return \<^term>\<open>None\<close> when they do. The image decoder, \<^verbatim>\<open>json.Marshal\<close>, content sniffing, data
  URL decoding and ffmpeg are arguments.
\<close>

unbundle bit_operations_syntax

section \<open>encoding/binary\<close>

definition byte :: "nat \<Rightarrow> 8 word" where
  "byte n = word_of_nat n"

definition ascii :: "string \<Rightarrow> bytes" where
  "ascii s = map (\<lambda>c. byte (of_char c)) s"

definition LE_Uint32 :: "bytes \<Rightarrow> 32 word" where
  "LE_Uint32 b =
     word_of_nat (unat (b ! 0) + 256 * unat (b ! 1) + 65536 * unat (b ! 2) + 16777216 * unat (b ! 3))"

definition LE_PutUint32 :: "32 word \<Rightarrow> bytes" where
  "LE_PutUint32 v = [byte (unat v), byte (unat v div 256), byte (unat v div 65536), byte (unat v div 16777216)]"

section \<open>Model\<close>

definition riffHeaderSize :: nat where "riffHeaderSize = 12"
definition chunkHeaderSize :: nat where "chunkHeaderSize = 8"
definition riffSizeOffset :: nat where "riffSizeOffset = 4"
definition vp8xPayloadSize :: nat where "vp8xPayloadSize = 10"
definition vp8xChunkSize :: nat where "vp8xChunkSize = chunkHeaderSize + 10"
definition vp8xFlagsOffset :: nat where "vp8xFlagsOffset = chunkHeaderSize"
definition vp8xWidthOffset :: nat where "vp8xWidthOffset = chunkHeaderSize + 4"
definition vp8xHeightOffset :: nat where "vp8xHeightOffset = chunkHeaderSize + 7"
definition vp8xFlagEXIF :: "8 word" where "vp8xFlagEXIF = 0x08"

lemmas webp_consts = riffHeaderSize_def chunkHeaderSize_def riffSizeOffset_def vp8xPayloadSize_def
  vp8xChunkSize_def vp8xFlagsOffset_def vp8xWidthOffset_def vp8xHeightOffset_def vp8xFlagEXIF_def

definition isValidWebP :: "bytes \<Rightarrow> bool" where
  "isValidWebP data \<longleftrightarrow> length data \<ge> riffHeaderSize \<and> take 4 data = ascii ''RIFF'' \<and>
     take 4 (drop 8 data) = ascii ''WEBP''"

text \<open>The loop of \<^verbatim>\<open>parseWebPChunks\<close>; the error carries the tag of the truncated chunk.\<close>

function parse_loop :: "bytes \<Rightarrow> nat \<Rightarrow> bytes list \<Rightarrow> int \<Rightarrow> bytes + (bytes list \<times> int)" where
  "parse_loop inp pos chunks vp8xIndex =
     (if pos + chunkHeaderSize \<le> length inp then
        (let tag = take 4 (drop pos inp);
             size = unat (LE_Uint32 (take 4 (drop (pos + 4) inp)));
             dataEnd = pos + chunkHeaderSize + size
         in if dataEnd > length inp then Inl tag
            else
              (let pad = size mod 2;
                   vp8xIndex' = (if tag = ascii ''VP8X'' \<and> size \<ge> vp8xPayloadSize
                                 then int (length chunks) else vp8xIndex);
                   chunks' = (if tag \<noteq> ascii ''EXIF''
                              then chunks @ [take (chunkHeaderSize + size) (drop pos inp) @ replicate pad 0]
                              else chunks)
               in parse_loop inp (dataEnd + pad) chunks' vp8xIndex'))
      else Inr (chunks, vp8xIndex))"
  by pat_completeness auto
termination
  by (relation "measure (\<lambda>(inp, pos, _). length inp - pos)") (auto simp: chunkHeaderSize_def)

declare parse_loop.simps [simp del]

definition parseWebPChunks :: "bytes \<Rightarrow> bytes + (bytes list \<times> int)" where
  "parseWebPChunks inp = parse_loop inp riffHeaderSize [] (- 1)"

definition putUint24LE :: "int \<Rightarrow> bytes" where
  "putUint24LE v = [word_of_int v, word_of_int (v div 2 ^ 8), word_of_int (v div 2 ^ 16)]"

definition createVP8XChunk :: "int \<Rightarrow> int \<Rightarrow> bytes" where
  "createVP8XChunk width height =
     ascii ''VP8X'' @ LE_PutUint32 (word_of_nat vp8xPayloadSize) @ [vp8xFlagEXIF, 0, 0, 0] @
     putUint24LE (width - 1) @ putUint24LE (height - 1)"

text \<open>\<^verbatim>\<open>ensureVP8XWithEXIF\<close>; \<^term>\<open>None\<close> is the index-out-of-range panic.\<close>

definition ensureVP8XWithEXIF :: "bytes list \<Rightarrow> int \<Rightarrow> int \<Rightarrow> int \<Rightarrow> bytes list option" where
  "ensureVP8XWithEXIF chunks vp8xIndex width height =
     (if vp8xIndex \<ge> 0 then
        (if nat vp8xIndex < length chunks \<and> vp8xFlagsOffset < length (chunks ! nat vp8xIndex) then
           (let c = chunks ! nat vp8xIndex
            in Some (chunks[nat vp8xIndex := c[vp8xFlagsOffset := c ! vp8xFlagsOffset OR vp8xFlagEXIF]]))
         else None)
      else Some ([createVP8XChunk width height] @ chunks))"

definition writeChunk :: "bytes \<Rightarrow> string \<Rightarrow> bytes \<Rightarrow> bytes" where
  "writeChunk buf tag data =
     buf @ ascii tag @ LE_PutUint32 (word_of_nat (length data)) @ data @
     (if length data mod 2 = 1 then [0] else [])"

definition assembleWebP :: "bytes list \<Rightarrow> bytes \<Rightarrow> bytes" where
  "assembleWebP chunks exif =
     (let out = ascii ''RIFF'' @ [0, 0, 0, 0] @ ascii ''WEBP'' @ concat chunks;
          b = writeChunk out ''EXIF'' exif
      in take riffSizeOffset b @ LE_PutUint32 (word_of_nat (length b - 8)) @ drop (riffSizeOffset + 4) b)"

datatype webp_error = NotWebP | BadImageConfig string | TruncatedChunk bytes

text \<open>\<^verbatim>\<open>injectWebPEXIF\<close>; \<open>decodeConfig\<close> is \<^verbatim>\<open>image.DecodeConfig\<close>. The outer option is the panic.\<close>

definition injectWebPEXIF ::
    "(bytes \<Rightarrow> string + (int \<times> int)) \<Rightarrow> bytes \<Rightarrow> bytes \<Rightarrow> (webp_error + bytes) option" where
  "injectWebPEXIF decodeConfig inp exif =
     (if \<not> isValidWebP inp then Some (Inl NotWebP)
      else (case decodeConfig inp of
              Inl e \<Rightarrow> Some (Inl (BadImageConfig e))
            | Inr (width, height) \<Rightarrow>
                (case parseWebPChunks inp of
                   Inl tag \<Rightarrow> Some (Inl (TruncatedChunk tag))
                 | Inr (chunks, vp8xIndex) \<Rightarrow>
                     map_option (\<lambda>cs. Inr (assembleWebP cs exif))
                       (ensureVP8XWithEXIF chunks vp8xIndex width height))))"

text \<open>\<^verbatim>\<open>buildStickerMetadata\<close>; \<^term>\<open>None\<close> is the nil map.\<close>

definition buildStickerMetadata :: "string \<Rightarrow> string \<Rightarrow> string \<Rightarrow> string list \<Rightarrow> json option" where
  "buildStickerMetadata packID packName packPublisher emojis =
     (if packID = [] \<and> packName = [] \<and> packPublisher = [] \<and> length emojis = 0 then None
      else Some (JObj
        ((if packID \<noteq> [] then [(''sticker-pack-id'', JStr packID)] else []) @
         (if packName \<noteq> [] then [(''sticker-pack-name'', JStr packName)] else []) @
         (if packPublisher \<noteq> [] then [(''sticker-pack-publisher'', JStr packPublisher)] else []) @
         (if length emojis > 0 then [(''emojis'', JArr (map JStr emojis))] else []))))"

text \<open>\<^verbatim>\<open>buildWhatsAppEXIF\<close>; \<open>marshal\<close> is \<^verbatim>\<open>json.Marshal\<close>.\<close>

definition buildWhatsAppEXIF :: "(json \<Rightarrow> bytes option) \<Rightarrow> json \<Rightarrow> bytes" where
  "buildWhatsAppEXIF marshal meta =
     (case marshal meta of
        None \<Rightarrow> []
      | Some jsonBytes \<Rightarrow>
          [0x49, 0x49, 0x2A, 0x00, 0x08, 0x00, 0x00, 0x00, 0x01, 0x00, 0x41, 0x57, 0x07, 0x00] @
          LE_PutUint32 (word_of_nat (length jsonBytes)) @ [0x16, 0x00, 0x00, 0x00] @ jsonBytes)"

definition embedStickerEXIF ::
    "(bytes \<Rightarrow> string + (int \<times> int)) \<Rightarrow> (json \<Rightarrow> bytes option) \<Rightarrow> bytes \<Rightarrow> string \<Rightarrow> string \<Rightarrow> string \<Rightarrow>
     string list \<Rightarrow> bytes option" where
  "embedStickerEXIF decodeConfig marshal inputWebP packID packName packPublisher emojis =
     (case buildStickerMetadata packID packName packPublisher emojis of
        None \<Rightarrow> Some inputWebP
      | Some meta \<Rightarrow>
          map_option (\<lambda>r. case r of Inl _ \<Rightarrow> inputWebP | Inr out \<Rightarrow> out)
            (injectWebPEXIF decodeConfig inputWebP (buildWhatsAppEXIF marshal meta)))"

text \<open>\<^verbatim>\<open>convertToWebPSticker\<close>; \<open>detect\<close> is \<^verbatim>\<open>http.DetectContentType\<close>, the converters run ffmpeg.\<close>

definition convertToWebPSticker ::
    "(bytes \<Rightarrow> string) \<Rightarrow> (bytes \<Rightarrow> string + bytes) \<Rightarrow> (bytes \<Rightarrow> string + bytes) \<Rightarrow> bytes \<Rightarrow> string \<Rightarrow>
     string + (bytes \<times> string)" where
  "convertToWebPSticker detect convertVideo convertImage data mimeOverride =
     (let mimeType = (if mimeOverride \<noteq> [] then mimeOverride else detect data)
      in if HasPrefix mimeType ''video/'' \<or> mimeType = ''image/gif'' then
           (case convertVideo data of
              Inl e \<Rightarrow> Inl (''failed to convert video/gif sticker to webp: '' @ e)
            | Inr converted \<Rightarrow> Inr (converted, ''image/webp''))
         else if mimeType = ''image/jpeg'' \<or> mimeType = ''image/png'' \<or> mimeType = ''image/jpg'' then
           (case convertImage data of
              Inl e \<Rightarrow> Inl (''failed to convert image sticker to webp: '' @ e)
            | Inr converted \<Rightarrow> Inr (converted, ''image/webp''))
         else Inr (data, mimeType))"

record sticker_env =
  se_decodeConfig :: "bytes \<Rightarrow> string + (int \<times> int)"
  se_marshal :: "json \<Rightarrow> bytes option"
  se_detect :: "bytes \<Rightarrow> string"
  se_convertVideo :: "bytes \<Rightarrow> string + bytes"
  se_convertImage :: "bytes \<Rightarrow> string + bytes"
  se_decodeDataURL :: "string \<Rightarrow> string + bytes"

definition processStickerData ::
    "sticker_env \<Rightarrow> string \<Rightarrow> string \<Rightarrow> string \<Rightarrow> string \<Rightarrow> string \<Rightarrow> string list \<Rightarrow>
     (string + (bytes \<times> string)) option" where
  "processStickerData env stickerData mimeOverride packID packName packPublisher emojis =
     (if \<not> HasPrefix stickerData ''data'' then
        Some (Inl ''data should start with \"data:mime/type;base64,\"'')
      else (case se_decodeDataURL env stickerData of
              Inl e \<Rightarrow> Some (Inl ''could not decode base64 encoded data from payload'')
            | Inr data \<Rightarrow>
     (case convertToWebPSticker (se_detect env) (se_convertVideo env) (se_convertImage env) data mimeOverride of
        Inl e \<Rightarrow> Some (Inl e)
      | Inr (filedata, mimeType) \<Rightarrow>
          if mimeType = ''image/webp'' then
            map_option (\<lambda>out. Inr (out, mimeType))
              (embedStickerEXIF (se_decodeConfig env) (se_marshal env) filedata packID packName packPublisher emojis)
          else Some (Inr (filedata, mimeType)))))"

section \<open>Abstract specification: a RIFF body as a list of chunks\<close>

type_synonym chunk = "bytes \<times> bytes"

text \<open>Reading a body: the list of (tag, payload) pairs; up to seven trailing bytes are ignored.\<close>

function riff_decode :: "bytes \<Rightarrow> bytes + chunk list" where
  "riff_decode bs =
     (if 8 \<le> length bs then
        (let size = unat (LE_Uint32 (take 4 (drop 4 bs)))
         in if 8 + size > length bs then Inl (take 4 bs)
            else (case riff_decode (drop (8 + size + size mod 2) bs) of
                    Inl e \<Rightarrow> Inl e
                  | Inr cs \<Rightarrow> Inr ((take 4 bs, take size (drop 8 bs)) # cs)))
      else Inr [])"
  by pat_completeness auto
termination
  by (relation "measure length") auto

declare riff_decode.simps [simp del]

definition encode_chunk :: "chunk \<Rightarrow> bytes" where
  "encode_chunk c = fst c @ LE_PutUint32 (word_of_nat (length (snd c))) @ snd c @
     replicate (length (snd c) mod 2) 0"

definition wf_chunk :: "chunk \<Rightarrow> bool" where
  "wf_chunk c \<longleftrightarrow> length (fst c) = 4 \<and> length (snd c) < 2 ^ 32"

definition is_vp8x :: "chunk \<Rightarrow> bool" where
  "is_vp8x c \<longleftrightarrow> fst c = ascii ''VP8X'' \<and> 10 \<le> length (snd c)"

definition not_exif :: "chunk \<Rightarrow> bool" where
  "not_exif c \<longleftrightarrow> fst c \<noteq> ascii ''EXIF''"

text \<open>Setting the EXIF flag: in the last extended header, or in a new one put first.\<close>

definition flag_exif :: "chunk \<Rightarrow> chunk" where
  "flag_exif c = (fst c, (snd c)[0 := (snd c ! 0) OR vp8xFlagEXIF])"

definition new_vp8x :: "int \<Rightarrow> int \<Rightarrow> chunk" where
  "new_vp8x width height =
     (ascii ''VP8X'', [vp8xFlagEXIF, 0, 0, 0] @ putUint24LE (width - 1) @ putUint24LE (height - 1))"

fun mark_last :: "chunk list \<Rightarrow> chunk list option" where
  "mark_last [] = None"
| "mark_last (c # cs) =
     (case mark_last cs of
        Some cs' \<Rightarrow> Some (c # cs')
      | None \<Rightarrow> (if is_vp8x c then Some (flag_exif c # cs) else None))"

definition mark_exif :: "int \<Rightarrow> int \<Rightarrow> chunk list \<Rightarrow> chunk list" where
  "mark_exif width height cs =
     (case mark_last cs of Some cs' \<Rightarrow> cs' | None \<Rightarrow> new_vp8x width height # cs)"

text \<open>The file with a given chunk list.\<close>

definition riff_file :: "chunk list \<Rightarrow> bytes" where
  "riff_file cs =
     (let body = concat (map encode_chunk cs)
      in ascii ''RIFF'' @ LE_PutUint32 (word_of_nat (4 + length body)) @ ascii ''WEBP'' @ body)"

end
