(* ===== verification/Webp_Props.thy ===== *)
theory Webp_Props
  imports Webp
begin

text \<open>
  The WebP code against the chunk-list specification: the little-endian round trips, the parser
  reads exactly the specification's chunks, and injection is a change of the chunk list.
\<close>

section \<open>Little-endian numbers\<close>

lemma unat_byte: "unat (byte n) = n mod 256"
  by (simp add: byte_def unat_of_nat)

lemma base256:
  fixes n :: nat
  assumes "n < 2 ^ 32"
  shows "n mod 256 + 256 * (n div 256 mod 256) + 65536 * (n div 65536 mod 256) +
    16777216 * (n div 16777216 mod 256) = n"
proof -
  have d: "n div 65536 = n div 256 div 256" "n div 16777216 = n div 256 div 256 div 256"
    by (simp_all add: div_mult2_eq [symmetric])
  have "n div 16777216 < 256" using assms by (simp add: less_mult_imp_div_less)
  then have "n div 16777216 mod 256 = n div 256 div 256 div 256" by (simp add: d)
  moreover have "n = n mod 256 + 256 * (n div 256)" by simp
  moreover have "n div 256 = n div 256 mod 256 + 256 * (n div 256 div 256)" by simp
  moreover have "n div 256 div 256 = n div 256 div 256 mod 256 + 256 * (n div 256 div 256 div 256)" by simp
  ultimately show ?thesis unfolding d(1) by linarith
qed

lemma LE_Uint32_Put: "LE_Uint32 (LE_PutUint32 v @ rest) = v"
proof -
  have "unat v < 2 ^ 32" using unsigned_less [of v, where ?'a = nat] by simp
  note digits = base256 [OF this]
  have at: "(LE_PutUint32 v @ rest) ! 0 = byte (unat v)" "(LE_PutUint32 v @ rest) ! 1 = byte (unat v div 256)"
    "(LE_PutUint32 v @ rest) ! 2 = byte (unat v div 65536)" "(LE_PutUint32 v @ rest) ! 3 = byte (unat v div 16777216)"
    by (simp_all add: LE_PutUint32_def)
  show ?thesis
    unfolding LE_Uint32_def at unat_byte digits by simp
qed

lemma LE_Uint32_Put_Nil [simp]: "LE_Uint32 (LE_PutUint32 v) = v"
  using LE_Uint32_Put [of v "[]"] by simp

lemma length_LE_PutUint32 [simp]: "length (LE_PutUint32 v) = 4"
  by (simp add: LE_PutUint32_def)

lemma digits256:
  fixes a b c d :: nat
  assumes "a < 256" "b < 256" "c < 256" "d < 256"
  defines "n \<equiv> a + 256 * b + 65536 * c + 16777216 * d"
  shows "n < 2 ^ 32" "n mod 256 = a" "n div 256 mod 256 = b" "n div 65536 mod 256 = c" "n div 16777216 mod 256 = d"
proof -
  have n: "n = a + 256 * (b + 256 * (c + 256 * d))" by (simp add: n_def)
  have d1: "n div 256 = b + 256 * (c + 256 * d)" using assms(1) unfolding n by simp
  have d2: "n div 65536 = c + 256 * d"
    using assms(2) d1 div_mult2_eq [of n 256 256] by simp
  have d3: "n div 16777216 = d"
    using assms(3) d2 div_mult2_eq [of n 65536 256] by simp
  show "n < 2 ^ 32" using assms by simp
  show "n mod 256 = a" unfolding n mod_mult_self2 using assms(1) by simp
  show "n div 256 mod 256 = b" unfolding d1 mod_mult_self2 using assms(2) by simp
  show "n div 65536 mod 256 = c" unfolding d2 mod_mult_self2 using assms(3) by simp
  show "n div 16777216 mod 256 = d" unfolding d3 using assms(4) by simp
qed

lemma LE_Put_Uint32:
  assumes "length b = 4"
  shows "LE_PutUint32 (LE_Uint32 b) = b"
proof -
  obtain b0 b1 b2 b3 where b: "b = [b0, b1, b2, b3]"
    using assms by (auto simp: numeral_eq_Suc length_Suc_conv)
  have byte_unat: "byte n = x" if "n mod 256 = unat x" for n and x :: "8 word"
    using that by (simp add: word_unat_eq_iff unat_byte)
  note dg = digits256 [OF unat_byte_less [of b0] unat_byte_less [of b1] unat_byte_less [of b2] unat_byte_less [of b3]]
  let ?n = "unat b0 + 256 * unat b1 + 65536 * unat b2 + 16777216 * unat b3"
  have v: "unat (LE_Uint32 b) = ?n"
    unfolding LE_Uint32_def b unat_of_nat using dg(1) by (simp del: of_nat_add of_nat_mult)
  show ?thesis
    unfolding LE_PutUint32_def v unfolding b using dg(2-5) by (simp add: byte_unat)
qed

lemma length_ascii [simp]: "length (ascii s) = length s"
  by (simp add: ascii_def)

section \<open>The chunk list\<close>

lemma riff_decode_short: "length bs < 8 \<Longrightarrow> riff_decode bs = Inr []"
  by (subst riff_decode.simps) simp

lemma riff_decode_trunc:
  "8 \<le> length bs \<Longrightarrow> length bs < 8 + unat (LE_Uint32 (take 4 (drop 4 bs))) \<Longrightarrow> riff_decode bs = Inl (take 4 bs)"
  by (subst riff_decode.simps) (simp add: Let_def)

lemma riff_decode_step:
  assumes "n = unat (LE_Uint32 (take 4 (drop 4 bs)))" "8 + n \<le> length bs"
  shows "riff_decode bs =
    (case riff_decode (drop (8 + n + n mod 2) bs) of
       Inl e \<Rightarrow> Inl e | Inr cs \<Rightarrow> Inr ((take 4 bs, take n (drop 8 bs)) # cs))"
proof -
  have "8 \<le> length bs" "\<not> length bs < 8 + n" using assms(2) by simp_all
  then show ?thesis
    unfolding riff_decode.simps [of bs] assms(1) [symmetric] Let_def by (simp only: if_True if_False)
qed

lemma riff_decode_encode_Cons:
  assumes "wf_chunk c"
  shows "riff_decode (encode_chunk c @ rest) =
    (case riff_decode rest of Inl e \<Rightarrow> Inl e | Inr cs \<Rightarrow> Inr (c # cs))"
proof -
  obtain t p where c: "c = (t, p)" by (cases c)
  have t: "length t = 4" and p: "length p < 2 ^ 32" using assms by (simp_all add: c wf_chunk_def)
  let ?bs = "encode_chunk c @ rest"
  have sz: "unat (LE_Uint32 (take 4 (drop 4 ?bs))) = length p"
    using t p by (simp add: encode_chunk_def c unat_of_nat)
  have "drop (8 + length p + length p mod 2) ?bs = rest" "take 4 ?bs = t" "take (length p) (drop 8 ?bs) = p"
    "8 + length p \<le> length ?bs"
    using t by (simp_all add: encode_chunk_def c)
  then show ?thesis
    using riff_decode_step [OF sz [symmetric]] by (simp only: c)
qed

lemma riff_decode_encode:
  "list_all wf_chunk cs \<Longrightarrow> riff_decode (concat (map encode_chunk cs)) = Inr cs"
proof (induction cs)
  case Nil
  then show ?case by (subst riff_decode.simps) simp
next
  case (Cons c cs)
  then show ?case by (simp add: riff_decode_encode_Cons)
qed

lemma riff_decode_wf: "riff_decode bs = Inr cs \<Longrightarrow> list_all wf_chunk cs"
proof (induction bs arbitrary: cs rule: riff_decode.induct)
  case (1 bs)
  show ?case
  proof (cases "8 \<le> length bs")
    case True
    let ?s = "unat (LE_Uint32 (take 4 (drop 4 bs)))"
    have "?s < 2 ^ 32" using unsigned_less [of "LE_Uint32 (take 4 (drop 4 bs))", where ?'a = nat] by simp
    with True 1 show ?thesis
      by (auto simp: riff_decode.simps [of bs] Let_def wf_chunk_def split: if_splits sum.splits)
  next
    case False
    with "1.prems" show ?thesis by (simp add: riff_decode.simps [of bs])
  qed
qed

text \<open>The bytes the parser copies for a chunk are the chunk's encoding.\<close>

lemma copied_chunk:
  assumes "8 + sz \<le> length bs" "sz = unat (LE_Uint32 (take 4 (drop 4 bs)))"
  shows "take (8 + sz) bs @ replicate (sz mod 2) 0 = encode_chunk (take 4 bs, take sz (drop 8 bs))"
proof -
  have len: "length (take sz (drop 8 bs)) = sz" using assms(1) by simp
  have "LE_PutUint32 (word_of_nat sz) = take 4 (drop 4 bs)"
    using assms by (simp add: LE_Put_Uint32)
  moreover have "take (8 + sz) bs = take 4 bs @ take 4 (drop 4 bs) @ take sz (drop 8 bs)"
  proof -
    have "take (8 + sz) bs = take 4 bs @ take (4 + sz) (drop 4 bs)"
      using take_add [of 4 "4 + sz" bs] by simp
    moreover have "take (4 + sz) (drop 4 bs) = take 4 (drop 4 bs) @ take sz (drop 8 bs)"
      using take_add [of 4 sz "drop 4 bs"] by simp
    ultimately show ?thesis by simp
  qed
  ultimately show ?thesis by (simp add: encode_chunk_def len del: length_take)
qed

fun vp8x_index :: "nat \<Rightarrow> int \<Rightarrow> chunk list \<Rightarrow> int" where
  "vp8x_index n idx [] = idx"
| "vp8x_index n idx (c # cs) =
     vp8x_index (if not_exif c then Suc n else n) (if is_vp8x c then int n else idx) cs"

text \<open>The parser reads the specification's chunks, without the EXIF ones.\<close>

lemma parse_loop_spec:
  "parse_loop inp pos acc idx =
     (case riff_decode (drop pos inp) of
        Inl t \<Rightarrow> Inl t
      | Inr cs \<Rightarrow> Inr (acc @ map encode_chunk (filter not_exif cs), vp8x_index (length acc) idx cs))"
proof (induction "length inp - pos" arbitrary: pos acc idx rule: less_induct)
  case less
  let ?bs = "drop pos inp"
  let ?size = "unat (LE_Uint32 (take 4 (drop (pos + 4) inp)))"
  have four: "drop (pos + 4) inp = drop 4 ?bs" by (simp add: add.commute)
  consider (stop) "\<not> pos + 8 \<le> length inp" | (trunc) "pos + 8 \<le> length inp" "length inp < pos + 8 + ?size"
    | (go) "pos + 8 \<le> length inp" "pos + 8 + ?size \<le> length inp" by linarith
  then show ?case
  proof cases
    case stop
    then show ?thesis
      by (subst parse_loop.simps) (simp add: riff_decode_short chunkHeaderSize_def)
  next
    case trunc
    then have "8 \<le> length ?bs" "length ?bs < 8 + unat (LE_Uint32 (take 4 (drop 4 ?bs)))"
      unfolding four [symmetric] length_drop by linarith+
    with trunc show ?thesis
      by (subst parse_loop.simps) (simp add: riff_decode_trunc chunkHeaderSize_def Let_def)
  next
    case go
    define c where "c = (take 4 ?bs, take ?size (drop 8 ?bs))"
    have copy: "take (8 + ?size) ?bs @ replicate (?size mod 2) 0 = encode_chunk c"
      unfolding c_def using go four by (intro copied_chunk) simp_all
    have len: "length (snd c) = ?size" using go by (simp add: c_def)
    have dec: "riff_decode ?bs = (case riff_decode (drop (pos + 8 + ?size + ?size mod 2) inp) of
        Inl e \<Rightarrow> Inl e | Inr cs \<Rightarrow> Inr (c # cs))"
      using riff_decode_step [of ?size ?bs] go unfolding c_def four drop_drop by (simp add: ac_simps)
    have step: "parse_loop inp pos acc idx =
        parse_loop inp (pos + 8 + ?size + ?size mod 2)
          (if not_exif c then acc @ [encode_chunk c] else acc) (if is_vp8x c then int (length acc) else idx)"
      using go by (subst parse_loop.simps)
        (simp add: Let_def webp_consts copy not_exif_def is_vp8x_def len, simp add: c_def)
    have "parse_loop inp (pos + 8 + ?size + ?size mod 2)
          (if not_exif c then acc @ [encode_chunk c] else acc) (if is_vp8x c then int (length acc) else idx) =
        (case riff_decode (drop (pos + 8 + ?size + ?size mod 2) inp) of
           Inl t \<Rightarrow> Inl t
         | Inr cs \<Rightarrow> Inr ((if not_exif c then acc @ [encode_chunk c] else acc) @ map encode_chunk (filter not_exif cs),
             vp8x_index (length (if not_exif c then acc @ [encode_chunk c] else acc))
               (if is_vp8x c then int (length acc) else idx) cs))"
      using go by (intro less) linarith
    then show ?thesis unfolding step dec by (auto split: sum.split)
  qed
qed

section \<open>Marking the extended header\<close>

lemma vp8x_not_exif: "is_vp8x c \<Longrightarrow> not_exif c"
  by (auto simp: is_vp8x_def not_exif_def ascii_def byte_def)

lemma vp8x_index_filter: "vp8x_index n idx cs = vp8x_index n idx (filter not_exif cs)"
  by (induction cs arbitrary: n idx) (auto dest: vp8x_not_exif)

lemma vp8x_index_None:
  "mark_last cs = None \<Longrightarrow> vp8x_index n idx cs = idx"
  by (induction cs arbitrary: n idx) (auto split: option.splits if_splits)

lemma vp8x_index_Some:
  "mark_last cs = Some cs' \<Longrightarrow> list_all not_exif cs \<Longrightarrow>
   \<exists>i < length cs. vp8x_index n idx cs = int (n + i) \<and> is_vp8x (cs ! i) \<and> cs' = cs[i := flag_exif (cs ! i)]"
proof (induction cs arbitrary: n idx cs')
  case (Cons c cs)
  show ?case
  proof (cases "mark_last cs")
    case None
    with Cons.prems show ?thesis
      by (intro exI [of _ 0]) (auto simp: vp8x_index_None split: if_splits)
  next
    case (Some ds)
    from Cons.IH [OF this, of "Suc n" "if is_vp8x c then int n else idx"] Cons.prems obtain i where
      "i < length cs" "vp8x_index (Suc n) (if is_vp8x c then int n else idx) cs = int (Suc n + i)"
      "is_vp8x (cs ! i)" "ds = cs[i := flag_exif (cs ! i)]" by auto
    with Some Cons.prems show ?thesis
      by (intro exI [of _ "Suc i"]) auto
  qed
qed simp

lemma encode_flag_exif:
  assumes "length (fst c) = 4" "snd c \<noteq> []"
  shows "encode_chunk (flag_exif c) = (encode_chunk c)[8 := encode_chunk c ! 8 OR vp8xFlagEXIF]"
    and "8 < length (encode_chunk c)"
  using assms by (simp_all add: encode_chunk_def flag_exif_def list_update_append nth_append)

lemma createVP8XChunk_encode: "createVP8XChunk w h = encode_chunk (new_vp8x w h)"
  by (simp add: createVP8XChunk_def new_vp8x_def encode_chunk_def putUint24LE_def vp8xPayloadSize_def)

lemma ensureVP8XWithEXIF_spec:
  assumes "list_all wf_chunk cs" "list_all not_exif cs"
  shows "ensureVP8XWithEXIF (map encode_chunk cs) (vp8x_index 0 (- 1) cs) w h =
    Some (map encode_chunk (mark_exif w h cs))"
proof (cases "mark_last cs")
  case None
  then show ?thesis
    by (simp add: ensureVP8XWithEXIF_def mark_exif_def vp8x_index_None createVP8XChunk_encode)
next
  case (Some cs')
  from vp8x_index_Some [OF this assms(2), of 0 "- 1"] obtain i where i: "i < length cs"
    "vp8x_index 0 (- 1) cs = int i" "is_vp8x (cs ! i)" "cs' = cs[i := flag_exif (cs ! i)]" by auto
  have "length (fst (cs ! i)) = 4" "snd (cs ! i) \<noteq> []"
    using i assms(1) by (auto simp: list_all_length wf_chunk_def is_vp8x_def)
  note enc = encode_flag_exif [OF this]
  show ?thesis
    using i enc by (simp add: ensureVP8XWithEXIF_def mark_exif_def Some map_update webp_consts Let_def)
qed

lemma assembleWebP_spec:
  "assembleWebP (map encode_chunk cs) exif = riff_file (cs @ [(ascii ''EXIF'', exif)])"
proof -
  have pad: "(if length exif mod 2 = 1 then [0 :: 8 word] else []) = replicate (length exif mod 2) 0"
    by (cases "length exif mod 2 = 1") (auto simp: not_mod_2_eq_1_eq_0)
  show ?thesis
    unfolding assembleWebP_def writeChunk_def pad
    by (simp add: riff_file_def encode_chunk_def riffSizeOffset_def Let_def ascii_def ac_simps)
qed

section \<open>Injection as a change of the chunk list\<close>

definition edited :: "int \<Rightarrow> int \<Rightarrow> chunk list \<Rightarrow> bytes \<Rightarrow> chunk list" where
  "edited w h cs exif = mark_exif w h (filter not_exif cs) @ [(ascii ''EXIF'', exif)]"

lemma injectWebPEXIF_eq:
  "injectWebPEXIF decodeConfig inp exif =
     Some (if \<not> isValidWebP inp then Inl NotWebP
           else (case decodeConfig inp of
                   Inl e \<Rightarrow> Inl (BadImageConfig e)
                 | Inr (w, h) \<Rightarrow>
                     (case riff_decode (drop 12 inp) of
                        Inl tag \<Rightarrow> Inl (TruncatedChunk tag)
                      | Inr cs \<Rightarrow> Inr (riff_file (edited w h cs exif)))))"
proof -
  have "list_all wf_chunk (filter not_exif cs)" "list_all not_exif (filter not_exif cs)"
    if "riff_decode (drop 12 inp) = Inr cs" for cs
    using riff_decode_wf [OF that] by (auto simp: list_all_iff)
  note spec = ensureVP8XWithEXIF_spec [OF this]
  show ?thesis
  proof (cases "riff_decode (drop 12 inp)")
    case (Inl t)
    then show ?thesis
      by (simp add: injectWebPEXIF_def parseWebPChunks_def parse_loop_spec riffHeaderSize_def split: sum.split prod.split)
  next
    case (Inr cs)
    then show ?thesis
      using spec [OF Inr] vp8x_index_filter [of 0 "- 1" cs]
      by (simp add: injectWebPEXIF_def parseWebPChunks_def parse_loop_spec riffHeaderSize_def assembleWebP_spec
          edited_def split: sum.split prod.split)
  qed
qed

lemma injectWebPEXIF_Inr:
  "injectWebPEXIF decodeConfig inp exif = Some (Inr out) \<longleftrightarrow>
     isValidWebP inp \<and>
     (\<exists>w h cs. decodeConfig inp = Inr (w, h) \<and> riff_decode (drop 12 inp) = Inr cs \<and> out = riff_file (edited w h cs exif))"
  by (auto simp: injectWebPEXIF_eq split: sum.splits if_splits)

section \<open>Reading back an edited file\<close>

lemma mark_last_props:
  assumes "mark_last cs = Some ds"
  shows "list_all wf_chunk cs \<Longrightarrow> list_all wf_chunk ds"
    and "list_all not_exif cs \<Longrightarrow> list_all not_exif ds"
    and "\<exists>c \<in> set ds. is_vp8x c \<and> snd c ! 0 AND vp8xFlagEXIF = vp8xFlagEXIF"
    and "mark_last ds = Some ds"
proof -
  have flag: "(x OR vp8xFlagEXIF) AND vp8xFlagEXIF = vp8xFlagEXIF" for x
    by (rule bit_eqI) (auto simp: bit_simps)
  have "(list_all wf_chunk cs \<longrightarrow> list_all wf_chunk ds) \<and> (list_all not_exif cs \<longrightarrow> list_all not_exif ds) \<and>
      (\<exists>c \<in> set ds. is_vp8x c \<and> snd c ! 0 AND vp8xFlagEXIF = vp8xFlagEXIF) \<and> mark_last ds = Some ds"
    using assms
  proof (induction cs arbitrary: ds)
    case (Cons c cs)
    show ?case
    proof (cases "mark_last cs")
      case None
      with Cons.prems have "is_vp8x c" "ds = flag_exif c # cs" by (auto split: if_splits)
      moreover from this(1) have "snd c \<noteq> []" by (auto simp: is_vp8x_def)
      ultimately show ?thesis
        using None by (auto simp: wf_chunk_def not_exif_def is_vp8x_def flag_exif_def flag or.assoc)
    next
      case (Some es)
      with Cons.prems Cons.IH [OF Some] show ?thesis by auto
    qed
  qed simp
  then show "list_all wf_chunk cs \<Longrightarrow> list_all wf_chunk ds"
    and "list_all not_exif cs \<Longrightarrow> list_all not_exif ds"
    and "\<exists>c \<in> set ds. is_vp8x c \<and> snd c ! 0 AND vp8xFlagEXIF = vp8xFlagEXIF"
    and "mark_last ds = Some ds" by blast+
qed

lemma new_vp8x_props:
  "wf_chunk (new_vp8x w h)" "is_vp8x (new_vp8x w h)" "flag_exif (new_vp8x w h) = new_vp8x w h"
  "snd (new_vp8x w h) ! 0 AND vp8xFlagEXIF = vp8xFlagEXIF"
  by (simp_all add: wf_chunk_def new_vp8x_def is_vp8x_def flag_exif_def putUint24LE_def)

lemma mark_exif_props:
  shows "list_all wf_chunk cs \<Longrightarrow> list_all wf_chunk (mark_exif w h cs)"
    and "list_all not_exif cs \<Longrightarrow> list_all not_exif (mark_exif w h cs)"
    and "\<exists>c \<in> set (mark_exif w h cs). is_vp8x c \<and> snd c ! 0 AND vp8xFlagEXIF = vp8xFlagEXIF"
    and "mark_exif w' h' (mark_exif w h cs) = mark_exif w h cs"
  using mark_last_props [of cs] new_vp8x_props [of w h] vp8x_not_exif [of "new_vp8x w h"]
  by (auto simp: mark_exif_def split: option.split)

lemma riff_file_valid: "isValidWebP (riff_file cs)"
  by (simp add: isValidWebP_def riff_file_def Let_def riffHeaderSize_def)

lemma riff_file_chunks: "list_all wf_chunk cs \<Longrightarrow> riff_decode (drop 12 (riff_file cs)) = Inr cs"
  by (simp add: riff_file_def Let_def riff_decode_encode)

lemma riff_file_size: "LE_Uint32 (take 4 (drop 4 (riff_file cs))) = word_of_nat (length (riff_file cs) - 8)"
  by (simp add: riff_file_def Let_def)

lemma edited_wf:
  assumes "riff_decode bs = Inr cs" "length exif < 2 ^ 32"
  shows "list_all wf_chunk (edited w h cs exif)"
proof -
  have "list_all wf_chunk (filter not_exif cs)"
    using riff_decode_wf [OF assms(1)] by (auto simp: list_all_iff)
  from mark_exif_props(1) [OF this] assms(2) show ?thesis
    by (simp add: edited_def wf_chunk_def)
qed

lemma filter_edited: "filter not_exif (edited w h cs exif) = mark_exif w h (filter not_exif cs)"
proof -
  have "list_all not_exif (mark_exif w h (filter not_exif cs))"
    by (rule mark_exif_props(2)) (simp add: list_all_iff)
  then have "filter not_exif (mark_exif w h (filter not_exif cs)) = mark_exif w h (filter not_exif cs)"
    by (simp add: list_all_iff)
  then show ?thesis by (simp add: edited_def not_exif_def)
qed

lemma filter_only_exif:
  "list_all not_exif ms \<Longrightarrow> filter (\<lambda>c. fst c = t) (ms @ [(t, exif)]) = [(t, exif)]" if "t = ascii ''EXIF''"
  by (induction ms) (simp_all add: not_exif_def that)

lemma edited_edited: "edited w' h' (edited w h cs exif) exif' = edited w h cs exif'"
  unfolding edited_def [of w' h'] filter_edited by (simp add: edited_def mark_exif_props(4))

lemma embedStickerEXIF_cases:
  "\<exists>out. embedStickerEXIF decodeConfig marshal inp packID packName packPublisher emojis = Some out \<and>
     (out = inp \<or>
      (\<exists>meta. buildStickerMetadata packID packName packPublisher emojis = Some meta \<and>
         injectWebPEXIF decodeConfig inp (buildWhatsAppEXIF marshal meta) = Some (Inr out)))"
proof (cases "buildStickerMetadata packID packName packPublisher emojis")
  case (Some meta)
  obtain r where "injectWebPEXIF decodeConfig inp (buildWhatsAppEXIF marshal meta) = Some r"
    by (simp add: injectWebPEXIF_eq)
  with Some show ?thesis by (cases r) (simp_all add: embedStickerEXIF_def)
qed (simp add: embedStickerEXIF_def)

section \<open>Properties\<close>

text \<open>
  C9. \<^verbatim>\<open>injectWebPEXIF\<close> never panics and is exactly this edit of the file's chunk list: all EXIF
  chunks are dropped, the EXIF flag is set in the last extended header (or a new header with the
  decoded dimensions is put first), one EXIF chunk with the given bytes is appended, and the file is
  written back with padding and a size field that fits. A file that is not WebP, whose dimensions
  do not decode or that ends inside a chunk is refused with the corresponding error.
\<close>

theorem injectWebPEXIF_refines_chunk_edit:
  "injectWebPEXIF decodeConfig inp exif =
     Some (if \<not> isValidWebP inp then Inl NotWebP
           else (case decodeConfig inp of
                   Inl e \<Rightarrow> Inl (BadImageConfig e)
                 | Inr (w, h) \<Rightarrow>
                     (case riff_decode (drop 12 inp) of
                        Inl tag \<Rightarrow> Inl (TruncatedChunk tag)
                      | Inr cs \<Rightarrow>
                          Inr (riff_file (mark_exif w h (filter not_exif cs) @ [(ascii ''EXIF'', exif)])))))"
  by (simp add: injectWebPEXIF_eq edited_def cong: sum.case_cong)


definition tiny_webp :: bytes where
  "tiny_webp = riff_file [(ascii ''VP8 '', [1, 2]), (ascii ''EXIF'', [7, 7, 7])]"

lemma tiny_decode:
  "riff_decode (drop 12 tiny_webp) = Inr [(ascii ''VP8 '', [1, 2]), (ascii ''EXIF'', [7, 7, 7])]"
  unfolding tiny_webp_def by (rule riff_file_chunks) (simp add: wf_chunk_def)

lemma tiny_inject:
  "injectWebPEXIF (\<lambda>_. Inr (512, 512)) tiny_webp exif =
     Some (Inr (riff_file [new_vp8x 512 512, (ascii ''VP8 '', [1, 2]), (ascii ''EXIF'', exif)]))"
proof -
  have "isValidWebP tiny_webp" by (simp add: tiny_webp_def riff_file_valid)
  then show ?thesis
    by (simp add: injectWebPEXIF_eq tiny_decode edited_def mark_exif_def not_exif_def is_vp8x_def)
      (simp add: ascii_def byte_def)
qed


text \<open>
  C28. Setting the metadata again replaces it: injecting into an injected file gives the same bytes
  as injecting into the original, whenever the decoder reads the same dimensions from both.
\<close>

theorem injection_replaces:
  assumes "injectWebPEXIF decodeConfig inp exif = Some (Inr out)" "length exif < 2 ^ 32"
    "decodeConfig out = decodeConfig inp"
  shows "injectWebPEXIF decodeConfig out exif' = injectWebPEXIF decodeConfig inp exif'"
proof -
  obtain w h cs where cs: "isValidWebP inp" "decodeConfig inp = Inr (w, h)" "riff_decode (drop 12 inp) = Inr cs"
    and out: "out = riff_file (edited w h cs exif)"
    using assms(1) by (auto simp: injectWebPEXIF_Inr)
  have "riff_decode (drop 12 out) = Inr (edited w h cs exif)"
    unfolding out by (rule riff_file_chunks [OF edited_wf [OF cs(3) assms(2)]])
  with cs assms(3) show ?thesis
    by (simp add: injectWebPEXIF_eq out riff_file_valid edited_edited)
qed

theorem injection_replaces_witness:
  "injectWebPEXIF (\<lambda>_. Inr (512, 512))
     (riff_file [new_vp8x 512 512, (ascii ''VP8 '', [1, 2]), (ascii ''EXIF'', [5])]) [8] =
   injectWebPEXIF (\<lambda>_. Inr (512, 512)) tiny_webp [8]"
  using injection_replaces [OF tiny_inject [of "[5]"], of "[8]"] by simp

text \<open>
  The sticker pipeline never panics, and metadata never loses a sticker: the call fails exactly
  when the payload is not a data URL, does not decode or cannot be converted, and otherwise
  returns the converted image, unchanged or, for WebP with metadata, with the EXIF chunk injected.
\<close>

theorem processStickerData_total:
  "case processStickerData env stickerData mimeOverride packID packName packPublisher emojis of
     None \<Rightarrow> False
   | Some (Inl e) \<Rightarrow>
       (if HasPrefix stickerData ''data'' then
          (case se_decodeDataURL env stickerData of
             Inl _ \<Rightarrow> True
           | Inr data \<Rightarrow>
               convertToWebPSticker (se_detect env) (se_convertVideo env) (se_convertImage env) data mimeOverride = Inl e)
        else True)
   | Some (Inr (out, mime)) \<Rightarrow>
       HasPrefix stickerData ''data'' \<and>
       (\<exists>data filedata. se_decodeDataURL env stickerData = Inr data \<and>
          convertToWebPSticker (se_detect env) (se_convertVideo env) (se_convertImage env) data mimeOverride =
            Inr (filedata, mime) \<and>
          (out = filedata \<or>
           mime = ''image/webp'' \<and>
           (\<exists>meta. buildStickerMetadata packID packName packPublisher emojis = Some meta \<and>
              injectWebPEXIF (se_decodeConfig env) filedata (buildWhatsAppEXIF (se_marshal env) meta) = Some (Inr out))))"
proof (cases "HasPrefix stickerData ''data''")
  case True
  show ?thesis
  proof (cases "se_decodeDataURL env stickerData")
    case (Inr data)
    show ?thesis
    proof (cases "convertToWebPSticker (se_detect env) (se_convertVideo env) (se_convertImage env) data mimeOverride")
      case ok: (Inr p)
      obtain filedata mime where p: "p = (filedata, mime)" by (cases p)
      obtain out where out: "embedStickerEXIF (se_decodeConfig env) (se_marshal env) filedata packID packName packPublisher emojis = Some out"
        "out = filedata \<or>
         (\<exists>meta. buildStickerMetadata packID packName packPublisher emojis = Some meta \<and>
            injectWebPEXIF (se_decodeConfig env) filedata (buildWhatsAppEXIF (se_marshal env) meta) = Some (Inr out))"
        using embedStickerEXIF_cases by blast
      show ?thesis
      proof (cases "mime = ''image/webp''")
        case True
        then have "processStickerData env stickerData mimeOverride packID packName packPublisher emojis = Some (Inr (out, mime))"
          using \<open>HasPrefix stickerData ''data''\<close> Inr ok out(1) by (simp add: processStickerData_def p)
        with True \<open>HasPrefix stickerData ''data''\<close> Inr ok p out(2) show ?thesis by simp
      qed (use True Inr ok p in \<open>simp add: processStickerData_def\<close>)
    qed (use True Inr in \<open>simp add: processStickerData_def\<close>)
  qed (use True in \<open>simp add: processStickerData_def\<close>)
qed (simp add: processStickerData_def)

end
