(* ===== verification/Httpmw.thy ===== *)
theory Httpmw
  imports Prelude
begin

text \<open>
  The HTTP middleware of \<^verbatim>\<open>internal/httpmw\<close>: CORS headers (\<^verbatim>\<open>cors.go\<close>) and panic recovery
  (\<^verbatim>\<open>recover.go\<close>). A handler maps the request method, the \<^verbatim>\<open>Origin\<close> header and the writer to the
  writer it leaves; \<^term>\<open>Inl\<close> is a panic, with what the handler had written before it.
\<close>

section \<open>Handlers\<close>

record http_request =
  rq_Method :: string
  rq_Origin :: string

type_synonym http_handler = "http_request \<Rightarrow> writer \<Rightarrow> writer + writer"

section \<open>CORS\<close>

record CORSConfig =
  AllowedOrigins :: "string list"
  AllowedMethods :: "string list"
  AllowedHeaders :: "string list"
  AllowCredentials :: bool
  MaxAge :: int

definition DefaultCORS :: CORSConfig where
  "DefaultCORS =
     \<lparr>AllowedOrigins = [''https://renatokeys.github.io'', ''http://localhost:3000'',
        ''http://localhost:5173'', ''http://127.0.0.1:3000''],
      AllowedMethods = [''GET'', ''POST'', ''PUT'', ''DELETE'', ''PATCH'', ''OPTIONS''],
      AllowedHeaders = [''Authorization'', ''Content-Type'', ''Accept'', ''Origin'', ''X-Requested-With'',
        ''token'', ''Client-Token'', ''X-Hub-Signature-256'', ''Idempotency-Key''],
      AllowCredentials = True,
      MaxAge = 600\<rparr>"

text \<open>
  The loop of \<^verbatim>\<open>strIntoa\<close> over its 20-byte buffer: \<open>i\<close> counts down to the first digit.
  \<^term>\<open>None\<close> is the index-out-of-range panic of \<^verbatim>\<open>buf[-1]\<close>.
\<close>

function strIntoa_loop :: "string \<Rightarrow> nat \<Rightarrow> int \<Rightarrow> string option" where
  "strIntoa_loop buf i n =
     (if n > 0 then
        (if i = 0 then None
         else strIntoa_loop (buf[i - 1 := char_of (48 + nat (n mod 10))]) (i - 1) (n div 10))
      else Some (drop i buf))"
  by pat_completeness auto
termination
  by (relation "measure (\<lambda>(_, _, n). nat n)") auto

declare strIntoa_loop.simps [simp del]

definition strIntoa :: "int \<Rightarrow> string option" where
  "strIntoa n = (if n = 0 then Some ''0'' else strIntoa_loop (replicate 20 (char_of (0 :: nat))) 20 n)"

text \<open>The headers that the closure returned by \<^verbatim>\<open>CORS\<close> sets for a request with an origin.\<close>

definition cors_origin_headers :: "CORSConfig \<Rightarrow> string \<Rightarrow> writer \<Rightarrow> writer" where
  "cors_origin_headers cfg origin w =
     (if origin \<noteq> [] then
        (let allowAny = (''*'' \<in> set (AllowedOrigins cfg));
             w1 = (if allowAny then SetHeader ''Access-Control-Allow-Origin'' ''*'' w
                   else if origin \<in> set (AllowedOrigins cfg) then
                     SetHeader ''Vary'' ''Origin'' (SetHeader ''Access-Control-Allow-Origin'' origin w)
                   else w)
         in if AllowCredentials cfg \<and> \<not> allowAny
            then SetHeader ''Access-Control-Allow-Credentials'' ''true'' w1 else w1)
      else w)"

text \<open>\<^verbatim>\<open>CORS(cfg)(next)\<close>; \<^term>\<open>None\<close> is a panic of the middleware's own construction.\<close>

definition CORS :: "CORSConfig \<Rightarrow> http_handler \<Rightarrow> http_handler option" where
  "CORS cfg nxt =
     map_option (\<lambda>maxAge r w.
        let w1 = cors_origin_headers cfg (rq_Origin r) w
        in if rq_Method r = ''OPTIONS'' then
             (let w2 = SetHeader ''Access-Control-Allow-Headers'' (Join (AllowedHeaders cfg) '', '')
                         (SetHeader ''Access-Control-Allow-Methods'' (Join (AllowedMethods cfg) '', '') w1);
                  w3 = (if maxAge \<noteq> [] then SetHeader ''Access-Control-Max-Age'' maxAge w2 else w2)
              in Inr (WriteHeader 204 w3))
           else nxt r w1)
       (if MaxAge cfg > 0 then strIntoa (MaxAge cfg) else Some [])"

section \<open>Recovery\<close>

definition recovered_body :: json where
  "recovered_body =
     JObj [(''code'', JNum 500), (''error'', JStr ''internal server error''), (''success'', JBool False)]"

definition Recover :: "http_handler \<Rightarrow> http_handler" where
  "Recover nxt r w =
     (case nxt r w of
        Inr w' \<Rightarrow> Inr w'
      | Inl w' \<Rightarrow> Inr (WriteBody recovered_body (WriteHeader 500 (SetHeader ''Content-Type'' ''application/json'' w'))))"

section \<open>Lemmas\<close>

lemma digit_chars: "digit_char 0 = CHR ''0''" "digit_char 6 = CHR ''6''"
  by code_simp+

lemma strIntoa_loop_digits:
  assumes "n > 0" "length (nat_digits n) \<le> i" "i \<le> length buf"
  shows "strIntoa_loop buf i (int n) = Some (nat_digits n @ drop i buf)"
  using assms
proof (induction n arbitrary: i buf rule: less_induct)
  case (less n)
  have "i > 0" using less.prems(2) by (cases i) auto
  then have drp: "drop (i - Suc 0) (buf[i - Suc 0 := c]) = c # drop i buf" for c
    using less.prems(3) by (cases i) (simp_all add: Cons_nth_drop_Suc [symmetric])
  have c: "char_of (48 + nat (int n mod 10)) = digit_char (n mod 10)"
    by (simp add: digit_char_def nat_mod_distrib)
  have step: "strIntoa_loop buf i (int n) =
      strIntoa_loop (buf[i - 1 := digit_char (n mod 10)]) (i - 1) (int (n div 10))"
    using less.prems(1) \<open>i > 0\<close> by (subst strIntoa_loop.simps) (simp add: c zdiv_int)
  show ?case
  proof (cases "n < 10")
    case True
    then show ?thesis
      by (simp add: step drp strIntoa_loop.simps [of _ _ 0] nat_digits.simps [of n])
  next
    case False
    then have "length (nat_digits (n div 10)) \<le> i - 1"
      using less.prems(2) by (simp add: nat_digits.simps [of n])
    then have "strIntoa_loop (buf[i - 1 := digit_char (n mod 10)]) (i - 1) (int (n div 10)) =
        Some (nat_digits (n div 10) @ drop (i - 1) (buf[i - 1 := digit_char (n mod 10)]))"
      using False less.prems(3) by (intro less.IH) auto
    with False show ?thesis by (simp add: step drp nat_digits.simps [of n])
  qed
qed

lemma length_nat_digits: "n < 10 ^ Suc k \<Longrightarrow> length (nat_digits n) \<le> Suc k"
proof (induction k arbitrary: n)
  case (Suc k)
  show ?case
  proof (cases "n < 10")
    case False
    have "n div 10 < 10 ^ Suc k" using Suc.prems by (simp add: less_mult_imp_div_less)
    with Suc.IH [of "n div 10"] False show ?thesis by (simp add: nat_digits.simps [of n])
  qed (simp add: nat_digits.simps [of n])
qed (simp add: nat_digits.simps)

lemma strIntoa_Itoa:
  assumes "0 \<le> n" "n < 2 ^ 63"
  shows "strIntoa n = Some (Itoa n)"
proof (cases "n = 0")
  case True
  then show ?thesis by (simp add: strIntoa_def Itoa_def nat_digits.simps digit_chars)
next
  case False
  have "length (nat_digits (nat n)) \<le> 20"
    using length_nat_digits [of "nat n" 19] assms by simp
  with False assms strIntoa_loop_digits [of "nat n" 20 "replicate 20 (char_of (0 :: nat))"] show ?thesis
    by (simp add: strIntoa_def Itoa_def)
qed

lemma w_header_SetHeader [simp]: "w_header (SetHeader k v w) = (w_header w)(k \<mapsto> v)"
  by (simp add: SetHeader_def)

section \<open>Properties\<close>

text \<open>
  \<^verbatim>\<open>strIntoa\<close> writes every non-negative 64-bit integer into its 20-byte buffer without running off
  its start, and what it writes is the decimal numeral that \<^verbatim>\<open>strconv.Itoa\<close> gives.
\<close>

theorem strIntoa_correct:
  assumes "0 \<le> n" "n < 2 ^ 63"
  shows "strIntoa n = Some (Itoa n)" "Option.bind (strIntoa n) Atoi = Some n"
  using strIntoa_Itoa [OF assms] Atoi_Itoa [of n] assms by auto

theorem strIntoa_correct_witness: "Option.bind (strIntoa 9223372036854775807) Atoi = Some 9223372036854775807"
  using strIntoa_correct(2) [of 9223372036854775807] by simp

text \<open>
  With the deployed configuration (\<^verbatim>\<open>DefaultCORS\<close>), a preflight request is answered with 204 and
  never reaches the wrapped handler, and any other request does reach it, with a writer whose
  \<^verbatim>\<open>Access-Control-Allow-Origin\<close> is the request's origin when that origin is on the list and is
  left as it was otherwise; the wildcard is never sent.
\<close>

theorem CORS_default:
  "\<exists>mw. CORS DefaultCORS nxt = Some mw \<and>
     mw r w =
       (let w1 = cors_origin_headers DefaultCORS (rq_Origin r) w
        in if rq_Method r = ''OPTIONS''
           then Inr (WriteHeader 204 (SetHeader ''Access-Control-Max-Age'' ''600''
                  (SetHeader ''Access-Control-Allow-Headers'' (Join (AllowedHeaders DefaultCORS) '', '')
                    (SetHeader ''Access-Control-Allow-Methods'' ''GET, POST, PUT, DELETE, PATCH, OPTIONS'' w1))))
           else nxt r w1) \<and>
     w_header (cors_origin_headers DefaultCORS (rq_Origin r) w) ''Access-Control-Allow-Origin'' =
       (if rq_Origin r \<in> set (AllowedOrigins DefaultCORS) then Some (rq_Origin r)
        else w_header w ''Access-Control-Allow-Origin'')"
proof -
  have age: "strIntoa 600 = Some ''600''"
    by (simp add: strIntoa_Itoa Itoa_def nat_digits.simps digit_chars)
  have def: "MaxAge DefaultCORS = 600" "''*'' \<notin> set (AllowedOrigins DefaultCORS)"
    "[] \<notin> set (AllowedOrigins DefaultCORS)" "AllowCredentials DefaultCORS"
    "Join (AllowedMethods DefaultCORS) '', '' = ''GET, POST, PUT, DELETE, PATCH, OPTIONS''"
    by (simp_all add: DefaultCORS_def)
  have "w_header (cors_origin_headers DefaultCORS orig w) ''Access-Control-Allow-Origin'' =
      (if orig \<in> set (AllowedOrigins DefaultCORS) then Some orig else w_header w ''Access-Control-Allow-Origin'')"
    for orig
    using def by (cases "orig \<in> set (AllowedOrigins DefaultCORS)") (auto simp: cors_origin_headers_def Let_def)
  then show ?thesis
    by (simp add: CORS_def def age Let_def)
qed

text \<open>
  Whatever the configuration, the middleware itself never answers with both
  \<^verbatim>\<open>Access-Control-Allow-Origin: *\<close> and \<^verbatim>\<open>Access-Control-Allow-Credentials\<close>, the combination the CORS
  specification forbids.
\<close>

theorem CORS_no_wildcard_credentials:
  "\<not> (w_header (cors_origin_headers cfg origin new_writer) ''Access-Control-Allow-Origin'' = Some ''*'' \<and>
      w_header (cors_origin_headers cfg origin new_writer) ''Access-Control-Allow-Credentials'' \<noteq> None)"
  by (auto simp: cors_origin_headers_def new_writer_def Let_def)

text \<open>
  The credentials header does not depend on the origin being allowed: a request from an origin
  that is not on the list gets \<^verbatim>\<open>Access-Control-Allow-Credentials: true\<close> and no
  \<^verbatim>\<open>Access-Control-Allow-Origin\<close>.
\<close>

theorem CORS_credentials_for_any_origin:
  "let w = cors_origin_headers DefaultCORS ''https://evil.example'' new_writer
   in w_header w ''Access-Control-Allow-Credentials'' = Some ''true'' \<and>
      w_header w ''Access-Control-Allow-Origin'' = None"
  by (simp add: cors_origin_headers_def DefaultCORS_def new_writer_def Let_def)

text \<open>
  \<^verbatim>\<open>Recover\<close> lets no panic out: a handler that returns is left alone; one that panicked before it
  sent a status is answered with 500 as JSON; one that panicked later keeps the status and headers
  it had sent.
\<close>

theorem Recover_contains_panics:
  "case nxt r w of
     Inr w' \<Rightarrow> Recover nxt r w = Inr w'
   | Inl w' \<Rightarrow>
       (\<exists>v. Recover nxt r w = Inr v \<and> w_body v = w_body w' @ [recovered_body] \<and>
          (case w_sent w' of
             None \<Rightarrow> status_of v = Some 500 \<and> headers_of v ''Content-Type'' = Some ''application/json''
           | Some s \<Rightarrow> w_sent v = Some s))"
  by (auto simp: Recover_def WriteBody_def WriteHeader_def SetHeader_def status_of_def headers_of_def Let_def
      split: sum.splits option.splits)

end
