(* ===== verification/Fetch.thy ===== *)
theory Fetch
  imports Prelude
begin

text \<open>
  Outgoing downloads: the guarded dialer of \<^verbatim>\<open>newSafeHTTPClient\<close> and \<^verbatim>\<open>isPrivateOrLoopback\<close>
  (\<^verbatim>\<open>cmd/api/main.go\<close>), \<^verbatim>\<open>fetchURLBytes\<close>, \<^verbatim>\<open>isHTTPURL\<close>, \<^verbatim>\<open>extractFirstURL\<close> and the Open Graph
  preview (\<^verbatim>\<open>cmd/api/helpers.go\<close>). Name resolution, the network, the HTML parser and the image
  codecs are arguments. A \<^verbatim>\<open>net.IP\<close> is a list of 4 or 16 bytes.
\<close>

unbundle bit_operations_syntax

section \<open>net.IP\<close>

text \<open>\<^verbatim>\<open>IP.To4\<close>: a 4-byte address, or the last four bytes of an IPv4-mapped one; \<^term>\<open>None\<close> is nil.\<close>

definition To4 :: "bytes \<Rightarrow> bytes option" where
  "To4 ip =
     (if length ip = 4 then Some ip
      else if length ip = 16 \<and> take 10 ip = replicate 10 0 \<and> ip ! 10 = 0xff \<and> ip ! 11 = 0xff
      then Some (drop 12 ip) else None)"

definition IsLoopback :: "bytes \<Rightarrow> bool" where
  "IsLoopback ip = (case To4 ip of Some ip4 \<Rightarrow> ip4 ! 0 = 127 | None \<Rightarrow> ip = replicate 15 0 @ [1])"

definition IsLinkLocalUnicast :: "bytes \<Rightarrow> bool" where
  "IsLinkLocalUnicast ip =
     (case To4 ip of
        Some ip4 \<Rightarrow> ip4 ! 0 = 169 \<and> ip4 ! 1 = 254
      | None \<Rightarrow> length ip = 16 \<and> ip ! 0 = 0xfe \<and> ip ! 1 AND 0xc0 = 0x80)"

definition IsLinkLocalMulticast :: "bytes \<Rightarrow> bool" where
  "IsLinkLocalMulticast ip =
     (case To4 ip of
        Some ip4 \<Rightarrow> ip4 ! 0 = 224 \<and> ip4 ! 1 = 0 \<and> ip4 ! 2 = 0
      | None \<Rightarrow> length ip = 16 \<and> ip ! 0 = 0xff \<and> ip ! 1 AND 0x0f = 0x02)"

text \<open>\<^verbatim>\<open>net.CIDRMask(ones, bits)\<close> in bytes, and \<^verbatim>\<open>IPNet.Contains\<close> for a (network, mask) pair.\<close>

fun CIDRMask :: "nat \<Rightarrow> nat \<Rightarrow> bytes" where
  "CIDRMask ones 0 = []"
| "CIDRMask ones (Suc n) =
     (if ones \<ge> 8 then 0xff # CIDRMask (ones - 8) n else NOT (mask (8 - ones)) # CIDRMask 0 n)"

definition IPNet_Contains :: "bytes \<times> bytes \<Rightarrow> bytes \<Rightarrow> bool" where
  "IPNet_Contains net ip =
     (let x = (case To4 ip of Some ip4 \<Rightarrow> ip4 | None \<Rightarrow> ip)
      in length x = length (fst net) \<and>
         list_all (\<lambda>i. (fst net ! i) AND (snd net ! i) = (x ! i) AND (snd net ! i)) [0..<length x])"

section \<open>The guarded dialer\<close>

text \<open>The blocks that \<^verbatim>\<open>main\<close> parses into \<^verbatim>\<open>privateIPBlocks\<close>.\<close>

definition privateIPBlocks :: "(bytes \<times> bytes) list" where
  "privateIPBlocks =
     [([127, 0, 0, 0], CIDRMask 8 4), ([10, 0, 0, 0], CIDRMask 8 4), ([172, 16, 0, 0], CIDRMask 12 4),
      ([192, 168, 0, 0], CIDRMask 16 4), ([100, 64, 0, 0], CIDRMask 10 4), ([169, 254, 0, 0], CIDRMask 16 4),
      (replicate 15 0 @ [1], CIDRMask 128 16), ([0xfe, 0x80] @ replicate 14 0, CIDRMask 10 16)]"

definition isPrivateOrLoopback :: "bytes \<Rightarrow> bool" where
  "isPrivateOrLoopback ip \<longleftrightarrow>
     IsLoopback ip \<or> IsLinkLocalUnicast ip \<or> IsLinkLocalMulticast ip \<or>
     list_ex (\<lambda>block. IPNet_Contains block ip) privateIPBlocks"

datatype dial_error =
    BadAddress string
  | ResolveFailed string string
  | NoAddresses string
  | DialFailed string
  | SSRFDetected string
  | NoDialable string

text \<open>
  The loop over the resolved addresses. \<open>dial\<close> is \<^verbatim>\<open>Dialer.DialContext\<close> on an address and a port;
  the list in the result records the addresses that were dialled, in order.
\<close>

fun dial_loop :: "(bytes \<Rightarrow> string \<Rightarrow> string + 'conn) \<Rightarrow> string \<Rightarrow> string \<Rightarrow> bytes list \<Rightarrow>
    string option \<Rightarrow> bool \<Rightarrow> (dial_error + 'conn) \<times> bytes list" where
  "dial_loop dial host port [] lastDialErr ssrfDetected =
     (Inl (case lastDialErr of
             Some e \<Rightarrow> DialFailed e
           | None \<Rightarrow> if ssrfDetected then SSRFDetected host else NoDialable host), [])"
| "dial_loop dial host port (ip # ips) lastDialErr ssrfDetected =
     (if isPrivateOrLoopback ip then dial_loop dial host port ips lastDialErr True
      else (case dial ip port of
              Inr conn \<Rightarrow> (Inr conn, [ip])
            | Inl e \<Rightarrow>
                (let (res, dialled) = dial_loop dial host port ips (Some e) ssrfDetected
                 in (res, ip # dialled))))"

definition safeDialContext ::
    "(string \<Rightarrow> string + (string \<times> string)) \<Rightarrow> (string \<Rightarrow> string + bytes list) \<Rightarrow>
     (bytes \<Rightarrow> string \<Rightarrow> string + 'conn) \<Rightarrow> string \<Rightarrow> (dial_error + 'conn) \<times> bytes list" where
  "safeDialContext splitHostPort lookupIP dial addr =
     (case splitHostPort addr of
        Inl e \<Rightarrow> (Inl (BadAddress addr), [])
      | Inr (host, port) \<Rightarrow>
     (case lookupIP host of
        Inl e \<Rightarrow> (Inl (ResolveFailed host e), [])
      | Inr ips \<Rightarrow>
          if length ips = 0 then (Inl (NoAddresses host), [])
          else dial_loop dial host port ips None False))"

section \<open>Bounded downloads\<close>

text \<open>\<^verbatim>\<open>isHTTPURL\<close>; \<open>parseRequestURI\<close> gives scheme and host.\<close>

definition isHTTPURL :: "(string \<Rightarrow> (string \<times> string) option) \<Rightarrow> string \<Rightarrow> bool" where
  "isHTTPURL parseRequestURI inp =
     (case parseRequestURI inp of
        None \<Rightarrow> False
      | Some (scheme, host) \<Rightarrow>
          if scheme \<noteq> ''http'' \<and> scheme \<noteq> ''https'' then False else host \<noteq> [])"

text \<open>A response: the status, the bytes its body delivers, the error the body ends with if any,
  and the \<^verbatim>\<open>Content-Type\<close> header.\<close>

record http_response =
  rs_StatusCode :: int
  rs_Body :: bytes
  rs_ReadErr :: "string option"
  rs_ContentType :: string

text \<open>
  \<^verbatim>\<open>fetchURLBytes\<close>: \<open>newRequest\<close> is the error of \<^verbatim>\<open>http.NewRequestWithContext\<close>, \<open>do\<close> is
  \<^verbatim>\<open>globalHTTPClient.Do\<close>, \<open>detect\<close> is \<^verbatim>\<open>http.DetectContentType\<close>. The limited reader stops after
  \<^verbatim>\<open>limit + 1\<close> bytes, so an error behind them is not seen.
\<close>

definition fetchURLBytes ::
    "(string \<Rightarrow> string option) \<Rightarrow> (string \<Rightarrow> string + http_response) \<Rightarrow> (bytes \<Rightarrow> string) \<Rightarrow> string \<Rightarrow> nat \<Rightarrow>
     string + (bytes \<times> string)" where
  "fetchURLBytes newRequest do detect resourceURL limit =
     (case newRequest resourceURL of
        Some e \<Rightarrow> Inl e
      | None \<Rightarrow>
     (case do resourceURL of
        Inl e \<Rightarrow> Inl e
      | Inr resp \<Rightarrow>
          if rs_StatusCode resp < 200 \<or> rs_StatusCode resp \<ge> 300
          then Inl (''unexpected status code '' @ Itoa (rs_StatusCode resp))
          else
            (let data = take (limit + 1) (rs_Body resp);
                 readErr = (if length (rs_Body resp) < limit + 1 then rs_ReadErr resp else None)
             in case readErr of
                  Some e \<Rightarrow> Inl e
                | None \<Rightarrow>
                    if length data > limit
                    then Inl (''response exceeds allowed size ('' @ Itoa (int limit) @ '' bytes)'')
                    else Inr (data, if rs_ContentType resp = [] then detect data else rs_ContentType resp))))"

section \<open>Link previews\<close>

text \<open>
  \<^verbatim>\<open>urlRegex\<close> is \<^verbatim>\<open>https?://[^\s"']*[^"'\s.,!?()[\]{}]\<close>: at the first position where it can match, the
  scheme and then the longest non-empty run without white space and quotes that does not end in
  one of the listed punctuation characters.
\<close>

definition url_stop :: "char \<Rightarrow> bool" where
  "url_stop c \<longleftrightarrow> c \<in> {CHR 0x09, CHR 0x0A, CHR 0x0C, CHR 0x0D, CHR '' '', CHR 0x22, CHR 0x27}"

definition url_no_end :: "char \<Rightarrow> bool" where
  "url_no_end c \<longleftrightarrow> url_stop c \<or> c \<in> set ''.,!?()[]{}''"

definition url_match_here :: "string \<Rightarrow> string option" where
  "url_match_here s =
     (let scheme = (if HasPrefix s ''https://'' then ''https://''
                    else if HasPrefix s ''http://'' then ''http://'' else []);
          run = takeWhile (\<lambda>c. \<not> url_stop c) (drop (length scheme) s);
          body = rev (dropWhile url_no_end (rev run))
      in if scheme = [] \<or> body = [] then None else Some (scheme @ body))"

fun extractFirstURL :: "string \<Rightarrow> string" where
  "extractFirstURL [] = []"
| "extractFirstURL (c # cs) =
     (case url_match_here (c # cs) of Some m \<Rightarrow> m | None \<Rightarrow> extractFirstURL cs)"

record openGraphResult =
  og_Title :: string
  og_Description :: string
  og_ImageData :: bytes

definition no_preview :: openGraphResult where
  "no_preview = \<lparr>og_Title = [], og_Description = [], og_ImageData = []\<rparr>"

text \<open>
  A parsed page: \<open>attr\<close> selects an element and reads an attribute (empty when absent), \<open>text\<close> is the
  text of the selection. \<open>resolve\<close> parses an image URL and resolves it against the page's.
\<close>

record page_env =
  pe_fetch :: "string \<Rightarrow> nat \<Rightarrow> string + (bytes \<times> string)"
  pe_parseHTML :: "bytes \<Rightarrow> ((string \<Rightarrow> string \<Rightarrow> string) \<times> (string \<Rightarrow> string)) option"
  pe_parseURL :: "string \<Rightarrow> bool"
  pe_resolve :: "string \<Rightarrow> string \<Rightarrow> string"
  pe_decodeConfig :: "bytes \<Rightarrow> (int \<times> int) option"
  pe_thumbnail :: "bytes \<Rightarrow> bytes option"

definition openGraphPageMaxBytes :: nat where "openGraphPageMaxBytes = 2 * 1024 * 1024"
definition openGraphImageMaxBytes :: nat where "openGraphImageMaxBytes = 10 * 1024 * 1024"
definition openGraphMaxImageDim :: int where "openGraphMaxImageDim = 4000"

text \<open>\<^verbatim>\<open>fetchOpenGraphImage\<close>; \<open>pe_thumbnail\<close> is decode, resize and JPEG encode together.\<close>

definition fetchOpenGraphImage :: "page_env \<Rightarrow> string \<Rightarrow> string \<Rightarrow> bytes" where
  "fetchOpenGraphImage env pageURL imageURLStr =
     (if \<not> pe_parseURL env imageURLStr then []
      else
     (case pe_fetch env (pe_resolve env pageURL imageURLStr) openGraphImageMaxBytes of
        Inl e \<Rightarrow> []
      | Inr (imgBytes, _) \<Rightarrow>
     (case pe_decodeConfig env imgBytes of
        None \<Rightarrow> []
      | Some (w, h) \<Rightarrow>
          if w > openGraphMaxImageDim \<or> h > openGraphMaxImageDim then []
          else (case pe_thumbnail env imgBytes of None \<Rightarrow> [] | Some jpg \<Rightarrow> jpg))))"

fun first_image :: "(string \<Rightarrow> string \<Rightarrow> string) \<Rightarrow> (string \<times> string) list \<Rightarrow> string" where
  "first_image attr [] = []"
| "first_image attr ((sel, a) # sels) =
     (if attr sel a \<noteq> [] then attr sel a else first_image attr sels)"

definition image_selectors :: "(string \<times> string) list" where
  "image_selectors =
     [(''meta[property=\"og:image\"]'', ''content''), (''meta[property=\"twitter:image\"]'', ''content''),
      (''link[rel=\"apple-touch-icon\"]'', ''href''), (''link[rel=\"icon\"]'', ''href'')]"

definition fetchOpenGraphData :: "page_env \<Rightarrow> string \<Rightarrow> openGraphResult" where
  "fetchOpenGraphData env urlStr =
     (case pe_fetch env urlStr openGraphPageMaxBytes of
        Inl e \<Rightarrow> no_preview
      | Inr (pageData, _) \<Rightarrow>
     (case pe_parseHTML env pageData of
        None \<Rightarrow> no_preview
      | Some (attr, text) \<Rightarrow>
     (let ogTitle = attr ''meta[property=\"og:title\"]'' ''content'';
          title = (if ogTitle = [] then TrimSpace (text ''title'') else ogTitle);
          ogDesc = attr ''meta[property=\"og:description\"]'' ''content'';
          description = (if ogDesc = [] then attr ''meta[name=\"description\"]'' ''content'' else ogDesc);
          imageURLStr = first_image attr image_selectors
      in if \<not> pe_parseURL env urlStr
         then \<lparr>og_Title = title, og_Description = description, og_ImageData = []\<rparr>
         else \<lparr>og_Title = title, og_Description = description,
               og_ImageData = fetchOpenGraphImage env urlStr imageURLStr\<rparr>)))"

text \<open>
  \<^verbatim>\<open>getOpenGraphData\<close> over the live entries of \<^verbatim>\<open>openGraphCache\<close>. \<open>slot\<close> says whether a slot of the user's
  semaphore is free before the context expires; \<open>fetch\<close> is \<^verbatim>\<open>fetchOpenGraphData\<close>, where \<^term>\<open>None\<close> is a
  panic inside it.
\<close>

definition getOpenGraphData ::
    "bool \<Rightarrow> (string \<Rightarrow> openGraphResult option) \<Rightarrow> string \<Rightarrow> (string, openGraphResult) gomap \<Rightarrow>
     openGraphResult \<times> (string, openGraphResult) gomap" where
  "getOpenGraphData slot fetch urlStr cache =
     (case map_of cache urlStr of
        Some d \<Rightarrow> (d, cache)
      | None \<Rightarrow>
          if \<not> slot then (no_preview, cache)
          else (case fetch urlStr of
                  None \<Rightarrow> (no_preview, cache)
                | Some d \<Rightarrow> (d, AList.update urlStr d cache)))"

end
