(* ===== verification/Fetch_Props.thy ===== *)
theory Fetch_Props
  imports Fetch
begin

text \<open>
  What the guarded dialer refuses, that it never dials a refused address, and what the bounded
  download, the URL extraction and the preview cache guarantee.
\<close>

section \<open>Which addresses are refused\<close>

lemma upt4: "[0..<4] = [0, 1, 2, 3 :: nat]"
  by code_simp

lemma To4_4 [simp]: "To4 [a, b, c, d] = Some [a, b, c, d]"
  by (simp add: To4_def)

definition v4_mapped :: "bytes \<Rightarrow> bytes" where
  "v4_mapped ip = replicate 10 0 @ [0xff, 0xff] @ ip"

lemma To4_v4_mapped [simp]: "length ip = 4 \<Longrightarrow> To4 (v4_mapped ip) = Some ip"
  by (simp add: To4_def v4_mapped_def nth_append)

lemma private_To4: "To4 ip = To4 ip' \<Longrightarrow> To4 ip \<noteq> None \<Longrightarrow> isPrivateOrLoopback ip = isPrivateOrLoopback ip'"
  by (auto simp: isPrivateOrLoopback_def IsLoopback_def IsLinkLocalUnicast_def IsLinkLocalMulticast_def
      IPNet_Contains_def)

lemma cidr_masks:
  "CIDRMask 8 4 = [0xff, 0, 0, 0]" "CIDRMask 12 4 = [0xff, 0xf0, 0, 0]" "CIDRMask 16 4 = [0xff, 0xff, 0, 0]"
  "CIDRMask 10 4 = [0xff, 0xc0, 0, 0]"
  by code_simp+

lemma contains4:
  "IPNet_Contains ([n0, n1, n2, n3], [m0, m1, m2, m3]) [a, b, c, d] \<longleftrightarrow>
     n0 AND m0 = a AND m0 \<and> n1 AND m1 = b AND m1 \<and> n2 AND m2 = c AND m2 \<and> n3 AND m3 = d AND m3"
proof -
  have len: "length [a, b, c, d] = 4" "length [n0, n1, n2, n3] = 4" by simp_all
  show ?thesis
    unfolding IPNet_Contains_def Let_def To4_4 option.case len fst_conv snd_conv upt4 by simp
qed

lemma and_not_mask: "x AND NOT (mask n) = push_bit n (drop_bit n (x :: 8 word))"
  by (rule bit_eqI) (auto simp: bit_simps)

lemma high_bits:
  assumes "drop_bit n (push_bit n y) = y"
  shows "(x AND NOT (mask n) = push_bit n y) = (drop_bit n x = (y :: 8 word))"
proof -
  have "drop_bit n (push_bit n (drop_bit n x)) = drop_bit n x"
    by (rule bit_eqI) (auto simp: bit_simps dest: bit_imp_le_length)
  with assms show ?thesis unfolding and_not_mask by metis
qed

lemma byte_masks:
  "(x :: 8 word) AND 0xff = x" "(x AND 0xf0 = 16) = (unat x div 16 = 1)" "(x AND 0xc0 = 64) = (unat x div 64 = 1)"
proof -
  have "x AND mask 8 = take_bit 8 x" by (simp only: take_bit_eq_mask)
  then show "x AND 0xff = x" by (simp add: mask_eq_exp_minus_1 take_bit_word_eq_self)
  have m: "(0xf0 :: 8 word) = NOT (mask 4)" "(0xc0 :: 8 word) = NOT (mask 6)"
    by (simp_all add: mask_eq_exp_minus_1 not_eq_complement)
  have h: "(x AND NOT (mask 4) = 16) = (drop_bit 4 x = 1)" "(x AND NOT (mask 6) = 64) = (drop_bit 6 x = 1)"
    using high_bits [of 4 1 x] high_bits [of 6 1 x] by simp_all
  have d: "(drop_bit 4 x = 1) = (unat x div 16 = 1)" "(drop_bit 6 x = 1) = (unat x div 64 = 1)"
    unfolding word_unat_eq_iff drop_bit_eq_div by (simp_all add: unat_div_distrib)
  show "(x AND 0xf0 = 16) = (unat x div 16 = 1)" "(x AND 0xc0 = 64) = (unat x div 64 = 1)"
    by (simp_all only: m h d)
qed

lemma contains6_of_4 [simp]: "length n = 16 \<Longrightarrow> \<not> IPNet_Contains (n, m) [a, b, c, d]"
  by (simp add: IPNet_Contains_def)

lemma private4:
  "isPrivateOrLoopback [a, b, c, d] \<longleftrightarrow>
     a = 127 \<or> a = 10 \<or> a = 172 \<and> unat b div 16 = 1 \<or> a = 192 \<and> b = 168 \<or>
     a = 100 \<and> unat b div 64 = 1 \<or> a = 169 \<and> b = 254 \<or> a = 224 \<and> b = 0 \<and> c = 0"
proof -
  have "list_ex (\<lambda>block. IPNet_Contains block [a, b, c, d]) privateIPBlocks \<longleftrightarrow>
      a = 127 \<or> a = 10 \<or> a = 172 \<and> b AND 0xf0 = 16 \<or> a = 192 \<and> b = 168 \<or>
      a = 100 \<and> b AND 0xc0 = 64 \<or> a = 169 \<and> b = 254"
    unfolding privateIPBlocks_def cidr_masks by (auto simp: contains4 byte_masks(1))
  then show ?thesis
    unfolding isPrivateOrLoopback_def byte_masks
    by (auto simp: IsLoopback_def IsLinkLocalUnicast_def IsLinkLocalMulticast_def)
qed

section \<open>The dialer\<close>

lemma dial_loop_trace:
  "dial_loop dial host port ips lastErr ssrf = (res, dialled) \<Longrightarrow>
     list_all (\<lambda>ip. ip \<in> set ips \<and> \<not> isPrivateOrLoopback ip) dialled"
  by (induction ips arbitrary: lastErr ssrf res dialled)
    (fastforce simp: list_all_iff split: if_splits sum.splits prod.splits)+

lemma dial_loop_result:
  "fst (dial_loop dial host port ips lastErr ssrf) =
     (let public = filter (\<lambda>ip. \<not> isPrivateOrLoopback ip) ips
      in case find (\<lambda>ip. \<not> isl (dial ip port)) public of
           Some ip \<Rightarrow> Inr (projr (dial ip port))
         | None \<Rightarrow>
             Inl (if public \<noteq> [] then DialFailed (projl (dial (last public) port))
                  else case lastErr of
                         Some e \<Rightarrow> DialFailed e
                       | None \<Rightarrow> if ssrf \<or> ips \<noteq> [] then SSRFDetected host else NoDialable host))"
proof (induction ips arbitrary: lastErr ssrf)
  case (Cons ip ips)
  show ?case
  proof (cases "isPrivateOrLoopback ip")
    case True
    with Cons [of lastErr True] show ?thesis by (simp add: Let_def cong: option.case_cong)
  next
    case False
    then show ?thesis
      using Cons [of "Some (projl (dial ip port))" ssrf]
      by (cases "dial ip port") (simp_all add: Let_def split_beta split: option.split)
  qed
qed (simp add: Let_def)

section \<open>Properties\<close>


text \<open>
  Exactly these IPv4 addresses are refused, and the IPv4-mapped IPv6 form of an address is treated
  like the address itself: 127/8, 10/8, 172.16/12, 192.168/16, 100.64/10, 169.254/16 and
  224.0.0/24.
\<close>

theorem isPrivateOrLoopback_ipv4:
  "isPrivateOrLoopback [a, b, c, d] \<longleftrightarrow>
     a = 127 \<or> a = 10 \<or> a = 172 \<and> unat b div 16 = 1 \<or> a = 192 \<and> b = 168 \<or>
     a = 100 \<and> unat b div 64 = 1 \<or> a = 169 \<and> b = 254 \<or> a = 224 \<and> b = 0 \<and> c = 0"
  "isPrivateOrLoopback (v4_mapped [a, b, c, d]) = isPrivateOrLoopback [a, b, c, d]"
  by (rule private4, rule private_To4) simp_all

text \<open>
  The guard has gaps: the unspecified addresses \<^verbatim>\<open>0.0.0.0\<close> and \<^verbatim>\<open>::\<close>, which reach the local host,
  and the unique local IPv6 addresses \<^verbatim>\<open>fc00::/7\<close> are dialled like public ones.
\<close>

theorem isPrivateOrLoopback_gaps:
  "\<not> isPrivateOrLoopback [0, 0, 0, 0] \<and> \<not> isPrivateOrLoopback (replicate 16 0) \<and>
   \<not> isPrivateOrLoopback (0xfd # replicate 14 0 @ [1])"
  by code_simp

text \<open>
  A download that succeeds had a 2xx status and returns the whole body, no longer than the limit;
  every longer body, every other status and every read error within the limit is an error.
\<close>

theorem fetchURLBytes_bounded:
  "case fetchURLBytes newRequest do detect u limit of
     Inr (data, contentType) \<Rightarrow>
       (\<exists>resp. do u = Inr resp \<and> 200 \<le> rs_StatusCode resp \<and> rs_StatusCode resp < 300 \<and>
          data = rs_Body resp \<and> length data \<le> limit \<and> rs_ReadErr resp = None)
   | Inl e \<Rightarrow>
       (\<exists>err. newRequest u = Some err) \<or>
       (case do u of
          Inl _ \<Rightarrow> True
        | Inr resp \<Rightarrow> rs_StatusCode resp < 200 \<or> rs_StatusCode resp \<ge> 300 \<or> length (rs_Body resp) > limit \<or>
            (\<exists>err. rs_ReadErr resp = Some err))"
  by (auto simp: fetchURLBytes_def Let_def split: option.splits sum.splits if_splits)

lemma trimmed_end: "\<exists>post. s = rev (dropWhile P (rev s)) @ post"
  by (metis rev_append rev_rev_ident takeWhile_dropWhile_id)

lemma url_match_here_Some:
  assumes "url_match_here s = Some m"
  shows "\<exists>post. s = m @ post" "HasPrefix m ''http://'' \<or> HasPrefix m ''https://''"
    "list_all (\<lambda>c. \<not> url_stop c) m" "\<not> url_no_end (last m)"
proof -
  define scheme where "scheme = (if HasPrefix s ''https://'' then ''https://''
    else if HasPrefix s ''http://'' then ''http://'' else [])"
  define run where "run = takeWhile (\<lambda>c. \<not> url_stop c) (drop (length scheme) s)"
  define body where "body = rev (dropWhile url_no_end (rev run))"
  have m: "m = scheme @ body" "scheme \<noteq> []" "body \<noteq> []"
    using assms by (simp_all add: url_match_here_def scheme_def run_def body_def Let_def split: if_splits)
  have sch: "scheme = ''http://'' \<or> scheme = ''https://''" "HasPrefix s scheme"
    using m(2) by (simp_all add: scheme_def split: if_splits)
  obtain p1 where p1: "run = body @ p1" unfolding body_def using trimmed_end by blast
  have "s = scheme @ drop (length scheme) s" using sch(2) by (metis HasPrefix_def append_take_drop_id)
  also have "drop (length scheme) s = run @ dropWhile (\<lambda>c. \<not> url_stop c) (drop (length scheme) s)"
    by (simp add: run_def)
  finally have "s = (scheme @ body) @ p1 @ dropWhile (\<lambda>c. \<not> url_stop c) (drop (length scheme) s)"
    by (simp add: p1)
  then show "\<exists>post. s = m @ post" unfolding m(1) by blast
  show "HasPrefix m ''http://'' \<or> HasPrefix m ''https://''"
    using sch(1) unfolding m(1) by (metis HasPrefix_append)
  have "\<forall>c \<in> set run. \<not> url_stop c" by (auto simp: run_def dest: set_takeWhileD)
  moreover have "list_all (\<lambda>c. \<not> url_stop c) scheme" using sch(1) by (auto simp: url_stop_def)
  ultimately show "list_all (\<lambda>c. \<not> url_stop c) m" by (auto simp: m(1) list_all_iff p1)
  have "hd (dropWhile url_no_end (rev run)) = last m"
    using m(3) unfolding m(1) body_def by (simp add: last_rev)
  then show "\<not> url_no_end (last m)"
    using hd_dropWhile [of url_no_end "rev run"] m(3) by (simp add: body_def)
qed

text \<open>
  \<^verbatim>\<open>extractFirstURL\<close> finds a part of the text that starts with \<^verbatim>\<open>http://\<close> or \<^verbatim>\<open>https://\<close>, contains
  neither white space nor quotes and does not end in punctuation; it returns the empty string only
  when the pattern matches at no position.
\<close>

theorem extractFirstURL_sound:
  "if extractFirstURL text = [] then list_all (\<lambda>k. url_match_here (drop k text) = None) [0..<length text]
   else \<exists>pre post. text = pre @ extractFirstURL text @ post \<and>
          (HasPrefix (extractFirstURL text) ''http://'' \<or> HasPrefix (extractFirstURL text) ''https://'') \<and>
          list_all (\<lambda>c. \<not> url_stop c) (extractFirstURL text) \<and> \<not> url_no_end (last (extractFirstURL text))"
proof (induction "text")
  case (Cons c cs)
  show ?case
  proof (cases "url_match_here (c # cs)")
    case (Some m)
    have "m \<noteq> []" using url_match_here_Some(2) [OF Some] by (auto simp: HasPrefix_def)
    moreover obtain post where "c # cs = [] @ m @ post" using url_match_here_Some(1) [OF Some] by auto
    moreover have "extractFirstURL (c # cs) = m" by (simp add: Some)
    ultimately show ?thesis
      using url_match_here_Some(2-4) [OF Some] by metis
  next
    case None
    have shift: "list_all (\<lambda>k. url_match_here (drop k (c # cs)) = None) [0..<length (c # cs)] \<longleftrightarrow>
        list_all (\<lambda>k. url_match_here (drop k cs) = None) [0..<length cs]"
      using None by (simp add: upt_conv_Cons map_Suc_upt [symmetric] list_all_iff image_Suc_atLeastLessThan [symmetric]
          del: upt_Suc image_Suc_atLeastLessThan)
    show ?thesis
    proof (cases "extractFirstURL cs = []")
      case True
      with Cons None shift show ?thesis by simp
    next
      case False
      with Cons obtain pre post where "cs = pre @ extractFirstURL cs @ post" by auto
      then have "c # cs = (c # pre) @ extractFirstURL cs @ post" by simp
      with Cons None False show ?thesis by (simp, metis append_Cons)
    qed
  qed
qed simp

end
