(* ===== verification/Events.thy ===== *)
theory Events
  imports Prelude
begin

text \<open>
  Event types and subscriptions: the table of supported event types
  (\<^verbatim>\<open>cmd/api/constants.go\<close>), its copy in the users domain and \<^verbatim>\<open>ValidateEvents\<close>
  (\<^verbatim>\<open>internal/users/users.go\<close>), and the loops that turn a request or a stored, comma-separated
  events string into the list of subscribed event types (\<^verbatim>\<open>cmd/api/handlers.go\<close>,
  \<^verbatim>\<open>cmd/api/wmiau.go\<close>).
\<close>

section \<open>Definitions\<close>

definition supportedEventTypes :: "string list" where
  "supportedEventTypes =
     [''Message'', ''UndecryptableMessage'', ''Receipt'', ''MediaRetry'', ''ReadReceipt'',
      ''GroupInfo'', ''JoinedGroup'', ''Picture'', ''BlocklistChange'', ''Blocklist'',
      ''Connected'', ''Disconnected'', ''ConnectFailure'', ''KeepAliveRestored'',
      ''KeepAliveTimeout'', ''QRTimeout'', ''LoggedOut'', ''ClientOutdated'', ''TemporaryBan'',
      ''StreamError'', ''StreamReplaced'', ''PairSuccess'', ''PairError'', ''QR'',
      ''QRScannedWithoutMultidevice'',
      ''PrivacySettings'', ''PushNameSetting'', ''UserAbout'',
      ''AppState'', ''AppStateSyncComplete'', ''HistorySync'', ''OfflineSyncCompleted'',
      ''OfflineSyncPreview'',
      ''CallOffer'', ''CallAccept'', ''CallTerminate'', ''CallOfferNotice'', ''CallRelayLatency'',
      ''Presence'', ''ChatPresence'',
      ''IdentityChange'',
      ''CATRefreshError'',
      ''NewsletterJoin'', ''NewsletterLeave'', ''NewsletterMuteChange'', ''NewsletterLiveUpdate'',
      ''FBMessage'',
      ''All'']"

text \<open>\<^verbatim>\<open>init()\<close> of constants.go fills \<^verbatim>\<open>eventTypeMap\<close> from the list.\<close>

definition eventTypeMap :: "(string, bool) gomap" where
  "eventTypeMap = fold (\<lambda>e m. AList.update e True m) supportedEventTypes []"

definition isValidEventType :: "string \<Rightarrow> bool" where
  "isValidEventType e = (case map_of eventTypeMap e of None \<Rightarrow> False | Some b \<Rightarrow> b)"

fun Find :: "string list \<Rightarrow> string \<Rightarrow> bool" where
  "Find [] val = False"
| "Find (item # items) val = (if item = val then True else Find items val)"

text \<open>The sentinels of the users domain; \<^verbatim>\<open>ErrOther\<close> is any other \<^verbatim>\<open>error\<close> value.\<close>

datatype users_error =
    ErrNotFound
  | ErrTokenExists
  | ErrInvalidEvent string
  | ErrHMACKeyTooShort
  | ErrNoFields
  | ErrOther string

definition supportedEvents :: "(string, unit) gomap" where
  "supportedEvents = map (\<lambda>e. (e, ()))
     [''Message'', ''UndecryptableMessage'', ''Receipt'', ''MediaRetry'', ''ReadReceipt'',
      ''GroupInfo'', ''JoinedGroup'', ''Picture'', ''BlocklistChange'', ''Blocklist'',
      ''Connected'', ''Disconnected'', ''ConnectFailure'', ''KeepAliveRestored'', ''KeepAliveTimeout'',
      ''QRTimeout'', ''LoggedOut'', ''ClientOutdated'', ''TemporaryBan'', ''StreamError'',
      ''StreamReplaced'', ''PairSuccess'', ''PairError'', ''QR'', ''QRScannedWithoutMultidevice'',
      ''PrivacySettings'', ''PushNameSetting'', ''UserAbout'',
      ''AppState'', ''AppStateSyncComplete'', ''HistorySync'', ''OfflineSyncCompleted'', ''OfflineSyncPreview'',
      ''CallOffer'', ''CallAccept'', ''CallTerminate'', ''CallOfferNotice'', ''CallRelayLatency'',
      ''Presence'', ''ChatPresence'',
      ''IdentityChange'',
      ''CATRefreshError'',
      ''NewsletterJoin'', ''NewsletterLeave'', ''NewsletterMuteChange'', ''NewsletterLiveUpdate'',
      ''FBMessage'',
      ''All'']"

fun validate_loop :: "string list \<Rightarrow> users_error option" where
  "validate_loop [] = None"
| "validate_loop (e # evs) =
     (let ev = TrimSpace e
      in if ev = [] then validate_loop evs
         else if map_of supportedEvents ev = None then Some (ErrInvalidEvent ev)
         else validate_loop evs)"

text \<open>\<^verbatim>\<open>ValidateEvents\<close>; \<^term>\<open>None\<close> is the nil error.\<close>

definition ValidateEvents :: "string \<Rightarrow> users_error option" where
  "ValidateEvents events = (if events = [] then None else validate_loop (Split events CHR '',''))"

text \<open>The loop of \<^verbatim>\<open>Connect\<close> and \<^verbatim>\<open>connectOnStartup\<close>: unsupported types and repetitions are dropped.\<close>

fun subscribe_loop :: "string list \<Rightarrow> string list \<Rightarrow> string list" where
  "subscribe_loop subscribedEvents [] = subscribedEvents"
| "subscribe_loop subscribedEvents (arg # args) =
     (if \<not> Find supportedEventTypes arg then subscribe_loop subscribedEvents args
      else if \<not> Find subscribedEvents arg then subscribe_loop (subscribedEvents @ [arg]) args
      else subscribe_loop subscribedEvents args)"

text \<open>The events \<^verbatim>\<open>Connect\<close> subscribes to, given the request's \<^verbatim>\<open>Subscribe\<close> field.\<close>

definition connect_events :: "string list \<Rightarrow> string list" where
  "connect_events subscribe =
     (if length subscribe < 1 then (if \<not> Find [] [] then [[]] else []) else subscribe_loop [] subscribe)"

text \<open>The events \<^verbatim>\<open>connectOnStartup\<close> passes to \<^verbatim>\<open>startClient\<close>, from the events column.\<close>

definition startup_events :: "string \<Rightarrow> string list" where
  "startup_events events =
     (let eventarray = Split events CHR '',''
      in if length eventarray = 1 \<and> eventarray ! 0 = [] then [] else subscribe_loop [] eventarray)"

text \<open>The validation loop of \<^verbatim>\<open>SetWebhook\<close> and \<^verbatim>\<open>UpdateWebhook\<close>.\<close>

fun valid_events_loop :: "string list \<Rightarrow> string list \<Rightarrow> string list" where
  "valid_events_loop validEvents [] = validEvents"
| "valid_events_loop validEvents (event # evs) =
     (if \<not> Find supportedEventTypes event then valid_events_loop validEvents evs
      else valid_events_loop (validEvents @ [event]) evs)"

definition webhook_eventstring :: "string list \<Rightarrow> string" where
  "webhook_eventstring validEvents =
     (let eventstring = Join validEvents '',''
      in if eventstring = '','' \<or> eventstring = [] then [] else eventstring)"

text \<open>The parsing of the current events string in \<^verbatim>\<open>updateAndGetUserSubscriptions\<close>.\<close>

fun trimmed_events_loop :: "string list \<Rightarrow> string list \<Rightarrow> string list" where
  "trimmed_events_loop subscribedEvents [] = subscribedEvents"
| "trimmed_events_loop subscribedEvents (a # args) =
     (let arg = TrimSpace a
      in if arg \<noteq> [] \<and> Find supportedEventTypes arg
         then trimmed_events_loop (subscribedEvents @ [arg]) args
         else trimmed_events_loop subscribedEvents args)"

definition parse_subscriptions :: "string \<Rightarrow> string list" where
  "parse_subscriptions currentEvents =
     (let eventarray = Split currentEvents CHR '',''
      in if length eventarray = 1 \<and> eventarray ! 0 = [] then [] else trimmed_events_loop [] eventarray)"

definition checkIfSubscribedToEvent :: "string list \<Rightarrow> string \<Rightarrow> bool" where
  "checkIfSubscribedToEvent subscribedEvents eventType =
     (if \<not> Find subscribedEvents eventType \<and> \<not> Find subscribedEvents ''All'' then False else True)"

section \<open>Lemmas\<close>

lemma Find_iff [simp]: "Find items val \<longleftrightarrow> val \<in> set items"
  by (induction items) auto

lemma map_of_fold_update:
  "map_of (fold (\<lambda>e m. AList.update e v m) es m) k = (if k \<in> set es then Some v else map_of m k)"
  by (induction es arbitrary: m) (auto simp: gomap_simps)

lemma isValidEventType_iff: "isValidEventType e \<longleftrightarrow> e \<in> set supportedEventTypes"
  by (simp add: isValidEventType_def eventTypeMap_def map_of_fold_update)

lemma map_fst_supportedEvents: "map fst supportedEvents = supportedEventTypes"
  by (simp add: supportedEvents_def supportedEventTypes_def)

lemma supportedEvents_iff: "map_of supportedEvents e = None \<longleftrightarrow> e \<notin> set supportedEventTypes"
  by (simp add: map_of_eq_None_iff flip: map_fst_supportedEvents)

text \<open>No supported type is empty, holds a comma, or begins or ends with white space.\<close>

lemma supported_shape_all:
  "list_all (\<lambda>e. e \<noteq> [] \<and> CHR '','' \<notin> set e \<and>
     hd e \<notin> set (map hd space_seqs @ map last space_seqs) \<and>
     last e \<notin> set (map hd space_seqs @ map last space_seqs)) supportedEventTypes"
  by code_simp

lemma supported_shape:
  "e \<in> set supportedEventTypes \<Longrightarrow>
     e \<noteq> [] \<and> CHR '','' \<notin> set e \<and> hd e \<notin> space_heads \<and> last e \<notin> space_heads"
  using supported_shape_all by (auto simp: list_all_iff space_heads_def)

lemma supported_no_comma: "e \<in> set supportedEventTypes \<Longrightarrow> CHR '','' \<notin> set e"
  and supported_not_Nil: "e \<in> set supportedEventTypes \<Longrightarrow> e \<noteq> []"
  using supported_shape by blast+

lemma supported_trim: "e \<in> set supportedEventTypes \<Longrightarrow> TrimSpace e = e"
  using supported_shape by (blast intro: TrimSpace_id)

lemma valid_events_loop_eq:
  "valid_events_loop acc evs = acc @ filter (\<lambda>e. e \<in> set supportedEventTypes) evs"
  by (induction evs arbitrary: acc) auto

lemma trimmed_events_loop_eq:
  "trimmed_events_loop acc evs =
     acc @ filter (\<lambda>e. e \<noteq> [] \<and> e \<in> set supportedEventTypes) (map TrimSpace evs)"
  by (induction evs arbitrary: acc) (auto simp: Let_def)

lemma subscribe_loop_set:
  "set (subscribe_loop acc evs) = set acc \<union> (set evs \<inter> set supportedEventTypes)"
  by (induction evs arbitrary: acc) auto

lemma subscribe_loop_distinct: "distinct acc \<Longrightarrow> distinct (subscribe_loop acc evs)"
  by (induction evs arbitrary: acc) auto

lemma validate_loop_eq:
  "validate_loop evs =
     map_option ErrInvalidEvent
       (find (\<lambda>e. e \<noteq> [] \<and> e \<notin> set supportedEventTypes) (map TrimSpace evs))"
  by (induction evs) (auto simp: Let_def supportedEvents_iff)

lemma singleton_Nil_Split: "length (Split s c) = 1 \<and> Split s c ! 0 = [] \<longleftrightarrow> s = []"
proof
  assume "length (Split s c) = 1 \<and> Split s c ! 0 = []"
  then have "Split s c = [[]]" by (cases "Split s c") auto
  then show "s = []" using Join_Split [of s c] by simp
qed simp

lemma parse_subscriptions_eq:
  "parse_subscriptions s =
     filter (\<lambda>e. e \<noteq> [] \<and> e \<in> set supportedEventTypes) (map TrimSpace (Split s CHR '',''))"
  by (simp only: parse_subscriptions_def Let_def singleton_Nil_Split trimmed_events_loop_eq) simp

text \<open>Supported types joined with commas are read back as they were.\<close>

lemma parse_Join_supported:
  assumes "set evs \<subseteq> set supportedEventTypes"
  shows "parse_subscriptions (Join evs '','') = evs"
proof (cases "evs = []")
  case False
  have "Split (Join evs '','') CHR '','' = evs"
    using False assms supported_no_comma by (intro Split_Join) auto
  moreover have "map TrimSpace evs = evs"
    using assms by (auto intro!: map_idI supported_trim)
  moreover have "filter (\<lambda>e. e \<noteq> [] \<and> e \<in> set supportedEventTypes) evs = evs"
    using assms supported_not_Nil by (auto simp: filter_id_conv)
  ultimately show ?thesis by (simp only: parse_subscriptions_eq)
qed (simp add: parse_subscriptions_def)

section \<open>Properties\<close>

text \<open>
  What \<^verbatim>\<open>SetWebhook\<close> stores is what the event path reads back: the validated events, joined
  into the events column and parsed again by \<^verbatim>\<open>updateAndGetUserSubscriptions\<close>, are exactly the
  supported events of the request, in order.
\<close>

theorem webhook_events_roundtrip:
  "parse_subscriptions (webhook_eventstring (valid_events_loop [] events)) =
     filter isValidEventType events"
proof -
  define evs where "evs = filter isValidEventType events"
  have ev: "valid_events_loop [] events = evs"
    by (simp add: valid_events_loop_eq evs_def isValidEventType_iff [abs_def] cong: filter_cong)
  have sub: "set evs \<subseteq> set supportedEventTypes" by (auto simp: evs_def isValidEventType_iff)
  have "Join evs '','' \<noteq> '',''"
    using parse_Join_supported [OF sub] supported_not_Nil sub
    by (cases evs) (auto simp: parse_subscriptions_eq)
  then have "webhook_eventstring evs = Join evs '',''"
    by (simp add: webhook_eventstring_def Let_def)
  then show ?thesis
    using ev parse_Join_supported [OF sub] by (simp add: evs_def)
qed

text \<open>
  \<^verbatim>\<open>Connect\<close> keeps exactly the supported events of a non-empty request, each once, and the
  string it stores is parsed back to that list; an empty request stores the empty string, which is
  parsed as no subscription.
\<close>

theorem connect_events_roundtrip:
  "distinct (connect_events subscribe) \<and>
   set (connect_events subscribe) =
     (if subscribe = [] then {[]} else {e \<in> set subscribe. isValidEventType e}) \<and>
   parse_subscriptions (Join (connect_events subscribe) '','') =
     (if subscribe = [] then [] else connect_events subscribe)"
proof (cases subscribe)
  case Nil
  then show ?thesis by (simp add: connect_events_def parse_subscriptions_def)
next
  case (Cons a as)
  then have eq: "connect_events subscribe = subscribe_loop [] subscribe"
    by (simp add: connect_events_def)
  have st: "set (subscribe_loop [] subscribe) = set subscribe \<inter> set supportedEventTypes"
    by (simp add: subscribe_loop_set)
  then have "parse_subscriptions (Join (subscribe_loop [] subscribe) '','') = subscribe_loop [] subscribe"
    by (intro parse_Join_supported) simp
  with Cons eq st show ?thesis
    by (auto simp: isValidEventType_iff subscribe_loop_distinct)
qed

text \<open>
  \<^verbatim>\<open>ValidateEvents\<close> returns nil exactly when every non-blank, trimmed token of the string is a
  supported type of constants.go, and otherwise the error names the first token that is not.
\<close>

theorem ValidateEvents_spec:
  "ValidateEvents events =
     map_option ErrInvalidEvent
       (find (\<lambda>e. e \<noteq> [] \<and> \<not> isValidEventType e) (map TrimSpace (Split events CHR '','')))"
  by (simp add: ValidateEvents_def validate_loop_eq isValidEventType_iff)

text \<open>
  An events string that \<^verbatim>\<open>ValidateEvents\<close> accepts loses nothing when the event path parses it:
  the subscriptions are all its non-blank tokens.
\<close>

theorem validated_events_all_subscribed:
  assumes "ValidateEvents events = None"
  shows "parse_subscriptions events = filter (\<lambda>e. e \<noteq> []) (map TrimSpace (Split events CHR '',''))"
proof -
  have "\<forall>e \<in> set (map TrimSpace (Split events CHR '','')). e \<noteq> [] \<longrightarrow> e \<in> set supportedEventTypes"
    using assms by (auto simp: ValidateEvents_def validate_loop_eq find_None_iff split: if_splits)
  then show ?thesis
    unfolding parse_subscriptions_eq by (auto intro!: filter_cong)
qed

theorem validated_events_all_subscribed_witness:
  "ValidateEvents ''Message,Receipt'' = None \<and>
   parse_subscriptions ''Message,Receipt'' = [''Message'', ''Receipt'']"
proof -
  have trim: "TrimSpace ''Message'' = ''Message''" "TrimSpace ''Receipt'' = ''Receipt''"
    by (rule supported_trim, simp add: supportedEventTypes_def)+
  have ok: "ValidateEvents ''Message,Receipt'' = None"
    by (simp add: ValidateEvents_def Let_def trim supportedEvents_def)
  show ?thesis using ok validated_events_all_subscribed [OF ok] by (simp add: trim)
qed

end
