(* ===== verification/Database.thy ===== *)
theory Database
  imports Prelude
begin

text \<open>
  The PostgreSQL database the program talks to: the \<^verbatim>\<open>users\<close>, \<^verbatim>\<open>message_history\<close> and
  \<^verbatim>\<open>whatsmeow_message_secrets\<close> tables with the columns that the migrations of
  \<^verbatim>\<open>cmd/api/migrations.go\<close> create, and the execution of a single SQL statement. Nullable columns
  are options. Every statement may fail for reasons outside the program (a lost connection, a
  value the server refuses): the \<^verbatim>\<open>fault\<close> oracle says which calls fail, and a failed statement
  changes no table.
\<close>

section \<open>Tables\<close>

record user_row =
  u_id :: string
  u_name :: string
  u_token :: string
  u_webhook :: string
  u_jid :: string
  u_qrcode :: string
  u_connected :: "int option"
  u_expiration :: "int option"
  u_events :: string
  u_proxy_url :: "string option"
  u_s3_enabled :: "bool option"
  u_s3_endpoint :: "string option"
  u_s3_region :: "string option"
  u_s3_bucket :: "string option"
  u_s3_access_key :: "string option"
  u_s3_secret_key :: "string option"
  u_s3_path_style :: "bool option"
  u_s3_public_url :: "string option"
  u_media_delivery :: "string option"
  u_s3_retention_days :: "int option"
  u_history :: "int option"
  u_hmac_key :: "bytes option"

record history_row =
  h_id :: nat
  h_user_id :: string
  h_chat_jid :: string
  h_sender_jid :: string
  h_message_id :: string
  h_timestamp :: int
  h_message_type :: string
  h_text_content :: string
  h_media_link :: string
  h_quoted_message_id :: string
  h_datajson :: string

text \<open>Of \<^verbatim>\<open>whatsmeow_message_secrets\<close> (a table of the whatsmeow library) the program only uses the
  owner and the message id.\<close>

record secret_row =
  k_our_jid :: string
  k_message_id :: string

record pg =
  users_tbl :: "user_row list"
  history_tbl :: "history_row list"
  history_seq :: nat
  secrets_tbl :: "secret_row list"
  calls :: nat
  fault :: "nat \<Rightarrow> string option"

text \<open>
  One statement: the call is counted; if the oracle fails it, or the statement itself is in error
  (\<^term>\<open>Inl\<close>), no table changes.
\<close>

definition pg_exec :: "(pg \<Rightarrow> string + ('a \<times> pg)) \<Rightarrow> pg \<Rightarrow> (string + 'a) \<times> pg" where
  "pg_exec stmt d =
     (let d' = d\<lparr>calls := Suc (calls d)\<rparr>
      in case fault d (calls d) of
           Some e \<Rightarrow> (Inl e, d')
         | None \<Rightarrow> (case stmt d' of Inl e \<Rightarrow> (Inl e, d') | Inr (x, d'') \<Rightarrow> (Inr x, d'')))"

text \<open>A statement that only reads.\<close>

definition pg_query :: "(pg \<Rightarrow> 'a) \<Rightarrow> pg \<Rightarrow> (string + 'a) \<times> pg" where
  "pg_query q = pg_exec (\<lambda>d. Inr (q d, d))"

text \<open>\<^verbatim>\<open>UPDATE users SET ... WHERE id = $n\<close>, for a total change of the row.\<close>

definition update_user :: "string \<Rightarrow> (user_row \<Rightarrow> user_row) \<Rightarrow> pg \<Rightarrow> (string + unit) \<times> pg" where
  "update_user uid f =
     pg_exec (\<lambda>d. Inr ((), d\<lparr>users_tbl := map (\<lambda>r. if u_id r = uid then f r else r) (users_tbl d)\<rparr>))"

definition find_user :: "string \<Rightarrow> pg \<Rightarrow> user_row option" where
  "find_user uid d = find (\<lambda>r. u_id r = uid) (users_tbl d)"

text \<open>\<^verbatim>\<open>COALESCE(column, default)\<close>.\<close>

definition coalesce :: "'a option \<Rightarrow> 'a \<Rightarrow> 'a" where
  "coalesce c dflt = (case c of None \<Rightarrow> dflt | Some v \<Rightarrow> v)"

definition no_faults :: "pg \<Rightarrow> bool" where
  "no_faults d \<longleftrightarrow> fault d = (\<lambda>_. None)"

section \<open>Lemmas\<close>

lemma coalesce_simps [simp]: "coalesce None d = d" "coalesce (Some v) d = v"
  by (simp_all add: coalesce_def)

lemma pg_exec_Inl:
  "pg_exec stmt d = (Inl e, d') \<Longrightarrow> d' = d\<lparr>calls := Suc (calls d)\<rparr>"
  by (auto simp: pg_exec_def Let_def split: option.splits sum.splits prod.splits)

lemma pg_exec_Inr:
  "pg_exec stmt d = (Inr x, d') \<Longrightarrow>
     fault d (calls d) = None \<and> stmt (d\<lparr>calls := Suc (calls d)\<rparr>) = Inr (x, d')"
  by (auto simp: pg_exec_def Let_def split: option.splits sum.splits prod.splits)

lemma pg_exec_Inl_tables:
  assumes "pg_exec stmt d = (Inl e, d')"
  shows "users_tbl d' = users_tbl d" "history_tbl d' = history_tbl d"
    "secrets_tbl d' = secrets_tbl d" "history_seq d' = history_seq d" "fault d' = fault d"
  using pg_exec_Inl [OF assms] by simp_all

lemma pg_query_tables:
  assumes "pg_query q d = (r, d')"
  shows "d' = d\<lparr>calls := Suc (calls d)\<rparr>"
  using assms
  by (auto simp: pg_query_def pg_exec_def Let_def split: option.splits sum.splits prod.splits)

lemma pg_query_Inr:
  "pg_query q d = (Inr x, d') \<Longrightarrow> x = q (d\<lparr>calls := Suc (calls d)\<rparr>)"
  by (auto simp: pg_query_def dest!: pg_exec_Inr)

lemma pg_query_Inr_iff:
  "pg_query q d = (Inr x, d') \<longleftrightarrow>
     fault d (calls d) = None \<and> d' = d\<lparr>calls := Suc (calls d)\<rparr> \<and> x = q (d\<lparr>calls := Suc (calls d)\<rparr>)"
  by (auto simp: pg_query_def pg_exec_def Let_def split: option.splits)

lemma pg_query_Inl_iff:
  "pg_query q d = (Inl e, d') \<longleftrightarrow> fault d (calls d) = Some e \<and> d' = d\<lparr>calls := Suc (calls d)\<rparr>"
  by (auto simp: pg_query_def pg_exec_def Let_def split: option.splits)

lemmas pg_query_iff = pg_query_Inr_iff pg_query_Inl_iff

lemma pg_query_no_fault:
  "no_faults d \<Longrightarrow> pg_query q d = (Inr (q (d\<lparr>calls := Suc (calls d)\<rparr>)), d\<lparr>calls := Suc (calls d)\<rparr>)"
  by (simp add: no_faults_def pg_query_def pg_exec_def Let_def)

lemma update_user_no_fault:
  "no_faults d \<Longrightarrow> update_user uid f d =
     (Inr (), d\<lparr>calls := Suc (calls d),
                users_tbl := map (\<lambda>r. if u_id r = uid then f r else r) (users_tbl d)\<rparr>)"
  by (simp add: no_faults_def update_user_def pg_exec_def Let_def)

lemma update_user_Inl:
  "update_user uid f d = (Inl e, d') \<Longrightarrow> d' = d\<lparr>calls := Suc (calls d)\<rparr>"
  by (auto simp: update_user_def dest: pg_exec_Inl)

lemma update_user_Inr:
  "update_user uid f d = (Inr u, d') \<Longrightarrow>
     d' = d\<lparr>calls := Suc (calls d),
            users_tbl := map (\<lambda>r. if u_id r = uid then f r else r) (users_tbl d)\<rparr>"
  by (auto simp: update_user_def dest!: pg_exec_Inr)

lemma no_faults_update [simp]:
  "no_faults (d\<lparr>calls := n\<rparr>) = no_faults d" "no_faults (d\<lparr>users_tbl := t\<rparr>) = no_faults d"
  "no_faults (d\<lparr>history_tbl := h\<rparr>) = no_faults d" "no_faults (d\<lparr>secrets_tbl := k\<rparr>) = no_faults d"
  "no_faults (d\<lparr>history_seq := n\<rparr>) = no_faults d"
  by (simp_all add: no_faults_def)

lemma find_user_calls [simp]: "find_user uid (d\<lparr>calls := n\<rparr>) = find_user uid d"
  by (simp add: find_user_def)

text \<open>Looking up a row after an update of the rows with the same id.\<close>

lemma find_map_id:
  assumes "\<And>r. u_id (f r) = u_id r"
  shows "find (\<lambda>r. u_id r = k) (map (\<lambda>r. if u_id r = uid then f r else r) rs) =
     (if k = uid then map_option f (find (\<lambda>r. u_id r = k) rs) else find (\<lambda>r. u_id r = k) rs)"
  using assms by (induction rs) auto

lemma find_user_update:
  assumes "\<And>r. u_id (f r) = u_id r"
  shows "find_user k (d\<lparr>users_tbl := map (\<lambda>r. if u_id r = uid then f r else r) (users_tbl d)\<rparr>) =
     (if k = uid then map_option f (find_user k d) else find_user k d)"
  using find_map_id [of f k uid "users_tbl d"] assms by (simp add: find_user_def)

lemma map_u_id_update:
  assumes "\<And>r. u_id (f r) = u_id r"
  shows "map u_id (map (\<lambda>r. if u_id r = uid then f r else r) rs) = map u_id rs"
  using assms by simp

lemma map_u_token_update:
  assumes "\<And>r. u_token (f r) = u_token r"
  shows "map u_token (map (\<lambda>r. if u_id r = uid then f r else r) rs) = map u_token rs"
  using assms by simp

end
