(* ===== verification/Users.thy ===== *)
theory Users
  imports Events Database
begin

text \<open>
  The users domain, \<^verbatim>\<open>internal/users\<close>: the data types, the \<^verbatim>\<open>Repository\<close> interface and its
  PostgreSQL implementation (\<^verbatim>\<open>postgres.go\<close>), the \<^verbatim>\<open>Service\<close> (List, Get, Create, Update, Delete)
  and the HTTP handler of \<^verbatim>\<open>/admin/users\<close> (\<^verbatim>\<open>users.go\<close>). A Go interface value is a record of
  functions that the service takes as an argument; \<^verbatim>\<open>IDGenerator\<close>, \<^verbatim>\<open>HMACEncryptor\<close> and
  \<^verbatim>\<open>UpdateHook\<close> are such arguments too.
\<close>

section \<open>Data types\<close>

record ProxyConfig =
  pc_Enabled :: bool
  pc_ProxyURL :: string

record S3Config =
  s3_Enabled :: bool
  s3_Endpoint :: string
  s3_Region :: string
  s3_Bucket :: string
  s3_AccessKey :: string
  s3_SecretKey :: string
  s3_PathStyle :: bool
  s3_PublicURL :: string
  s3_MediaDelivery :: string
  s3_RetentionDays :: int

record User =
  us_ID :: string
  us_Name :: string
  us_Token :: string
  us_Webhook :: string
  us_JID :: string
  us_QRCode :: string
  us_Connected :: bool
  us_LoggedIn :: bool
  us_Expiration :: int
  us_ProxyURL :: string
  us_Events :: string
  us_ProxyConfig :: ProxyConfig
  us_S3Config :: S3Config

record CreateUserInput =
  ci_Name :: string
  ci_Token :: string
  ci_Webhook :: string
  ci_Expiration :: int
  ci_Events :: string
  ci_ProxyConfig :: ProxyConfig
  ci_S3Config :: S3Config
  ci_HMACKey :: string
  ci_History :: int

record CreateRow =
  cr_ID :: string
  cr_Name :: string
  cr_Token :: string
  cr_Webhook :: string
  cr_Expiration :: int
  cr_Events :: string
  cr_ProxyURL :: string
  cr_S3 :: S3Config
  cr_HMACKey :: bytes
  cr_History :: int

record UpdateInput =
  ui_Name :: string
  ui_Token :: string
  ui_Webhook :: string
  ui_Expiration :: int
  ui_Events :: string
  ui_History :: int
  ui_ProxyConfig :: "ProxyConfig option"
  ui_S3Config :: "S3Config option"

record UpdateResult =
  ur_UserID :: string
  ur_OldToken :: string
  ur_NewToken :: string
  ur_S3Config :: "S3Config option"

text \<open>The dynamic types that \<^verbatim>\<open>UpdateField.Value\<close> takes.\<close>

datatype sqlval = VText string | VInt int | VBool bool

record UpdateField =
  uf_Column :: string
  uf_Value :: sqlval

text \<open>The \<^verbatim>\<open>Repository\<close> interface, over an arbitrary state.\<close>

record 'st Repository =
  rp_List :: "'st \<Rightarrow> (users_error + User list) \<times> 'st"
  rp_Get :: "string \<Rightarrow> 'st \<Rightarrow> (users_error + User) \<times> 'st"
  rp_Delete :: "string \<Rightarrow> 'st \<Rightarrow> (users_error + unit) \<times> 'st"
  rp_TokenExists :: "string \<Rightarrow> 'st \<Rightarrow> (users_error + bool) \<times> 'st"
  rp_Create :: "CreateRow \<Rightarrow> 'st \<Rightarrow> (users_error + unit) \<times> 'st"
  rp_ExistsByID :: "string \<Rightarrow> 'st \<Rightarrow> (users_error + bool) \<times> 'st"
  rp_GetToken :: "string \<Rightarrow> 'st \<Rightarrow> (users_error + string) \<times> 'st"
  rp_Update :: "string \<Rightarrow> UpdateField list \<Rightarrow> 'st \<Rightarrow> (users_error + unit) \<times> 'st"

text \<open>
  The \<^verbatim>\<open>Service\<close>. \<^verbatim>\<open>sv_ids\<close> is what the next call of \<^verbatim>\<open>IDGenerator.Generate\<close> returns and
  \<^verbatim>\<open>sv_crypto\<close> is \<^verbatim>\<open>HMACEncryptor.Encrypt\<close>; an error is \<^term>\<open>Inl\<close>.
\<close>

record 'st Service =
  sv_repo :: "'st Repository"
  sv_Connected :: "'st \<Rightarrow> string \<Rightarrow> bool"
  sv_LoggedIn :: "'st \<Rightarrow> string \<Rightarrow> bool"
  sv_ids :: "string + string"
  sv_crypto :: "string \<Rightarrow> string + bytes"
  sv_updateHook :: "(UpdateResult \<Rightarrow> 'st \<Rightarrow> 'st) option"

section \<open>Default collaborators\<close>

definition hex_digit :: "nat \<Rightarrow> char" where
  "hex_digit d = (if d < 10 then char_of (48 + d) else char_of (87 + d))"

text \<open>\<^verbatim>\<open>hex.EncodeToString\<close>.\<close>

definition hex_encode :: "bytes \<Rightarrow> string" where
  "hex_encode bs = concat (map (\<lambda>b. [hex_digit (unat b div 16), hex_digit (unat b mod 16)]) bs)"

text \<open>\<^verbatim>\<open>cryptoRandIDGen.Generate\<close> over the bytes the reader can deliver: \<^verbatim>\<open>io.ReadFull\<close> fails when
  it gets fewer than 16.\<close>

definition cryptoRandIDGen_Generate :: "bytes \<Rightarrow> string + string" where
  "cryptoRandIDGen_Generate src =
     (if length src < 16 then Inl ''failed to generate random ID'' else Inr (hex_encode (take 16 src)))"

definition disabledEncryptor_Encrypt :: "string \<Rightarrow> string + bytes" where
  "disabledEncryptor_Encrypt _ = Inl ''hmac encryption not configured''"

text \<open>\<^verbatim>\<open>New\<close> without options; the options replace single fields.\<close>

definition New :: "'st Repository \<Rightarrow> ('st \<Rightarrow> string \<Rightarrow> bool) \<Rightarrow> ('st \<Rightarrow> string \<Rightarrow> bool) \<Rightarrow> bytes \<Rightarrow> 'st Service" where
  "New repo conn logged src =
     \<lparr>sv_repo = repo, sv_Connected = conn, sv_LoggedIn = logged,
      sv_ids = cryptoRandIDGen_Generate src, sv_crypto = disabledEncryptor_Encrypt,
      sv_updateHook = None\<rparr>"

definition WithIDGenerator :: "string + string \<Rightarrow> 'st Service \<Rightarrow> 'st Service" where
  "WithIDGenerator g s = s\<lparr>sv_ids := g\<rparr>"

definition WithHMACEncryptor :: "(string \<Rightarrow> string + bytes) \<Rightarrow> 'st Service \<Rightarrow> 'st Service" where
  "WithHMACEncryptor e s = s\<lparr>sv_crypto := e\<rparr>"

definition WithUpdateHook :: "(UpdateResult \<Rightarrow> 'st \<Rightarrow> 'st) \<Rightarrow> 'st Service \<Rightarrow> 'st Service" where
  "WithUpdateHook h s = s\<lparr>sv_updateHook := Some h\<rparr>"

section \<open>Service\<close>

definition mask_s3 :: "S3Config \<Rightarrow> S3Config" where
  "mask_s3 c = c\<lparr>s3_AccessKey := ''***'', s3_SecretKey := []\<rparr>"

definition applyLiveState :: "User \<Rightarrow> (string \<Rightarrow> bool) \<Rightarrow> (string \<Rightarrow> bool) \<Rightarrow> User" where
  "applyLiveState u connected loggedIn =
     u\<lparr>us_Connected := connected (us_ID u), us_LoggedIn := loggedIn (us_ID u),
       us_S3Config := mask_s3 (us_S3Config u)\<rparr>"

definition Service_List :: "'st Service \<Rightarrow> 'st \<Rightarrow> (users_error + User list) \<times> 'st" where
  "Service_List s st =
     (case rp_List (sv_repo s) st of
        (Inl e, st') \<Rightarrow> (Inl e, st')
      | (Inr us, st') \<Rightarrow>
          (Inr (map (\<lambda>u. applyLiveState u (sv_Connected s st') (sv_LoggedIn s st')) us), st'))"

definition Service_Get :: "'st Service \<Rightarrow> string \<Rightarrow> 'st \<Rightarrow> (users_error + User) \<times> 'st" where
  "Service_Get s i st =
     (case rp_Get (sv_repo s) i st of
        (Inl e, st') \<Rightarrow> (Inl e, st')
      | (Inr u, st') \<Rightarrow> (Inr (applyLiveState u (sv_Connected s st') (sv_LoggedIn s st')), st'))"

definition Service_Delete :: "'st Service \<Rightarrow> string \<Rightarrow> 'st \<Rightarrow> (users_error + unit) \<times> 'st" where
  "Service_Delete s i st = rp_Delete (sv_repo s) i st"

text \<open>The HMAC block of \<^verbatim>\<open>Create\<close>: the bytes to store, nil (empty) when no key was given.\<close>

definition create_hmac :: "'st Service \<Rightarrow> CreateUserInput \<Rightarrow> users_error + bytes" where
  "create_hmac s inp =
     (if ci_HMACKey inp \<noteq> [] then
        (if length (ci_HMACKey inp) < 32 then Inl ErrHMACKeyTooShort
         else (case sv_crypto s (ci_HMACKey inp) of
                 Inl e \<Rightarrow> Inl (ErrOther (''encrypt hmac: '' @ e))
               | Inr enc \<Rightarrow> Inr enc))
      else Inr [])"

definition create_row :: "string \<Rightarrow> CreateUserInput \<Rightarrow> bytes \<Rightarrow> CreateRow" where
  "create_row i inp hmacBytes =
     \<lparr>cr_ID = i, cr_Name = ci_Name inp, cr_Token = ci_Token inp, cr_Webhook = ci_Webhook inp,
      cr_Expiration = ci_Expiration inp, cr_Events = ci_Events inp,
      cr_ProxyURL = pc_ProxyURL (ci_ProxyConfig inp), cr_S3 = ci_S3Config inp,
      cr_HMACKey = hmacBytes, cr_History = ci_History inp\<rparr>"

definition created_user :: "string \<Rightarrow> CreateUserInput \<Rightarrow> User" where
  "created_user i inp =
     \<lparr>us_ID = i, us_Name = ci_Name inp, us_Token = ci_Token inp, us_Webhook = ci_Webhook inp,
      us_JID = [], us_QRCode = [], us_Connected = False, us_LoggedIn = False,
      us_Expiration = ci_Expiration inp, us_ProxyURL = pc_ProxyURL (ci_ProxyConfig inp),
      us_Events = ci_Events inp,
      us_ProxyConfig = \<lparr>pc_Enabled = (pc_ProxyURL (ci_ProxyConfig inp) \<noteq> []),
                        pc_ProxyURL = pc_ProxyURL (ci_ProxyConfig inp)\<rparr>,
      us_S3Config = mask_s3 (ci_S3Config inp)\<rparr>"

definition Service_Create :: "'st Service \<Rightarrow> CreateUserInput \<Rightarrow> 'st \<Rightarrow> (users_error + User) \<times> 'st" where
  "Service_Create s inp st =
     (case ValidateEvents (ci_Events inp) of
        Some e \<Rightarrow> (Inl e, st)
      | None \<Rightarrow>
     (case create_hmac s inp of
        Inl e \<Rightarrow> (Inl e, st)
      | Inr hmacBytes \<Rightarrow>
     (case rp_TokenExists (sv_repo s) (ci_Token inp) st of
        (Inl e, st1) \<Rightarrow> (Inl e, st1)
      | (Inr exs, st1) \<Rightarrow>
          if exs then (Inl ErrTokenExists, st1)
          else
     (case sv_ids s of
        Inl e \<Rightarrow> (Inl (ErrOther e), st1)
      | Inr i \<Rightarrow>
     (case rp_Create (sv_repo s) (create_row i inp hmacBytes) st1 of
        (Inl e, st2) \<Rightarrow> (Inl e, st2)
      | (Inr _, st2) \<Rightarrow> (Inr (created_user i inp), st2))))))"

definition opt_field :: "bool \<Rightarrow> string \<Rightarrow> sqlval \<Rightarrow> UpdateField list" where
  "opt_field present col v = (if present then [\<lparr>uf_Column = col, uf_Value = v\<rparr>] else [])"

definition s3_fields :: "S3Config \<Rightarrow> UpdateField list" where
  "s3_fields s3 =
     [\<lparr>uf_Column = ''s3_enabled'', uf_Value = VBool (s3_Enabled s3)\<rparr>,
      \<lparr>uf_Column = ''s3_endpoint'', uf_Value = VText (s3_Endpoint s3)\<rparr>,
      \<lparr>uf_Column = ''s3_region'', uf_Value = VText (s3_Region s3)\<rparr>,
      \<lparr>uf_Column = ''s3_bucket'', uf_Value = VText (s3_Bucket s3)\<rparr>,
      \<lparr>uf_Column = ''s3_access_key'', uf_Value = VText (s3_AccessKey s3)\<rparr>,
      \<lparr>uf_Column = ''s3_secret_key'', uf_Value = VText (s3_SecretKey s3)\<rparr>,
      \<lparr>uf_Column = ''s3_path_style'', uf_Value = VBool (s3_PathStyle s3)\<rparr>,
      \<lparr>uf_Column = ''s3_public_url'', uf_Value = VText (s3_PublicURL s3)\<rparr>,
      \<lparr>uf_Column = ''media_delivery'', uf_Value = VText (s3_MediaDelivery s3)\<rparr>,
      \<lparr>uf_Column = ''s3_retention_days'', uf_Value = VInt (s3_RetentionDays s3)\<rparr>]"

definition buildUpdateFields :: "UpdateInput \<Rightarrow> UpdateField list" where
  "buildUpdateFields inp =
     opt_field (ui_Name inp \<noteq> []) ''name'' (VText (ui_Name inp)) @
     opt_field (ui_Token inp \<noteq> []) ''token'' (VText (ui_Token inp)) @
     opt_field (ui_Webhook inp \<noteq> []) ''webhook'' (VText (ui_Webhook inp)) @
     opt_field (ui_Expiration inp \<noteq> 0) ''expiration'' (VInt (ui_Expiration inp)) @
     opt_field (ui_Events inp \<noteq> []) ''events'' (VText (ui_Events inp)) @
     opt_field (ui_History inp \<noteq> 0) ''history'' (VInt (ui_History inp)) @
     (case ui_ProxyConfig inp of
        None \<Rightarrow> []
      | Some p \<Rightarrow> [\<lparr>uf_Column = ''proxy_url'',
                     uf_Value = VText (if pc_Enabled p then pc_ProxyURL p else [])\<rparr>]) @
     (case ui_S3Config inp of None \<Rightarrow> [] | Some s3 \<Rightarrow> s3_fields s3)"

definition Service_Update ::
    "'st Service \<Rightarrow> string \<Rightarrow> UpdateInput \<Rightarrow> 'st \<Rightarrow> (users_error + UpdateResult) \<times> 'st" where
  "Service_Update s i inp st =
     (case rp_ExistsByID (sv_repo s) i st of
        (Inl e, st1) \<Rightarrow> (Inl e, st1)
      | (Inr exs, st1) \<Rightarrow>
     if \<not> exs then (Inl ErrNotFound, st1)
     else
     (case (if ui_Events inp \<noteq> [] then ValidateEvents (ui_Events inp) else None) of
        Some e \<Rightarrow> (Inl e, st1)
      | None \<Rightarrow>
     (case rp_GetToken (sv_repo s) i st1 of
        (Inl e, st2) \<Rightarrow> (Inl e, st2)
      | (Inr oldToken, st2) \<Rightarrow>
     (let flds = buildUpdateFields inp in
      if length flds = 0 then (Inl ErrNoFields, st2)
      else
     (case rp_Update (sv_repo s) i flds st2 of
        (Inl e, st3) \<Rightarrow> (Inl e, st3)
      | (Inr _, st3) \<Rightarrow>
     (let newToken = (if ui_Token inp \<noteq> [] then ui_Token inp else oldToken);
          result = \<lparr>ur_UserID = i, ur_OldToken = oldToken, ur_NewToken = newToken,
                    ur_S3Config = ui_S3Config inp\<rparr>
      in (Inr result,
          case sv_updateHook s of None \<Rightarrow> st3 | Some h \<Rightarrow> h result st3)))))))"

section \<open>PostgresRepository\<close>

definition lift_err :: "(string + 'a) \<times> 'st \<Rightarrow> (users_error + 'a) \<times> 'st" where
  "lift_err x = (case x of (Inl e, st) \<Rightarrow> (Inl (ErrOther e), st) | (Inr v, st) \<Rightarrow> (Inr v, st))"

text \<open>\<^verbatim>\<open>selectColumns\<close> and \<^verbatim>\<open>scanRow\<close>: the columns, coalesced, scanned into a \<^verbatim>\<open>User\<close>; the two S3
  keys are not selected.\<close>

definition scanRow :: "user_row \<Rightarrow> User" where
  "scanRow r =
     (let proxyURL = coalesce (u_proxy_url r) []
      in \<lparr>us_ID = u_id r, us_Name = u_name r, us_Token = u_token r, us_Webhook = u_webhook r,
          us_JID = u_jid r, us_QRCode = u_qrcode r, us_Connected = False, us_LoggedIn = False,
          us_Expiration = coalesce (u_expiration r) 0, us_ProxyURL = proxyURL,
          us_Events = u_events r,
          us_ProxyConfig = \<lparr>pc_Enabled = (proxyURL \<noteq> []), pc_ProxyURL = proxyURL\<rparr>,
          us_S3Config =
            \<lparr>s3_Enabled = coalesce (u_s3_enabled r) False,
             s3_Endpoint = coalesce (u_s3_endpoint r) [], s3_Region = coalesce (u_s3_region r) [],
             s3_Bucket = coalesce (u_s3_bucket r) [], s3_AccessKey = [], s3_SecretKey = [],
             s3_PathStyle = coalesce (u_s3_path_style r) False,
             s3_PublicURL = coalesce (u_s3_public_url r) [],
             s3_MediaDelivery = coalesce (u_media_delivery r) [],
             s3_RetentionDays = coalesce (u_s3_retention_days r) 0\<rparr>\<rparr>)"

definition pgList :: "pg \<Rightarrow> (users_error + User list) \<times> pg" where
  "pgList d = lift_err (pg_query (\<lambda>d. map scanRow (users_tbl d)) d)"

definition pgDelete :: "string \<Rightarrow> pg \<Rightarrow> (users_error + unit) \<times> pg" where
  "pgDelete i d =
     (case pg_exec (\<lambda>d. Inr (length (filter (\<lambda>r. u_id r = i) (users_tbl d)),
                             d\<lparr>users_tbl := filter (\<lambda>r. u_id r \<noteq> i) (users_tbl d)\<rparr>)) d of
        (Inl e, d') \<Rightarrow> (Inl (ErrOther e), d')
      | (Inr n, d') \<Rightarrow> (if n = 0 then (Inl ErrNotFound, d') else (Inr (), d')))"

definition pgGet :: "string \<Rightarrow> pg \<Rightarrow> (users_error + User) \<times> pg" where
  "pgGet i d =
     (case pg_query (find_user i) d of
        (Inl e, d') \<Rightarrow> (Inl (ErrOther e), d')
      | (Inr None, d') \<Rightarrow> (Inl ErrNotFound, d')
      | (Inr (Some r), d') \<Rightarrow> (Inr (scanRow r), d'))"

definition pgTokenExists :: "string \<Rightarrow> pg \<Rightarrow> (users_error + bool) \<times> pg" where
  "pgTokenExists t d =
     lift_err (pg_query (\<lambda>d. length (filter (\<lambda>r. u_token r = t) (users_tbl d)) > 0) d)"

definition pgExistsByID :: "string \<Rightarrow> pg \<Rightarrow> (users_error + bool) \<times> pg" where
  "pgExistsByID i d =
     lift_err (pg_query (\<lambda>d. length (filter (\<lambda>r. u_id r = i) (users_tbl d)) > 0) d)"

definition pgGetToken :: "string \<Rightarrow> pg \<Rightarrow> (users_error + string) \<times> pg" where
  "pgGetToken i d =
     (case pg_query (find_user i) d of
        (Inl e, d') \<Rightarrow> (Inl (ErrOther e), d')
      | (Inr None, d') \<Rightarrow> (Inl (ErrOther ''sql: no rows in result set''), d')
      | (Inr (Some r), d') \<Rightarrow> (Inr (u_token r), d'))"

text \<open>Assignment of one column; \<^term>\<open>None\<close> when there is no such column or the type is wrong.\<close>

definition set_column :: "string \<Rightarrow> sqlval \<Rightarrow> user_row \<Rightarrow> user_row option" where
  "set_column c v r =
     (case v of
        VText t \<Rightarrow>
          if c = ''name'' then Some (r\<lparr>u_name := t\<rparr>)
          else if c = ''token'' then Some (r\<lparr>u_token := t\<rparr>)
          else if c = ''webhook'' then Some (r\<lparr>u_webhook := t\<rparr>)
          else if c = ''events'' then Some (r\<lparr>u_events := t\<rparr>)
          else if c = ''proxy_url'' then Some (r\<lparr>u_proxy_url := Some t\<rparr>)
          else if c = ''s3_endpoint'' then Some (r\<lparr>u_s3_endpoint := Some t\<rparr>)
          else if c = ''s3_region'' then Some (r\<lparr>u_s3_region := Some t\<rparr>)
          else if c = ''s3_bucket'' then Some (r\<lparr>u_s3_bucket := Some t\<rparr>)
          else if c = ''s3_access_key'' then Some (r\<lparr>u_s3_access_key := Some t\<rparr>)
          else if c = ''s3_secret_key'' then Some (r\<lparr>u_s3_secret_key := Some t\<rparr>)
          else if c = ''s3_public_url'' then Some (r\<lparr>u_s3_public_url := Some t\<rparr>)
          else if c = ''media_delivery'' then Some (r\<lparr>u_media_delivery := Some t\<rparr>)
          else None
      | VInt n \<Rightarrow>
          if c = ''expiration'' then Some (r\<lparr>u_expiration := Some n\<rparr>)
          else if c = ''history'' then Some (r\<lparr>u_history := Some n\<rparr>)
          else if c = ''s3_retention_days'' then Some (r\<lparr>u_s3_retention_days := Some n\<rparr>)
          else None
      | VBool b \<Rightarrow>
          if c = ''s3_enabled'' then Some (r\<lparr>u_s3_enabled := Some b\<rparr>)
          else if c = ''s3_path_style'' then Some (r\<lparr>u_s3_path_style := Some b\<rparr>)
          else None)"

fun set_columns :: "UpdateField list \<Rightarrow> user_row \<Rightarrow> user_row option" where
  "set_columns [] r = Some r"
| "set_columns (f # fs) r =
     Option.bind (set_column (uf_Column f) (uf_Value f) r) (set_columns fs)"

text \<open>The statement text that \<^verbatim>\<open>Update\<close> builds.\<close>

fun update_assignments :: "nat \<Rightarrow> UpdateField list \<Rightarrow> string" where
  "update_assignments i [] = []"
| "update_assignments i (f # fs) =
     (if i > 0 then '', '' else []) @ uf_Column f @ '' = $'' @ Itoa (int (i + 1)) @
     update_assignments (i + 1) fs"

definition update_sql :: "UpdateField list \<Rightarrow> string" where
  "update_sql flds =
     ''UPDATE users SET '' @ update_assignments 0 flds @ '' WHERE id = $'' @
     Itoa (int (length flds) + 1)"

text \<open>
  \<^verbatim>\<open>Update\<close>: the server refuses a column named twice, an unknown column or a value of the wrong
  type; otherwise the row with the id, if there is one, gets the values.
\<close>

definition column_ok :: "UpdateField \<Rightarrow> bool" where
  "column_ok f =
     (case uf_Value f of
        VText _ \<Rightarrow> uf_Column f \<in> set [''name'', ''token'', ''webhook'', ''events'', ''proxy_url'',
          ''s3_endpoint'', ''s3_region'', ''s3_bucket'', ''s3_access_key'', ''s3_secret_key'',
          ''s3_public_url'', ''media_delivery'']
      | VInt _ \<Rightarrow> uf_Column f \<in> set [''expiration'', ''history'', ''s3_retention_days'']
      | VBool _ \<Rightarrow> uf_Column f \<in> set [''s3_enabled'', ''s3_path_style''])"

definition pgUpdate :: "string \<Rightarrow> UpdateField list \<Rightarrow> pg \<Rightarrow> (users_error + unit) \<times> pg" where
  "pgUpdate i flds d =
     (if length flds = 0 then (Inl (ErrOther ''no fields to update''), d)
      else lift_err (pg_exec (\<lambda>d.
        if \<not> distinct (map uf_Column flds) \<or> \<not> list_all column_ok flds
        then Inl ''pq: invalid assignment''
        else Inr ((), d\<lparr>users_tbl :=
               map (\<lambda>r. if u_id r = i then the (set_columns flds r) else r) (users_tbl d)\<rparr>)) d))"

text \<open>The row that \<^verbatim>\<open>insertSQL\<close> adds; \<^verbatim>\<open>connected\<close> is not among its columns.\<close>

definition inserted_row :: "CreateRow \<Rightarrow> user_row" where
  "inserted_row row =
     \<lparr>u_id = cr_ID row, u_name = cr_Name row, u_token = cr_Token row, u_webhook = cr_Webhook row,
      u_jid = [], u_qrcode = [], u_connected = None, u_expiration = Some (cr_Expiration row),
      u_events = cr_Events row, u_proxy_url = Some (cr_ProxyURL row),
      u_s3_enabled = Some (s3_Enabled (cr_S3 row)), u_s3_endpoint = Some (s3_Endpoint (cr_S3 row)),
      u_s3_region = Some (s3_Region (cr_S3 row)), u_s3_bucket = Some (s3_Bucket (cr_S3 row)),
      u_s3_access_key = Some (s3_AccessKey (cr_S3 row)),
      u_s3_secret_key = Some (s3_SecretKey (cr_S3 row)),
      u_s3_path_style = Some (s3_PathStyle (cr_S3 row)),
      u_s3_public_url = Some (s3_PublicURL (cr_S3 row)),
      u_media_delivery = Some (s3_MediaDelivery (cr_S3 row)),
      u_s3_retention_days = Some (s3_RetentionDays (cr_S3 row)),
      u_history = Some (cr_History row),
      u_hmac_key = (if cr_HMACKey row = [] then None else Some (cr_HMACKey row))\<rparr>"

definition pgCreate :: "CreateRow \<Rightarrow> pg \<Rightarrow> (users_error + unit) \<times> pg" where
  "pgCreate row d =
     lift_err (pg_exec (\<lambda>d.
       if \<exists>r \<in> set (users_tbl d). u_id r = cr_ID row
       then Inl ''pq: duplicate key value violates unique constraint''
       else Inr ((), d\<lparr>users_tbl := users_tbl d @ [inserted_row row]\<rparr>)) d)"

definition PostgresRepository :: "pg Repository" where
  "PostgresRepository =
     \<lparr>rp_List = pgList, rp_Get = pgGet, rp_Delete = pgDelete, rp_TokenExists = pgTokenExists,
      rp_Create = pgCreate, rp_ExistsByID = pgExistsByID, rp_GetToken = pgGetToken,
      rp_Update = pgUpdate\<rparr>"

section \<open>HTTP handler\<close>

definition proxy_json :: "ProxyConfig \<Rightarrow> json" where
  "proxy_json p = JObj [(''enabled'', JBool (pc_Enabled p)), (''proxy_url'', JStr (pc_ProxyURL p))]"

definition s3_json :: "S3Config \<Rightarrow> json" where
  "s3_json c =
     JObj [(''enabled'', JBool (s3_Enabled c)), (''endpoint'', JStr (s3_Endpoint c)),
           (''region'', JStr (s3_Region c)), (''bucket'', JStr (s3_Bucket c)),
           (''access_key'', JStr (s3_AccessKey c)), (''path_style'', JBool (s3_PathStyle c)),
           (''public_url'', JStr (s3_PublicURL c)), (''media_delivery'', JStr (s3_MediaDelivery c)),
           (''retention_days'', JNum (s3_RetentionDays c))]"

definition user_json :: "User \<Rightarrow> json" where
  "user_json u =
     JObj [(''id'', JStr (us_ID u)), (''name'', JStr (us_Name u)), (''token'', JStr (us_Token u)),
           (''webhook'', JStr (us_Webhook u)), (''jid'', JStr (us_JID u)),
           (''qrcode'', JStr (us_QRCode u)), (''connected'', JBool (us_Connected u)),
           (''loggedIn'', JBool (us_LoggedIn u)), (''expiration'', JNum (us_Expiration u)),
           (''proxy_url'', JStr (us_ProxyURL u)), (''events'', JStr (us_Events u)),
           (''proxy_config'', proxy_json (us_ProxyConfig u)), (''s3_config'', s3_json (us_S3Config u))]"

definition writeEnvelope :: "nat \<Rightarrow> json \<Rightarrow> writer \<Rightarrow> writer" where
  "writeEnvelope code data w =
     WriteBody (JObj [(''code'', JNum (int code)), (''data'', data), (''success'', JBool True)])
       (WriteHeader code w)"

definition writeEnvelopeWithMessage :: "nat \<Rightarrow> string \<Rightarrow> writer \<Rightarrow> writer" where
  "writeEnvelopeWithMessage code msg w =
     WriteBody (JObj [(''code'', JNum (int code)), (''message'', JStr msg), (''success'', JBool True)])
       (WriteHeader code w)"

definition writeError :: "nat \<Rightarrow> string \<Rightarrow> writer \<Rightarrow> writer" where
  "writeError code msg w =
     WriteBody (JObj [(''code'', JNum (int code)), (''error'', JStr msg), (''success'', JBool False)])
       (WriteHeader code w)"

record createPayload =
  cp_Name :: string
  cp_Token :: string
  cp_Webhook :: string
  cp_Expiration :: int
  cp_Events :: string
  cp_ProxyConfig :: "ProxyConfig option"
  cp_S3Config :: "S3Config option"
  cp_HMACKey :: string
  cp_History :: int

record updatePayload =
  up_Name :: string
  up_Token :: string
  up_Webhook :: string
  up_Expiration :: int
  up_Events :: string
  up_History :: int
  up_ProxyConfig :: "ProxyConfig option"
  up_S3Config :: "S3Config option"

text \<open>
  A request: the method, the path variable \<^verbatim>\<open>id\<close> of gorilla/mux, and the body decoded into either
  payload type (\<^term>\<open>None\<close> when \<^verbatim>\<open>json.Decode\<close> returns an error).
\<close>

record admin_request =
  rq_Method :: string
  rq_id :: "string option"
  rq_create :: "createPayload option"
  rq_update :: "updatePayload option"

definition zero_proxy :: ProxyConfig where
  "zero_proxy = \<lparr>pc_Enabled = False, pc_ProxyURL = []\<rparr>"

definition zero_s3 :: S3Config where
  "zero_s3 = \<lparr>s3_Enabled = False, s3_Endpoint = [], s3_Region = [], s3_Bucket = [], s3_AccessKey = [],
     s3_SecretKey = [], s3_PathStyle = False, s3_PublicURL = [], s3_MediaDelivery = [], s3_RetentionDays = 0\<rparr>"

definition create_input :: "createPayload \<Rightarrow> CreateUserInput" where
  "create_input p =
     \<lparr>ci_Name = cp_Name p, ci_Token = cp_Token p, ci_Webhook = cp_Webhook p,
      ci_Expiration = cp_Expiration p, ci_Events = cp_Events p,
      ci_ProxyConfig = coalesce (cp_ProxyConfig p) zero_proxy,
      ci_S3Config = coalesce (cp_S3Config p) zero_s3, ci_HMACKey = cp_HMACKey p,
      ci_History = cp_History p\<rparr>"

definition update_input :: "updatePayload \<Rightarrow> UpdateInput" where
  "update_input p =
     \<lparr>ui_Name = up_Name p, ui_Token = up_Token p, ui_Webhook = up_Webhook p,
      ui_Expiration = up_Expiration p, ui_Events = up_Events p, ui_History = up_History p,
      ui_ProxyConfig = up_ProxyConfig p, ui_S3Config = up_S3Config p\<rparr>"

definition error_text :: "users_error \<Rightarrow> string" where
  "error_text e =
     (case e of ErrNotFound \<Rightarrow> ''user not found''
      | ErrTokenExists \<Rightarrow> ''user with this token already exists''
      | ErrInvalidEvent ev \<Rightarrow> ''invalid event type: '' @ ev
      | ErrHMACKeyTooShort \<Rightarrow> ''hmac key must be at least 32 characters long''
      | ErrNoFields \<Rightarrow> ''no fields to update''
      | ErrOther m \<Rightarrow> m)"

definition handleCreate :: "'st Service \<Rightarrow> admin_request \<Rightarrow> 'st \<times> writer \<Rightarrow> 'st \<times> writer" where
  "handleCreate svc r = (\<lambda>(st, w).
     case rq_create r of
       None \<Rightarrow> (st, writeError 400 ''invalid request payload'' w)
     | Some p \<Rightarrow>
         (case Service_Create svc (create_input p) st of
            (Inr user, st') \<Rightarrow> (st', writeEnvelope 201 (user_json user) w)
          | (Inl e, st') \<Rightarrow>
              (st', case e of
                 ErrTokenExists \<Rightarrow> writeError 409 ''user with this token already exists'' w
               | ErrInvalidEvent _ \<Rightarrow> writeError 400 (error_text e) w
               | ErrHMACKeyTooShort \<Rightarrow> writeError 400 ''HMAC key must be at least 32 characters long'' w
               | _ \<Rightarrow> writeError 500 ''database error'' w)))"

definition handleUpdate :: "'st Service \<Rightarrow> admin_request \<Rightarrow> 'st \<times> writer \<Rightarrow> 'st \<times> writer" where
  "handleUpdate svc r = (\<lambda>(st, w).
     case rq_id r of
       None \<Rightarrow> (st, writeError 400 ''missing id'' w)
     | Some i \<Rightarrow>
     (case rq_update r of
        None \<Rightarrow> (st, writeError 400 ''invalid request payload'' w)
      | Some p \<Rightarrow>
         (case Service_Update svc i (update_input p) st of
            (Inr _, st') \<Rightarrow> (st', writeEnvelopeWithMessage 200 ''user updated successfully'' w)
          | (Inl e, st') \<Rightarrow>
              (st', case e of
                 ErrNotFound \<Rightarrow> writeError 404 ''user not found'' w
               | ErrInvalidEvent _ \<Rightarrow> writeError 400 (error_text e) w
               | ErrNoFields \<Rightarrow> writeError 400 ''no fields to update'' w
               | _ \<Rightarrow> writeError 500 ''database error'' w))))"

definition handleDelete :: "'st Service \<Rightarrow> admin_request \<Rightarrow> 'st \<times> writer \<Rightarrow> 'st \<times> writer" where
  "handleDelete svc r = (\<lambda>(st, w).
     case rq_id r of
       None \<Rightarrow> (st, writeError 400 ''missing id'' w)
     | Some i \<Rightarrow>
         (case Service_Delete svc i st of
            (Inr _, st') \<Rightarrow> (st', writeEnvelope 200 (JObj [(''id'', JStr i)]) w)
          | (Inl e, st') \<Rightarrow>
              (st', case e of
                 ErrNotFound \<Rightarrow> writeError 404 ''user not found'' w
               | _ \<Rightarrow> writeError 500 ''database error'' w)))"

definition users_ServeHTTP :: "'st Service \<Rightarrow> admin_request \<Rightarrow> 'st \<times> writer \<Rightarrow> 'st \<times> writer" where
  "users_ServeHTTP svc r = (\<lambda>(st, w0).
     let w = SetHeader ''Content-Type'' ''application/json'' w0 in
     if rq_Method r = ''POST'' then handleCreate svc r (st, w)
     else if rq_Method r = ''PUT'' then handleUpdate svc r (st, w)
     else if rq_Method r = ''DELETE'' then handleDelete svc r (st, w)
     else
       (case rq_id r of
          Some i \<Rightarrow>
            (case Service_Get svc i st of
               (Inr user, st') \<Rightarrow> (st', writeEnvelope 200 (user_json user) w)
             | (Inl e, st') \<Rightarrow>
                 (st', if e = ErrNotFound then writeError 404 ''user not found'' w
                       else writeError 500 ''problem accessing DB'' w))
        | None \<Rightarrow>
            (case Service_List svc st of
               (Inr us, st') \<Rightarrow> (st', writeEnvelope 200 (JArr (map user_json us)) w)
             | (Inl e, st') \<Rightarrow> (st', writeError 500 ''problem accessing DB'' w))))"

end
