(* ===== verification/S3.thy ===== *)
theory S3
  imports Users
begin

text \<open>
  Media storage: the \<^verbatim>\<open>S3Manager\<close> of \<^verbatim>\<open>cmd/api/s3manager.go\<close>, \<^verbatim>\<open>ProcessOutgoingMedia\<close> of
  \<^verbatim>\<open>cmd/api/helpers.go\<close> and the media path of incoming messages, \<^verbatim>\<open>processMedia\<close> of
  \<^verbatim>\<open>cmd/api/media.go\<close>. The object store is an argument: what it answers to a put, a listing and a
  batch delete. A client is determined by the configuration it was built from.
\<close>

section \<open>The manager\<close>

record S3Manager =
  sm_hasDB :: bool
  sm_clients :: "(string, S3Config) gomap"
  sm_configs :: "(string, S3Config) gomap"

definition new_S3Manager :: S3Manager where
  "new_S3Manager = \<lparr>sm_hasDB = False, sm_clients = [], sm_configs = []\<rparr>"

definition SetDB :: "S3Manager \<Rightarrow> S3Manager" where
  "SetDB m = m\<lparr>sm_hasDB := True\<rparr>"

definition RemoveClient :: "string \<Rightarrow> S3Manager \<Rightarrow> S3Manager" where
  "RemoveClient userID m =
     m\<lparr>sm_clients := AList.delete userID (sm_clients m), sm_configs := AList.delete userID (sm_configs m)\<rparr>"

text \<open>\<^verbatim>\<open>InitializeS3Client\<close> never returns an error.\<close>

definition InitializeS3Client :: "string \<Rightarrow> S3Config \<Rightarrow> S3Manager \<Rightarrow> S3Manager" where
  "InitializeS3Client userID config m =
     (if \<not> s3_Enabled config then RemoveClient userID m
      else m\<lparr>sm_clients := AList.update userID config (sm_clients m),
             sm_configs := AList.update userID config (sm_configs m)\<rparr>)"

definition GetClient :: "string \<Rightarrow> S3Manager \<Rightarrow> (S3Config \<times> S3Config) option" where
  "GetClient userID m =
     (case (map_of (sm_clients m) userID, map_of (sm_configs m) userID) of
        (Some client, Some config) \<Rightarrow> Some (client, config)
      | _ \<Rightarrow> None)"

text \<open>The row of \<^verbatim>\<open>EnsureClientFromDB\<close>; scanning a NULL into one of the plain fields is an error.\<close>

definition s3_config_row :: "user_row \<Rightarrow> S3Config option" where
  "s3_config_row r =
     (case (u_s3_enabled r, u_s3_endpoint r, u_s3_region r, u_s3_bucket r, u_s3_access_key r, u_s3_secret_key r,
            u_s3_path_style r, u_s3_public_url r) of
        (Some en, Some ep, Some rg, Some bk, Some ak, Some sk, Some ps, Some pu) \<Rightarrow>
          Some \<lparr>s3_Enabled = en, s3_Endpoint = ep, s3_Region = rg, s3_Bucket = bk, s3_AccessKey = ak,
                s3_SecretKey = sk, s3_PathStyle = ps, s3_PublicURL = pu,
                s3_MediaDelivery = coalesce (u_media_delivery r) ''base64'',
                s3_RetentionDays = coalesce (u_s3_retention_days r) 30\<rparr>
      | _ \<Rightarrow> None)"

definition EnsureClientFromDB :: "string \<Rightarrow> S3Manager \<Rightarrow> pg \<Rightarrow> bool \<times> S3Manager \<times> pg" where
  "EnsureClientFromDB userID m d =
     (if GetClient userID m \<noteq> None then (True, m, d)
      else if \<not> sm_hasDB m then (False, m, d)
      else (case pg_query (\<lambda>d. Option.bind (find_user userID d) s3_config_row) d of
              (Inr (Some config), d') \<Rightarrow>
                if \<not> s3_Enabled config then (False, m, d')
                else (True, InitializeS3Client userID config m, d')
            | (_, d') \<Rightarrow> (False, m, d')))"

section \<open>Object keys and URLs\<close>

text \<open>The part of a local time that the layouts of \<^verbatim>\<open>GenerateS3Key\<close> read, and the instant.\<close>

record clock =
  ck_year :: int
  ck_month :: nat
  ck_day :: nat
  ck_second :: nat
  ck_unixNano :: int

definition pad2 :: "nat \<Rightarrow> string" where
  "pad2 n = (if n < 10 then ''0'' else []) @ nat_digits n"

text \<open>
  \<^verbatim>\<open>Format("2025")\<close>, \<^verbatim>\<open>Format("05")\<close> and \<^verbatim>\<open>Format("25")\<close> by Go's layout rules: \<^verbatim>\<open>2\<close> is the day of the month,
  \<^verbatim>\<open>02\<close> the day with two digits, \<^verbatim>\<open>5\<close> the second and \<^verbatim>\<open>05\<close> the second with two digits.
\<close>

definition Format_2025 :: "clock \<Rightarrow> string" where
  "Format_2025 t = nat_digits (ck_day t) @ pad2 (ck_day t) @ nat_digits (ck_second t)"

definition Format_05 :: "clock \<Rightarrow> string" where
  "Format_05 t = pad2 (ck_second t)"

definition Format_25 :: "clock \<Rightarrow> string" where
  "Format_25 t = nat_digits (ck_day t) @ nat_digits (ck_second t)"

definition media_type :: "string \<Rightarrow> string" where
  "media_type mimeType =
     (if HasPrefix mimeType ''image/'' then ''images''
      else if HasPrefix mimeType ''video/'' then ''videos''
      else if HasPrefix mimeType ''audio/'' then ''audio'' else ''documents'')"

definition media_ext :: "string \<Rightarrow> string" where
  "media_ext mimeType =
     (if Contains mimeType ''jpeg'' \<or> Contains mimeType ''jpg'' then ''.jpg''
      else if Contains mimeType ''png'' then ''.png''
      else if Contains mimeType ''gif'' then ''.gif''
      else if Contains mimeType ''webp'' then ''.webp''
      else if Contains mimeType ''mp4'' then ''.mp4''
      else if Contains mimeType ''webm'' then ''.webm''
      else if Contains mimeType ''ogg'' then ''.ogg''
      else if Contains mimeType ''opus'' then ''.opus''
      else if Contains mimeType ''pdf'' then ''.pdf''
      else if Contains mimeType ''spreadsheetml'' then ''.xlsx''
      else if Contains mimeType ''excel'' then ''.xls''
      else if Contains mimeType ''doc'' then (if Contains mimeType ''docx'' then ''.docx'' else ''.doc'')
      else ''.bin'')"

definition GenerateS3Key :: "clock \<Rightarrow> string \<Rightarrow> string \<Rightarrow> string \<Rightarrow> string \<Rightarrow> bool \<Rightarrow> string" where
  "GenerateS3Key now userID contactJID messageID mimeType isIncoming =
     (let direction = (if isIncoming then ''inbox'' else ''outbox'');
          contact = ReplaceAll (ReplaceAll contactJID CHR ''@'' CHR ''_'') CHR '':'' CHR ''_''
      in ''users/'' @ userID @ ''/'' @ direction @ ''/'' @ contact @ ''/'' @ Format_2025 now @ ''/'' @
         Format_05 now @ ''/'' @ Format_25 now @ ''/'' @ media_type mimeType @ ''/'' @ messageID @ media_ext mimeType)"

definition GetPublicURL :: "string \<Rightarrow> string \<Rightarrow> S3Manager \<Rightarrow> string" where
  "GetPublicURL userID key m =
     (case GetClient userID m of
        None \<Rightarrow> []
      | Some (_, config) \<Rightarrow>
          if s3_PublicURL config \<noteq> [] then
            TrimRight (s3_PublicURL config) CHR ''/'' @ ''/'' @ s3_Bucket config @ ''/'' @ key
          else if s3_PathStyle config then
            TrimRight (s3_Endpoint config) CHR ''/'' @ ''/'' @ s3_Bucket config @ ''/'' @ key
          else if Contains (s3_Endpoint config) ''amazonaws.com'' then
            ''https://'' @ s3_Bucket config @ ''.s3.'' @ s3_Region config @ ''.amazonaws.com/'' @ key
          else
            ''https://'' @ s3_Bucket config @ ''.'' @
            TrimPrefix (TrimPrefix (s3_Endpoint config) ''https://'') ''http://'' @ ''/'' @ key)"

section \<open>Uploading\<close>

record put_input =
  pi_Bucket :: string
  pi_Key :: string
  pi_Body :: bytes
  pi_ContentType :: string
  pi_Expires :: "int option"
  pi_Inline :: bool

text \<open>The object store: the error of a put, listing pages and the error of a batch delete. The first
  argument of the last two counts the calls.\<close>

record s3_page =
  pg_Contents :: "string list"
  pg_IsTruncated :: "bool option"
  pg_NextContinuationToken :: "string option"

record s3_store =
  st_put :: "S3Config \<Rightarrow> put_input \<Rightarrow> string option"
  st_list :: "S3Config \<Rightarrow> string \<Rightarrow> string \<Rightarrow> nat \<Rightarrow> string option \<Rightarrow> string + s3_page"
  st_delete :: "S3Config \<Rightarrow> string \<Rightarrow> nat \<Rightarrow> string list \<Rightarrow> string option"

definition put_of :: "clock \<Rightarrow> S3Config \<Rightarrow> string \<Rightarrow> bytes \<Rightarrow> string \<Rightarrow> put_input" where
  "put_of now config key data mimeType =
     \<lparr>pi_Bucket = s3_Bucket config, pi_Key = key, pi_Body = data,
      pi_ContentType = (if mimeType = [] then ''application/octet-stream'' else mimeType),
      pi_Expires =
        (if s3_RetentionDays config > 0
         then Some (ck_unixNano now +
                sint (word_of_int (s3_RetentionDays config) * 24 * 3600000000000 :: 64 word))
         else None),
      pi_Inline = (HasPrefix mimeType ''image/'' \<or> HasPrefix mimeType ''video/'' \<or> mimeType = ''application/pdf'')\<rparr>"

text \<open>The put that was made is returned with the error, if any.\<close>

definition UploadToS3 ::
    "s3_store \<Rightarrow> clock \<Rightarrow> string \<Rightarrow> string \<Rightarrow> bytes \<Rightarrow> string \<Rightarrow> S3Manager \<Rightarrow> pg \<Rightarrow>
     (string + put_input) \<times> S3Manager \<times> pg" where
  "UploadToS3 st now userID key data mimeType m d =
     (let (cl, m1, d1) =
            (case GetClient userID m of
               Some cc \<Rightarrow> (Some cc, m, d)
             | None \<Rightarrow>
                 (let (ok, m1, d1) = EnsureClientFromDB userID m d
                  in (if ok then GetClient userID m1 else None, m1, d1)))
      in case cl of
           None \<Rightarrow> (Inl (''S3 client not initialized for user '' @ userID), m1, d1)
         | Some (client, config) \<Rightarrow>
             (let inp = put_of now config key data mimeType
              in case st_put st client inp of
                   Some e \<Rightarrow> (Inl (''failed to upload to S3: '' @ e), m1, d1)
                 | None \<Rightarrow> (Inr inp, m1, d1)))"

definition TestConnection :: "s3_store \<Rightarrow> string \<Rightarrow> S3Manager \<Rightarrow> string option" where
  "TestConnection st userID m =
     (case GetClient userID m of
        None \<Rightarrow> Some (''S3 client not initialized for user '' @ userID)
      | Some (client, config) \<Rightarrow>
          (case st_list st client (s3_Bucket config) [] 0 None of Inl e \<Rightarrow> Some e | Inr _ \<Rightarrow> None))"

text \<open>\<^verbatim>\<open>ProcessMediaForS3\<close>; \<^term>\<open>None\<close> is the nil dereference of \<^verbatim>\<open>m.configs[userID].Bucket\<close>.\<close>

definition ProcessMediaForS3 ::
    "s3_store \<Rightarrow> clock \<Rightarrow> string \<Rightarrow> string \<Rightarrow> string \<Rightarrow> bytes \<Rightarrow> string \<Rightarrow> string \<Rightarrow> bool \<Rightarrow> S3Manager \<Rightarrow> pg \<Rightarrow>
     (string + json) option \<times> S3Manager \<times> pg" where
  "ProcessMediaForS3 st now userID contactJID messageID data mimeType fileName isIncoming m d =
     (let key = GenerateS3Key now userID contactJID messageID mimeType isIncoming
      in case UploadToS3 st now userID key data mimeType m d of
           (Inl e, m', d') \<Rightarrow> (Some (Inl (''failed to upload to S3: '' @ e)), m', d')
         | (Inr _, m', d') \<Rightarrow>
             (let publicURL = GetPublicURL userID key m'
              in (map_option (\<lambda>config. Inr (JObj
                    [(''url'', JStr publicURL), (''key'', JStr key), (''bucket'', JStr (s3_Bucket config)),
                     (''size'', JNum (int (length data))), (''mimeType'', JStr mimeType), (''fileName'', JStr fileName)]))
                    (map_of (sm_configs m') userID), m', d')))"

text \<open>\<^verbatim>\<open>ProcessOutgoingMedia\<close>: the upload data, or nil; it never returns an error. The outer \<^term>\<open>None\<close> is a
  panic of the upload.\<close>

definition ProcessOutgoingMedia ::
    "s3_store \<Rightarrow> clock \<Rightarrow> string \<Rightarrow> string \<Rightarrow> string \<Rightarrow> bytes \<Rightarrow> string \<Rightarrow> string \<Rightarrow> S3Manager \<Rightarrow> pg \<Rightarrow>
     json option option \<times> S3Manager \<times> pg" where
  "ProcessOutgoingMedia st now userID contactJID messageID data mimeType fileName m d =
     (let (cfg, d1) =
            (case pg_query (find_user userID) d of
               (Inr (Some r), d1) \<Rightarrow>
                 ((case (u_s3_enabled r, u_media_delivery r) of
                     (Some en, Some md) \<Rightarrow> (en, md)
                   | _ \<Rightarrow> (False, ''base64'')), d1)
             | (_, d1) \<Rightarrow> ((False, ''base64''), d1))
      in if fst cfg \<and> (snd cfg = ''s3'' \<or> snd cfg = ''both'') then
           (let (_, m1, d2) = EnsureClientFromDB userID m d1
            in case ProcessMediaForS3 st now userID contactJID messageID data mimeType fileName False m1 d2 of
                 (None, m2, d3) \<Rightarrow> (None, m2, d3)
               | (Some (Inl e), m2, d3) \<Rightarrow> (Some None, m2, d3)
               | (Some (Inr s3Data), m2, d3) \<Rightarrow> (Some (Some s3Data), m2, d3))
         else (Some None, m, d1))"

section \<open>Deleting a user's objects\<close>

text \<open>
  The inner loop over one page: keys are collected and deleted whenever there are 1000. The
  result has the keys left over and the batches sent so far; \<^term>\<open>Inl\<close> is a failed delete.
\<close>

fun batch_loop :: "(nat \<Rightarrow> string list \<Rightarrow> string option) \<Rightarrow> string list \<Rightarrow> string list \<Rightarrow> string list list \<Rightarrow>
    (string \<times> string list list) + (string list \<times> string list list)" where
  "batch_loop del [] toDelete batches = Inr (toDelete, batches)"
| "batch_loop del (k # ks) toDelete batches =
     (let td = toDelete @ [k]
      in if length td = 1000 then
           (case del (length batches) td of
              Some e \<Rightarrow> Inl (e, batches @ [td])
            | None \<Rightarrow> batch_loop del ks [] (batches @ [td]))
         else batch_loop del ks td batches)"

text \<open>
  The outer loop over the pages. Whether it ends depends on the store: an endless chain of
  continuation tokens is an endless loop, the value \<^term>\<open>None\<close>.
\<close>

partial_function (option) delete_loop ::
    "(nat \<Rightarrow> string option \<Rightarrow> string + s3_page) \<Rightarrow> (nat \<Rightarrow> string list \<Rightarrow> string option) \<Rightarrow> nat \<Rightarrow> string option \<Rightarrow>
     string list \<Rightarrow> string list list \<Rightarrow> (string option \<times> string list list) option" where
  "delete_loop lst del n token toDelete batches =
     (case lst n token of
        Inl e \<Rightarrow> Some (Some e, batches)
      | Inr page \<Rightarrow>
          (case batch_loop del (pg_Contents page) toDelete batches of
             Inl (e, bs) \<Rightarrow> Some (Some e, bs)
           | Inr (td, bs) \<Rightarrow>
               if pg_IsTruncated page = Some True \<and> pg_NextContinuationToken page \<noteq> None
               then delete_loop lst del (Suc n) (pg_NextContinuationToken page) td bs
               else if length td > 0 then Some (del (length bs) td, bs @ [td])
               else Some (None, bs)))"

declare delete_loop.simps [code]

definition DeleteAllUserObjects ::
    "s3_store \<Rightarrow> string \<Rightarrow> S3Manager \<Rightarrow> (string option \<times> string list list) option" where
  "DeleteAllUserObjects st userID m =
     (case GetClient userID m of
        None \<Rightarrow> Some (Some (''S3 client not initialized for user '' @ userID), [])
      | Some (client, config) \<Rightarrow>
          delete_loop (st_list st client (s3_Bucket config) (''users/'' @ userID @ ''/''))
            (st_delete st client (s3_Bucket config)) 0 None [] [])"

section \<open>Media of incoming messages\<close>

text \<open>\<open>me_join\<close> is \<^verbatim>\<open>filepath.Join\<close> and \<open>me_base\<close> is \<^verbatim>\<open>filepath.Base\<close>; the file operations give their error, if
  any.\<close>

record media_env =
  me_join :: "string \<Rightarrow> string \<Rightarrow> string"
  me_base :: "string \<Rightarrow> string"
  me_mkdir :: "string \<Rightarrow> string option"
  me_download :: "string + bytes"
  me_extensions :: "string \<Rightarrow> string list"
  me_write :: "string \<Rightarrow> string option"
  me_read :: "string \<Rightarrow> string option"
  me_remove :: "string \<Rightarrow> string option"
  me_base64 :: "bytes \<Rightarrow> string"
  me_detect :: "bytes \<Rightarrow> string"

record mediaS3Config =
  ms_Enabled :: string
  ms_MediaDelivery :: string

type_synonym file_system = "(string, bytes) gomap"

definition remove_file :: "media_env \<Rightarrow> string \<Rightarrow> file_system \<Rightarrow> file_system" where
  "remove_file env p fs = (case me_remove env p of Some _ \<Rightarrow> fs | None \<Rightarrow> AList.delete p fs)"

text \<open>\<^verbatim>\<open>fileToBase64\<close>.\<close>

definition fileToBase64 :: "media_env \<Rightarrow> string \<Rightarrow> file_system \<Rightarrow> string + (string \<times> string)" where
  "fileToBase64 env p fs =
     (case me_read env p of
        Some e \<Rightarrow> Inl e
      | None \<Rightarrow>
          (case map_of fs p of
             None \<Rightarrow> Inl ''no such file or directory''
           | Some data \<Rightarrow> Inr (me_base64 env data, me_detect env data)))"

definition set_all :: "(string \<times> 'v) list \<Rightarrow> (string, 'v) gomap \<Rightarrow> (string, 'v) gomap" where
  "set_all kvs m = fold (\<lambda>(k, v). AList.update k v) kvs m"

text \<open>
  \<^verbatim>\<open>processMedia\<close>: the new \<^verbatim>\<open>postmap\<close>, the files and the manager. The deferred removal of the temporary
  file is the last step of every path behind the write. The first component is \<^term>\<open>None\<close> on a panic.
\<close>

definition processMedia ::
    "media_env \<Rightarrow> s3_store \<Rightarrow> clock \<Rightarrow> string \<Rightarrow> string \<Rightarrow> string \<Rightarrow> bool \<Rightarrow> string \<Rightarrow> string \<Rightarrow> mediaS3Config \<Rightarrow>
     (string, json) gomap \<Rightarrow> (string \<times> json) list \<Rightarrow> file_system \<Rightarrow> S3Manager \<Rightarrow> pg \<Rightarrow>
     (string, json) gomap option \<times> file_system \<times> S3Manager \<times> pg" where
  "processMedia env st now userID mimeType fallbackExt isIncoming chatJID messageID s3cfg postmap extraKeys fs m d =
     (let tmpDir = me_join env ''/tmp'' (''user_'' @ userID)
      in if me_mkdir env tmpDir \<noteq> None then (Some postmap, fs, m, d)
         else
      (case me_download env of
         Inl e \<Rightarrow> (Some postmap, fs, m, d)
       | Inr data \<Rightarrow>
      (let ext = (case me_extensions env mimeType of [] \<Rightarrow> fallbackExt | e # _ \<Rightarrow> e);
           tmpPath = me_join env tmpDir (messageID @ ext);
           base = me_base env tmpPath
       in if me_write env tmpPath \<noteq> None then (Some postmap, fs, m, d)
          else
      (let fs1 = AList.update tmpPath data fs;
           (up, m1, d1) =
             (if ms_Enabled s3cfg = ''true'' \<and> (ms_MediaDelivery s3cfg = ''s3'' \<or> ms_MediaDelivery s3cfg = ''both'')
              then (case ProcessMediaForS3 st now userID chatJID messageID data mimeType base isIncoming m d of
                      (None, m1, d1) \<Rightarrow> (None, m1, d1)
                    | (Some (Inl e), m1, d1) \<Rightarrow> (Some postmap, m1, d1)
                    | (Some (Inr s3Data), m1, d1) \<Rightarrow> (Some (AList.update ''s3'' s3Data postmap), m1, d1))
              else (Some postmap, m, d))
       in case up of
            None \<Rightarrow> (None, remove_file env tmpPath fs1, m1, d1)
          | Some pm \<Rightarrow>
              if ms_MediaDelivery s3cfg = ''base64'' \<or> ms_MediaDelivery s3cfg = ''both'' then
                (case fileToBase64 env tmpPath fs1 of
                   Inl e \<Rightarrow> (Some pm, remove_file env tmpPath fs1, m1, d1)
                 | Inr (b64, mime) \<Rightarrow>
                     (Some (set_all extraKeys
                        (set_all [(''base64'', JStr b64), (''mimeType'', JStr mime), (''fileName'', JStr base)] pm)),
                      remove_file env tmpPath fs1, m1, d1))
              else (Some (set_all extraKeys pm), remove_file env tmpPath fs1, m1, d1)))))"

end
