(* ===== verification/S3_Props.thy ===== *)
theory S3_Props
  imports S3
begin

text \<open>
  The S3 manager keeps its two maps together, an upload never dereferences a missing configuration,
  object keys separate the users, deleting a user's objects covers everything that was listed in
  batches of at most 1000, and the temporary files of incoming media do not stay behind.
\<close>

section \<open>The two maps of the manager\<close>

definition s3_wf :: "S3Manager \<Rightarrow> bool" where
  "s3_wf m \<longleftrightarrow> (\<forall>u. map_of (sm_clients m) u = map_of (sm_configs m) u) \<and>
     (\<forall>u c. map_of (sm_configs m) u = Some c \<longrightarrow> s3_Enabled c)"

lemma s3_wf_new: "s3_wf new_S3Manager"
  by (simp add: s3_wf_def new_S3Manager_def)

lemma s3_wf_SetDB: "s3_wf (SetDB m) = s3_wf m"
  by (simp add: s3_wf_def SetDB_def)

lemma s3_wf_RemoveClient: "s3_wf m \<Longrightarrow> s3_wf (RemoveClient u m)"
  by (simp add: s3_wf_def RemoveClient_def gomap_simps)

lemma s3_wf_put:
  "s3_wf m \<Longrightarrow> s3_Enabled c \<Longrightarrow>
   s3_wf (m\<lparr>sm_clients := AList.update u c (sm_clients m), sm_configs := AList.update u c (sm_configs m)\<rparr>)"
  by (simp add: s3_wf_def gomap_simps)

lemma s3_wf_Initialize: "s3_wf m \<Longrightarrow> s3_wf (InitializeS3Client u c m)"
  by (simp add: InitializeS3Client_def s3_wf_put s3_wf_RemoveClient)

lemma GetClient_wf:
  "s3_wf m \<Longrightarrow> GetClient u m = map_option (\<lambda>c. (c, c)) (map_of (sm_configs m) u)"
  by (simp add: GetClient_def s3_wf_def split: option.split)

lemma Ensure_wf:
  assumes "s3_wf m" "EnsureClientFromDB u m d = (ok, m', d')"
  shows "s3_wf m'" "ok \<longleftrightarrow> map_of (sm_configs m') u \<noteq> None"
    "\<And>v. v \<noteq> u \<Longrightarrow> map_of (sm_configs m') v = map_of (sm_configs m) v"
proof -
  have "s3_wf m' \<and> (ok \<longleftrightarrow> map_of (sm_configs m') u \<noteq> None) \<and>
      (\<forall>v. v \<noteq> u \<longrightarrow> map_of (sm_configs m') v = map_of (sm_configs m) v)"
    using assms unfolding EnsureClientFromDB_def
    by (auto simp: GetClient_wf s3_wf_put InitializeS3Client_def gomap_simps
        split: if_splits sum.splits option.splits prod.splits)
  then show "s3_wf m'" "ok \<longleftrightarrow> map_of (sm_configs m') u \<noteq> None"
    "\<And>v. v \<noteq> u \<Longrightarrow> map_of (sm_configs m') v = map_of (sm_configs m) v" by blast+
qed

lemma Upload_wf:
  assumes "s3_wf m" "UploadToS3 st now u key data mime m d = (r, m', d')"
  shows "s3_wf m'" "\<And>inp. r = Inr inp \<Longrightarrow> \<exists>c. map_of (sm_configs m') u = Some c \<and>
    inp = put_of now c key data mime \<and> st_put st c inp = None"
proof -
  obtain ok m1 d1 where e: "EnsureClientFromDB u m d = (ok, m1, d1)" by (cases "EnsureClientFromDB u m d")
  have "s3_wf m' \<and> (\<forall>inp. r = Inr inp \<longrightarrow> (\<exists>c. map_of (sm_configs m') u = Some c \<and>
      inp = put_of now c key data mime \<and> st_put st c inp = None))"
  proof (cases "map_of (sm_configs m) u")
    case (Some c)
    with assms show ?thesis
      by (auto simp: UploadToS3_def GetClient_wf Let_def split: option.splits)
  next
    case None
    with assms Ensure_wf [OF assms(1) e] show ?thesis
      by (auto simp: UploadToS3_def GetClient_wf [OF assms(1)] GetClient_wf [of m1] e Let_def split: option.splits if_splits)
  qed
  then show "s3_wf m'" "\<And>inp. r = Inr inp \<Longrightarrow> \<exists>c. map_of (sm_configs m') u = Some c \<and>
    inp = put_of now c key data mime \<and> st_put st c inp = None" by blast+
qed

section \<open>Keys\<close>

lemma key_split:
  "''users/'' @ u @ ''/'' @ x = ''users/'' @ v @ ''/'' @ y \<Longrightarrow> CHR ''/'' \<notin> set u \<Longrightarrow> CHR ''/'' \<notin> set v \<Longrightarrow> u = v"
proof (induction u arbitrary: v)
  case Nil
  then show ?case by (cases v) auto
next
  case (Cons c u)
  then show ?case by (cases v) auto
qed

section \<open>Batches\<close>

function chunked :: "'a list \<Rightarrow> 'a list list" where
  "chunked xs = (if xs = [] then [] else take 1000 xs # chunked (drop 1000 xs))"
  by pat_completeness auto
termination
  by (relation "measure length") auto

declare chunked.simps [simp del]

lemma concat_chunked: "concat (chunked xs) = xs"
  by (induction xs rule: chunked.induct) (subst chunked.simps, auto)

lemma chunked_sizes: "list_all (\<lambda>b. b \<noteq> [] \<and> length b \<le> 1000) (chunked xs)"
proof (induction xs rule: chunked.induct)
  case (1 xs)
  then show ?case by (subst chunked.simps) (cases xs, auto)
qed

lemma chunked_short: "length xs < 1000 \<Longrightarrow> chunked xs = (if xs = [] then [] else [xs])"
  by (subst chunked.simps) (simp add: chunked.simps [of "[]"])

lemma chunked_full: "length b = 1000 \<Longrightarrow> chunked (b @ xs) = b # chunked xs"
  by (subst chunked.simps) auto

lemma batch_loop_chunks:
  assumes "del = (\<lambda>_ _. None)" "length td < 1000"
  shows "\<exists>td' new. batch_loop del ks td bs = Inr (td', bs @ new) \<and> length td' < 1000 \<and>
    (\<forall>rest. chunked (td @ ks @ rest) = new @ chunked (td' @ rest))"
  using assms(2)
proof (induction ks arbitrary: td bs)
  case Nil
  then show ?case by auto
next
  case (Cons k ks)
  show ?case
  proof (cases "length (td @ [k]) = 1000")
    case True
    from Cons.IH [of "[]" "bs @ [td @ [k]]"] obtain td' new where
      "batch_loop del ks [] (bs @ [td @ [k]]) = Inr (td', (bs @ [td @ [k]]) @ new)" "length td' < 1000"
      "\<forall>rest. chunked ([] @ ks @ rest) = new @ chunked (td' @ rest)" by auto
    with True assms(1) show ?thesis
      using chunked_full [OF True]
      by (intro exI [of _ td'] exI [of _ "(td @ [k]) # new"]) (simp add: Let_def)
  next
    case False
    with Cons.prems have "length (td @ [k]) < 1000" by simp
    from Cons.IH [OF this, of bs] False show ?thesis by (simp add: Let_def)
  qed
qed

text \<open>A listing that ends: the pages the store returns for the chain of continuation tokens.\<close>

fun listing :: "(nat \<Rightarrow> string option \<Rightarrow> string + s3_page) \<Rightarrow> nat \<Rightarrow> string option \<Rightarrow> s3_page list \<Rightarrow> bool" where
  "listing lst n token [] = False"
| "listing lst n token (p # ps) =
     (lst n token = Inr p \<and>
      (if pg_IsTruncated p = Some True \<and> pg_NextContinuationToken p \<noteq> None
       then listing lst (Suc n) (pg_NextContinuationToken p) ps else ps = []))"

lemma delete_loop_chunks:
  assumes "del = (\<lambda>_ _. None)"
  shows "listing lst n token ps \<Longrightarrow> length td < 1000 \<Longrightarrow>
    delete_loop lst del n token td bs = Some (None, bs @ chunked (td @ concat (map pg_Contents ps)))"
proof (induction ps arbitrary: n token td bs)
  case (Cons p ps)
  obtain td' new where b: "batch_loop del (pg_Contents p) td bs = Inr (td', bs @ new)" "length td' < 1000"
    "\<And>rest. chunked (td @ pg_Contents p @ rest) = new @ chunked (td' @ rest)"
    using batch_loop_chunks [of del td "pg_Contents p" bs] assms Cons.prems(2) by auto
  have l: "lst n token = Inr p" using Cons.prems(1) by simp
  show ?case
  proof (cases "pg_IsTruncated p = Some True \<and> pg_NextContinuationToken p \<noteq> None")
    case True
    with Cons.prems(1) have "listing lst (Suc n) (pg_NextContinuationToken p) ps" by simp
    from Cons.IH [OF this b(2)] True b l show ?thesis by (subst delete_loop.simps) simp
  next
    case False
    with Cons.prems(1) have "ps = []" by simp
    moreover have "delete_loop lst del n token td bs =
        (if length td' > 0 then Some (None, bs @ new @ [td']) else Some (None, bs @ new))"
      using False b(1) l assms by (subst delete_loop.simps) (simp only: sum.case prod.case if_False append_assoc)
    ultimately show ?thesis
      using b(3) [of "[]"] b(2) by (simp add: chunked_short)
  qed
qed simp

section \<open>Properties\<close>

inductive s3_reach :: "S3Manager \<Rightarrow> bool" where
  init: "s3_reach new_S3Manager"
| setdb: "s3_reach m \<Longrightarrow> s3_reach (SetDB m)"
| configure: "s3_reach m \<Longrightarrow> s3_reach (InitializeS3Client u c m)"
| remove: "s3_reach m \<Longrightarrow> s3_reach (RemoveClient u m)"
| ensure: "s3_reach m \<Longrightarrow> EnsureClientFromDB u m d = (ok, m', d') \<Longrightarrow> s3_reach m'"
| upload: "s3_reach m \<Longrightarrow> UploadToS3 st now u key data mime m d = (r, m', d') \<Longrightarrow> s3_reach m'"

lemma s3_reach_wf: "s3_reach m \<Longrightarrow> s3_wf m"
proof (induction rule: s3_reach.induct)
  case (ensure m u d ok m' d')
  show ?case by (rule Ensure_wf(1) [OF ensure.IH ensure.hyps(2)])
next
  case (upload m st now u key data mime d r m' d')
  show ?case by (rule Upload_wf(1) [OF upload.IH upload.hyps(2)])
qed (simp_all add: s3_wf_new s3_wf_SetDB s3_wf_Initialize s3_wf_RemoveClient)


definition sample_s3 :: S3Config where
  "sample_s3 = \<lparr>s3_Enabled = True, s3_Endpoint = ''https://s3.example.com'', s3_Region = ''eu'', s3_Bucket = ''media'',
     s3_AccessKey = ''A'', s3_SecretKey = ''S'', s3_PathStyle = True, s3_PublicURL = [], s3_MediaDelivery = ''s3'',
     s3_RetentionDays = 30\<rparr>"

definition sample_store :: s3_store where
  "sample_store = \<lparr>st_put = (\<lambda>_ _. None),
     st_list = (\<lambda>_ _ _ n _. Inr \<lparr>pg_Contents = (if n = 0 then [''users/u1/a'', ''users/u1/b''] else [''users/u1/c'']),
        pg_IsTruncated = Some (n = 0), pg_NextContinuationToken = (if n = 0 then Some ''t'' else None)\<rparr>),
     st_delete = (\<lambda>_ _ _ _. None)\<rparr>"

lemma sample_s3_reach: "s3_reach (InitializeS3Client ''u1'' sample_s3 new_S3Manager)"
  by (intro s3_reach.intros)

lemma sample_GetClient: "GetClient ''u1'' (InitializeS3Client ''u1'' sample_s3 new_S3Manager) = Some (sample_s3, sample_s3)"
  by (simp add: GetClient_def InitializeS3Client_def new_S3Manager_def sample_s3_def)


text \<open>
  Keys separate the users: a key generated for a user lies under the prefix whose objects
  \<^verbatim>\<open>DeleteAllUserObjects\<close> removes for that user, and under no other user's prefix, for ids without a
  slash (generated ids are hexadecimal).
\<close>

theorem s3_keys_isolated:
  assumes "CHR ''/'' \<notin> set u" "CHR ''/'' \<notin> set v"
  shows "HasPrefix (GenerateS3Key now u contact msg mime inc) (''users/'' @ v @ ''/'') \<longleftrightarrow> u = v"
proof
  assume "HasPrefix (GenerateS3Key now u contact msg mime inc) (''users/'' @ v @ ''/'')"
  then obtain t where "GenerateS3Key now u contact msg mime inc = (''users/'' @ v @ ''/'') @ t"
    by (auto simp: HasPrefix_iff)
  then obtain x where "''users/'' @ u @ ''/'' @ x = ''users/'' @ v @ ''/'' @ t"
    by (auto simp: GenerateS3Key_def Let_def)
  from key_split [OF this assms] show "u = v" .
next
  assume "u = v"
  then show "HasPrefix (GenerateS3Key now u contact msg mime inc) (''users/'' @ v @ ''/'')"
    by (simp add: GenerateS3Key_def Let_def HasPrefix_def)
qed

theorem s3_keys_isolated_witness:
  "\<forall>now. HasPrefix (GenerateS3Key now ''u1'' ''c'' ''m'' ''image/png'' True) (''users/'' @ ''u1'' @ ''/'') \<longleftrightarrow> ''u1'' = ''u1''"
  using s3_keys_isolated [of "''u1''" "''u1''"] by simp

text \<open>
  The date part of an object key is not a date: the layouts \<^verbatim>\<open>2025\<close>, \<^verbatim>\<open>05\<close> and \<^verbatim>\<open>25\<close> read only the day
  of the month and the second, so the year and the month never appear in a key and uploads of
  different months share a folder.
\<close>

theorem s3_key_ignores_year_and_month:
  "GenerateS3Key (t\<lparr>ck_year := y, ck_month := mo\<rparr>) u contact msg mime inc = GenerateS3Key t u contact msg mime inc \<and>
   Format_2025 \<lparr>ck_year = 2026, ck_month = 1, ck_day = 7, ck_second = 42, ck_unixNano = n\<rparr> = ''70742''"
proof -
  have "Format_2025 \<lparr>ck_year = 2026, ck_month = 1, ck_day = 7, ck_second = 42, ck_unixNano = n\<rparr> =
      nat_digits 7 @ pad2 7 @ nat_digits 42" by (simp add: Format_2025_def)
  also have "\<dots> = ''70742''" by code_simp
  finally show ?thesis
    by (simp add: GenerateS3Key_def Format_2025_def Format_05_def Format_25_def)
qed

text \<open>
  C29. When the store's listing ends and it accepts the deletions, \<^verbatim>\<open>DeleteAllUserObjects\<close> returns without
  an error, and it has sent every listed key of every page exactly once, in order, in batches of at
  most 1000.
\<close>

theorem DeleteAllUserObjects_complete:
  assumes "GetClient u m = Some (cl, cfg)" "\<And>n b. st_delete st cl (s3_Bucket cfg) n b = None"
    "listing (st_list st cl (s3_Bucket cfg) (''users/'' @ u @ ''/'')) 0 None ps"
  shows "\<exists>batches. DeleteAllUserObjects st u m = Some (None, batches) \<and>
    concat batches = concat (map pg_Contents ps) \<and> list_all (\<lambda>b. b \<noteq> [] \<and> length b \<le> 1000) batches"
proof -
  have "st_delete st cl (s3_Bucket cfg) = (\<lambda>_ _. None)" using assms(2) by (intro ext)
  from delete_loop_chunks [OF this assms(3), of "[]" "[]"] assms(1) show ?thesis
    by (simp add: DeleteAllUserObjects_def concat_chunked chunked_sizes)
qed

theorem DeleteAllUserObjects_complete_witness:
  "\<exists>batches. DeleteAllUserObjects sample_store ''u1'' (InitializeS3Client ''u1'' sample_s3 new_S3Manager) = Some (None, batches) \<and>
     concat batches = [''users/u1/a'', ''users/u1/b'', ''users/u1/c'']"
proof -
  let ?ps = "[\<lparr>pg_Contents = [''users/u1/a'', ''users/u1/b''], pg_IsTruncated = Some True, pg_NextContinuationToken = Some ''t''\<rparr>,
     \<lparr>pg_Contents = [''users/u1/c''], pg_IsTruncated = Some False, pg_NextContinuationToken = None\<rparr>]"
  have "listing (st_list sample_store sample_s3 (s3_Bucket sample_s3) (''users/'' @ ''u1'' @ ''/'')) 0 None ?ps"
    by (simp add: sample_store_def)
  from DeleteAllUserObjects_complete [OF sample_GetClient _ this] show ?thesis
    by (simp add: sample_store_def) blast
qed

lemma remove_file_get:
  "me_remove env p = None \<Longrightarrow> map_of (remove_file env p fs) q = (if q = p then None else map_of fs q)"
  by (simp add: remove_file_def gomap_simps)

text \<open>
  \<^verbatim>\<open>processMedia\<close> leaves no temporary file behind: when removal works, every file that exists
  afterwards existed before with the same content, on every path through the function.
\<close>

theorem processMedia_no_leftovers:
  assumes "\<And>p. me_remove env p = None"
    "processMedia env st now uid mime ext inc chat msg cfg postmap extra fs m d = (r, fs', m', d')"
    "map_of fs' p = Some data"
  shows "map_of fs p = Some data"
proof -
  have rem: "map_of (remove_file env q (AList.update q x fs)) p' = (if p' = q then None else map_of fs p')" for q x p'
    using assms(1) by (simp add: remove_file_get gomap_simps)
  have "fs' = fs \<or> (\<exists>q x. fs' = remove_file env q (AList.update q x fs))"
    using assms(2) unfolding processMedia_def Let_def
    by (auto split: if_splits sum.splits option.splits prod.splits)
  with assms(3) rem show ?thesis by (auto split: if_splits)
qed

definition sample_media :: media_env where
  "sample_media = \<lparr>me_join = (\<lambda>a b. a @ ''/'' @ b), me_base = (\<lambda>p. p), me_mkdir = (\<lambda>_. None), me_download = Inr [1, 2, 3],
     me_extensions = (\<lambda>_. [''.png'']), me_write = (\<lambda>_. None), me_read = (\<lambda>_. None), me_remove = (\<lambda>_. None),
     me_base64 = (\<lambda>_. ''AQID''), me_detect = (\<lambda>_. ''image/png'')\<rparr>"

theorem processMedia_no_leftovers_witness:
  "\<forall>now d p data. map_of (fst (snd (processMedia sample_media sample_store now ''u1'' ''image/png'' ''.bin'' True ''chat'' ''MID''
     \<lparr>ms_Enabled = ''false'', ms_MediaDelivery = ''base64''\<rparr> [] [] [] new_S3Manager d))) p \<noteq> Some data"
proof (intro allI notI)
  fix now d p data
  let ?r = "processMedia sample_media sample_store now ''u1'' ''image/png'' ''.bin'' True ''chat'' ''MID''
     \<lparr>ms_Enabled = ''false'', ms_MediaDelivery = ''base64''\<rparr> [] [] [] new_S3Manager d"
  assume some: "map_of (fst (snd ?r)) p = Some data"
  have res: "?r = (fst ?r, fst (snd ?r), fst (snd (snd ?r)), snd (snd (snd ?r)))" by simp
  have "\<And>p. me_remove sample_media p = None" by (simp add: sample_media_def)
  from processMedia_no_leftovers [OF this res some] show False by simp
qed

end
