(* ===== verification/Migrations.thy ===== *)
theory Migrations
  imports Prelude
begin

text \<open>
  The schema migrations of \<^verbatim>\<open>cmd/api/migrations.go\<close>. A schema is the catalog the migrations read and
  change: the tables with their columns, the indexes and the rows of the \<^verbatim>\<open>migrations\<close> table. Each
  \<^verbatim>\<open>UpSQL\<close> text is the catalog change it makes; the \<^verbatim>\<open>fault\<close> oracle fails statements for outside
  reasons, and a transaction that is not committed changes nothing.
\<close>

section \<open>Catalog\<close>

datatype coltype = TText | TInteger | TBoolean | TTimestamp | TBytea | TSerial

record column =
  c_name :: string
  c_type :: coltype
  c_notnull :: bool
  c_default :: "string option"

abbreviation (input) column_of :: "string \<Rightarrow> coltype \<Rightarrow> bool \<Rightarrow> string option \<Rightarrow> column" where
  "column_of n t nn d \<equiv> \<lparr>c_name = n, c_type = t, c_notnull = nn, c_default = d\<rparr>"

record schema =
  sc_tables :: "(string, column list) gomap"
  sc_indexes :: "(string \<times> string) list"
  sc_applied :: "(nat \<times> string) list option"

definition table_exists :: "string \<Rightarrow> schema \<Rightarrow> bool" where
  "table_exists t s \<longleftrightarrow> map_of (sc_tables s) t \<noteq> None"

definition columns_of :: "string \<Rightarrow> schema \<Rightarrow> column list" where
  "columns_of t s = (case map_of (sc_tables s) t of None \<Rightarrow> [] | Some cs \<Rightarrow> cs)"

definition column_exists :: "string \<Rightarrow> string \<Rightarrow> schema \<Rightarrow> bool" where
  "column_exists t c s \<longleftrightarrow> list_ex (\<lambda>x. c_name x = c) (columns_of t s)"

text \<open>\<^verbatim>\<open>ALTER TABLE t ADD COLUMN\<close> and \<^verbatim>\<open>CREATE TABLE t\<close>; an unknown or an existing table is an error.\<close>

definition add_column :: "string \<Rightarrow> column \<Rightarrow> schema \<Rightarrow> string + schema" where
  "add_column t c s =
     (case map_of (sc_tables s) t of
        None \<Rightarrow> Inl (''relation does not exist: '' @ t)
      | Some cs \<Rightarrow> Inr (s\<lparr>sc_tables := AList.update t (cs @ [c]) (sc_tables s)\<rparr>))"

definition create_table :: "string \<Rightarrow> column list \<Rightarrow> schema \<Rightarrow> string + schema" where
  "create_table t cs s =
     (if table_exists t s then Inl (''relation already exists: '' @ t)
      else Inr (s\<lparr>sc_tables := AList.update t cs (sc_tables s)\<rparr>))"

definition add_column_if_missing :: "string \<Rightarrow> column \<Rightarrow> schema \<Rightarrow> string + schema" where
  "add_column_if_missing t c s = (if \<not> column_exists t (c_name c) s then add_column t c s else Inr s)"

text \<open>Statements of a block run in order and stop at the first error.\<close>

fun seq_sql :: "(schema \<Rightarrow> string + schema) list \<Rightarrow> schema \<Rightarrow> string + schema" where
  "seq_sql [] s = Inr s"
| "seq_sql (f # fs) s = (case f s of Inl e \<Rightarrow> Inl e | Inr s' \<Rightarrow> seq_sql fs s')"

section \<open>The migrations\<close>

definition initialSchemaSQL :: "schema \<Rightarrow> string + schema" where
  "initialSchemaSQL s =
     (if \<not> table_exists ''users'' s then
        create_table ''users''
          [column_of ''id'' TText True None, column_of ''name'' TText True None, column_of ''token'' TText True None,
           column_of ''webhook'' TText True (Some []), column_of ''jid'' TText True (Some []),
           column_of ''qrcode'' TText True (Some []), column_of ''connected'' TInteger False None,
           column_of ''expiration'' TInteger False None, column_of ''events'' TText True (Some []),
           column_of ''proxy_url'' TText False (Some [])] s
      else Inr s)"

definition addProxyURLSQL :: "schema \<Rightarrow> string + schema" where
  "addProxyURLSQL = add_column_if_missing ''users'' (column_of ''proxy_url'' TText False (Some []))"

text \<open>The integer \<^verbatim>\<open>id\<close> column, if there is one, is replaced by a text column at the end of the table.\<close>

definition changeIDToStringSQL :: "schema \<Rightarrow> string + schema" where
  "changeIDToStringSQL s =
     (if list_ex (\<lambda>c. c_name c = ''id'' \<and> c_type c = TInteger) (columns_of ''users'' s) then
        Inr (s\<lparr>sc_tables := AList.update ''users''
                (filter (\<lambda>c. c_name c \<noteq> ''id'') (columns_of ''users'' s) @ [column_of ''id'' TText True None])
                (sc_tables s)\<rparr>)
      else Inr s)"

definition addS3SupportSQL :: "schema \<Rightarrow> string + schema" where
  "addS3SupportSQL =
     seq_sql (map (add_column_if_missing ''users'')
       [column_of ''s3_enabled'' TBoolean False (Some ''FALSE''), column_of ''s3_endpoint'' TText False (Some []),
        column_of ''s3_region'' TText False (Some []), column_of ''s3_bucket'' TText False (Some []),
        column_of ''s3_access_key'' TText False (Some []), column_of ''s3_secret_key'' TText False (Some []),
        column_of ''s3_path_style'' TBoolean False (Some ''TRUE''), column_of ''s3_public_url'' TText False (Some []),
        column_of ''media_delivery'' TText False (Some ''base64''),
        column_of ''s3_retention_days'' TInteger False (Some ''30'')])"

definition addMessageHistorySQL :: "schema \<Rightarrow> string + schema" where
  "addMessageHistorySQL =
     seq_sql
       [\<lambda>s. if \<not> table_exists ''message_history'' s then
              (case create_table ''message_history''
                  [column_of ''id'' TSerial True None, column_of ''user_id'' TText True None,
                   column_of ''chat_jid'' TText True None, column_of ''sender_jid'' TText True None,
                   column_of ''message_id'' TText True None, column_of ''timestamp'' TTimestamp True None,
                   column_of ''message_type'' TText True None, column_of ''text_content'' TText False None,
                   column_of ''media_link'' TText False None] s of
                 Inl e \<Rightarrow> Inl e
               | Inr s' \<Rightarrow>
                   Inr (s'\<lparr>sc_indexes := sc_indexes s' @
                          [(''message_history'', ''idx_message_history_user_chat_timestamp'')]\<rparr>))
            else Inr s,
        add_column_if_missing ''users'' (column_of ''history'' TInteger False (Some ''0''))]"

definition addQuotedMessageIDSQL :: "schema \<Rightarrow> string + schema" where
  "addQuotedMessageIDSQL = add_column_if_missing ''message_history'' (column_of ''quoted_message_id'' TText False None)"

definition addHmacKeySQL :: "schema \<Rightarrow> string + schema" where
  "addHmacKeySQL = add_column_if_missing ''users'' (column_of ''hmac_key'' TBytea False None)"

definition addDataJsonSQL :: "schema \<Rightarrow> string + schema" where
  "addDataJsonSQL = add_column_if_missing ''message_history'' (column_of ''datajson'' TText False None)"

definition addWhatsmeowMessageSecretsMessageIDIndexSQL :: "schema \<Rightarrow> string + schema" where
  "addWhatsmeowMessageSecretsMessageIDIndexSQL s =
     (if \<not> table_exists ''whatsmeow_message_secrets'' s then Inl ''relation does not exist: whatsmeow_message_secrets''
      else if (''whatsmeow_message_secrets'', ''whatsmeow_message_secrets_message_id_idx'') \<in> set (sc_indexes s) then Inr s
      else Inr (s\<lparr>sc_indexes := sc_indexes s @
             [(''whatsmeow_message_secrets'', ''whatsmeow_message_secrets_message_id_idx'')]\<rparr>))"

record Migration =
  mg_ID :: nat
  mg_Name :: string
  mg_UpSQL :: "schema \<Rightarrow> string + schema"

definition migrations :: "Migration list" where
  "migrations =
     [\<lparr>mg_ID = 1, mg_Name = ''initial_schema'', mg_UpSQL = initialSchemaSQL\<rparr>,
      \<lparr>mg_ID = 2, mg_Name = ''add_proxy_url'', mg_UpSQL = addProxyURLSQL\<rparr>,
      \<lparr>mg_ID = 3, mg_Name = ''change_id_to_string'', mg_UpSQL = changeIDToStringSQL\<rparr>,
      \<lparr>mg_ID = 4, mg_Name = ''add_s3_support'', mg_UpSQL = addS3SupportSQL\<rparr>,
      \<lparr>mg_ID = 5, mg_Name = ''add_message_history'', mg_UpSQL = addMessageHistorySQL\<rparr>,
      \<lparr>mg_ID = 6, mg_Name = ''add_quoted_message_id'', mg_UpSQL = addQuotedMessageIDSQL\<rparr>,
      \<lparr>mg_ID = 7, mg_Name = ''add_hmac_key'', mg_UpSQL = addHmacKeySQL\<rparr>,
      \<lparr>mg_ID = 8, mg_Name = ''add_data_json'', mg_UpSQL = addDataJsonSQL\<rparr>,
      \<lparr>mg_ID = 9, mg_Name = ''add_whatsmeow_message_secrets_message_id_idx'',
       mg_UpSQL = addWhatsmeowMessageSecretsMessageIDIndexSQL\<rparr>]"

section \<open>Running them\<close>

text \<open>
  \<open>fault n\<close> is the outside error of the n-th call of the database, if any; every operation returns the
  number of calls made so far.
\<close>

type_synonym sql_fault = "nat \<Rightarrow> string option"

definition createMigrationsTable :: "sql_fault \<Rightarrow> nat \<Rightarrow> schema \<Rightarrow> string option \<times> nat \<times> schema" where
  "createMigrationsTable fault n s =
     (case fault n of
        Some e \<Rightarrow> (Some (''failed to check migrations table existence: '' @ e), Suc n, s)
      | None \<Rightarrow>
          if sc_applied s \<noteq> None then (None, Suc n, s)
          else (case fault (Suc n) of
                  Some e \<Rightarrow> (Some (''failed to create migrations table: '' @ e), Suc (Suc n), s)
                | None \<Rightarrow> (None, Suc (Suc n), s\<lparr>sc_applied := Some []\<rparr>)))"

definition getAppliedMigrations :: "sql_fault \<Rightarrow> nat \<Rightarrow> schema \<Rightarrow> (string + nat list) \<times> nat" where
  "getAppliedMigrations fault n s =
     (case fault n of
        Some e \<Rightarrow> (Inl (''failed to query applied migrations: '' @ e), Suc n)
      | None \<Rightarrow>
          (case sc_applied s of
             None \<Rightarrow> (Inl ''failed to query applied migrations: relation does not exist'', Suc n)
           | Some rows \<Rightarrow> (Inr (map fst rows), Suc n)))"

text \<open>
  \<^verbatim>\<open>applyMigration\<close>: begin, the migration, its record, commit. The record's primary key is the id.
\<close>

definition applyMigration :: "sql_fault \<Rightarrow> nat \<Rightarrow> Migration \<Rightarrow> schema \<Rightarrow> string option \<times> nat \<times> schema" where
  "applyMigration fault n mig s =
     (case fault n of
        Some e \<Rightarrow> (Some (''failed to begin transaction: '' @ e), n + 1, s)
      | None \<Rightarrow>
     (case (case fault (n + 1) of Some e \<Rightarrow> Inl e | None \<Rightarrow> mg_UpSQL mig s) of
        Inl e \<Rightarrow> (Some (''failed to execute migration SQL: '' @ e), n + 2, s)
      | Inr s1 \<Rightarrow>
     (case (case fault (n + 2) of
              Some e \<Rightarrow> Inl e
            | None \<Rightarrow>
                (case sc_applied s1 of
                   None \<Rightarrow> Inl ''relation does not exist: migrations''
                 | Some rows \<Rightarrow>
                     if mg_ID mig \<in> fst ` set rows then Inl ''duplicate key value''
                     else Inr (s1\<lparr>sc_applied := Some (rows @ [(mg_ID mig, mg_Name mig)])\<rparr>))) of
        Inl e \<Rightarrow> (Some (''failed to record migration: '' @ e), n + 3, s)
      | Inr s2 \<Rightarrow>
     (case fault (n + 3) of
        Some e \<Rightarrow> (Some e, n + 4, s)
      | None \<Rightarrow> (None, n + 4, s2)))))"

fun migrate_loop :: "sql_fault \<Rightarrow> nat list \<Rightarrow> Migration list \<Rightarrow> nat \<Rightarrow> schema \<Rightarrow> string option \<times> nat \<times> schema" where
  "migrate_loop fault applied [] n s = (None, n, s)"
| "migrate_loop fault applied (mig # ms) n s =
     (if mg_ID mig \<notin> set applied then
        (case applyMigration fault n mig s of
           (Some e, n', s') \<Rightarrow> (Some (''failed to apply migration '' @ Itoa (int (mg_ID mig)) @ '': '' @ e), n', s')
         | (None, n', s') \<Rightarrow> migrate_loop fault applied ms n' s')
      else migrate_loop fault applied ms n s)"

definition initializeSchema :: "sql_fault \<Rightarrow> schema \<Rightarrow> string option \<times> schema" where
  "initializeSchema fault s =
     (case createMigrationsTable fault 0 s of
        (Some e, _, s1) \<Rightarrow> (Some (''failed to create migrations table: '' @ e), s1)
      | (None, n1, s1) \<Rightarrow>
     (case getAppliedMigrations fault n1 s1 of
        (Inl e, _) \<Rightarrow> (Some (''failed to get applied migrations: '' @ e), s1)
      | (Inr applied, n2) \<Rightarrow>
          (case migrate_loop fault applied migrations n2 s1 of (e, _, s2) \<Rightarrow> (e, s2))))"

section \<open>Lemmas\<close>

definition no_fault :: sql_fault where
  "no_fault = (\<lambda>_. None)"

lemma Migration_ids: "distinct (map mg_ID migrations)"
  by (simp add: migrations_def)

text \<open>A migration does not touch the record of applied migrations.\<close>

lemma add_column_if_missing_applied: "add_column_if_missing t c s = Inr s' \<Longrightarrow> sc_applied s' = sc_applied s"
  by (auto simp: add_column_if_missing_def add_column_def split: if_splits option.splits)

lemma seq_sql_applied:
  "(\<And>f s s'. f \<in> set fs \<Longrightarrow> f s = Inr s' \<Longrightarrow> sc_applied s' = sc_applied s) \<Longrightarrow> seq_sql fs s = Inr s' \<Longrightarrow>
   sc_applied s' = sc_applied s"
proof (induction fs arbitrary: s)
  case (Cons f fs)
  then obtain s1 where "f s = Inr s1" "seq_sql fs s1 = Inr s'" by (auto split: sum.splits)
  with Cons show ?case by (metis list.set_intros)
qed simp

lemma migrations_applied:
  assumes "mig \<in> set migrations" "mg_UpSQL mig s = Inr s'"
  shows "sc_applied s' = sc_applied s"
proof -
  have s3: "addS3SupportSQL s = Inr s' \<Longrightarrow> sc_applied s' = sc_applied s"
    unfolding addS3SupportSQL_def
    by (erule seq_sql_applied [rotated 1]) (auto dest: add_column_if_missing_applied)
  have hist: "addMessageHistorySQL s = Inr s' \<Longrightarrow> sc_applied s' = sc_applied s"
    unfolding addMessageHistorySQL_def
    by (erule seq_sql_applied [rotated 1])
      (auto dest: add_column_if_missing_applied simp: create_table_def split: if_splits sum.splits)
  show ?thesis
    using assms s3 hist
    by (auto simp: migrations_def initialSchemaSQL_def addProxyURLSQL_def changeIDToStringSQL_def
        addQuotedMessageIDSQL_def addHmacKeySQL_def addDataJsonSQL_def
        addWhatsmeowMessageSecretsMessageIDIndexSQL_def create_table_def
        dest: add_column_if_missing_applied split: if_splits)
qed

lemma applyMigration_cases:
  assumes "applyMigration fault n mig s = (e, n', s')" "mig \<in> set migrations"
  shows "s' = s \<and> e \<noteq> None \<or>
    e = None \<and> (\<exists>n''. applyMigration no_fault n'' mig s = (None, n'' + 4, s')) \<and>
    (\<exists>rows. sc_applied s = Some rows \<and> mg_ID mig \<notin> fst ` set rows \<and> sc_applied s' = Some (rows @ [(mg_ID mig, mg_Name mig)]))"
  using assms migrations_applied [OF assms(2)]
  by (auto simp: applyMigration_def no_fault_def split: option.splits sum.splits if_splits)

lemma applyMigration_no_fault_counter:
  "fst (applyMigration no_fault n mig s) = fst (applyMigration no_fault m mig s)"
  "snd (snd (applyMigration no_fault n mig s)) = snd (snd (applyMigration no_fault m mig s))"
  by (simp_all add: applyMigration_def no_fault_def split: option.split sum.split)

text \<open>What a run leaves, without the count of calls.\<close>

definition loop_result :: "sql_fault \<Rightarrow> nat list \<Rightarrow> Migration list \<Rightarrow> nat \<Rightarrow> schema \<Rightarrow> string option \<times> schema" where
  "loop_result fault applied ms n s = (case migrate_loop fault applied ms n s of (e, _, s') \<Rightarrow> (e, s'))"

lemma loop_result_skip: "mg_ID mig \<in> set A \<Longrightarrow> loop_result fault A (mig # ms) n s = loop_result fault A ms n s"
  by (simp add: loop_result_def)

lemma loop_result_error:
  "mg_ID mig \<notin> set A \<Longrightarrow> applyMigration fault n mig s = (Some e, n', s') \<Longrightarrow>
   snd (loop_result fault A (mig # ms) n s) = s'"
  by (simp add: loop_result_def)

lemma loop_result_step:
  "mg_ID mig \<notin> set A \<Longrightarrow> applyMigration fault n mig s = (None, n', s') \<Longrightarrow>
   loop_result fault A (mig # ms) n s = loop_result fault A ms n' s'"
  by (simp add: loop_result_def)

lemma loop_result_counter: "loop_result no_fault A ms n s = loop_result no_fault A ms m s"
proof (induction ms arbitrary: n m s)
  case (Cons mig ms)
  obtain e n' s' where n: "applyMigration no_fault n mig s = (e, n', s')"
    by (cases "applyMigration no_fault n mig s")
  moreover obtain e2 m' s2 where m: "applyMigration no_fault m mig s = (e2, m', s2)"
    by (cases "applyMigration no_fault m mig s")
  moreover have "e2 = e" "s2 = s'" using applyMigration_no_fault_counter [of n mig s m] n m by simp_all
  ultimately show ?case
    using Cons.IH [of n' s' m'] Cons.IH [of n s m] by (cases e) (auto simp: loop_result_def)
qed (simp add: loop_result_def)

lemma loop_result_cong:
  "(\<And>mig. mig \<in> set ms \<Longrightarrow> mg_ID mig \<in> set A \<longleftrightarrow> mg_ID mig \<in> set B) \<Longrightarrow> loop_result fault A ms n s = loop_result fault B ms n s"
proof (induction ms arbitrary: n s)
  case (Cons mig ms)
  then show ?case by (auto simp: loop_result_def split: option.split prod.split)
qed (simp add: loop_result_def)

lemma migrate_loop_rows:
  assumes "set ms \<subseteq> set migrations" "sc_applied s = Some rows"
  shows "\<exists>new. sc_applied (snd (loop_result fault A ms n s)) = Some (rows @ new)"
  using assms
proof (induction ms arbitrary: n s rows)
  case (Cons mig ms)
  show ?case
  proof (cases "mg_ID mig \<in> set A")
    case False
    obtain e n' s' where ap: "applyMigration fault n mig s = (e, n', s')" by (cases "applyMigration fault n mig s")
    have "mig \<in> set migrations" using Cons.prems by simp
    from applyMigration_cases [OF ap this] show ?thesis
    proof
      assume "s' = s \<and> e \<noteq> None"
      then show ?thesis using False ap Cons.prems by (auto simp: loop_result_def)
    next
      assume "e = None \<and> (\<exists>n''. applyMigration no_fault n'' mig s = (None, n'' + 4, s')) \<and>
        (\<exists>rows. sc_applied s = Some rows \<and> mg_ID mig \<notin> fst ` set rows \<and> sc_applied s' = Some (rows @ [(mg_ID mig, mg_Name mig)]))"
      then have "e = None" "sc_applied s' = Some (rows @ [(mg_ID mig, mg_Name mig)])" using Cons.prems by auto
      with Cons.IH [of s' "rows @ [(mg_ID mig, mg_Name mig)]" n'] Cons.prems False ap show ?thesis
        by (auto simp: loop_result_step)
    qed
  qed (use Cons in \<open>simp add: loop_result_skip\<close>)
qed (simp add: loop_result_def)

text \<open>Resuming: after an interrupted run, a run without faults ends where one from the start would.\<close>

lemma loop_resume:
  assumes "set ms \<subseteq> set migrations" "distinct (map mg_ID ms)" "sc_applied s = Some rows"
    "\<And>mig. mig \<in> set ms \<Longrightarrow> mg_ID mig \<in> set A \<longleftrightarrow> mg_ID mig \<in> fst ` set rows"
    "sc_applied (snd (loop_result fault A ms n s)) = Some rows1"
  shows "loop_result no_fault (map fst rows1) ms k (snd (loop_result fault A ms n s)) = loop_result no_fault A ms k s"
  using assms
proof (induction ms arbitrary: n k s rows)
  case (Cons mig ms)
  have mig: "mig \<in> set migrations" and sub: "set ms \<subseteq> set migrations" "distinct (map mg_ID ms)" using Cons.prems by auto
  show ?case
  proof (cases "mg_ID mig \<in> set A")
    case True
    obtain new where "rows1 = rows @ new"
      using migrate_loop_rows [OF Cons.prems(1,3), of fault A n] Cons.prems(5) by fastforce
    moreover have "mg_ID mig \<in> fst ` set rows" using True Cons.prems(4) [of mig] by simp
    ultimately have "mg_ID mig \<in> set (map fst rows1)" by auto
    with True Cons.IH [OF sub Cons.prems(3)] Cons.prems(4,5) show ?thesis by (simp add: loop_result_skip)
  next
    case False
    obtain e n' s' where ap: "applyMigration fault n mig s = (e, n', s')" by (cases "applyMigration fault n mig s")
    from applyMigration_cases [OF ap mig] show ?thesis
    proof
      assume "s' = s \<and> e \<noteq> None"
      then have "snd (loop_result fault A (mig # ms) n s) = s" using False ap by (auto simp: loop_result_def)
      moreover from this Cons.prems(3,5) have "rows1 = rows" by simp
      ultimately show ?thesis
        using Cons.prems(4) by (simp only:, intro loop_result_cong) simp
    next
      assume ok: "e = None \<and> (\<exists>n''. applyMigration no_fault n'' mig s = (None, n'' + 4, s')) \<and>
        (\<exists>rows. sc_applied s = Some rows \<and> mg_ID mig \<notin> fst ` set rows \<and> sc_applied s' = Some (rows @ [(mg_ID mig, mg_Name mig)]))"
      then have rows': "sc_applied s' = Some (rows @ [(mg_ID mig, mg_Name mig)])" using Cons.prems(3) by auto
      have run: "loop_result fault A (mig # ms) n s = loop_result fault A ms n' s'"
        using ok ap False by (simp add: loop_result_step)
      obtain new where "rows1 = (rows @ [(mg_ID mig, mg_Name mig)]) @ new"
        using migrate_loop_rows [OF sub(1) rows', of fault A n'] Cons.prems(5) unfolding run by fastforce
      then have skip: "mg_ID mig \<in> set (map fst rows1)" by simp
      from ok obtain n'' where "applyMigration no_fault n'' mig s = (None, n'' + 4, s')" by blast
      then have "loop_result no_fault A (mig # ms) n'' s = loop_result no_fault A ms (n'' + 4) s'"
        using False by (simp add: loop_result_step)
      then have rhs: "loop_result no_fault A (mig # ms) k s = loop_result no_fault A ms k s'"
        using loop_result_counter by metis
      have "loop_result no_fault (map fst rows1) ms k (snd (loop_result fault A ms n' s')) = loop_result no_fault A ms k s'"
      proof (rule Cons.IH [OF sub rows'])
        show "sc_applied (snd (loop_result fault A ms n' s')) = Some rows1" using Cons.prems(5) unfolding run .
      next
        fix mg
        assume mg: "mg \<in> set ms"
        then have "mg_ID mg \<noteq> mg_ID mig" using Cons.prems(2) by (metis distinct.simps(2) image_eqI list.simps(9) list.set_map)
        with mg Cons.prems(4) [of mg] show "mg_ID mg \<in> set A \<longleftrightarrow> mg_ID mg \<in> fst ` set (rows @ [(mg_ID mig, mg_Name mig)])"
          by simp
      qed
      then show ?thesis unfolding run rhs loop_result_skip [OF skip] .
    qed
  qed
qed (simp add: loop_result_def)

lemma initializeSchema_loop:
  "sc_applied s = Some rows \<Longrightarrow> initializeSchema no_fault s = loop_result no_fault (map fst rows) migrations 0 s"
proof -
  assume "sc_applied s = Some rows"
  then have "initializeSchema no_fault s = loop_result no_fault (map fst rows) migrations (Suc (Suc 0)) s"
    by (simp add: initializeSchema_def createMigrationsTable_def getAppliedMigrations_def no_fault_def loop_result_def)
  then show ?thesis using loop_result_counter by metis
qed

lemma initializeSchema_fresh:
  "sc_applied s = None \<Longrightarrow> initializeSchema no_fault s = initializeSchema no_fault (s\<lparr>sc_applied := Some []\<rparr>)"
proof -
  assume "sc_applied s = None"
  then have "initializeSchema no_fault s = loop_result no_fault [] migrations (Suc (Suc (Suc 0))) (s\<lparr>sc_applied := Some []\<rparr>)"
    by (simp add: initializeSchema_def createMigrationsTable_def getAppliedMigrations_def no_fault_def loop_result_def)
  then show ?thesis
    using initializeSchema_loop [of "s\<lparr>sc_applied := Some []\<rparr>" "[]"] loop_result_counter by (metis list.map(1) schema.select_convs(3) schema.surjective schema.update_convs(3))
qed

section \<open>Properties\<close>


definition fresh_schema :: schema where
  "fresh_schema = \<lparr>sc_tables = [(''whatsmeow_message_secrets'', [])], sc_indexes = [], sc_applied = None\<rparr>"

text \<open>
  On a database that holds only the tables of the whatsmeow store, the migrations succeed and give
  the tables with exactly the columns the program's queries name, except \<^verbatim>\<open>days_to_sync_history\<close>,
  which no migration creates.
\<close>

theorem initializeSchema_fresh_columns:
  "let (e, s) = initializeSchema no_fault fresh_schema
   in e = None \<and>
      map c_name (columns_of ''users'' s) =
        [''id'', ''name'', ''token'', ''webhook'', ''jid'', ''qrcode'', ''connected'', ''expiration'', ''events'', ''proxy_url'',
         ''s3_enabled'', ''s3_endpoint'', ''s3_region'', ''s3_bucket'', ''s3_access_key'', ''s3_secret_key'', ''s3_path_style'',
         ''s3_public_url'', ''media_delivery'', ''s3_retention_days'', ''history'', ''hmac_key''] \<and>
      map c_name (columns_of ''message_history'' s) =
        [''id'', ''user_id'', ''chat_jid'', ''sender_jid'', ''message_id'', ''timestamp'', ''message_type'', ''text_content'',
         ''media_link'', ''quoted_message_id'', ''datajson''] \<and>
      \<not> column_exists ''users'' ''days_to_sync_history'' s"
  by code_simp

end
