(* ===== verification/Clients.thy ===== *)
theory Clients
  imports Prelude Database
begin

text \<open>
  The client registry of \<^verbatim>\<open>cmd/api/clients.go\<close>, the live-state adapters that read it
  (\<^verbatim>\<open>users_adapter.go\<close>, \<^verbatim>\<open>health_adapter.go\<close>) and the health report of \<^verbatim>\<open>internal/health\<close>.
  Clients are pointers: a \<^verbatim>\<open>*whatsmeow.Client\<close> and a \<^verbatim>\<open>*resty.Client\<close> are reference numbers, and
  \<^verbatim>\<open>*MyClient\<close> values point into an object store, because the registry changes the object that
  an event handler holds. Every method runs under the registry's mutex, so it is one step.
\<close>

section \<open>Model\<close>

type_synonym ref = nat

record MyClient =
  mc_WAClient :: ref
  mc_userID :: string
  mc_token :: string
  mc_subscriptions :: "string list"

record ClientManager =
  whatsmeowClients :: "(string, ref option) gomap"
  httpClients :: "(string, ref option) gomap"
  myClients :: "(string, ref option) gomap"
  pollOptions :: "(string, (string, string list) gomap) gomap"
  my_objs :: "ref \<Rightarrow> MyClient"

text \<open>A missing key and a stored nil both read as nil (\<^term>\<open>None\<close>).\<close>

definition gm_ptr :: "(string, ref option) gomap \<Rightarrow> string \<Rightarrow> ref option" where
  "gm_ptr m k = (case map_of m k of None \<Rightarrow> None | Some p \<Rightarrow> p)"

definition NewClientManager :: "(ref \<Rightarrow> MyClient) \<Rightarrow> ClientManager" where
  "NewClientManager objs =
     \<lparr>whatsmeowClients = [], httpClients = [], myClients = [], pollOptions = [], my_objs = objs\<rparr>"

definition SetWhatsmeowClient :: "string \<Rightarrow> ref option \<Rightarrow> ClientManager \<Rightarrow> ClientManager" where
  "SetWhatsmeowClient userID client cm = cm\<lparr>whatsmeowClients := AList.update userID client (whatsmeowClients cm)\<rparr>"

definition GetWhatsmeowClient :: "string \<Rightarrow> ClientManager \<Rightarrow> ref option" where
  "GetWhatsmeowClient userID cm = gm_ptr (whatsmeowClients cm) userID"

definition DeleteWhatsmeowClient :: "string \<Rightarrow> ClientManager \<Rightarrow> ClientManager" where
  "DeleteWhatsmeowClient userID cm = cm\<lparr>whatsmeowClients := AList.delete userID (whatsmeowClients cm)\<rparr>"

definition SetHTTPClient :: "string \<Rightarrow> ref option \<Rightarrow> ClientManager \<Rightarrow> ClientManager" where
  "SetHTTPClient userID client cm = cm\<lparr>httpClients := AList.update userID client (httpClients cm)\<rparr>"

definition GetHTTPClient :: "string \<Rightarrow> ClientManager \<Rightarrow> ref option" where
  "GetHTTPClient userID cm = gm_ptr (httpClients cm) userID"

definition DeleteHTTPClient :: "string \<Rightarrow> ClientManager \<Rightarrow> ClientManager" where
  "DeleteHTTPClient userID cm = cm\<lparr>httpClients := AList.delete userID (httpClients cm)\<rparr>"

definition SetMyClient :: "string \<Rightarrow> ref option \<Rightarrow> ClientManager \<Rightarrow> ClientManager" where
  "SetMyClient userID client cm = cm\<lparr>myClients := AList.update userID client (myClients cm)\<rparr>"

definition GetMyClient :: "string \<Rightarrow> ClientManager \<Rightarrow> ref option" where
  "GetMyClient userID cm = gm_ptr (myClients cm) userID"

definition DeleteMyClient :: "string \<Rightarrow> ClientManager \<Rightarrow> ClientManager" where
  "DeleteMyClient userID cm =
     cm\<lparr>myClients := AList.delete userID (myClients cm), pollOptions := AList.delete userID (pollOptions cm)\<rparr>"

text \<open>\<^verbatim>\<open>UpdateMyClientSubscriptions\<close>; the outer \<^term>\<open>None\<close> is the nil dereference of a stored nil.\<close>

definition UpdateMyClientSubscriptions :: "string \<Rightarrow> string list \<Rightarrow> ClientManager \<Rightarrow> ClientManager option" where
  "UpdateMyClientSubscriptions userID subscriptions cm =
     (case map_of (myClients cm) userID of
        None \<Rightarrow> Some cm
      | Some None \<Rightarrow> None
      | Some (Some p) \<Rightarrow>
          Some (cm\<lparr>my_objs := (my_objs cm)(p := (my_objs cm p)\<lparr>mc_subscriptions := subscriptions\<rparr>)\<rparr>))"

definition SetPollOptions :: "string \<Rightarrow> string \<Rightarrow> string list \<Rightarrow> ClientManager \<Rightarrow> ClientManager" where
  "SetPollOptions userID msgID options cm =
     (let byUser = (case map_of (pollOptions cm) userID of None \<Rightarrow> [] | Some m \<Rightarrow> m)
      in cm\<lparr>pollOptions := AList.update userID (AList.update msgID options byUser) (pollOptions cm)\<rparr>)"

definition GetPollOptions :: "string \<Rightarrow> string \<Rightarrow> ClientManager \<Rightarrow> string list option" where
  "GetPollOptions userID msgID cm =
     (case map_of (pollOptions cm) userID of None \<Rightarrow> None | Some byUser \<Rightarrow> map_of byUser msgID)"

subsection \<open>Live-state adapters\<close>

text \<open>\<^verbatim>\<open>usersConnState\<close>; \<open>isConnected\<close> and \<open>isLoggedIn\<close> are the methods of the whatsmeow client; \<^term>\<open>None\<close> is
  a nil registry.\<close>

definition usersConnState_Connected :: "(ref \<Rightarrow> bool) \<Rightarrow> ClientManager option \<Rightarrow> string \<Rightarrow> bool" where
  "usersConnState_Connected isConnected cm userID =
     (case cm of
        None \<Rightarrow> False
      | Some m \<Rightarrow> (case map_of (whatsmeowClients m) userID of Some (Some c) \<Rightarrow> isConnected c | _ \<Rightarrow> False))"

definition usersConnState_LoggedIn :: "(ref \<Rightarrow> bool) \<Rightarrow> ClientManager option \<Rightarrow> string \<Rightarrow> bool" where
  "usersConnState_LoggedIn isLoggedIn cm userID =
     (case cm of
        None \<Rightarrow> False
      | Some m \<Rightarrow> (case map_of (whatsmeowClients m) userID of Some (Some c) \<Rightarrow> isLoggedIn c | _ \<Rightarrow> False))"

definition healthStats_TotalUsers :: "pg option \<Rightarrow> int \<times> pg option" where
  "healthStats_TotalUsers db =
     (case db of
        None \<Rightarrow> (0, None)
      | Some d \<Rightarrow>
          (case pg_query (\<lambda>d. length (users_tbl d)) d of
             (Inl e, d') \<Rightarrow> (0, Some d')
           | (Inr n, d') \<Rightarrow> (int n, Some d')))"

definition healthStats_ActiveConnections :: "ClientManager option \<Rightarrow> nat" where
  "healthStats_ActiveConnections cm = (case cm of None \<Rightarrow> 0 | Some m \<Rightarrow> length (whatsmeowClients m))"

fun count_clients :: "(ref \<Rightarrow> bool) \<Rightarrow> (string, ref option) gomap \<Rightarrow> nat \<Rightarrow> nat" where
  "count_clients up [] n = n"
| "count_clients up ((k, c) # rest) n =
     count_clients up rest (case c of Some p \<Rightarrow> if up p then n + 1 else n | None \<Rightarrow> n)"

definition healthStats_ConnectedUsers :: "(ref \<Rightarrow> bool) \<Rightarrow> ClientManager option \<Rightarrow> nat" where
  "healthStats_ConnectedUsers isConnected cm =
     (case cm of None \<Rightarrow> 0 | Some m \<Rightarrow> count_clients isConnected (whatsmeowClients m) 0)"

definition healthStats_LoggedInUsers :: "(ref \<Rightarrow> bool) \<Rightarrow> ClientManager option \<Rightarrow> nat" where
  "healthStats_LoggedInUsers isLoggedIn cm =
     (case cm of None \<Rightarrow> 0 | Some m \<Rightarrow> count_clients isLoggedIn (whatsmeowClients m) 0)"

subsection \<open>Health report\<close>

record MemStats =
  AllocMB :: "64 word"
  TotalAllocMB :: "64 word"
  SysMB :: "64 word"
  NumGC :: "32 word"

definition SystemMem_Read :: "64 word \<Rightarrow> 64 word \<Rightarrow> 64 word \<Rightarrow> 32 word \<Rightarrow> MemStats" where
  "SystemMem_Read alloc totalAlloc sys gc =
     \<lparr>AllocMB = alloc div 1024 div 1024, TotalAllocMB = totalAlloc div 1024 div 1024,
      SysMB = sys div 1024 div 1024, NumGC = gc\<rparr>"

record health_Service =
  hs_isConnected :: "ref \<Rightarrow> bool"
  hs_isLoggedIn :: "ref \<Rightarrow> bool"
  hs_start :: int
  hs_version :: string

text \<open>
  \<^verbatim>\<open>Service.Report\<close> with \<^verbatim>\<open>healthStats\<close> as its \<^verbatim>\<open>Stats\<close>: \<open>fmtTime\<close> is \<^verbatim>\<open>Format(time.RFC3339)\<close> of the UTC
  time, \<open>fmtDur\<close> is \<^verbatim>\<open>Duration.String\<close>. The members are in the order of the struct.
\<close>

definition Report ::
    "health_Service \<Rightarrow> (int \<Rightarrow> string) \<Rightarrow> (int \<Rightarrow> string) \<Rightarrow> int \<Rightarrow> MemStats \<Rightarrow> nat \<Rightarrow> ClientManager option \<Rightarrow>
     pg option \<Rightarrow> json \<times> pg option" where
  "Report s fmtTime fmtDur now mem goroutines cm db =
     (let (totalUsers, db') = healthStats_TotalUsers db
      in (JObj
           ([(''status'', JStr ''ok''), (''timestamp'', JStr (fmtTime now)),
             (''uptime'', JStr (fmtDur (now - hs_start s))),
             (''active_connections'', JNum (int (healthStats_ActiveConnections cm))),
             (''total_users'', JNum totalUsers),
             (''connected_users'', JNum (int (healthStats_ConnectedUsers (hs_isConnected s) cm))),
             (''logged_in_users'', JNum (int (healthStats_LoggedInUsers (hs_isLoggedIn s) cm))),
             (''memory_stats'', JObj
                [(''alloc_mb'', JNum (uint (AllocMB mem))), (''total_alloc_mb'', JNum (uint (TotalAllocMB mem))),
                 (''sys_mb'', JNum (uint (SysMB mem))), (''num_gc'', JNum (uint (NumGC mem)))]),
             (''goroutines'', JNum (int goroutines))] @
            (if hs_version s \<noteq> [] then [(''version'', JStr (hs_version s))] else [])), db'))"

definition health_ServeHTTP ::
    "health_Service \<Rightarrow> (int \<Rightarrow> string) \<Rightarrow> (int \<Rightarrow> string) \<Rightarrow> int \<Rightarrow> MemStats \<Rightarrow> nat \<Rightarrow> ClientManager option \<Rightarrow>
     writer \<Rightarrow> pg option \<Rightarrow> writer \<times> pg option" where
  "health_ServeHTTP s fmtTime fmtDur now mem goroutines cm w db =
     (let (resp, db') = Report s fmtTime fmtDur now mem goroutines cm db
      in (WriteBody resp (WriteHeader 200 (SetHeader ''Content-Type'' ''application/json'' w)), db'))"

section \<open>The interface of a keyed registry\<close>

text \<open>
  What the three client maps promise alike: reading a key gives what was last stored under it, and
  operations on one key do not touch another. The client lemma is about whole histories.
\<close>

datatype ('k, 'v) reg_op = Put 'k 'v | Drop 'k

locale registry =
  fixes put :: "'k \<Rightarrow> 'v option \<Rightarrow> 's \<Rightarrow> 's" and drp :: "'k \<Rightarrow> 's \<Rightarrow> 's" and get :: "'k \<Rightarrow> 's \<Rightarrow> 'v option"
  assumes get_put: "get k (put k' v s) = (if k = k' then v else get k s)"
    and get_drp: "get k (drp k' s) = (if k = k' then None else get k s)"
begin

primrec apply_op :: "('k, 'v option) reg_op \<Rightarrow> 's \<Rightarrow> 's" where
  "apply_op (Put k v) s = put k v s"
| "apply_op (Drop k) s = drp k s"

lemma get_history:
  "get k (fold apply_op ops s) =
     (case find (\<lambda>x. (case x of Put k' _ \<Rightarrow> k' | Drop k' \<Rightarrow> k') = k) (rev ops) of
        None \<Rightarrow> get k s | Some (Put _ v) \<Rightarrow> v | Some (Drop _) \<Rightarrow> None)"
proof (induction ops rule: rev_induct)
  case (snoc x xs)
  then show ?case by (cases x) (auto simp: get_put get_drp)
qed simp

end

lemma gm_ptr_update: "gm_ptr (AList.update k v m) k' = (if k' = k then v else gm_ptr m k')"
  by (simp add: gm_ptr_def gomap_simps)

lemma gm_ptr_delete: "gm_ptr (AList.delete k m) k' = (if k' = k then None else gm_ptr m k')"
  by (simp add: gm_ptr_def gomap_simps)

interpretation wa: registry SetWhatsmeowClient DeleteWhatsmeowClient GetWhatsmeowClient
  by unfold_locales
    (auto simp: SetWhatsmeowClient_def GetWhatsmeowClient_def DeleteWhatsmeowClient_def gm_ptr_update gm_ptr_delete)

interpretation http: registry SetHTTPClient DeleteHTTPClient GetHTTPClient
  by unfold_locales (auto simp: SetHTTPClient_def GetHTTPClient_def DeleteHTTPClient_def gm_ptr_update gm_ptr_delete)

interpretation my: registry SetMyClient DeleteMyClient GetMyClient
  by unfold_locales (auto simp: SetMyClient_def GetMyClient_def DeleteMyClient_def gm_ptr_update gm_ptr_delete)

section \<open>Histories of the whole registry\<close>

datatype cm_op =
    OpSetWA string "ref option" | OpDelWA string
  | OpSetHTTP string "ref option" | OpDelHTTP string
  | OpSetMy string ref | OpDelMy string
  | OpSubs string "string list"
  | OpPoll string string "string list"

text \<open>One call of the registry. \<^verbatim>\<open>SetMyClient\<close> is only ever called with a live object.\<close>

fun cm_step :: "cm_op \<Rightarrow> ClientManager \<Rightarrow> ClientManager option" where
  "cm_step (OpSetWA u c) cm = Some (SetWhatsmeowClient u c cm)"
| "cm_step (OpDelWA u) cm = Some (DeleteWhatsmeowClient u cm)"
| "cm_step (OpSetHTTP u c) cm = Some (SetHTTPClient u c cm)"
| "cm_step (OpDelHTTP u) cm = Some (DeleteHTTPClient u cm)"
| "cm_step (OpSetMy u p) cm = Some (SetMyClient u (Some p) cm)"
| "cm_step (OpDelMy u) cm = Some (DeleteMyClient u cm)"
| "cm_step (OpSubs u evs) cm = UpdateMyClientSubscriptions u evs cm"
| "cm_step (OpPoll u m opts) cm = Some (SetPollOptions u m opts cm)"

fun cm_run :: "cm_op list \<Rightarrow> ClientManager \<Rightarrow> ClientManager option" where
  "cm_run [] cm = Some cm"
| "cm_run (x # xs) cm = Option.bind (cm_step x cm) (cm_run xs)"

text \<open>The specification: polls as a finite map, forgotten with the user's client.\<close>

fun poll_spec :: "cm_op list \<Rightarrow> (string \<times> string \<rightharpoonup> string list) \<Rightarrow> (string \<times> string \<rightharpoonup> string list)" where
  "poll_spec [] f = f"
| "poll_spec (OpPoll u m opts # xs) f = poll_spec xs (f((u, m) \<mapsto> opts))"
| "poll_spec (OpDelMy u # xs) f = poll_spec xs (\<lambda>(u', m). if u' = u then None else f (u', m))"
| "poll_spec (_ # xs) f = poll_spec xs f"

definition my_live :: "ClientManager \<Rightarrow> bool" where
  "my_live cm \<longleftrightarrow> None \<notin> snd ` set (myClients cm)"

lemma snd_set_update: "snd ` set (AList.update k v m) \<subseteq> insert v (snd ` set m)"
  by (induction m) auto

lemma snd_set_delete: "snd ` set (AList.delete k m) \<subseteq> snd ` set m"
  by (auto simp: AList.delete_eq)

lemma my_live_ops:
  "my_live (SetWhatsmeowClient u c cm) = my_live cm" "my_live (DeleteWhatsmeowClient u cm) = my_live cm"
  "my_live (SetHTTPClient u c cm) = my_live cm" "my_live (DeleteHTTPClient u cm) = my_live cm"
  "my_live (SetPollOptions u m opts cm) = my_live cm"
  "my_live cm \<Longrightarrow> my_live (SetMyClient u (Some p) cm)" "my_live cm \<Longrightarrow> my_live (DeleteMyClient u cm)"
  using snd_set_update [of u "Some p" "myClients cm"] snd_set_delete [of u "myClients cm"]
  by (auto simp: my_live_def SetWhatsmeowClient_def DeleteWhatsmeowClient_def SetHTTPClient_def DeleteHTTPClient_def
     SetMyClient_def DeleteMyClient_def SetPollOptions_def Let_def)

lemma my_live_subs:
  assumes "my_live cm"
  shows "\<exists>cm'. UpdateMyClientSubscriptions u evs cm = Some cm' \<and> my_live cm'"
proof (cases "map_of (myClients cm) u")
  case (Some p)
  then have "p \<in> snd ` set (myClients cm)" by (metis image_eqI map_of_SomeD snd_conv)
  with assms obtain q where "p = Some q" by (cases p) (auto simp: my_live_def)
  with Some assms show ?thesis by (simp add: UpdateMyClientSubscriptions_def my_live_def)
qed (use assms in \<open>simp add: UpdateMyClientSubscriptions_def\<close>)

lemma cm_step_live: "my_live cm \<Longrightarrow> \<exists>cm'. cm_step x cm = Some cm' \<and> my_live cm'"
  by (cases x) (simp_all add: my_live_ops my_live_subs)

definition polls :: "ClientManager \<Rightarrow> (string \<times> string \<rightharpoonup> string list)" where
  "polls cm = (\<lambda>(u, m). GetPollOptions u m cm)"

lemma polls_other:
  "polls (SetWhatsmeowClient u c cm) = polls cm" "polls (DeleteWhatsmeowClient u cm) = polls cm"
  "polls (SetHTTPClient u c cm) = polls cm" "polls (DeleteHTTPClient u cm) = polls cm"
  "polls (SetMyClient u c cm) = polls cm"
  by (simp_all add: polls_def GetPollOptions_def SetWhatsmeowClient_def DeleteWhatsmeowClient_def SetHTTPClient_def
      DeleteHTTPClient_def SetMyClient_def)

lemma polls_poll: "polls (SetPollOptions u m opts cm) = (polls cm)((u, m) \<mapsto> opts)"
proof (rule ext)
  fix x :: "string \<times> string"
  obtain u' m' where x: "x = (u', m')" by (cases x)
  show "polls (SetPollOptions u m opts cm) x = ((polls cm)((u, m) \<mapsto> opts)) x"
    by (cases "u' = u"; cases "map_of (pollOptions cm) u")
      (simp_all add: x polls_def GetPollOptions_def SetPollOptions_def Let_def gomap_simps)
qed

lemma polls_del: "polls (DeleteMyClient u cm) = (\<lambda>(u', m). if u' = u then None else polls cm (u', m))"
  by (rule ext) (simp add: polls_def GetPollOptions_def DeleteMyClient_def gomap_simps split: prod.split)

lemma polls_subs: "UpdateMyClientSubscriptions u evs cm = Some cm' \<Longrightarrow> polls cm' = polls cm"
  by (auto simp: UpdateMyClientSubscriptions_def polls_def GetPollOptions_def split: option.splits)

lemma polls_run: "cm_run ops cm = Some cm' \<Longrightarrow> polls cm' = poll_spec ops (polls cm)"
proof (induction ops arbitrary: cm)
  case (Cons x xs)
  then obtain cm1 where s: "cm_step x cm = Some cm1" and "cm_run xs cm1 = Some cm'"
    by (auto simp: bind_eq_Some_conv)
  with Cons.IH have "polls cm' = poll_spec xs (polls cm1)" by blast
  moreover have "poll_spec (x # xs) (polls cm) = poll_spec xs (polls cm1)"
    using s by (cases x) (auto simp: polls_other polls_poll polls_del polls_subs)
  ultimately show ?case by simp
qed simp

lemma count_clients_acc:
  "count_clients up m n = n + length (filter (\<lambda>(k, c). case c of Some p \<Rightarrow> up p | None \<Rightarrow> False) m)"
  by (induction up m n rule: count_clients.induct) (auto split: option.splits)

section \<open>Properties\<close>

text \<open>
  After any history of registrations and removals, each of the three client maps returns for a user
  what the last operation on that user left there, whatever happened to other users.
\<close>

theorem registries_last_write:
  "GetWhatsmeowClient u (fold wa.apply_op ops1 cm) =
     (case find (\<lambda>x. (case x of Put k _ \<Rightarrow> k | Drop k \<Rightarrow> k) = u) (rev ops1) of
        None \<Rightarrow> GetWhatsmeowClient u cm | Some (Put _ c) \<Rightarrow> c | Some (Drop _) \<Rightarrow> None) \<and>
   GetHTTPClient u (fold http.apply_op ops2 cm) =
     (case find (\<lambda>x. (case x of Put k _ \<Rightarrow> k | Drop k \<Rightarrow> k) = u) (rev ops2) of
        None \<Rightarrow> GetHTTPClient u cm | Some (Put _ c) \<Rightarrow> c | Some (Drop _) \<Rightarrow> None) \<and>
   GetMyClient u (fold my.apply_op ops3 cm) =
     (case find (\<lambda>x. (case x of Put k _ \<Rightarrow> k | Drop k \<Rightarrow> k) = u) (rev ops3) of
        None \<Rightarrow> GetMyClient u cm | Some (Put _ c) \<Rightarrow> c | Some (Drop _) \<Rightarrow> None)"
  by (intro conjI, rule wa.get_history, rule http.get_history, rule my.get_history)

text \<open>
  No history of registry calls panics, and after it the recorded poll options are exactly those of the
  specification: the last options set for the user and message, unless the user's client has been
  deleted since.
\<close>

theorem poll_options_history:
  "\<exists>cm'. cm_run ops (NewClientManager objs) = Some cm' \<and>
     (\<forall>u m. GetPollOptions u m cm' = poll_spec ops Map.empty (u, m))"
proof -
  have "\<exists>cm'. cm_run ops cm = Some cm'" if "my_live cm" for cm
    using that
  proof (induction ops arbitrary: cm)
    case (Cons x xs)
    then obtain cm1 where "cm_step x cm = Some cm1" "my_live cm1" using cm_step_live by blast
    with Cons.IH show ?case by simp
  qed simp
  moreover have "my_live (NewClientManager objs)" by (simp add: my_live_def NewClientManager_def)
  ultimately obtain cm' where run: "cm_run ops (NewClientManager objs) = Some cm'" by blast
  have "polls (NewClientManager objs) = Map.empty"
    by (auto simp: polls_def GetPollOptions_def NewClientManager_def)
  with polls_run [OF run] have "polls cm' = poll_spec ops Map.empty" by simp
  then have "GetPollOptions u m cm' = poll_spec ops Map.empty (u, m)" for u m
    by (simp add: polls_def fun_eq_iff)
  with run show ?thesis by blast
qed

text \<open>
  The health report is answered with status 200 as JSON and consistent numbers: the connected and
  the logged-in users never exceed the registered clients, which are counted exactly, and the total
  is the number of user rows, or 0 when the database does not answer.
\<close>

theorem health_report_consistent:
  "status_of (fst (health_ServeHTTP s ft fd now mem g cm new_writer db)) = Some 200 \<and>
   headers_of (fst (health_ServeHTTP s ft fd now mem g cm new_writer db)) ''Content-Type'' = Some ''application/json'' \<and>
   healthStats_ConnectedUsers (hs_isConnected s) cm \<le> healthStats_ActiveConnections cm \<and>
   healthStats_LoggedInUsers (hs_isLoggedIn s) cm \<le> healthStats_ActiveConnections cm \<and>
   fst (healthStats_TotalUsers db) =
     (case db of None \<Rightarrow> 0 | Some d \<Rightarrow> (if fault d (calls d) = None then int (length (users_tbl d)) else 0))"
proof -
  have "count_clients up m 0 \<le> length m" for up m by (simp add: count_clients_acc)
  moreover have "fst (healthStats_TotalUsers db) =
     (case db of None \<Rightarrow> 0 | Some d \<Rightarrow> (if fault d (calls d) = None then int (length (users_tbl d)) else 0))"
    by (auto simp: healthStats_TotalUsers_def pg_query_def pg_exec_def Let_def split: option.splits)
  ultimately show ?thesis
    by (auto simp: health_ServeHTTP_def writer_simps Let_def split_beta healthStats_ConnectedUsers_def
        healthStats_LoggedInUsers_def healthStats_ActiveConnections_def headers_of_def WriteBody_def WriteHeader_def
        SetHeader_def new_writer_def status_of_def split: option.splits)
qed

end
