(* ===== verification/Webhook.thy ===== *)
theory Webhook
  imports Users Clients "HOL-Library.List_Lexorder" "HOL-Library.Char_ord"
begin

text \<open>
  Webhook delivery: HMAC keys and signatures and the two retrying senders \<^verbatim>\<open>callHookWithHmac\<close> and
  \<^verbatim>\<open>callHookFileWithHmac\<close> of \<^verbatim>\<open>cmd/api/helpers.go\<close>, and the dispatch of an event to the user's and
  the global webhook in \<^verbatim>\<open>cmd/api/wmiau.go\<close>. AES-GCM, HMAC-SHA256, JSON encoding and decoding and
  base64 are arguments; the network answers the k-th request of a call. Delays are 64-bit
  \<^verbatim>\<open>time.Duration\<close> values and wrap as in Go.
\<close>

section \<open>Bytes of a string\<close>

definition to_bytes :: "string \<Rightarrow> bytes" where
  "to_bytes s = map (\<lambda>c. word_of_nat (of_char c)) s"

definition of_bytes :: "bytes \<Rightarrow> string" where
  "of_bytes bs = map (\<lambda>b. char_of (unat b)) bs"

section \<open>HMAC keys\<close>

record crypto =
  cy_seal :: "bytes \<Rightarrow> bytes \<Rightarrow> bytes \<Rightarrow> bytes"
  cy_open :: "bytes \<Rightarrow> bytes \<Rightarrow> bytes \<Rightarrow> bytes option"
  cy_hmac :: "bytes \<Rightarrow> bytes \<Rightarrow> bytes"

definition NonceSize :: nat where "NonceSize = 12"

text \<open>\<^verbatim>\<open>aes.NewCipher\<close> takes keys of 16, 24 and 32 bytes.\<close>

definition aes_key_ok :: "string \<Rightarrow> bool" where
  "aes_key_ok key \<longleftrightarrow> length key = 16 \<or> length key = 24 \<or> length key = 32"

text \<open>\<^verbatim>\<open>encryptHMACKey\<close>; \<open>rnd\<close> are the bytes the random source can deliver.\<close>

definition encryptHMACKey :: "crypto \<Rightarrow> string \<Rightarrow> bytes \<Rightarrow> string \<Rightarrow> string + bytes" where
  "encryptHMACKey cy globalEncryptionKey rnd plainText =
     (if globalEncryptionKey = [] then Inl ''encryption key not configured''
      else if \<not> aes_key_ok globalEncryptionKey then Inl ''failed to create cipher''
      else if length rnd < NonceSize then Inl ''failed to generate nonce''
      else (let nonce = take NonceSize rnd
            in Inr (nonce @ cy_seal cy (to_bytes globalEncryptionKey) nonce (to_bytes plainText))))"

definition decryptHMACKey :: "crypto \<Rightarrow> string \<Rightarrow> bytes \<Rightarrow> string + string" where
  "decryptHMACKey cy globalEncryptionKey encryptedData =
     (if globalEncryptionKey = [] then Inl ''encryption key not configured''
      else if \<not> aes_key_ok globalEncryptionKey then Inl ''failed to create cipher''
      else if length encryptedData < NonceSize then Inl ''ciphertext too short''
      else (case cy_open cy (to_bytes globalEncryptionKey) (take NonceSize encryptedData) (drop NonceSize encryptedData) of
              None \<Rightarrow> Inl ''failed to decrypt''
            | Some plaintext \<Rightarrow> Inr (of_bytes plaintext)))"

definition generateHmacSignature :: "crypto \<Rightarrow> string \<Rightarrow> bytes \<Rightarrow> bytes \<Rightarrow> string + string" where
  "generateHmacSignature cy globalEncryptionKey payload encryptedHmacKey =
     (if length encryptedHmacKey = 0 then Inr []
      else (case decryptHMACKey cy globalEncryptionKey encryptedHmacKey of
              Inl e \<Rightarrow> Inl (''failed to decrypt HMAC key: '' @ e)
            | Inr hmacKey \<Rightarrow> Inr (hex_encode (cy_hmac cy (to_bytes hmacKey) payload))))"

section \<open>Form encoding\<close>

definition upper_hex :: "nat \<Rightarrow> char" where
  "upper_hex d = (if d < 10 then char_of (48 + d) else char_of (55 + d))"

definition unreserved :: "char \<Rightarrow> bool" where
  "unreserved c \<longleftrightarrow>
     (let n = (of_char c :: nat)
      in 48 \<le> n \<and> n \<le> 57 \<or> 65 \<le> n \<and> n \<le> 90 \<or> 97 \<le> n \<and> n \<le> 122) \<or> c \<in> {CHR ''-'', CHR ''_'', CHR ''.'', CHR ''~''}"

text \<open>\<^verbatim>\<open>url.QueryEscape\<close> and \<^verbatim>\<open>url.Values.Encode\<close> (keys in order, one value each).\<close>

definition QueryEscape :: "string \<Rightarrow> string" where
  "QueryEscape s =
     concat (map (\<lambda>c. if unreserved c then [c] else if c = CHR '' '' then ''+''
                      else [CHR ''%'', upper_hex (of_char c div 16), upper_hex (of_char c mod 16)]) s)"

definition Values_Encode :: "(string, string) gomap \<Rightarrow> string" where
  "Values_Encode m = Join (map (\<lambda>(k, v). QueryEscape k @ ''='' @ QueryEscape v) (sort_key fst m)) ''&''"

section \<open>Sending with retries\<close>

record hook_cfg =
  hc_RetryEnabled :: bool
  hc_RetryCount :: int
  hc_RetryDelaySeconds :: int
  hc_Format :: string
  hc_EncryptionKey :: string

record hook_env =
  he_cfg :: hook_cfg
  he_crypto :: crypto
  he_marshal :: "json \<Rightarrow> string option"
  he_unmarshal :: "string \<Rightarrow> json option"

datatype hook_body =
    JSONBody json
  | FormBody "(string, string) gomap"
  | MultipartBody "(string, string) gomap" string

record hook_request =
  hq_url :: string
  hq_body :: hook_body
  hq_signature :: "string option"

datatype hook_error = PostError string | BadStatus int string

datatype hook_effect = Sleep "64 word" | Post hook_request

datatype hook_outcome = HookPanic | HookReturn "hook_error option"

definition maxRetries :: "hook_cfg \<Rightarrow> int" where
  "maxRetries cfg = (if hc_RetryEnabled cfg then hc_RetryCount cfg else 1)"

text \<open>\<^verbatim>\<open>time.Duration(delay) * time.Second * time.Duration(1 << uint(attempt-1))\<close>, in 64 bits.\<close>

definition delayDuration :: "hook_cfg \<Rightarrow> nat \<Rightarrow> 64 word" where
  "delayDuration cfg attempt =
     word_of_int (hc_RetryDelaySeconds cfg) * 1000000000 * push_bit (attempt - 1) 1"

text \<open>
  The retry loop that both senders have. \<open>build\<close> makes the request of one attempt from the variable
  \<^verbatim>\<open>body\<close> that lives across attempts (\<^term>\<open>None\<close> is a panic), \<open>post\<close> is the network.
\<close>

function hook_loop ::
    "hook_cfg \<Rightarrow> (json \<Rightarrow> (json \<times> hook_request) option) \<Rightarrow> (nat \<Rightarrow> hook_request \<Rightarrow> string + (int \<times> string)) \<Rightarrow>
     nat \<Rightarrow> json \<Rightarrow> hook_error option \<Rightarrow> hook_effect list \<times> hook_outcome" where
  "hook_loop cfg build post attempt body lastError =
     (if int attempt < maxRetries cfg then
        (let slept = (if attempt > 0 then [Sleep (delayDuration cfg attempt)] else [])
         in case build body of
              None \<Rightarrow> (slept, HookPanic)
            | Some (body', req) \<Rightarrow>
                (let fx = slept @ [Post req]
                 in case post attempt req of
                      Inl e \<Rightarrow>
                        (let (fx', r) = hook_loop cfg build post (Suc attempt) body' (Some (PostError e))
                         in (fx @ fx', r))
                    | Inr (status, respBody) \<Rightarrow>
                        if status < 200 \<or> status \<ge> 300 then
                          (if \<not> hc_RetryEnabled cfg then (fx, HookReturn (Some (BadStatus status respBody)))
                           else (let (fx', r) = hook_loop cfg build post (Suc attempt) body' (Some (BadStatus status respBody))
                                 in (fx @ fx', r)))
                        else (fx, HookReturn None)))
      else ([], HookReturn lastError))"
  by pat_completeness auto
termination
  by (relation "measure (\<lambda>(cfg, _, _, attempt, _). nat (maxRetries cfg - int attempt))") auto

declare hook_loop.simps [simp del]

definition json_of_map :: "(string, string) gomap \<Rightarrow> json" where
  "json_of_map m = JObj (map (\<lambda>(k, v). (k, JStr v)) m)"

text \<open>
  The body of an attempt in the JSON format: the decoded \<^verbatim>\<open>jsonData\<close> with the instance name and the
  user id set in it; when there is none or it does not decode, the body stays as it was. Writing
  into the nil map that \<^verbatim>\<open>null\<close> decodes to panics.
\<close>

definition json_body :: "hook_env \<Rightarrow> (string, string) gomap \<Rightarrow> string \<Rightarrow> json \<Rightarrow> json option" where
  "json_body env payload userID body =
     (case map_of payload ''jsonData'' of
        None \<Rightarrow> Some body
      | Some jsonStr \<Rightarrow>
          (case he_unmarshal env jsonStr of
             Some JNull \<Rightarrow> None
           | Some (JObj postmap) \<Rightarrow>
               (let m1 = (case map_of payload ''instanceName'' of
                            Some n \<Rightarrow> AList.update ''instanceName'' (JStr n) postmap
                          | None \<Rightarrow> postmap)
                in Some (JObj (AList.update ''userID'' (JStr userID) m1)))
           | _ \<Rightarrow> Some body))"

definition sig_header :: "string + string \<Rightarrow> string option" where
  "sig_header r = (case r of Inl _ \<Rightarrow> None | Inr s \<Rightarrow> if s \<noteq> [] then Some s else None)"

text \<open>The request that one attempt of \<^verbatim>\<open>callHookWithHmac\<close> sends.\<close>

definition hook_build ::
    "hook_env \<Rightarrow> string \<Rightarrow> (string, string) gomap \<Rightarrow> string \<Rightarrow> bytes \<Rightarrow> json \<Rightarrow> (json \<times> hook_request) option" where
  "hook_build env myurl payload userID encryptedHmacKey body =
     (if hc_Format (he_cfg env) = ''json'' then
        (case json_body env payload userID body of
           None \<Rightarrow> None
         | Some body' \<Rightarrow>
             (let jsonBody = (case he_marshal env body' of Some s \<Rightarrow> s | None \<Rightarrow> []);
                  hs = (if length encryptedHmacKey > 0 \<and> length jsonBody > 0
                        then generateHmacSignature (he_crypto env) (hc_EncryptionKey (he_cfg env)) (to_bytes jsonBody)
                               encryptedHmacKey
                        else Inr [])
              in Some (body', \<lparr>hq_url = myurl, hq_body = JSONBody body', hq_signature = sig_header hs\<rparr>)))
      else
        (let hs = (if length encryptedHmacKey > 0
                   then generateHmacSignature (he_crypto env) (hc_EncryptionKey (he_cfg env))
                          (to_bytes (Values_Encode payload)) encryptedHmacKey
                   else Inr [])
         in Some (json_of_map payload,
                  \<lparr>hq_url = myurl, hq_body = FormBody payload, hq_signature = sig_header hs\<rparr>)))"

text \<open>A nil HTTP client panics at its first use; with no attempt to make it is not used.\<close>

definition callHookWithHmac ::
    "hook_env \<Rightarrow> ClientManager \<Rightarrow> (nat \<Rightarrow> hook_request \<Rightarrow> string + (int \<times> string)) \<Rightarrow> string \<Rightarrow>
     (string, string) gomap \<Rightarrow> string \<Rightarrow> bytes \<Rightarrow> hook_effect list \<times> hook_outcome" where
  "callHookWithHmac env cm post myurl payload userID encryptedHmacKey =
     hook_loop (he_cfg env)
       (\<lambda>body. if GetHTTPClient userID cm = None then None
               else hook_build env myurl payload userID encryptedHmacKey body)
       post 0 (json_of_map payload) None"

definition callHook ::
    "hook_env \<Rightarrow> ClientManager \<Rightarrow> (nat \<Rightarrow> hook_request \<Rightarrow> string + (int \<times> string)) \<Rightarrow> string \<Rightarrow>
     (string, string) gomap \<Rightarrow> string \<Rightarrow> hook_effect list \<times> hook_outcome" where
  "callHook env cm post myurl payload userID = callHookWithHmac env cm post myurl payload userID []"

definition file_build ::
    "hook_env \<Rightarrow> string \<Rightarrow> (string, string) gomap \<Rightarrow> string \<Rightarrow> bytes \<Rightarrow> json \<Rightarrow> (json \<times> hook_request) option" where
  "file_build env myurl payload file encryptedHmacKey body =
     (let finalPayload = AList.update ''file'' file payload;
          hs = (if length encryptedHmacKey > 0 then
                  (case he_marshal env (json_of_map finalPayload) of
                     None \<Rightarrow> Inr []
                   | Some jsonPayload \<Rightarrow>
                       generateHmacSignature (he_crypto env) (hc_EncryptionKey (he_cfg env)) (to_bytes jsonPayload)
                         encryptedHmacKey)
                else Inr [])
      in Some (body, \<lparr>hq_url = myurl, hq_body = MultipartBody finalPayload file, hq_signature = sig_header hs\<rparr>))"

definition callHookFileWithHmac ::
    "hook_env \<Rightarrow> ClientManager \<Rightarrow> (nat \<Rightarrow> hook_request \<Rightarrow> string + (int \<times> string)) \<Rightarrow> string \<Rightarrow>
     (string, string) gomap \<Rightarrow> string \<Rightarrow> string \<Rightarrow> bytes \<Rightarrow> hook_effect list \<times> hook_outcome" where
  "callHookFileWithHmac env cm post myurl payload userID file encryptedHmacKey =
     hook_loop (he_cfg env)
       (\<lambda>body. if GetHTTPClient userID cm = None then None
               else file_build env myurl payload file encryptedHmacKey body)
       post 0 JNull None"

definition callHookFile ::
    "hook_env \<Rightarrow> ClientManager \<Rightarrow> (nat \<Rightarrow> hook_request \<Rightarrow> string + (int \<times> string)) \<Rightarrow> string \<Rightarrow>
     (string, string) gomap \<Rightarrow> string \<Rightarrow> string \<Rightarrow> hook_effect list \<times> hook_outcome" where
  "callHookFile env cm post myurl payload userID file = callHookFileWithHmac env cm post myurl payload userID file []"

section \<open>Dispatching an event\<close>

text \<open>
  \<^verbatim>\<open>userinfocache\<close> maps tokens to \<^verbatim>\<open>Values\<close>; a missing field of a \<^verbatim>\<open>Values\<close> reads as the empty string.
  All entries of the program are stored without expiration.
\<close>

type_synonym user_values = "(string, string) gomap"
type_synonym user_cache = "(string, user_values) gomap"

definition Values_Get :: "user_values \<Rightarrow> string \<Rightarrow> string" where
  "Values_Get v key = (case map_of v key of None \<Rightarrow> [] | Some s \<Rightarrow> s)"

text \<open>The calls that a dispatch starts, each with its arguments.\<close>

datatype hook_job =
    CallHook string "(string, string) gomap" string bytes
  | CallHookFile string "(string, string) gomap" string string bytes

definition hook_data :: "user_cache \<Rightarrow> string \<Rightarrow> string \<Rightarrow> string \<Rightarrow> (string, string) gomap" where
  "hook_data cache jsonData userID token =
     (let instance_name = (case map_of cache token of None \<Rightarrow> [] | Some v \<Rightarrow> Values_Get v ''Name'')
      in [(''jsonData'', jsonData), (''userID'', userID), (''instanceName'', instance_name)])"

definition sendToGlobalWebHook :: "string \<Rightarrow> bytes \<Rightarrow> user_cache \<Rightarrow> string \<Rightarrow> string \<Rightarrow> string \<Rightarrow> hook_job list" where
  "sendToGlobalWebHook globalWebhook globalHMACKeyEncrypted cache jsonData token userID =
     (if globalWebhook \<noteq> []
      then [CallHook globalWebhook (hook_data cache jsonData userID token) userID globalHMACKeyEncrypted] else [])"

definition sendToUserWebHookWithHmac ::
    "user_cache \<Rightarrow> string \<Rightarrow> string \<Rightarrow> string \<Rightarrow> string \<Rightarrow> string \<Rightarrow> bytes \<Rightarrow> hook_job list" where
  "sendToUserWebHookWithHmac cache webhookurl path jsonData userID token encryptedHmacKey =
     (let data = hook_data cache jsonData userID token
      in if webhookurl \<noteq> [] then
           (if path = [] then [CallHook webhookurl data userID encryptedHmacKey]
            else [CallHookFile webhookurl data userID path encryptedHmacKey])
         else [])"

text \<open>The new subscription list also replaces the one in the client object.\<close>

definition updateAndGetUserSubscriptions ::
    "user_cache \<Rightarrow> MyClient \<Rightarrow> pg \<Rightarrow> (string + string list) \<times> MyClient \<times> pg" where
  "updateAndGetUserSubscriptions cache mycli d =
     (let r = (case map_of cache (mc_token mycli) of
                 Some v \<Rightarrow> (Inr (Values_Get v ''Events''), d)
               | None \<Rightarrow>
                   (case pg_query (find_user (mc_userID mycli)) d of
                      (Inl e, d') \<Rightarrow> (Inl e, d')
                    | (Inr None, d') \<Rightarrow> (Inl ''sql: no rows in result set'', d')
                    | (Inr (Some row), d') \<Rightarrow> (Inr (u_events row), d')))
      in case r of
           (Inl e, d') \<Rightarrow> (Inl e, mycli, d')
         | (Inr currentEvents, d') \<Rightarrow>
             (let subscribedEvents = parse_subscriptions currentEvents
              in (Inr subscribedEvents, mycli\<lparr>mc_subscriptions := subscribedEvents\<rparr>, d')))"

definition getUserWebhookUrl :: "user_cache \<Rightarrow> string \<Rightarrow> string" where
  "getUserWebhookUrl cache token =
     (case map_of cache token of None \<Rightarrow> [] | Some v \<Rightarrow> Values_Get v ''Webhook'')"

text \<open>The signing key of the cached user; \<open>b64\<close> is \<^verbatim>\<open>base64.StdEncoding.DecodeString\<close>, whose result is
  used even when it comes with an error.\<close>

definition cached_hmac_key :: "(string \<Rightarrow> bytes \<times> string option) \<Rightarrow> user_cache \<Rightarrow> string \<Rightarrow> bytes" where
  "cached_hmac_key b64 cache token =
     (case map_of cache token of
        None \<Rightarrow> []
      | Some v \<Rightarrow>
          (let encryptedB64 = Values_Get v ''HmacKeyEncrypted''
           in if encryptedB64 \<noteq> [] then fst (b64 encryptedB64) else []))"

record dispatch_env =
  de_marshal :: "json \<Rightarrow> string option"
  de_b64 :: "string \<Rightarrow> bytes \<times> string option"
  de_globalWebhook :: string
  de_globalHMACKeyEncrypted :: bytes

definition sendEventWithWebHook ::
    "dispatch_env \<Rightarrow> user_cache \<Rightarrow> MyClient \<Rightarrow> (string, json) gomap \<Rightarrow> string \<Rightarrow> pg \<Rightarrow>
     hook_job list \<times> MyClient \<times> pg" where
  "sendEventWithWebHook env cache mycli postmap path d =
     (let webhookurl = getUserWebhookUrl cache (mc_token mycli)
      in case updateAndGetUserSubscriptions cache mycli d of
           (Inl e, mycli', d') \<Rightarrow> ([], mycli', d')
         | (Inr subscribedEvents, mycli', d') \<Rightarrow>
             (case map_of postmap ''type'' of
                Some (JStr eventType) \<Rightarrow>
                  if \<not> checkIfSubscribedToEvent subscribedEvents eventType then ([], mycli', d')
                  else (case de_marshal env (JObj postmap) of
                          None \<Rightarrow> ([], mycli', d')
                        | Some jsonData \<Rightarrow>
                            (sendToUserWebHookWithHmac cache webhookurl path jsonData (mc_userID mycli) (mc_token mycli)
                               (cached_hmac_key (de_b64 env) cache (mc_token mycli)) @
                             sendToGlobalWebHook (de_globalWebhook env) (de_globalHMACKeyEncrypted env) cache jsonData
                               (mc_token mycli) (mc_userID mycli), mycli', d'))
              | _ \<Rightarrow> ([], mycli', d')))"

end
