(* ===== verification/Jids.thy ===== *)
theory Jids
  imports Prelude
begin

text \<open>
  WhatsApp addresses and device types, from \<^verbatim>\<open>cmd/api/wmiau.go\<close> and \<^verbatim>\<open>cmd/api/handlers.go\<close>: \<^verbatim>\<open>parseJID\<close>,
  \<^verbatim>\<open>validateMessageFields\<close> and \<^verbatim>\<open>getPlatformTypeEnum\<close>. A \<^verbatim>\<open>types.JID\<close> of whatsmeow is what the program
  observes of it: its user, its string form and whether its server is that of groups or broadcast
  lists; the constructors of the library are arguments.
\<close>

section \<open>Addresses\<close>

record JID =
  jv_User :: string
  jv_String :: string
  jv_isGroup :: bool

text \<open>\<open>je_NewJID\<close> is \<^verbatim>\<open>types.NewJID\<close> with the default server; \<open>je_ParseJID\<close> is \<^verbatim>\<open>types.ParseJID\<close>, which returns a
  JID and an error.\<close>

record jid_env =
  je_NewJID :: "string \<Rightarrow> JID"
  je_ParseJID :: "string \<Rightarrow> JID \<times> string option"

text \<open>\<^verbatim>\<open>parseJID\<close>: \<^term>\<open>None\<close> is the panic of indexing the empty string.\<close>

definition parseJID :: "jid_env \<Rightarrow> string \<Rightarrow> (JID \<times> bool) option" where
  "parseJID env arg0 =
     (case arg0 of
        [] \<Rightarrow> None
      | c # cs \<Rightarrow>
          (let arg = (if c = CHR ''+'' then cs else arg0)
           in if CHR ''@'' \<notin> set arg then Some (je_NewJID env arg, True)
              else (case je_ParseJID env arg of
                      (recipient, Some err) \<Rightarrow> Some (recipient, False)
                    | (recipient, None) \<Rightarrow>
                        if jv_User recipient = [] then Some (recipient, False) else Some (recipient, True))))"

text \<open>\<^verbatim>\<open>validateMessageFields\<close>; the JID that comes with an error is not used by any caller.\<close>

definition validateMessageFields ::
    "jid_env \<Rightarrow> string \<Rightarrow> string option \<Rightarrow> string option \<Rightarrow> (string + JID) option" where
  "validateMessageFields env phone stanzaid participant =
     (case parseJID env phone of
        None \<Rightarrow> None
      | Some (recipient, ok) \<Rightarrow>
          if \<not> ok then Some (Inl ''could not parse Phone'')
          else if stanzaid \<noteq> None \<and> participant = None then Some (Inl ''missing Participant in ContextInfo'')
          else if participant \<noteq> None \<and> stanzaid = None then Some (Inl ''missing StanzaID in ContextInfo'')
          else Some (Inr recipient))"

section \<open>Device types\<close>

datatype platform =
    UNKNOWN | CHROME | FIREFOX | IE | OPERA | SAFARI | EDGE | DESKTOP | IPAD | ANDROID_TABLET | OHANA | ALOHA
  | CATALINA | TCL_TV | IOS_PHONE | IOS_CATALYST | ANDROID_PHONE | ANDROID_AMBIGUOUS | WEAR_OS | AR_WRIST
  | AR_DEVICE | UWP | VR

definition platform_table :: "(string \<times> platform) list" where
  "platform_table =
     [(''UNKNOWN'', UNKNOWN), (''CHROME'', CHROME), (''FIREFOX'', FIREFOX), (''IE'', IE), (''OPERA'', OPERA),
      (''SAFARI'', SAFARI), (''EDGE'', EDGE), (''DESKTOP'', DESKTOP), (''IPAD'', IPAD),
      (''ANDROID_TABLET'', ANDROID_TABLET), (''OHANA'', OHANA), (''ALOHA'', ALOHA), (''CATALINA'', CATALINA),
      (''TCL_TV'', TCL_TV), (''IOS_PHONE'', IOS_PHONE), (''IOS_CATALYST'', IOS_CATALYST),
      (''ANDROID_PHONE'', ANDROID_PHONE), (''ANDROID_AMBIGUOUS'', ANDROID_AMBIGUOUS), (''WEAR_OS'', WEAR_OS),
      (''AR_WRIST'', AR_WRIST), (''AR_DEVICE'', AR_DEVICE), (''UWP'', UWP), (''VR'', VR)]"

definition getPlatformTypeEnum :: "string \<Rightarrow> platform" where
  "getPlatformTypeEnum platformType =
     (case map_of platform_table (ToUpper (TrimSpace platformType)) of None \<Rightarrow> DESKTOP | Some p \<Rightarrow> p)"

section \<open>Lemmas\<close>

lemma parseJID_panic: "parseJID env arg = None \<longleftrightarrow> arg = []"
  by (auto simp: parseJID_def Let_def split: list.split prod.split option.split)

text \<open>A leading plus sign makes no difference.\<close>

lemma parseJID_plus:
  assumes "arg \<noteq> []" "hd arg \<noteq> CHR ''+''"
  shows "parseJID env (CHR ''+'' # arg) = parseJID env arg"
  using assms by (cases arg) (auto simp: parseJID_def Let_def)

lemma validateMessageFields_ok:
  "validateMessageFields env phone stanzaid participant = Some (Inr r) \<longleftrightarrow>
     parseJID env phone = Some (r, True) \<and> (stanzaid = None \<longleftrightarrow> participant = None)"
  by (auto simp: validateMessageFields_def split: option.splits if_splits)

end
