(* ===== verification/Server.thy ===== *)
theory Server
  imports Webhook S3 Jids
begin

text \<open>
  The HTTP server's shared state and authentication, from \<^verbatim>\<open>cmd/api/handlers.go\<close>, \<^verbatim>\<open>main.go\<close> and
  \<^verbatim>\<open>users_adapter.go\<close>: the response envelopes \<^verbatim>\<open>Respond\<close> and \<^verbatim>\<open>respondWithJSON\<close>, \<^verbatim>\<open>authadmin\<close>,
  \<^verbatim>\<open>authalice\<close> and the hook that an update of a user runs. A request handler maps the authenticated
  user's \<^verbatim>\<open>Values\<close>, the decoded payload (\<^term>\<open>None\<close> when it does not decode), the writer and the state to
  the writer and the state it leaves. Handlers run one after the other; what other goroutines do while
  a handler sleeps is an argument of that handler.
\<close>

section \<open>State\<close>

text \<open>Calls of the whatsmeow client and the file system that leave the program.\<close>

datatype wa_call =
    WALogout ref
  | WADisconnect ref
  | WAConnect ref
  | WAPresence ref
  | WADeviceProps platform string
  | WASetProxyAddress ref string
  | WASetSOCKSProxy ref string
  | HTTPSetProxy ref string
  | RemoveAllFiles string

text \<open>The parts of a \<^verbatim>\<open>types.MessageInfo\<close> that the program reads.\<close>

record MessageInfo =
  mi_ID :: message_id
  mi_Chat :: JID
  mi_Sender :: JID
  mi_IsFromMe :: bool
  mi_IsGroup :: bool
  mi_Timestamp :: int

record srv =
  ss_db :: pg
  ss_cache :: user_cache
  ss_cm :: ClientManager
  ss_s3 :: S3Manager
  ss_kill :: "(string, bool) gomap"
  ss_started :: "(string \<times> string \<times> string \<times> string list) list"
  ss_connected :: "ref \<Rightarrow> bool"
  ss_loggedIn :: "ref \<Rightarrow> bool"
  ss_wa :: "wa_call list"
  ss_s3_deleted :: "(string option \<times> string list list) option list"
  ss_lastMessage :: "(string, MessageInfo) gomap"
  ss_files :: file_system

text \<open>
  \<^verbatim>\<open>killchannel[id]\<close> is a channel with room for one value: the map says whether it holds one. A send
  that does not block is dropped when there is no channel or it is full.
\<close>

definition make_kill :: "string \<Rightarrow> srv \<Rightarrow> srv" where
  "make_kill uid s = s\<lparr>ss_kill := AList.update uid False (ss_kill s)\<rparr>"

definition send_kill :: "string \<Rightarrow> srv \<Rightarrow> srv" where
  "send_kill uid s =
     (case map_of (ss_kill s) uid of
        Some False \<Rightarrow> s\<lparr>ss_kill := AList.update uid True (ss_kill s)\<rparr>
      | _ \<Rightarrow> s)"

definition on_db :: "(pg \<Rightarrow> 'a \<times> pg) \<Rightarrow> srv \<Rightarrow> 'a \<times> srv" where
  "on_db f s = (case f (ss_db s) of (r, d) \<Rightarrow> (r, s\<lparr>ss_db := d\<rparr>))"

definition on_cm :: "(ClientManager \<Rightarrow> ClientManager) \<Rightarrow> srv \<Rightarrow> srv" where
  "on_cm f s = s\<lparr>ss_cm := f (ss_cm s)\<rparr>"

definition cache_set :: "string \<Rightarrow> user_values \<Rightarrow> srv \<Rightarrow> srv" where
  "cache_set token v s = s\<lparr>ss_cache := AList.update token v (ss_cache s)\<rparr>"

definition cache_delete :: "string \<Rightarrow> srv \<Rightarrow> srv" where
  "cache_delete token s = s\<lparr>ss_cache := AList.delete token (ss_cache s)\<rparr>"

text \<open>\<^verbatim>\<open>updateUserInfo\<close> changes the map inside the \<^verbatim>\<open>Values\<close> in place; the caller then stores it.\<close>

definition updateUserInfo :: "user_values \<Rightarrow> string \<Rightarrow> string \<Rightarrow> user_values" where
  "updateUserInfo v fld value = AList.update fld value v"

text \<open>The methods of a \<^verbatim>\<open>*whatsmeow.Client\<close> that may be nil.\<close>

definition IsConnected :: "srv \<Rightarrow> ref option \<Rightarrow> bool" where
  "IsConnected s c = (case c of None \<Rightarrow> False | Some p \<Rightarrow> ss_connected s p)"

definition IsLoggedIn :: "srv \<Rightarrow> ref option \<Rightarrow> bool" where
  "IsLoggedIn s c = (case c of None \<Rightarrow> False | Some p \<Rightarrow> ss_loggedIn s p)"

definition session_of :: "string \<Rightarrow> srv \<Rightarrow> ref option" where
  "session_of uid s = GetWhatsmeowClient uid (ss_cm s)"

section \<open>Responses\<close>

datatype respond_data = RErr string | RData json

text \<open>The envelope that \<^verbatim>\<open>Respond\<close> encodes. A string argument is JSON text that the handler has just
  marshalled; decoded as an object, or else as an array, it becomes the data.\<close>

definition respond_envelope :: "nat \<Rightarrow> respond_data \<Rightarrow> json" where
  "respond_envelope status data =
     (case data of
        RErr e \<Rightarrow> JObj [(''code'', JNum (int status)), (''error'', JStr e), (''success'', JBool False)]
      | RData j \<Rightarrow>
          (case j of
             JObj _ \<Rightarrow> JObj [(''code'', JNum (int status)), (''data'', j), (''success'', JBool True)]
           | JArr _ \<Rightarrow> JObj [(''code'', JNum (int status)), (''data'', j), (''success'', JBool True)]
           | JNull \<Rightarrow> JObj [(''code'', JNum (int status)), (''data'', JNull), (''success'', JBool True)]
           | _ \<Rightarrow> JObj [(''code'', JNum (int status)), (''success'', JBool True)]))"

definition Respond :: "nat \<Rightarrow> respond_data \<Rightarrow> writer \<Rightarrow> writer" where
  "Respond status data w =
     WriteBody (respond_envelope status data) (WriteHeader status (SetHeader ''Content-Type'' ''application/json'' w))"

definition respondWithJSON :: "nat \<Rightarrow> json \<Rightarrow> writer \<Rightarrow> writer" where
  "respondWithJSON statusCode payload w =
     WriteBody payload (WriteHeader statusCode (SetHeader ''Content-Type'' ''application/json; charset=utf-8'' w))"

section \<open>Authentication\<close>

text \<open>\<^verbatim>\<open>authadmin\<close>: the hashes of the two tokens are compared.\<close>

definition authadmin ::
    "(string \<Rightarrow> bytes) \<Rightarrow> string \<Rightarrow> string \<Rightarrow> (writer \<Rightarrow> srv \<Rightarrow> writer \<times> srv) \<Rightarrow> writer \<Rightarrow> srv \<Rightarrow> writer \<times> srv" where
  "authadmin sha256 adminToken authorization nxt w s =
     (if sha256 authorization \<noteq> sha256 adminToken then (Respond 401 (RErr ''unauthorized'') w, s)
      else nxt w s)"

text \<open>The token of a request: the header, else the query parameters joined.\<close>

definition request_token :: "string \<Rightarrow> string list \<Rightarrow> string" where
  "request_token header query = (if header = [] then Join query [] else header)"

text \<open>The \<^verbatim>\<open>Values\<close> built from a row; scanning a NULL \<^verbatim>\<open>proxy_url\<close> into a string fails.\<close>

definition auth_values :: "string \<Rightarrow> user_row \<Rightarrow> user_values option" where
  "auth_values token r =
     (case u_proxy_url r of
        None \<Rightarrow> None
      | Some proxy_url \<Rightarrow>
          Some [(''Id'', u_id r), (''Name'', u_name r), (''Jid'', u_jid r), (''Webhook'', u_webhook r),
                (''Token'', token), (''Proxy'', proxy_url), (''Events'', u_events r), (''Qrcode'', u_qrcode r),
                (''History'', case u_history r of None \<Rightarrow> ''0'' | Some h \<Rightarrow> Itoa h),
                (''HasHmac'', FormatBool (case u_hmac_key r of None \<Rightarrow> False | Some k \<Rightarrow> length k > 0)),
                (''S3Enabled'', if u_s3_enabled r = Some True then ''true'' else ''false''),
                (''MediaDelivery'', coalesce (u_media_delivery r) ''base64'')])"

definition find_token :: "string \<Rightarrow> pg \<Rightarrow> user_row option" where
  "find_token token d = find (\<lambda>r. u_token r = token) (users_tbl d)"

definition authalice ::
    "string \<Rightarrow> string list \<Rightarrow> (user_values \<Rightarrow> writer \<Rightarrow> srv \<Rightarrow> writer \<times> srv) \<Rightarrow> writer \<Rightarrow> srv \<Rightarrow> writer \<times> srv" where
  "authalice header query nxt w s =
     (let token = request_token header query
      in case map_of (ss_cache s) token of
           Some v \<Rightarrow>
             if Values_Get v ''Id'' = [] then (Respond 401 (RErr ''unauthorized'') w, s) else nxt v w s
         | None \<Rightarrow>
             (case on_db (pg_query (find_token token)) s of
                (Inl e, s1) \<Rightarrow> (Respond 500 (RErr e) w, s1)
              | (Inr None, s1) \<Rightarrow> (Respond 401 (RErr ''unauthorized'') w, s1)
              | (Inr (Some r), s1) \<Rightarrow>
                  (case auth_values token r of
                     None \<Rightarrow>
                       (Respond 500 (RErr ''sql: Scan error: converting NULL to string is unsupported'') w, s1)
                   | Some v \<Rightarrow>
                       (let s2 = cache_set token v s1
                        in if u_id r = [] then (Respond 401 (RErr ''unauthorized'') w, s2) else nxt v w s2))))"

section \<open>Updates of users\<close>

text \<open>
  \<^verbatim>\<open>updateHookFor\<close>: the cache forgets the old and the new token, and the S3 manager follows the new
  configuration. A nil \<^verbatim>\<open>S3Manager\<close> does not occur: the manager is a package variable.
\<close>

definition updateHookFor :: "UpdateResult \<Rightarrow> srv \<Rightarrow> srv" where
  "updateHookFor ev s =
     (let s1 = cache_delete (ur_OldToken ev) s;
          s2 = (if ur_NewToken ev \<noteq> [] \<and> ur_NewToken ev \<noteq> ur_OldToken ev then cache_delete (ur_NewToken ev) s1 else s1)
      in case ur_S3Config ev of
           None \<Rightarrow> s2
         | Some c \<Rightarrow>
             if s3_Enabled c then s2\<lparr>ss_s3 := InitializeS3Client (ur_UserID ev) c (ss_s3 s2)\<rparr>
             else s2\<lparr>ss_s3 := RemoveClient (ur_UserID ev) (ss_s3 s2)\<rparr>)"

text \<open>\<^verbatim>\<open>PostgresRepository\<close> over the database of the server, and \<^verbatim>\<open>newUsersService\<close>.\<close>

definition server_repo :: "srv Repository" where
  "server_repo =
     \<lparr>rp_List = on_db (rp_List PostgresRepository), rp_Get = (\<lambda>i. on_db (rp_Get PostgresRepository i)),
      rp_Delete = (\<lambda>i. on_db (rp_Delete PostgresRepository i)),
      rp_TokenExists = (\<lambda>t. on_db (rp_TokenExists PostgresRepository t)),
      rp_Create = (\<lambda>r. on_db (rp_Create PostgresRepository r)),
      rp_ExistsByID = (\<lambda>i. on_db (rp_ExistsByID PostgresRepository i)),
      rp_GetToken = (\<lambda>i. on_db (rp_GetToken PostgresRepository i)),
      rp_Update = (\<lambda>i fs. on_db (rp_Update PostgresRepository i fs))\<rparr>"

definition GenerateRandomID :: "bytes \<Rightarrow> string + string" where
  "GenerateRandomID rnd =
     (if length rnd < 16 then Inl ''failed to generate random ID'' else Inr (hex_encode (take 16 rnd)))"

definition newUsersService :: "crypto \<Rightarrow> string \<Rightarrow> bytes \<Rightarrow> bytes \<Rightarrow> srv Service" where
  "newUsersService cy globalEncryptionKey idRandom nonceRandom =
     WithUpdateHook updateHookFor
       (WithHMACEncryptor (encryptHMACKey cy globalEncryptionKey nonceRandom)
         (WithIDGenerator (GenerateRandomID idRandom)
           (New server_repo
             (\<lambda>s. usersConnState_Connected (ss_connected s) (Some (ss_cm s)))
             (\<lambda>s. usersConnState_LoggedIn (ss_loggedIn s) (Some (ss_cm s))) idRandom)))"

end
