(* ===== verification/History.thy ===== *)
theory History
  imports Server
begin

text \<open>
  The message history: saving and trimming (\<^verbatim>\<open>cmd/api/db.go\<close>), outgoing messages and the history
  endpoint (\<^verbatim>\<open>cmd/api/handlers.go\<close>). \<^verbatim>\<open>ORDER BY timestamp DESC\<close> is a stable sort, so rows with the
  same timestamp keep their order of insertion.
\<close>

section \<open>Model\<close>

definition newest_first :: "history_row list \<Rightarrow> history_row list" where
  "newest_first rows = sort_key (\<lambda>r. - h_timestamp r) rows"

definition chat_rows :: "string \<Rightarrow> string \<Rightarrow> history_row list \<Rightarrow> history_row list" where
  "chat_rows userID chatJID rows = filter (\<lambda>r. h_user_id r = userID \<and> h_chat_jid r = chatJID) rows"

text \<open>The insert violates \<^verbatim>\<open>UNIQUE(user_id, message_id)\<close> when the user already has the message.\<close>

definition saveMessageToHistory ::
    "int \<Rightarrow> string \<Rightarrow> jid \<Rightarrow> jid \<Rightarrow> message_id \<Rightarrow> string \<Rightarrow> string \<Rightarrow> string \<Rightarrow> message_id \<Rightarrow> string \<Rightarrow> pg \<Rightarrow>
     (string + unit) \<times> pg" where
  "saveMessageToHistory now userID chatJID senderJID messageID messageType textContent mediaLink quotedMessageID dataJson d =
     (case pg_exec (\<lambda>d. if list_ex (\<lambda>r. h_user_id r = userID \<and> h_message_id r = messageID) (history_tbl d)
                        then Inl ''duplicate key value violates unique constraint''
                        else Inr ((), d\<lparr>history_seq := Suc (history_seq d),
                               history_tbl := history_tbl d @
                                 [\<lparr>h_id = history_seq d, h_user_id = userID, h_chat_jid = chatJID, h_sender_jid = senderJID,
                                   h_message_id = messageID, h_timestamp = now, h_message_type = messageType,
                                   h_text_content = textContent, h_media_link = mediaLink,
                                   h_quoted_message_id = quotedMessageID, h_datajson = dataJson\<rparr>]\<rparr>)) d of
        (Inl e, d') \<Rightarrow> (Inl (''failed to save message to history: '' @ e), d')
      | (Inr _, d') \<Rightarrow> (Inr (), d'))"

text \<open>The rows that the two statements of \<^verbatim>\<open>trimMessageHistory\<close> select: a chat's rows from \<^verbatim>\<open>OFFSET\<close> on.\<close>

definition overflow_rows :: "string \<Rightarrow> string \<Rightarrow> int \<Rightarrow> pg \<Rightarrow> history_row list" where
  "overflow_rows userID chatJID limit d = drop (nat limit) (newest_first (chat_rows userID chatJID (history_tbl d)))"

definition trimMessageHistory :: "string \<Rightarrow> string \<Rightarrow> int \<Rightarrow> pg \<Rightarrow> (string + unit) \<times> pg" where
  "trimMessageHistory userID chatJID limit d =
     (case pg_exec (\<lambda>d. if limit < 0 then Inl ''OFFSET must not be negative''
                        else Inr ((), d\<lparr>secrets_tbl :=
                               filter (\<lambda>k. k_message_id k \<notin> h_message_id ` set (overflow_rows userID chatJID limit d))
                                 (secrets_tbl d)\<rparr>)) d of
        (Inl e, d1) \<Rightarrow> (Inl (''failed to trim message secrets: '' @ e), d1)
      | (Inr _, d1) \<Rightarrow>
     (case pg_exec (\<lambda>d. if limit < 0 then Inl ''OFFSET must not be negative''
                        else Inr ((), d\<lparr>history_tbl :=
                               filter (\<lambda>r. h_id r \<notin> h_id ` set (overflow_rows userID chatJID limit d)) (history_tbl d)\<rparr>)) d1 of
        (Inl e, d2) \<Rightarrow> (Inl (''failed to trim message history: '' @ e), d2)
      | (Inr _, d2) \<Rightarrow> (Inr (), d2)))"

text \<open>Errors are only logged.\<close>

definition saveOutgoingMessageToHistory ::
    "int \<Rightarrow> string \<Rightarrow> jid \<Rightarrow> message_id \<Rightarrow> string \<Rightarrow> string \<Rightarrow> string \<Rightarrow> int \<Rightarrow> pg \<Rightarrow> pg" where
  "saveOutgoingMessageToHistory now userID chatJID messageID messageType textContent mediaLink historyLimit d =
     (if historyLimit > 0 then
        (case saveMessageToHistory now userID chatJID ''me'' messageID messageType textContent mediaLink [] [] d of
           (Inl e, d1) \<Rightarrow> d1
         | (Inr _, d1) \<Rightarrow> snd (trimMessageHistory userID chatJID historyLimit d1))
      else d)"

subsection \<open>The history endpoint\<close>

text \<open>\<open>fmt\<close> formats a time.\<close>

definition history_json :: "(int \<Rightarrow> string) \<Rightarrow> history_row \<Rightarrow> json" where
  "history_json fmt r =
     JObj ([(''id'', JNum (int (h_id r))), (''user_id'', JStr (h_user_id r)), (''chat_jid'', JStr (h_chat_jid r)),
            (''sender_jid'', JStr (h_sender_jid r)), (''message_id'', JStr (h_message_id r)),
            (''timestamp'', JStr (fmt (h_timestamp r))), (''message_type'', JStr (h_message_type r)),
            (''text_content'', JStr (h_text_content r)), (''media_link'', JStr (h_media_link r))] @
           (if h_quoted_message_id r \<noteq> [] then [(''quoted_message_id'', JStr (h_quoted_message_id r))] else []) @
           [(''data_json'', JStr (h_datajson r))])"

text \<open>
  The chat index: for every user and chat of the whole table the time of the last message,
  grouped by user.
\<close>

definition chat_groups :: "history_row list \<Rightarrow> (string \<times> string) list" where
  "chat_groups rows = remdups (map (\<lambda>r. (h_user_id r, h_chat_jid r)) rows)"

definition last_time :: "history_row list \<Rightarrow> string \<times> string \<Rightarrow> int" where
  "last_time rows g = Max (h_timestamp ` set (chat_rows (fst g) (snd g) rows))"

definition chat_index :: "(int \<Rightarrow> string) \<Rightarrow> history_row list \<Rightarrow> json" where
  "chat_index fmt rows =
     JObj (map (\<lambda>u. (u, JArr (map (\<lambda>g. JObj [(''chat_jid'', JStr (snd g)), (''last_updated'', JStr (fmt (last_time rows g)))])
        (sort_key (\<lambda>g. - last_time rows g) (filter (\<lambda>g. fst g = u) (chat_groups rows))))))
       (remdups (sort (map fst (chat_groups rows)))))"

record history_query =
  hy_chat_jid :: string
  hy_limit :: string

text \<open>A negative \<^verbatim>\<open>LIMIT\<close> is an error of the database. An empty result is encoded as \<^verbatim>\<open>null\<close>.\<close>

definition GetHistory :: "(int \<Rightarrow> string) \<Rightarrow> user_values \<Rightarrow> history_query \<Rightarrow> writer \<Rightarrow> srv \<Rightarrow> writer \<times> srv" where
  "GetHistory fmt ui q w s =
     (let txtid = Values_Get ui ''Id'';
          historyLimit = (case Atoi (Values_Get ui ''History'') of Some n \<Rightarrow> n | None \<Rightarrow> 0);
          (limit0, s1) =
            (if historyLimit = 0 then
               (let s0 = cache_delete (Values_Get ui ''Token'') s
                in case on_db (pg_query (find_user txtid)) s0 of
                     (Inr (Some r), s1) \<Rightarrow>
                       (if coalesce (u_history r) 0 > 0 then coalesce (u_history r) 0 else historyLimit, s1)
                   | (_, s1) \<Rightarrow> (historyLimit, s1))
             else (historyLimit, s))
      in if historyLimit = 0 \<and> limit0 = 0
         then (Respond 501 (RErr ''message history is disabled for this user'') w, s1)
         else if hy_chat_jid q = [] then (Respond 400 (RErr ''chat_jid is required'') w, s1)
         else if hy_chat_jid q = ''index'' then
           (case on_db (pg_query history_tbl) s1 of
              (Inl e, s2) \<Rightarrow> (Respond 500 (RErr (''failed to get chat mappings: '' @ e)) w, s2)
            | (Inr rows, s2) \<Rightarrow> (Respond 200 (RData (chat_index fmt rows)) w, s2))
         else
           (case (if hy_limit q = [] then Some 50 else Atoi (hy_limit q)) of
              None \<Rightarrow> (Respond 400 (RErr ''invalid limit'') w, s1)
            | Some limit \<Rightarrow>
                (case on_db (pg_exec (\<lambda>d. if limit < 0 then Inl ''LIMIT must not be negative''
                        else Inr (take (nat limit) (newest_first (chat_rows txtid (hy_chat_jid q) (history_tbl d))), d))) s1 of
                   (Inl e, s2) \<Rightarrow> (Respond 500 (RErr (''failed to get message history: '' @ e)) w, s2)
                 | (Inr rows, s2) \<Rightarrow>
                     (Respond 200 (RData (if rows = [] then JNull else JArr (map (history_json fmt) rows))) w, s2))))"

end
