(* ===== verification/History_Props.thy ===== *)
theory History_Props
  imports History
begin

text \<open>
  The history keeps at most the configured number of messages of a chat, the newest ones, and leaves
  the other chats alone; no message is stored twice. Trimming and the chat index reach beyond the
  user they are called for.
\<close>

section \<open>Lemmas\<close>

definition history_ok :: "pg \<Rightarrow> bool" where
  "history_ok d \<longleftrightarrow> distinct (map h_id (history_tbl d)) \<and> list_all (\<lambda>r. h_id r < history_seq d) (history_tbl d) \<and>
     distinct (map (\<lambda>r. (h_user_id r, h_message_id r)) (history_tbl d))"

lemma history_ok_calls [simp]: "history_ok (d\<lparr>calls := n\<rparr>) = history_ok d"
  by (simp add: history_ok_def)

lemma save_Inr:
  assumes "saveMessageToHistory now u c sd m ty tx ml q dj d = (Inr x, d')"
  shows "fault d (calls d) = None" "(u, m) \<notin> (\<lambda>r. (h_user_id r, h_message_id r)) ` set (history_tbl d)"
    "d' = d\<lparr>calls := Suc (calls d), history_seq := Suc (history_seq d),
       history_tbl := history_tbl d @ [\<lparr>h_id = history_seq d, h_user_id = u, h_chat_jid = c, h_sender_jid = sd,
         h_message_id = m, h_timestamp = now, h_message_type = ty, h_text_content = tx, h_media_link = ml,
         h_quoted_message_id = q, h_datajson = dj\<rparr>]\<rparr>"
  using assms
  by (auto simp: saveMessageToHistory_def list_ex_iff split: sum.splits prod.splits if_splits dest!: pg_exec_Inr)

lemma save_Inl:
  assumes "saveMessageToHistory now u c sd m ty tx ml q dj d = (Inl e, d')"
  shows "d' = d\<lparr>calls := Suc (calls d)\<rparr>"
  using assms by (auto simp: saveMessageToHistory_def split: sum.splits prod.splits dest!: pg_exec_Inl)

lemma trim_cases:
  "\<exists>n k P. snd (trimMessageHistory u c l d) = d\<lparr>calls := n, secrets_tbl := k, history_tbl := filter P (history_tbl d)\<rparr>"
proof -
  obtain r1 d1 where e1: "pg_exec (\<lambda>d. if l < 0 then Inl ''OFFSET must not be negative''
      else Inr ((), d\<lparr>secrets_tbl := filter (\<lambda>k. k_message_id k \<notin> h_message_id ` set (overflow_rows u c l d)) (secrets_tbl d)\<rparr>)) d = (r1, d1)"
    by (rule prod.exhaust)
  obtain r2 d2 where e2: "pg_exec (\<lambda>d. if l < 0 then Inl ''OFFSET must not be negative''
      else Inr ((), d\<lparr>history_tbl := filter (\<lambda>r. h_id r \<notin> h_id ` set (overflow_rows u c l d)) (history_tbl d)\<rparr>)) d1 = (r2, d2)"
    by (rule prod.exhaust)
  have d1: "\<exists>n k. d1 = d\<lparr>calls := n, secrets_tbl := k\<rparr>"
  proof (cases r1)
    case (Inl e)
    have "d1 = d\<lparr>calls := Suc (calls d)\<rparr>" by (rule pg_exec_Inl [OF e1 [unfolded Inl]])
    then have "d1 = d\<lparr>calls := Suc (calls d), secrets_tbl := secrets_tbl d\<rparr>" by simp
    then show ?thesis by blast
  next
    case (Inr x)
    from pg_exec_Inr [OF e1 [unfolded Inr]] show ?thesis by (auto split: if_splits)
  qed
  have d2: "\<exists>n P. d2 = d1\<lparr>calls := n, history_tbl := filter P (history_tbl d1)\<rparr>"
  proof (cases r2)
    case (Inl e)
    have "d2 = d1\<lparr>calls := Suc (calls d1)\<rparr>" by (rule pg_exec_Inl [OF e2 [unfolded Inl]])
    then have "d2 = d1\<lparr>calls := Suc (calls d1), history_tbl := filter (\<lambda>_. True) (history_tbl d1)\<rparr>" by simp
    then show ?thesis by blast
  next
    case (Inr x)
    from pg_exec_Inr [OF e2 [unfolded Inr]] show ?thesis by (auto split: if_splits)
  qed
  from d1 obtain n k where n: "d1 = d\<lparr>calls := n, secrets_tbl := k\<rparr>" by blast
  from d2 obtain n2 P where n2: "d2 = d1\<lparr>calls := n2, history_tbl := filter P (history_tbl d1)\<rparr>" by blast
  have "snd (trimMessageHistory u c l d) = (case r1 of Inl _ \<Rightarrow> d1 | Inr _ \<Rightarrow> d2)"
    unfolding trimMessageHistory_def e1 by (cases r1; cases r2) (simp_all add: e2)
  moreover have "d1 = d\<lparr>calls := n, secrets_tbl := k, history_tbl := filter (\<lambda>_. True) (history_tbl d)\<rparr>" by (simp add: n)
  moreover have "d2 = d\<lparr>calls := n2, secrets_tbl := k, history_tbl := filter P (history_tbl d)\<rparr>" by (simp add: n n2)
  moreover have "(case r1 of Inl _ \<Rightarrow> d1 | Inr _ \<Rightarrow> d2) = d1 \<or> (case r1 of Inl _ \<Rightarrow> d1 | Inr _ \<Rightarrow> d2) = d2" by (cases r1) simp_all
  ultimately show ?thesis by (elim disjE) (simp only:, blast)+
qed

lemma history_ok_save: "history_ok d \<Longrightarrow> history_ok (snd (saveMessageToHistory now u c sd m ty tx ml q dj d))"
proof -
  assume ok: "history_ok d"
  obtain r d' where s: "saveMessageToHistory now u c sd m ty tx ml q dj d = (r, d')" by fastforce
  show ?thesis
  proof (cases r)
    case (Inl e)
    with save_Inl s ok show ?thesis by (metis history_ok_calls snd_conv)
  next
    case (Inr x)
    from save_Inr [OF s [unfolded Inr]] s ok show ?thesis
      by (auto simp: history_ok_def list_all_iff)
  qed
qed

lemma history_ok_trim: "history_ok d \<Longrightarrow> history_ok (snd (trimMessageHistory u c l d))"
proof -
  assume "history_ok d"
  moreover obtain n k P where "snd (trimMessageHistory u c l d) = d\<lparr>calls := n, secrets_tbl := k, history_tbl := filter P (history_tbl d)\<rparr>"
    using trim_cases by blast
  ultimately show ?thesis
    by (auto simp: history_ok_def list_all_iff distinct_map_filter)
qed

text \<open>Dropping the rows of the tail of the sorted chat by their ids keeps the head.\<close>

lemma newest_first_trim:
  assumes "distinct (map h_id rows)"
  shows "newest_first (chat_rows u c (filter (\<lambda>r. h_id r \<notin> h_id ` set (drop n (newest_first (chat_rows u c rows)))) rows)) =
    take n (newest_first (chat_rows u c rows))"
proof -
  let ?S = "newest_first (chat_rows u c rows)"
  let ?P = "\<lambda>r. h_id r \<notin> h_id ` set (drop n ?S)"
  have "distinct (map h_id (chat_rows u c rows))"
    using assms by (simp add: chat_rows_def distinct_map_filter)
  then have dist: "distinct (map h_id ?S)" by (simp add: distinct_map newest_first_def)
  have S: "map h_id ?S = map h_id (take n ?S) @ map h_id (drop n ?S)"
    by (metis append_take_drop_id map_append)
  have "newest_first (chat_rows u c (filter ?P rows)) = filter ?P ?S"
    unfolding newest_first_def chat_rows_def by (simp add: filter_sort conj_commute)
  also have "\<dots> = filter ?P (take n ?S) @ filter ?P (drop n ?S)"
    by (metis append_take_drop_id filter_append)
  also have "filter ?P (drop n ?S) = []" by (auto simp: filter_empty_conv)
  also have "filter ?P (take n ?S) = take n ?S"
  proof (rule filter_True, rule ballI)
    fix r
    assume "r \<in> set (take n ?S)"
    then have "h_id r \<in> set (map h_id (take n ?S))" by simp
    moreover have "set (map h_id (take n ?S)) \<inter> set (map h_id (drop n ?S)) = {}"
      using dist unfolding S by (simp only: distinct_append)
    ultimately show "?P r" by auto
  qed
  finally show ?thesis by simp
qed

lemma other_rows_trim:
  assumes "distinct (map h_id rows)"
  shows "filter (\<lambda>r. \<not> (h_user_id r = u \<and> h_chat_jid r = c))
      (filter (\<lambda>r. h_id r \<notin> h_id ` set (drop n (newest_first (chat_rows u c rows)))) rows) =
    filter (\<lambda>r. \<not> (h_user_id r = u \<and> h_chat_jid r = c)) rows"
proof -
  have "h_id r \<notin> h_id ` set (drop n (newest_first (chat_rows u c rows)))"
    if "r \<in> set rows" "\<not> (h_user_id r = u \<and> h_chat_jid r = c)" for r
  proof
    assume "h_id r \<in> h_id ` set (drop n (newest_first (chat_rows u c rows)))"
    then obtain r' where r': "r' \<in> set (chat_rows u c rows)" "h_id r' = h_id r"
      by (auto dest!: in_set_dropD simp: newest_first_def)
    then have "r' \<in> set rows" "h_user_id r' = u \<and> h_chat_jid r' = c" by (auto simp: chat_rows_def)
    moreover have "r' = r" using assms that(1) r' \<open>r' \<in> set rows\<close> by (simp add: distinct_map inj_on_def)
    ultimately show False using that(2) by simp
  qed
  then show ?thesis by (auto intro!: filter_cong)
qed

section \<open>Properties\<close>

text \<open>
  C32. Saving an outgoing message keeps exactly the newest messages: when the database works and the
  message is new, the chat afterwards holds the \<open>limit\<close> newest of its old messages and the new one,
  newest first, and no row of another chat or user has changed.
\<close>

theorem saveOutgoing_keeps_newest:
  fixes now :: int and c ty tx ml :: string
  assumes "no_faults d" "history_ok d" "0 < limit"
    "list_all (\<lambda>r. \<not> (h_user_id r = u \<and> h_message_id r = m)) (history_tbl d)"
  defines "d' \<equiv> saveOutgoingMessageToHistory now u c m ty tx ml limit d"
    and "new \<equiv> \<lparr>h_id = history_seq d, h_user_id = u, h_chat_jid = c, h_sender_jid = ''me'', h_message_id = m,
      h_timestamp = now, h_message_type = ty, h_text_content = tx, h_media_link = ml, h_quoted_message_id = [], h_datajson = []\<rparr>"
  shows "newest_first (chat_rows u c (history_tbl d')) =
      take (nat limit) (newest_first (chat_rows u c (history_tbl d @ [new]))) \<and>
    length (chat_rows u c (history_tbl d')) \<le> nat limit \<and>
    filter (\<lambda>r. \<not> (h_user_id r = u \<and> h_chat_jid r = c)) (history_tbl d') =
      filter (\<lambda>r. \<not> (h_user_id r = u \<and> h_chat_jid r = c)) (history_tbl d)"
proof -
  let ?rows = "history_tbl d @ [new]"
  have nf: "fault d = (\<lambda>_. None)" using assms(1) by (simp add: no_faults_def)
  have fresh: "\<not> list_ex (\<lambda>r. h_user_id r = u \<and> h_message_id r = m) (history_tbl d)"
    using assms(4) by (auto simp: list_ex_iff list_all_iff)
  have "saveMessageToHistory now u c ''me'' m ty tx ml [] [] d =
      (Inr (), d\<lparr>calls := Suc (calls d), history_seq := Suc (history_seq d), history_tbl := ?rows\<rparr>)"
    using fresh by (simp add: saveMessageToHistory_def pg_exec_def nf Let_def new_def)
  then have tbl: "history_tbl d' = filter (\<lambda>r. h_id r \<notin> h_id ` set (drop (nat limit) (newest_first (chat_rows u c ?rows)))) ?rows"
    using assms(3) by (simp add: d'_def saveOutgoingMessageToHistory_def trimMessageHistory_def pg_exec_def nf Let_def
        overflow_rows_def)
  have dist: "distinct (map h_id ?rows)"
    using assms(2) by (auto simp: history_ok_def list_all_iff new_def)
  have first: "newest_first (chat_rows u c (history_tbl d')) = take (nat limit) (newest_first (chat_rows u c ?rows))"
    unfolding tbl by (rule newest_first_trim [OF dist])
  moreover have "length (chat_rows u c (history_tbl d')) = length (newest_first (chat_rows u c (history_tbl d')))"
    by (simp add: newest_first_def)
  moreover have "filter (\<lambda>r. \<not> (h_user_id r = u \<and> h_chat_jid r = c)) (history_tbl d') =
      filter (\<lambda>r. \<not> (h_user_id r = u \<and> h_chat_jid r = c)) (history_tbl d)"
    unfolding tbl other_rows_trim [OF dist] by (simp add: new_def)
  ultimately show ?thesis by simp
qed

definition sample_history :: pg where
  "sample_history = \<lparr>users_tbl = [], history_tbl = [], history_seq = 0,
     secrets_tbl = [\<lparr>k_our_jid = ''bob'', k_message_id = ''M1''\<rparr>], calls = 0, fault = (\<lambda>_. None)\<rparr>"

theorem saveOutgoing_keeps_newest_witness:
  "length (chat_rows ''u'' ''c'' (history_tbl (saveOutgoingMessageToHistory 5 ''u'' ''c'' ''M1'' ''text'' ''hi'' [] 1 sample_history))) \<le> nat 1"
  using saveOutgoing_keeps_newest [of sample_history 1 "''u''" "''M1''" "''c''" 5 "''text''" "''hi''" "[]"]
  by (simp add: no_faults_def history_ok_def sample_history_def)

inductive history_reach :: "pg \<Rightarrow> bool" where
  start: "history_tbl d = [] \<Longrightarrow> history_reach d"
| save: "history_reach d \<Longrightarrow> history_reach (snd (saveMessageToHistory now u c sd m ty tx ml q dj d))"
| trim: "history_reach d \<Longrightarrow> history_reach (snd (trimMessageHistory u c l d))"

text \<open>
  No message is stored twice: from the empty history, after any sequence of saves and trims and
  under any database faults, the ids of the rows are distinct and so are the pairs of user and
  message id.
\<close>

theorem history_unique:
  assumes "history_reach d"
  shows "distinct (map h_id (history_tbl d)) \<and> distinct (map (\<lambda>r. (h_user_id r, h_message_id r)) (history_tbl d))"
proof -
  from assms have "history_ok d"
    by (induction rule: history_reach.induct) (simp_all add: history_ok_save history_ok_trim, simp add: history_ok_def)
  then show ?thesis by (simp add: history_ok_def)
qed

theorem history_unique_witness:
  "distinct (map h_id (history_tbl (snd (saveMessageToHistory 1 ''u'' ''c'' ''s'' ''M'' ''t'' [] [] [] [] sample_history))))"
proof -
  have "history_reach (snd (saveMessageToHistory 1 ''u'' ''c'' ''s'' ''M'' ''t'' [] [] [] [] sample_history))"
    by (intro history_reach.save history_reach.start) (simp add: sample_history_def)
  from history_unique [OF this] show ?thesis by blast
qed

text \<open>
  Trimming one user's chat deletes the message secrets of other users: the secrets are selected by
  message id alone, so a secret that belongs to another account goes when that account has a message
  of the same id.
\<close>

theorem trim_deletes_foreign_secrets:
  "let d1 = snd (saveMessageToHistory 1 ''alice'' ''chat'' ''s'' ''M1'' ''text'' [] [] [] [] sample_history)
   in secrets_tbl d1 = [\<lparr>k_our_jid = ''bob'', k_message_id = ''M1''\<rparr>] \<and>
      secrets_tbl (snd (trimMessageHistory ''alice'' ''chat'' 0 d1)) = []"
  by code_simp

text \<open>
  The history endpoint answers for a chat with rows of the authenticated user and that chat only, newest
  first and at most \<open>limit\<close> of them (50 when none is given), when the history is enabled and the database
  works; it changes nothing.
\<close>

theorem GetHistory_own_rows:
  assumes "Atoi (Values_Get ui ''History'') = Some n" "n \<noteq> 0" "hy_chat_jid q \<noteq> []" "hy_chat_jid q \<noteq> ''index''"
    "no_faults (ss_db s)" "(if hy_limit q = [] then Some 50 else Atoi (hy_limit q)) = Some limit" "0 \<le> limit"
  shows "\<exists>rows s'. GetHistory fmt ui q w s =
      (Respond 200 (RData (if rows = [] then JNull else JArr (map (history_json fmt) rows))) w, s') \<and>
    length rows \<le> nat limit \<and> sorted (map (\<lambda>r. - h_timestamp r) rows) \<and>
    (\<forall>r. r \<in> set rows \<longrightarrow> r \<in> set (history_tbl (ss_db s)) \<and> h_user_id r = Values_Get ui ''Id'' \<and> h_chat_jid r = hy_chat_jid q) \<and>
    history_tbl (ss_db s') = history_tbl (ss_db s) \<and> ss_cache s' = ss_cache s"
proof -
  let ?rows = "take (nat limit) (newest_first (chat_rows (Values_Get ui ''Id'') (hy_chat_jid q) (history_tbl (ss_db s))))"
  have nf: "fault (ss_db s) = (\<lambda>_. None)" using assms(5) by (simp add: no_faults_def)
  have "GetHistory fmt ui q w s =
      (Respond 200 (RData (if ?rows = [] then JNull else JArr (map (history_json fmt) ?rows))) w,
       s\<lparr>ss_db := (ss_db s)\<lparr>calls := Suc (calls (ss_db s))\<rparr>\<rparr>)"
    unfolding GetHistory_def using assms(1-4,6,7) by (simp add: on_db_def pg_exec_def nf Let_def)
  moreover have "sorted (map (\<lambda>r. - h_timestamp r) ?rows)"
    using sorted_wrt_take [of "(\<le>)" "map (\<lambda>r. - h_timestamp r) (newest_first (chat_rows (Values_Get ui ''Id'') (hy_chat_jid q) (history_tbl (ss_db s))))"]
    by (simp add: newest_first_def take_map)
  moreover have "\<forall>r. r \<in> set ?rows \<longrightarrow> r \<in> set (history_tbl (ss_db s)) \<and> h_user_id r = Values_Get ui ''Id'' \<and> h_chat_jid r = hy_chat_jid q"
    by (auto dest!: in_set_takeD simp: newest_first_def chat_rows_def)
  ultimately show ?thesis
    by (intro exI [of _ ?rows] exI [of _ "s\<lparr>ss_db := (ss_db s)\<lparr>calls := Suc (calls (ss_db s))\<rparr>\<rparr>"]) simp
qed

definition history_srv :: srv where
  "history_srv = \<lparr>ss_db = sample_history, ss_cache = [], ss_cm = NewClientManager (\<lambda>_. undefined), ss_s3 = new_S3Manager,
     ss_kill = [], ss_started = [], ss_connected = (\<lambda>_. False), ss_loggedIn = (\<lambda>_. False), ss_wa = [], ss_s3_deleted = [], ss_lastMessage = [], ss_files = []\<rparr>"

theorem GetHistory_own_rows_witness:
  "\<exists>rows s'. GetHistory (\<lambda>_. []) [(''Id'', ''u''), (''History'', ''5'')] \<lparr>hy_chat_jid = ''c'', hy_limit = []\<rparr> new_writer history_srv =
      (Respond 200 (RData (if rows = [] then JNull else JArr (map (history_json (\<lambda>_. [])) rows))) new_writer, s') \<and>
    length rows \<le> nat 50"
proof -
  let ?ui = "[(''Id'', ''u''), (''History'', ''5'')]" and ?q = "\<lparr>hy_chat_jid = ''c'', hy_limit = []\<rparr>"
  have h: "Atoi (Values_Get ?ui ''History'') = Some 5" by (simp add: Values_Get_def Atoi_def Let_def is_digit_def)
  have q: "hy_chat_jid ?q \<noteq> []" "hy_chat_jid ?q \<noteq> ''index''"
    "(if hy_limit ?q = [] then Some 50 else Atoi (hy_limit ?q)) = Some 50" by simp_all
  have db: "no_faults (ss_db history_srv)" by (simp add: history_srv_def no_faults_def sample_history_def)
  have ne: "(5 :: int) \<noteq> 0" "0 \<le> (50 :: int)" by simp_all
  obtain rows s' where "GetHistory (\<lambda>_. []) ?ui ?q new_writer history_srv =
      (Respond 200 (RData (if rows = [] then JNull else JArr (map (history_json (\<lambda>_. [])) rows))) new_writer, s')"
    "length rows \<le> nat 50"
    using GetHistory_own_rows [OF h ne(1) q(1,2) db q(3) ne(2), of "\<lambda>_. []" new_writer] by (elim exE conjE)
  then show ?thesis by (intro exI conjI)
qed

text \<open>
  The chat index is not limited to the authenticated user: it lists the chats of every user that
  has a row in the history.
\<close>

theorem chat_index_lists_all_users:
  "set (map fst (case chat_index fmt rows of JObj m \<Rightarrow> m | _ \<Rightarrow> [])) = h_user_id ` set rows"
  by (force simp: chat_index_def chat_groups_def)

end
