(* ===== verification/Session.thy ===== *)
theory Session
  imports Server
begin

text \<open>
  The session handlers of \<^verbatim>\<open>cmd/api/handlers.go\<close> (connect, disconnect, logout, QR code, pairing, status,
  complete removal of a user) and \<^verbatim>\<open>connectOnStartup\<close> of \<^verbatim>\<open>cmd/api/wmiau.go\<close>. Starting a client is
  recorded in \<^verbatim>\<open>ss_started\<close> with the arguments of \<^verbatim>\<open>startClient\<close>.
\<close>

section \<open>Connecting\<close>

record connectStruct =
  cn_Subscribe :: "string list"
  cn_Immediate :: bool

text \<open>
  \<^verbatim>\<open>Connect\<close>; \<open>others\<close> is what the rest of the program does during the ten seconds of waiting.
\<close>

definition Connect ::
    "(srv \<Rightarrow> srv) \<Rightarrow> user_values \<Rightarrow> connectStruct option \<Rightarrow> writer \<Rightarrow> srv \<Rightarrow> writer \<times> srv" where
  "Connect others ui body w s =
     (let webhook = Values_Get ui ''Webhook''; jid = Values_Get ui ''Jid''; txtid = Values_Get ui ''Id'';
          token = Values_Get ui ''Token''
      in case body of
           None \<Rightarrow> (Respond 400 (RErr ''could not decode Payload'') w, s)
         | Some t \<Rightarrow>
             if IsConnected s (session_of txtid s) then (Respond 500 (RErr ''already connected'') w, s)
             else
               (let subscribedEvents = connect_events (cn_Subscribe t);
                    eventstring = Join subscribedEvents '','';
                    (_, s1) = on_db (update_user txtid (\<lambda>r. r\<lparr>u_events := eventstring\<rparr>)) s;
                    s2 = cache_set token (updateUserInfo ui ''Events'' eventstring) s1;
                    s3 = make_kill txtid s2;
                    s4 = s3\<lparr>ss_started := ss_started s3 @ [(txtid, jid, token, subscribedEvents)]\<rparr>;
                    ok = respond_data.RData (JObj
                      [(''webhook'', JStr webhook), (''jid'', JStr jid), (''events'', JStr eventstring),
                       (''details'', JStr ''Connected!'')])
                in if \<not> cn_Immediate t then
                     (let s5 = others s4
                      in if session_of txtid s5 \<noteq> None then
                           (if \<not> IsConnected s5 (session_of txtid s5)
                            then (Respond 500 (RErr ''failed to Connect'') w, s5)
                            else (Respond 200 ok w, s5))
                         else (Respond 500 (RErr ''failed to connect'') w, s5))
                   else (Respond 200 ok w, s4)))"

definition Disconnect :: "user_values \<Rightarrow> writer \<Rightarrow> srv \<Rightarrow> writer \<times> srv" where
  "Disconnect ui w s =
     (let txtid = Values_Get ui ''Id''; token = Values_Get ui ''Token''
      in if session_of txtid s = None then (Respond 500 (RErr ''no session'') w, s)
         else if IsConnected s (session_of txtid s) then
           (let (_, s1) = on_db (update_user txtid (\<lambda>r. r\<lparr>u_connected := Some 0, u_events := []\<rparr>)) s;
                s2 = cache_set token (updateUserInfo ui ''Events'' []) s1;
                s3 = send_kill txtid (on_cm (DeleteWhatsmeowClient txtid) s2)
            in (Respond 200 (RData (JObj [(''Details'', JStr ''Disconnected'')])) w, s3))
         else (Respond 500 (RErr ''cannot disconnect because it is not logged in'') w, s))"

text \<open>\<^verbatim>\<open>Logout\<close>; \<open>logout\<close> is the error of the whatsmeow client's \<^verbatim>\<open>Logout\<close>.\<close>

definition Logout :: "(ref \<Rightarrow> string option) \<Rightarrow> user_values \<Rightarrow> writer \<Rightarrow> srv \<Rightarrow> writer \<times> srv" where
  "Logout logout ui w s =
     (let txtid = Values_Get ui ''Id''
      in case session_of txtid s of
           None \<Rightarrow> (Respond 500 (RErr ''no session'') w, s)
         | Some c \<Rightarrow>
             if IsLoggedIn s (Some c) \<and> IsConnected s (Some c) then
               (let s1 = s\<lparr>ss_wa := ss_wa s @ [WALogout c]\<rparr>
                in case logout c of
                     Some e \<Rightarrow> (Respond 500 (RErr ''could not perform logout'') w, s1)
                   | None \<Rightarrow>
                       (Respond 200 (RData (JObj [(''Details'', JStr ''Logged out'')])) w,
                        send_kill txtid (on_cm (DeleteWhatsmeowClient txtid) s1)))
             else if IsConnected s (Some c)
             then (Respond 500 (RErr ''could not logout as it was not logged in'') w, s)
             else (Respond 500 (RErr ''could not disconnect as it was not connected'') w, s))"

definition GetQR :: "user_values \<Rightarrow> writer \<Rightarrow> srv \<Rightarrow> writer \<times> srv" where
  "GetQR ui w s =
     (let txtid = Values_Get ui ''Id''
      in if session_of txtid s = None then (Respond 500 (RErr ''no session'') w, s)
         else if \<not> IsConnected s (session_of txtid s) then (Respond 500 (RErr ''not connected'') w, s)
         else
           (case on_db (pg_query (find_user txtid)) s of
              (Inl e, s1) \<Rightarrow> (Respond 500 (RErr e) w, s1)
            | (Inr row, s1) \<Rightarrow>
                (let code = (case row of None \<Rightarrow> [] | Some r \<Rightarrow> u_qrcode r)
                 in if IsLoggedIn s1 (session_of txtid s1) then (Respond 500 (RErr ''already logged in'') w, s1)
                    else (Respond 200 (RData (JObj [(''QRCode'', JStr code)])) w, s1))))"

definition PairPhone ::
    "(ref option \<Rightarrow> string \<Rightarrow> string + string) \<Rightarrow> user_values \<Rightarrow> string option \<Rightarrow> writer \<Rightarrow> srv \<Rightarrow> writer \<times> srv" where
  "PairPhone pair ui body w s =
     (let txtid = Values_Get ui ''Id''
      in if session_of txtid s = None then (Respond 500 (RErr ''no session'') w, s)
         else (case body of
                 None \<Rightarrow> (Respond 400 (RErr ''could not decode Payload'') w, s)
               | Some phone \<Rightarrow>
                   if phone = [] then (Respond 400 (RErr ''missing Phone in Payload'') w, s)
                   else if IsLoggedIn s (session_of txtid s) then (Respond 400 (RErr ''already paired'') w, s)
                   else (case pair (session_of txtid s) phone of
                           Inl e \<Rightarrow> (Respond 400 (RErr e) w, s)
                         | Inr code \<Rightarrow> (Respond 200 (RData (JObj [(''LinkingCode'', JStr code)])) w, s))))"

section \<open>Status\<close>

definition status_s3 :: "user_row option \<Rightarrow> json" where
  "status_s3 row =
     (case row of
        None \<Rightarrow>
          JObj [(''enabled'', JBool False), (''endpoint'', JStr []), (''region'', JStr []), (''bucket'', JStr []),
                (''access_key'', JStr ''***''), (''path_style'', JBool False), (''public_url'', JStr []),
                (''media_delivery'', JStr []), (''retention_days'', JNum 0)]
      | Some r \<Rightarrow>
          JObj [(''enabled'', JBool (coalesce (u_s3_enabled r) False)), (''endpoint'', JStr (coalesce (u_s3_endpoint r) [])),
                (''region'', JStr (coalesce (u_s3_region r) [])), (''bucket'', JStr (coalesce (u_s3_bucket r) [])),
                (''access_key'', JStr ''***''), (''path_style'', JBool (coalesce (u_s3_path_style r) False)),
                (''public_url'', JStr (coalesce (u_s3_public_url r) [])),
                (''media_delivery'', JStr (coalesce (u_media_delivery r) [])),
                (''retention_days'', JNum (coalesce (u_s3_retention_days r) 0))])"

text \<open>\<^verbatim>\<open>GetStatus\<close>: three queries whose errors leave the defaults.\<close>

definition GetStatus :: "user_values \<Rightarrow> writer \<Rightarrow> srv \<Rightarrow> writer \<times> srv" where
  "GetStatus ui w s =
     (let txtid = Values_Get ui ''Id'';
          isConnected = IsConnected s (session_of txtid s);
          isLoggedIn = IsLoggedIn s (session_of txtid s);
          (q1, s1) = on_db (pg_query (find_user txtid)) s;
          proxyURL = (case q1 of Inr (Some r) \<Rightarrow> coalesce (u_proxy_url r) [] | _ \<Rightarrow> []);
          (q2, s2) = on_db (pg_query (find_user txtid)) s1;
          s3Config = status_s3 (case q2 of Inr row \<Rightarrow> row | Inl _ \<Rightarrow> None);
          (q3, s3) = on_db (pg_query (find_user txtid)) s2;
          hmacConfigured = (case q3 of Inr (Some r) \<Rightarrow> length (coalesce (u_hmac_key r) []) > 0 | _ \<Rightarrow> False)
      in (Respond 200 (RData (JObj
            [(''id'', JStr txtid), (''name'', JStr (Values_Get ui ''Name'')), (''connected'', JBool isConnected),
             (''loggedIn'', JBool isLoggedIn), (''token'', JStr (Values_Get ui ''Token'')),
             (''jid'', JStr (Values_Get ui ''Jid'')), (''webhook'', JStr (Values_Get ui ''Webhook'')),
             (''events'', JStr (Values_Get ui ''Events'')), (''proxy_url'', JStr (Values_Get ui ''Proxy'')),
             (''qrcode'', JStr (Values_Get ui ''Qrcode'')), (''history'', JStr (Values_Get ui ''History'')),
             (''proxy_config'', JObj [(''enabled'', JBool (proxyURL \<noteq> [])), (''proxy_url'', JStr proxyURL)]),
             (''s3_config'', s3Config), (''hmac_configured'', JBool hmacConfigured)])) w, s3))"

section \<open>Removing a user completely\<close>

definition error_json :: "nat \<Rightarrow> string \<Rightarrow> string option \<Rightarrow> json" where
  "error_json code e details =
     JObj ([(''code'', JNum (int code)), (''error'', JStr e), (''success'', JBool False)] @
       (case details of None \<Rightarrow> [] | Some d \<Rightarrow> [(''details'', JStr d)]))"

text \<open>
  \<^verbatim>\<open>DeleteUserComplete\<close>; \<open>store\<close> is the object store, \<open>userDir\<close> the path of a user's files, \<open>isDir\<close> whether a
  directory exists there. The results of the two removals are only logged.
\<close>

definition DeleteUserComplete ::
    "s3_store \<Rightarrow> (string \<Rightarrow> string) \<Rightarrow> (string \<Rightarrow> bool) \<Rightarrow> string \<Rightarrow> writer \<Rightarrow> srv \<Rightarrow> writer \<times> srv" where
  "DeleteUserComplete store userDir isDir uid w0 s =
     (let w = SetHeader ''Content-Type'' ''application/json'' w0
      in if uid = [] then (respondWithJSON 400 (error_json 400 ''missing ID'' None) w, s)
         else
      (case on_db (pg_query (\<lambda>d. find_user uid d \<noteq> None)) s of
         (Inl e, s1) \<Rightarrow>
           (respondWithJSON 500 (error_json 500 ''database error'' (Some ''problem checking user existence'')) w, s1)
       | (Inr exs, s1) \<Rightarrow>
      if \<not> exs then
        (respondWithJSON 404 (error_json 404 ''user not found'' (Some (''No user found with ID: '' @ uid))) w, s1)
      else
      (let (q, s2) = on_db (pg_query (find_user uid)) s1;
           (uname, jid, token) = (case q of Inr (Some r) \<Rightarrow> (u_name r, u_jid r, u_token r) | _ \<Rightarrow> ([], [], []));
           s3 = (case session_of uid s2 of
                   None \<Rightarrow> s2
                 | Some c \<Rightarrow>
                     s2\<lparr>ss_wa := ss_wa s2 @ (if IsConnected s2 (Some c) then [WALogout c] else []) @ [WADisconnect c]\<rparr>);
           (q2, s4) = on_db (pg_query (find_user uid)) s3;
           s3Enabled = (case q2 of Inr (Some r) \<Rightarrow> u_s3_enabled r = Some True | _ \<Rightarrow> False)
       in case on_db (pg_exec (\<lambda>d. Inr ((), d\<lparr>users_tbl := filter (\<lambda>r. u_id r \<noteq> uid) (users_tbl d)\<rparr>))) s4 of
            (Inl e, s5) \<Rightarrow>
              (respondWithJSON 500 (error_json 500 ''database error'' (Some ''failed to delete user from database'')) w, s5)
          | (Inr _, s5) \<Rightarrow>
              (let s6 = on_cm (\<lambda>cm. DeleteHTTPClient uid (DeleteMyClient uid (DeleteWhatsmeowClient uid cm))) s5;
                   s6' = cache_delete token s6;
                   s7 = (if isDir (userDir uid) then s6'\<lparr>ss_wa := ss_wa s6' @ [RemoveAllFiles (userDir uid)]\<rparr> else s6');
                   s8 = (if s3Enabled
                         then s7\<lparr>ss_s3_deleted := ss_s3_deleted s7 @ [DeleteAllUserObjects store uid (ss_s3 s7)]\<rparr>
                         else s7)
               in (respondWithJSON 200 (JObj
                     [(''code'', JNum 200),
                      (''data'', JObj [(''id'', JStr uid), (''jid'', JStr jid), (''name'', JStr uname)]),
                      (''details'', JStr ''user instance removed completely''), (''success'', JBool True)]) w, s8)))))"

section \<open>Startup\<close>

text \<open>The cache entry of \<^verbatim>\<open>connectOnStartup\<close>; \<open>b64enc\<close> is base64 encoding. NULL in one of the plain columns
  fails the scan.\<close>

definition startup_values :: "(bytes \<Rightarrow> string) \<Rightarrow> user_row \<Rightarrow> user_values option" where
  "startup_values b64enc r =
     (case (u_proxy_url r, u_media_delivery r) of
        (Some proxy_url, Some media_delivery) \<Rightarrow>
          (let hmac_key = coalesce (u_hmac_key r) []
           in Some [(''Id'', u_id r), (''Name'', u_name r), (''Jid'', u_jid r), (''Webhook'', u_webhook r),
                    (''Token'', u_token r), (''Proxy'', proxy_url), (''Events'', u_events r),
                    (''S3Enabled'', if u_s3_enabled r = Some True then ''true'' else ''false''),
                    (''MediaDelivery'', media_delivery), (''History'', Itoa (coalesce (u_history r) 0)),
                    (''HmacKeyEncrypted'', if length hmac_key > 0 then b64enc hmac_key else [])])
      | _ \<Rightarrow> None)"

text \<open>The loop over the rows: a row that does not scan ends it.\<close>

fun startup_loop :: "(bytes \<Rightarrow> string) \<Rightarrow> user_row list \<Rightarrow> srv \<Rightarrow> srv" where
  "startup_loop b64enc [] s = s"
| "startup_loop b64enc (r # rs) s =
     (case startup_values b64enc r of
        None \<Rightarrow> s
      | Some v \<Rightarrow>
          (let s1 = cache_set (u_token r) v s;
               s2 = make_kill (u_id r) s1;
               s3 = s2\<lparr>ss_started := ss_started s2 @ [(u_id r, u_jid r, u_token r, startup_events (u_events r))]\<rparr>;
               (_, m, d) = EnsureClientFromDB (u_id r) (ss_s3 s3) (ss_db s3)
           in startup_loop b64enc rs (s3\<lparr>ss_s3 := m, ss_db := d\<rparr>)))"

definition connectOnStartup :: "(bytes \<Rightarrow> string) \<Rightarrow> srv \<Rightarrow> srv" where
  "connectOnStartup b64enc s =
     (case on_db (pg_query (\<lambda>d. filter (\<lambda>r. u_connected r = Some 1) (users_tbl d))) s of
        (Inl e, s1) \<Rightarrow> s1
      | (Inr rows, s1) \<Rightarrow> startup_loop b64enc rows s1)"

end
