(* ===== verification/Settings.thy ===== *)
theory Settings
  imports Server
begin

text \<open>
  The handlers of \<^verbatim>\<open>cmd/api/handlers.go\<close> with which a user changes the own settings: webhook and
  events, history length, proxy, S3 storage and HMAC key. Each writes the user's row and then the
  cached \<^verbatim>\<open>Values\<close>, which the event path reads.
\<close>

section \<open>Webhook\<close>

definition GetWebhook :: "user_values \<Rightarrow> writer \<Rightarrow> srv \<Rightarrow> writer \<times> srv" where
  "GetWebhook ui w s =
     (case on_db (pg_query (find_user (Values_Get ui ''Id''))) s of
        (Inl e, s1) \<Rightarrow> (Respond 500 (RErr (''could not get webhook: '' @ e)) w, s1)
      | (Inr row, s1) \<Rightarrow>
          (let webhook = (case row of None \<Rightarrow> [] | Some r \<Rightarrow> u_webhook r);
               events = (case row of None \<Rightarrow> [] | Some r \<Rightarrow> u_events r)
           in (Respond 200 (RData (JObj
                 [(''webhook'', JStr webhook), (''subscribe'', JArr (map JStr (Split events CHR '','')))])) w, s1)))"

definition DeleteWebhook :: "user_values \<Rightarrow> writer \<Rightarrow> srv \<Rightarrow> writer \<times> srv" where
  "DeleteWebhook ui w s =
     (case on_db (update_user (Values_Get ui ''Id'') (\<lambda>r. r\<lparr>u_webhook := [], u_events := []\<rparr>)) s of
        (Inl e, s1) \<Rightarrow> (Respond 500 (RErr (''could not delete webhook: '' @ e)) w, s1)
      | (Inr _, s1) \<Rightarrow>
          (Respond 200 (RData (JObj [(''Details'', JStr ''Webhook and events deleted successfully'')])) w,
           cache_set (Values_Get ui ''Token'') (updateUserInfo (updateUserInfo ui ''Webhook'' []) ''Events'' []) s1))"

text \<open>
  The write of \<^verbatim>\<open>SetWebhook\<close> and \<^verbatim>\<open>UpdateWebhook\<close>: with events in the request the row's events and the
  subscriptions of a running client change too, the latter also when the database refuses. \<^term>\<open>None\<close> is
  a panic of the registry.
\<close>

definition write_webhook ::
    "string \<Rightarrow> string list \<Rightarrow> string list \<Rightarrow> string \<Rightarrow> string \<Rightarrow> srv \<Rightarrow> ((string + unit) \<times> srv) option" where
  "write_webhook txtid requested validEvents webhook eventstring s =
     (if length requested > 0 then
        (let (r, s1) = on_db (update_user txtid (\<lambda>x. x\<lparr>u_webhook := webhook, u_events := eventstring\<rparr>)) s
         in if length validEvents > 0
            then map_option (\<lambda>cm. (r, s1\<lparr>ss_cm := cm\<rparr>)) (UpdateMyClientSubscriptions txtid validEvents (ss_cm s1))
            else Some (r, s1))
      else Some (on_db (update_user txtid (\<lambda>x. x\<lparr>u_webhook := webhook\<rparr>)) s))"

record webhookStruct =
  wh_WebhookURL :: string
  wh_Events :: "string list"

definition SetWebhook :: "user_values \<Rightarrow> webhookStruct option \<Rightarrow> writer \<Rightarrow> srv \<Rightarrow> (writer \<times> srv) option" where
  "SetWebhook ui body w s =
     (case body of
        None \<Rightarrow> Some (Respond 400 (RErr ''could not decode payload'') w, s)
      | Some t \<Rightarrow>
          (let txtid = Values_Get ui ''Id''; token = Values_Get ui ''Token''; webhook = wh_WebhookURL t;
               validEvents = valid_events_loop [] (wh_Events t);
               eventstring = (if length (wh_Events t) > 0 then webhook_eventstring validEvents else [])
           in map_option (\<lambda>(r, s1).
                case r of
                  Inl e \<Rightarrow> (Respond 500 (RErr (''could not set webhook: '' @ e)) w, s1)
                | Inr _ \<Rightarrow>
                    (Respond 200 (RData (JObj [(''webhook'', JStr webhook)])) w,
                     cache_set token (updateUserInfo (updateUserInfo ui ''Webhook'' webhook) ''Events'' eventstring) s1))
                (write_webhook txtid (wh_Events t) validEvents webhook eventstring s)))"

record updateWebhookStruct =
  uw_WebhookURL :: string
  uw_Events :: "string list"
  uw_Active :: bool

definition UpdateWebhook :: "user_values \<Rightarrow> updateWebhookStruct option \<Rightarrow> writer \<Rightarrow> srv \<Rightarrow> (writer \<times> srv) option" where
  "UpdateWebhook ui body w s =
     (case body of
        None \<Rightarrow> Some (Respond 400 (RErr ''could not decode payload'') w, s)
      | Some t \<Rightarrow>
          (let txtid = Values_Get ui ''Id''; token = Values_Get ui ''Token'';
               validEvents = valid_events_loop [] (uw_Events t);
               webhook = (if uw_Active t then uw_WebhookURL t else []);
               eventstring = (if uw_Active t then webhook_eventstring validEvents else [])
           in map_option (\<lambda>(r, s1).
                case r of
                  Inl e \<Rightarrow> (Respond 500 (RErr (''could not update webhook: '' @ e)) w, s1)
                | Inr _ \<Rightarrow>
                    (Respond 200 (RData (JObj
                       [(''active'', JBool (uw_Active t)),
                        (''events'', if validEvents = [] then JNull else JArr (map JStr validEvents)),
                        (''webhook'', JStr webhook)])) w,
                     cache_set token (updateUserInfo (updateUserInfo ui ''Webhook'' webhook) ''Events'' eventstring) s1))
                (write_webhook txtid (uw_Events t) validEvents webhook eventstring s)))"

section \<open>History and proxy\<close>

text \<open>Changing the cached \<^verbatim>\<open>Values\<close> of a token, if it is cached.\<close>

definition cache_modify :: "string \<Rightarrow> (user_values \<Rightarrow> user_values) \<Rightarrow> srv \<Rightarrow> srv" where
  "cache_modify token f s =
     (case map_of (ss_cache s) token of None \<Rightarrow> s | Some v \<Rightarrow> cache_set token (f v) s)"

definition SetHistory :: "user_values \<Rightarrow> int option \<Rightarrow> writer \<Rightarrow> srv \<Rightarrow> writer \<times> srv" where
  "SetHistory ui body w s =
     (let txtid = Values_Get ui ''Id''
      in if session_of txtid s = None then (Respond 400 (RErr ''no session'') w, s)
         else (case body of
                 None \<Rightarrow> (Respond 400 (RErr ''could not decode payload'') w, s)
               | Some h \<Rightarrow>
                   if h < 0 then (Respond 400 (RErr ''history cannot be negative'') w, s)
                   else
                     (case on_db (update_user txtid (\<lambda>r. r\<lparr>u_history := Some h\<rparr>)) s of
                        (Inl e, s1) \<Rightarrow> (Respond 500 (RErr ''failed to save history configuration'') w, s1)
                      | (Inr _, s1) \<Rightarrow>
                          (Respond 200 (RData (JObj
                             [(''Details'', JStr ''History configured successfully''), (''History'', JNum h)])) w,
                           cache_modify (Values_Get ui ''Token'') (\<lambda>v. updateUserInfo v ''History'' (Itoa h)) s1))))"

record proxyStruct =
  px_ProxyURL :: string
  px_Enable :: bool

text \<open>\<^verbatim>\<open>SetProxy\<close>; \<open>parseURL\<close> gives the scheme.\<close>

definition SetProxy ::
    "(string \<Rightarrow> string option) \<Rightarrow> user_values \<Rightarrow> proxyStruct option \<Rightarrow> writer \<Rightarrow> srv \<Rightarrow> writer \<times> srv" where
  "SetProxy parseURL ui body w s =
     (let txtid = Values_Get ui ''Id''; token = Values_Get ui ''Token''
      in if session_of txtid s \<noteq> None \<and> IsConnected s (session_of txtid s) then
           (Respond 400 (RErr ''cannot set proxy while connected. Please disconnect first'') w, s)
         else
      (case body of
         None \<Rightarrow> (Respond 400 (RErr ''could not decode payload'') w, s)
       | Some t \<Rightarrow>
           if \<not> px_Enable t then
             (case on_db (update_user txtid (\<lambda>r. r\<lparr>u_proxy_url := Some []\<rparr>)) s of
                (Inl e, s1) \<Rightarrow> (Respond 500 (RErr ''failed to remove proxy configuration'') w, s1)
              | (Inr _, s1) \<Rightarrow>
                  (Respond 200 (RData (JObj [(''Details'', JStr ''Proxy disabled successfully'')])) w,
                   cache_modify token (\<lambda>v. updateUserInfo v ''Proxy'' []) s1))
           else if px_ProxyURL t = [] then (Respond 400 (RErr ''missing proxy_url in payload'') w, s)
           else
             (case parseURL (px_ProxyURL t) of
                None \<Rightarrow> (Respond 400 (RErr ''invalid proxy URL format'') w, s)
              | Some scheme \<Rightarrow>
                  if scheme \<noteq> ''http'' \<and> scheme \<noteq> ''socks5''
                  then (Respond 400 (RErr ''only HTTP and SOCKS5 proxies are supported'') w, s)
                  else
                    (case on_db (update_user txtid (\<lambda>r. r\<lparr>u_proxy_url := Some (px_ProxyURL t)\<rparr>)) s of
                       (Inl e, s1) \<Rightarrow> (Respond 500 (RErr ''failed to save proxy configuration'') w, s1)
                     | (Inr _, s1) \<Rightarrow>
                         (Respond 200 (RData (JObj
                            [(''Details'', JStr ''Proxy configured successfully''),
                             (''ProxyURL'', JStr (px_ProxyURL t))])) w,
                          cache_modify token (\<lambda>v. updateUserInfo v ''Proxy'' (px_ProxyURL t)) s1)))))"

section \<open>S3\<close>

definition s3_row :: "S3Config \<Rightarrow> user_row \<Rightarrow> user_row" where
  "s3_row t r =
     r\<lparr>u_s3_enabled := Some (s3_Enabled t), u_s3_endpoint := Some (s3_Endpoint t), u_s3_region := Some (s3_Region t),
       u_s3_bucket := Some (s3_Bucket t), u_s3_access_key := Some (s3_AccessKey t),
       u_s3_secret_key := Some (s3_SecretKey t), u_s3_path_style := Some (s3_PathStyle t),
       u_s3_public_url := Some (s3_PublicURL t), u_media_delivery := Some (s3_MediaDelivery t),
       u_s3_retention_days := Some (s3_RetentionDays t)\<rparr>"

definition s3_values :: "S3Config \<Rightarrow> user_values \<Rightarrow> user_values" where
  "s3_values t v =
     fold (\<lambda>(k, x) v. updateUserInfo v k x)
       [(''S3Enabled'', FormatBool (s3_Enabled t)), (''S3Endpoint'', s3_Endpoint t), (''S3Region'', s3_Region t),
        (''S3Bucket'', s3_Bucket t), (''S3AccessKey'', s3_AccessKey t), (''S3SecretKey'', s3_SecretKey t),
        (''S3PathStyle'', FormatBool (s3_PathStyle t)), (''S3PublicURL'', s3_PublicURL t),
        (''MediaDelivery'', s3_MediaDelivery t), (''S3RetentionDays'', Itoa (s3_RetentionDays t))] v"

text \<open>The configuration given to the manager is built without the media delivery.\<close>

definition ConfigureS3 :: "user_values \<Rightarrow> S3Config option \<Rightarrow> writer \<Rightarrow> srv \<Rightarrow> writer \<times> srv" where
  "ConfigureS3 ui body w s =
     (let txtid = Values_Get ui ''Id''
      in case body of
           None \<Rightarrow> (Respond 400 (RErr ''could not decode payload'') w, s)
         | Some t0 \<Rightarrow>
             if s3_MediaDelivery t0 \<notin> {[], ''base64'', ''s3'', ''both''} then
               (Respond 400 (RErr (''media_delivery must be 'base64', 's3', or 'both'' @ [CHR 0x27])) w, s)
             else
               (let t = (if s3_MediaDelivery t0 = [] then t0\<lparr>s3_MediaDelivery := ''base64''\<rparr> else t0)
                in case on_db (update_user txtid (s3_row t)) s of
                     (Inl e, s1) \<Rightarrow> (Respond 500 (RErr ''failed to save S3 configuration'') w, s1)
                   | (Inr _, s1) \<Rightarrow>
                       (let s2 = s1\<lparr>ss_s3 := (if s3_Enabled t
                                              then InitializeS3Client txtid (t\<lparr>s3_MediaDelivery := []\<rparr>) (ss_s3 s1)
                                              else RemoveClient txtid (ss_s3 s1))\<rparr>
                        in (Respond 200 (RData (JObj
                              [(''Details'', JStr ''S3 configuration saved successfully''), (''Enabled'', JBool (s3_Enabled t))])) w,
                            cache_modify (Values_Get ui ''Token'') (s3_values t) s2))))"

text \<open>The scans of the next two handlers fail on NULL.\<close>

definition s3_scan :: "user_row \<Rightarrow> S3Config option" where
  "s3_scan r =
     (case (u_s3_enabled r, u_s3_endpoint r, u_s3_region r, u_s3_bucket r, u_s3_access_key r,
            u_s3_path_style r, u_s3_public_url r, u_s3_retention_days r) of
        (Some en, Some ep, Some rg, Some bk, Some ak, Some ps, Some pu, Some rd) \<Rightarrow>
          Some \<lparr>s3_Enabled = en, s3_Endpoint = ep, s3_Region = rg, s3_Bucket = bk, s3_AccessKey = ak,
                s3_SecretKey = [], s3_PathStyle = ps, s3_PublicURL = pu, s3_MediaDelivery = [], s3_RetentionDays = rd\<rparr>
      | _ \<Rightarrow> None)"

definition GetS3Config :: "user_values \<Rightarrow> writer \<Rightarrow> srv \<Rightarrow> writer \<times> srv" where
  "GetS3Config ui w s =
     (case on_db (pg_query (find_user (Values_Get ui ''Id''))) s of
        (Inr (Some r), s1) \<Rightarrow>
          (case (s3_scan r, u_media_delivery r) of
             (Some c, Some md) \<Rightarrow>
               (Respond 200 (RData (JObj
                  [(''enabled'', JBool (s3_Enabled c)), (''endpoint'', JStr (s3_Endpoint c)), (''region'', JStr (s3_Region c)),
                   (''bucket'', JStr (s3_Bucket c)), (''access_key'', JStr ''***''), (''path_style'', JBool (s3_PathStyle c)),
                   (''public_url'', JStr (s3_PublicURL c)), (''media_delivery'', JStr md),
                   (''retention_days'', JNum (s3_RetentionDays c))])) w, s1)
           | _ \<Rightarrow> (Respond 500 (RErr ''failed to get S3 configuration'') w, s1))
      | (_, s1) \<Rightarrow> (Respond 500 (RErr ''failed to get S3 configuration'') w, s1))"

definition TestS3Connection :: "s3_store \<Rightarrow> user_values \<Rightarrow> writer \<Rightarrow> srv \<Rightarrow> writer \<times> srv" where
  "TestS3Connection store ui w s =
     (let txtid = Values_Get ui ''Id''
      in case on_db (pg_query (find_user txtid)) s of
           (Inr (Some r), s1) \<Rightarrow>
             (case (s3_scan r, u_s3_secret_key r) of
                (Some c0, Some sk) \<Rightarrow>
                  (let c = c0\<lparr>s3_SecretKey := sk\<rparr>
                   in if \<not> s3_Enabled c then (Respond 400 (RErr ''S3 is not enabled for this user'') w, s1)
                      else
                        (let s2 = s1\<lparr>ss_s3 := InitializeS3Client txtid c (ss_s3 s1)\<rparr>
                         in case TestConnection store txtid (ss_s3 s2) of
                              Some e \<Rightarrow> (Respond 500 (RErr (''S3 connection test failed: '' @ e)) w, s2)
                            | None \<Rightarrow>
                                (Respond 200 (RData (JObj
                                   [(''Details'', JStr ''S3 connection test successful''), (''Bucket'', JStr (s3_Bucket c)),
                                    (''Region'', JStr (s3_Region c))])) w, s2)))
              | _ \<Rightarrow> (Respond 500 (RErr ''failed to get S3 configuration'') w, s1))
         | (_, s1) \<Rightarrow> (Respond 500 (RErr ''failed to get S3 configuration'') w, s1))"

definition no_s3 :: S3Config where
  "no_s3 = \<lparr>s3_Enabled = False, s3_Endpoint = [], s3_Region = [], s3_Bucket = [], s3_AccessKey = [], s3_SecretKey = [],
     s3_PathStyle = True, s3_PublicURL = [], s3_MediaDelivery = ''base64'', s3_RetentionDays = 30\<rparr>"

definition DeleteS3Config :: "user_values \<Rightarrow> writer \<Rightarrow> srv \<Rightarrow> writer \<times> srv" where
  "DeleteS3Config ui w s =
     (let txtid = Values_Get ui ''Id''
      in case on_db (update_user txtid (s3_row no_s3)) s of
           (Inl e, s1) \<Rightarrow> (Respond 500 (RErr ''failed to delete S3 configuration'') w, s1)
         | (Inr _, s1) \<Rightarrow>
             (Respond 200 (RData (JObj [(''Details'', JStr ''S3 configuration deleted successfully'')])) w,
              s1\<lparr>ss_s3 := RemoveClient txtid (ss_s3 s1)\<rparr>))"

section \<open>HMAC key\<close>

definition ConfigureHmac ::
    "crypto \<Rightarrow> string \<Rightarrow> bytes \<Rightarrow> (bytes \<Rightarrow> string) \<Rightarrow> user_values \<Rightarrow> string option \<Rightarrow> writer \<Rightarrow> srv \<Rightarrow> writer \<times> srv" where
  "ConfigureHmac cy key rnd b64enc ui body w s =
     (let txtid = Values_Get ui ''Id''; token = Values_Get ui ''Token''
      in case body of
           None \<Rightarrow> (Respond 400 (RErr ''could not decode payload'') w, s)
         | Some hmacKey \<Rightarrow>
             if length hmacKey < 32 then (Respond 400 (RErr ''HMAC key must be at least 32 characters long'') w, s)
             else
               (case encryptHMACKey cy key rnd hmacKey of
                  Inl e \<Rightarrow> (Respond 500 (RErr ''failed to encrypt HMAC key'') w, s)
                | Inr enc \<Rightarrow>
                    (case on_db (update_user txtid (\<lambda>r. r\<lparr>u_hmac_key := Some enc\<rparr>)) s of
                       (Inl e, s1) \<Rightarrow> (Respond 500 (RErr ''failed to save HMAC configuration'') w, s1)
                     | (Inr _, s1) \<Rightarrow>
                         (respondWithJSON 200 (JObj [(''Details'', JStr ''HMAC configuration saved successfully'')]) w,
                          cache_modify token
                            (\<lambda>v. updateUserInfo (updateUserInfo v ''HasHmac'' ''true'') ''HmacKeyEncrypted'' (b64enc enc)) s1))))"

definition GetHmacConfig :: "user_values \<Rightarrow> writer \<Rightarrow> srv \<Rightarrow> writer \<times> srv" where
  "GetHmacConfig ui w s =
     (case on_db (pg_query (find_user (Values_Get ui ''Id''))) s of
        (Inl e, s1) \<Rightarrow> (respondWithJSON 500 (JObj [(''error'', JStr ''failed to get HMAC configuration'')]) w, s1)
      | (Inr None, s1) \<Rightarrow> (respondWithJSON 200 (JObj [(''hmac_key'', JStr [])]) w, s1)
      | (Inr (Some r), s1) \<Rightarrow>
          (respondWithJSON 200 (JObj
             [(''hmac_key'', JStr (if length (coalesce (u_hmac_key r) []) > 0 then ''***'' else []))]) w, s1))"

definition DeleteHmacConfig :: "user_values \<Rightarrow> writer \<Rightarrow> srv \<Rightarrow> writer \<times> srv" where
  "DeleteHmacConfig ui w s =
     (case on_db (update_user (Values_Get ui ''Id'') (\<lambda>r. r\<lparr>u_hmac_key := None\<rparr>)) s of
        (Inl e, s1) \<Rightarrow> (respondWithJSON 500 (JObj [(''error'', JStr ''failed to delete HMAC configuration'')]) w, s1)
      | (Inr _, s1) \<Rightarrow>
          (respondWithJSON 200 (JObj [(''Details'', JStr ''HMAC configuration deleted successfully'')]) w,
           cache_modify (Values_Get ui ''Token'')
             (\<lambda>v. updateUserInfo (updateUserInfo v ''HasHmac'' ''false'') ''HmacKeyEncrypted'' []) s1))"

end
