(* ===== verification/Settings_Props.thy ===== *)
theory Settings_Props
  imports Settings
begin

text \<open>
  The cached \<^verbatim>\<open>Values\<close> of a user follow the user's row: an invariant of authentication and of the
  settings handlers under arbitrary database faults.
\<close>

section \<open>The cache follows the table\<close>

definition coherent :: "string \<Rightarrow> user_values \<Rightarrow> user_row \<Rightarrow> bool" where
  "coherent token v r \<longleftrightarrow>
     u_token r = token \<and> Values_Get v ''Token'' = token \<and> Values_Get v ''Id'' = u_id r \<and>
     Values_Get v ''Webhook'' = u_webhook r \<and> Values_Get v ''Events'' = u_events r \<and>
     Values_Get v ''Proxy'' = coalesce (u_proxy_url r) [] \<and>
     Values_Get v ''History'' = Itoa (coalesce (u_history r) 0) \<and>
     Values_Get v ''S3Enabled'' = FormatBool (coalesce (u_s3_enabled r) False) \<and>
     Values_Get v ''MediaDelivery'' = coalesce (u_media_delivery r) ''base64''"

definition cache_coherent :: "srv \<Rightarrow> bool" where
  "cache_coherent s \<longleftrightarrow>
     (\<forall>token v. map_of (ss_cache s) token = Some v \<longrightarrow>
        (\<exists>r. find_user (Values_Get v ''Id'') (ss_db s) = Some r \<and> coherent token v r))"

lemma Values_Get_update: "Values_Get (updateUserInfo v k x) k' = (if k' = k then x else Values_Get v k')"
  by (simp add: Values_Get_def updateUserInfo_def gomap_simps)

lemma cache_coherent_cong:
  "ss_cache s' = ss_cache s \<Longrightarrow> users_tbl (ss_db s') = users_tbl (ss_db s) \<Longrightarrow> cache_coherent s' = cache_coherent s"
  by (simp add: cache_coherent_def find_user_def)

lemma map_of_cache_set: "map_of (ss_cache (cache_set t v s)) t' = (if t' = t then Some v else map_of (ss_cache s) t')"
  by (simp add: cache_set_def gomap_simps)

text \<open>A write of one row and of the matching cache entry keeps the cache coherent.\<close>

lemma coherent_write:
  assumes "cache_coherent s" "map_of (ss_cache s) token = Some v"
    "users_tbl (ss_db s') = map (\<lambda>r. if u_id r = Values_Get v ''Id'' then f r else r) (users_tbl (ss_db s))"
    "\<And>t. map_of (ss_cache s') t = (if t = token then Some v' else map_of (ss_cache s) t)"
    "\<And>r. u_id (f r) = u_id r" "Values_Get v' ''Id'' = Values_Get v ''Id''"
    "\<And>r. coherent token v r \<Longrightarrow> coherent token v' (f r)"
  shows "cache_coherent s'"
proof -
  let ?id = "Values_Get v ''Id''"
  obtain r where r: "find_user ?id (ss_db s) = Some r" "coherent token v r"
    using assms(1,2) by (auto simp: cache_coherent_def)
  have fu: "find_user k (ss_db s') = (if k = ?id then map_option f (find_user k (ss_db s)) else find_user k (ss_db s))" for k
    using find_map_id [OF assms(5), of k ?id "users_tbl (ss_db s)"] assms(3) by (simp add: find_user_def)
  show ?thesis
    unfolding cache_coherent_def
  proof (intro allI impI)
    fix t x
    assume x: "map_of (ss_cache s') t = Some x"
    show "\<exists>r. find_user (Values_Get x ''Id'') (ss_db s') = Some r \<and> coherent t x r"
    proof (cases "t = token")
      case True
      then have "x = v'" using x assms(4) by simp
      with True r assms(6,7) show ?thesis by (simp add: fu)
    next
      case False
      with x assms(4) have "map_of (ss_cache s) t = Some x" by simp
      with assms(1) obtain r' where r': "find_user (Values_Get x ''Id'') (ss_db s) = Some r'" "coherent t x r'"
        by (auto simp: cache_coherent_def)
      have "Values_Get x ''Id'' \<noteq> ?id"
      proof
        assume "Values_Get x ''Id'' = ?id"
        with r r' have "r' = r" by simp
        with r(2) r'(2) False show False by (simp add: coherent_def)
      qed
      with r' show ?thesis by (simp add: fu)
    qed
  qed
qed

lemma on_db_update_user:
  assumes "on_db (update_user uid f) s = (r, s1)"
  shows "(\<exists>e. r = Inl e) \<and> users_tbl (ss_db s1) = users_tbl (ss_db s) \<or>
     (\<exists>u. r = Inr u) \<and> users_tbl (ss_db s1) = map (\<lambda>x. if u_id x = uid then f x else x) (users_tbl (ss_db s))"
    "ss_cache s1 = ss_cache s" "ss_cm s1 = ss_cm s" "ss_s3 s1 = ss_s3 s"
proof -
  obtain r' d' where u: "update_user uid f (ss_db s) = (r', d')" by (rule prod.exhaust)
  have eq: "r = r'" "s1 = s\<lparr>ss_db := d'\<rparr>" using assms by (simp_all add: on_db_def u)
  show "ss_cache s1 = ss_cache s" "ss_cm s1 = ss_cm s" "ss_s3 s1 = ss_s3 s" by (simp_all add: eq)
  show "(\<exists>e. r = Inl e) \<and> users_tbl (ss_db s1) = users_tbl (ss_db s) \<or>
     (\<exists>u. r = Inr u) \<and> users_tbl (ss_db s1) = map (\<lambda>x. if u_id x = uid then f x else x) (users_tbl (ss_db s))"
    using update_user_Inl [of uid f "ss_db s"] update_user_Inr [of uid f "ss_db s"] u
    by (cases r') (auto simp: eq)
qed

text \<open>
  The common shape of the settings handlers: on a database error nothing is cached, otherwise the row
  and the cached values change together.
\<close>

lemma settings_write:
  assumes "cache_coherent s" "map_of (ss_cache s) token = Some v"
    "on_db (update_user (Values_Get v ''Id'') f) s = (r, s1)" "\<And>x. u_id (f x) = u_id x"
    "Values_Get v' ''Id'' = Values_Get v ''Id''" "\<And>x. coherent token v x \<Longrightarrow> coherent token v' (f x)"
    "case r of Inl _ \<Rightarrow> ss_cache s2 = ss_cache s1 | Inr _ \<Rightarrow> ss_cache s2 = AList.update token v' (ss_cache s1)"
    "users_tbl (ss_db s2) = users_tbl (ss_db s1)"
  shows "cache_coherent s2"
proof (cases r)
  case (Inl e)
  with on_db_update_user [OF assms(3)] assms(1,7,8) show ?thesis
    by (auto simp: cache_coherent_cong [of s2 s])
next
  case (Inr u)
  with on_db_update_user [OF assms(3)] assms(7,8) show ?thesis
    by (intro coherent_write [OF assms(1,2) _ _ assms(4,5,6)]) (auto simp: gomap_simps)
qed

text \<open>Requests whose user info is the cached entry of their token.\<close>

inductive settings_step :: "srv \<Rightarrow> srv \<Rightarrow> bool" where
  auth: "authalice header query (\<lambda>v w s. (w, s)) w s = (w', s') \<Longrightarrow> settings_step s s'"
| del_webhook: "map_of (ss_cache s) token = Some ui \<Longrightarrow> DeleteWebhook ui w s = (w', s') \<Longrightarrow> settings_step s s'"
| set_webhook: "map_of (ss_cache s) token = Some ui \<Longrightarrow> wh_Events t \<noteq> [] \<Longrightarrow> SetWebhook ui (Some t) w s = Some (w', s') \<Longrightarrow>
    settings_step s s'"
| update_webhook: "map_of (ss_cache s) token = Some ui \<Longrightarrow> uw_Events u \<noteq> [] \<Longrightarrow> UpdateWebhook ui (Some u) w s = Some (w', s') \<Longrightarrow>
    settings_step s s'"
| set_history: "map_of (ss_cache s) token = Some ui \<Longrightarrow> SetHistory ui body w s = (w', s') \<Longrightarrow> settings_step s s'"
| set_proxy: "map_of (ss_cache s) token = Some ui \<Longrightarrow> SetProxy parseURL ui body w s = (w', s') \<Longrightarrow> settings_step s s'"
| configure_s3: "map_of (ss_cache s) token = Some ui \<Longrightarrow> ConfigureS3 ui body w s = (w', s') \<Longrightarrow> settings_step s s'"
| configure_hmac: "map_of (ss_cache s) token = Some ui \<Longrightarrow> ConfigureHmac cy key rnd enc ui body w s = (w', s') \<Longrightarrow> settings_step s s'"
| delete_hmac: "map_of (ss_cache s) token = Some ui \<Longrightarrow> DeleteHmacConfig ui w s = (w', s') \<Longrightarrow> settings_step s s'"
| reads: "GetWebhook ui w s = (w', s') \<or> GetS3Config ui w s = (w', s') \<or> GetHmacConfig ui w s = (w', s') \<or>
    TestS3Connection store ui w s = (w', s') \<Longrightarrow> settings_step s s'"

lemma coherent_token: "cache_coherent s \<Longrightarrow> map_of (ss_cache s) token = Some v \<Longrightarrow> Values_Get v ''Token'' = token"
  by (auto simp: cache_coherent_def coherent_def)

lemma on_db_query:
  assumes "on_db (pg_query q) s = (r, s1)"
  shows "ss_cache s1 = ss_cache s" "users_tbl (ss_db s1) = users_tbl (ss_db s)"
    "\<And>x. r = Inr x \<Longrightarrow> x = q ((ss_db s)\<lparr>calls := Suc (calls (ss_db s))\<rparr>)"
proof -
  obtain r' d' where u: "pg_query q (ss_db s) = (r', d')" by (rule prod.exhaust)
  have eq: "r = r'" "s1 = s\<lparr>ss_db := d'\<rparr>" using assms by (simp_all add: on_db_def u)
  show "ss_cache s1 = ss_cache s" "users_tbl (ss_db s1) = users_tbl (ss_db s)"
    using pg_query_tables [OF u] by (simp_all add: eq)
  show "\<And>x. r = Inr x \<Longrightarrow> x = q ((ss_db s)\<lparr>calls := Suc (calls (ss_db s))\<rparr>)"
    using pg_query_Inr u eq by metis
qed

lemma auth_values_coherent:
  assumes "auth_values token r = Some v" "u_token r = token"
  shows "coherent token v r"
proof -
  obtain p where p: "u_proxy_url r = Some p" using assms(1) by (auto simp: auth_values_def split: option.splits)
  have v: "v = [(''Id'', u_id r), (''Name'', u_name r), (''Jid'', u_jid r), (''Webhook'', u_webhook r),
                (''Token'', token), (''Proxy'', p), (''Events'', u_events r), (''Qrcode'', u_qrcode r),
                (''History'', case u_history r of None \<Rightarrow> ''0'' | Some h \<Rightarrow> Itoa h),
                (''HasHmac'', FormatBool (case u_hmac_key r of None \<Rightarrow> False | Some k \<Rightarrow> length k > 0)),
                (''S3Enabled'', if u_s3_enabled r = Some True then ''true'' else ''false''),
                (''MediaDelivery'', coalesce (u_media_delivery r) ''base64'')]"
    using assms(1) p by (simp add: auth_values_def)
  have zero: "Itoa 0 = ''0''" by code_simp
  have "Values_Get v ''Token'' = token" "Values_Get v ''Id'' = u_id r" "Values_Get v ''Webhook'' = u_webhook r"
    "Values_Get v ''Events'' = u_events r" "Values_Get v ''Proxy'' = p"
    "Values_Get v ''History'' = (case u_history r of None \<Rightarrow> ''0'' | Some h \<Rightarrow> Itoa h)"
    "Values_Get v ''S3Enabled'' = (if u_s3_enabled r = Some True then ''true'' else ''false'')"
    "Values_Get v ''MediaDelivery'' = coalesce (u_media_delivery r) ''base64''"
    by (simp_all add: v Values_Get_def)
  then show ?thesis
    unfolding coherent_def using assms(2) p
    by (cases "u_history r"; cases "u_s3_enabled r") (simp_all add: FormatBool_def zero)
qed

lemma find_token_user:
  assumes "distinct (map u_id (users_tbl d))" "find_token token d = Some r"
  shows "find_user (u_id r) d = Some r" "u_token r = token"
proof -
  have r: "r \<in> set (users_tbl d)" "u_token r = token"
    using assms(2) by (auto simp: find_token_def find_Some_iff)
  have "find (\<lambda>x. u_id x = u_id r) rs = Some r" if "distinct (map u_id rs)" "r \<in> set rs" for rs
    using that by (induction rs) (auto simp: image_iff)
  with r assms(1) show "find_user (u_id r) d = Some r" "u_token r = token" by (simp_all add: find_user_def)
qed

definition settings_inv :: "srv \<Rightarrow> bool" where
  "settings_inv s \<longleftrightarrow> cache_coherent s \<and> distinct (map u_id (users_tbl (ss_db s)))"

lemma settings_inv_cong:
  "settings_inv s \<Longrightarrow> ss_cache s' = ss_cache s \<Longrightarrow> users_tbl (ss_db s') = users_tbl (ss_db s) \<Longrightarrow> settings_inv s'"
  by (simp add: settings_inv_def cache_coherent_cong [of s' s])

text \<open>The invariant form of \<open>settings_write\<close>, for the entry of the request's own token.\<close>

lemma settings_inv_write:
  assumes "settings_inv s" "map_of (ss_cache s) token = Some v"
    "on_db (update_user (Values_Get v ''Id'') f) s = (r, s1)" "\<And>x. u_id (f x) = u_id x"
    "Values_Get v' ''Id'' = Values_Get v ''Id''" "\<And>x. coherent token v x \<Longrightarrow> coherent token v' (f x)"
    "case r of Inl _ \<Rightarrow> ss_cache s2 = ss_cache s1 | Inr _ \<Rightarrow> ss_cache s2 = AList.update token v' (ss_cache s1)"
    "users_tbl (ss_db s2) = users_tbl (ss_db s1)"
  shows "settings_inv s2"
proof -
  have "map u_id (users_tbl (ss_db s1)) = map u_id (users_tbl (ss_db s))"
    using on_db_update_user(1) [OF assms(3)] map_u_id_update [of f, OF assms(4)] by (elim disjE conjE) simp_all
  then show ?thesis
    using settings_write [OF _ assms(2-8)] assms(1,8) by (simp add: settings_inv_def)
qed

lemma cache_modify_hit:
  "map_of (ss_cache s) token = Some v \<Longrightarrow> ss_cache (cache_modify token f s) = AList.update token (f v) (ss_cache s)"
  "users_tbl (ss_db (cache_modify token f s)) = users_tbl (ss_db s)"
  by (simp_all add: cache_modify_def cache_set_def split: option.split)

lemma auth_step:
  assumes "settings_inv s" "authalice header query (\<lambda>v w s. (w, s)) w s = (w', s')"
  shows "settings_inv s'"
proof (cases "map_of (ss_cache s) (request_token header query)")
  case (Some v)
  with assms show ?thesis by (simp add: authalice_def Let_def split: if_splits)
next
  case None
  let ?t = "request_token header query"
  obtain r s1 where q: "on_db (pg_query (find_token ?t)) s = (r, s1)" by (rule prod.exhaust)
  note qs = on_db_query [OF q]
  have inv1: "settings_inv s1" by (rule settings_inv_cong [OF assms(1) qs(1,2)])
  show ?thesis
  proof (cases "\<exists>row v. r = Inr (Some row) \<and> auth_values ?t row = Some v")
    case True
    then obtain row v where row: "r = Inr (Some row)" "auth_values ?t row = Some v" by blast
    have "find_token ?t (ss_db s1) = Some row"
      using qs(2) qs(3) [OF row(1)] by (simp add: find_token_def)
    moreover have "distinct (map u_id (users_tbl (ss_db s1)))" using inv1 by (simp add: settings_inv_def)
    ultimately have u: "find_user (u_id row) (ss_db s1) = Some row" "u_token row = ?t" using find_token_user by blast+
    have co: "coherent ?t v row" by (rule auth_values_coherent [OF row(2) u(2)])
    then have "Values_Get v ''Id'' = u_id row" by (simp add: coherent_def)
    with u(1) co inv1 have "settings_inv (cache_set ?t v s1)"
      by (auto simp: settings_inv_def cache_coherent_def map_of_cache_set) (simp_all add: cache_set_def)
    with assms(2) None q row show ?thesis by (simp add: authalice_def Let_def split: if_splits)
  next
    case False
    with assms(2) None q inv1 show ?thesis
      by (auto simp: authalice_def Let_def split: sum.splits option.splits)
  qed
qed

lemmas coherent_upd = coherent_def Values_Get_update

lemma DeleteWebhook_step:
  assumes "settings_inv s" "map_of (ss_cache s) token = Some ui" "DeleteWebhook ui w s = (w', s')"
  shows "settings_inv s'"
proof -
  have tok: "Values_Get ui ''Token'' = token" using assms(1,2) coherent_token by (auto simp: settings_inv_def)
  obtain r s1 where u: "on_db (update_user (Values_Get ui ''Id'') (\<lambda>r. r\<lparr>u_webhook := [], u_events := []\<rparr>)) s = (r, s1)"
    by (rule prod.exhaust)
  let ?v = "updateUserInfo (updateUserInfo ui ''Webhook'' []) ''Events'' []"
  have s': "s' = (case r of Inl _ \<Rightarrow> s1 | Inr _ \<Rightarrow> cache_set token ?v s1)"
    using assms(3) u by (auto simp: DeleteWebhook_def tok split: sum.splits)
  show ?thesis
    by (rule settings_inv_write [OF assms(1,2) u, where v' = ?v])
      (simp_all add: coherent_upd s' cache_set_def split: sum.split)
qed

lemma write_webhook_cases:
  assumes "write_webhook uid req valid wh es s = Some (r, s2)" "req \<noteq> []"
  shows "\<exists>s1. on_db (update_user uid (\<lambda>x. x\<lparr>u_webhook := wh, u_events := es\<rparr>)) s = (r, s1) \<and> ss_cache s2 = ss_cache s1 \<and>
    ss_db s2 = ss_db s1"
proof -
  obtain r' s1 where u: "on_db (update_user uid (\<lambda>x. x\<lparr>u_webhook := wh, u_events := es\<rparr>)) s = (r', s1)" by (rule prod.exhaust)
  with assms show ?thesis by (auto simp: write_webhook_def split: if_splits)
qed

lemma SetWebhook_step:
  assumes "settings_inv s" "map_of (ss_cache s) token = Some ui" "wh_Events t \<noteq> []" "SetWebhook ui (Some t) w s = Some (w', s')"
  shows "settings_inv s'"
proof -
  have tok: "Values_Get ui ''Token'' = token" using assms(1,2) coherent_token by (auto simp: settings_inv_def)
  let ?es = "webhook_eventstring (valid_events_loop [] (wh_Events t))"
  let ?v = "updateUserInfo (updateUserInfo ui ''Webhook'' (wh_WebhookURL t)) ''Events'' ?es"
  let ?W = "write_webhook (Values_Get ui ''Id'') (wh_Events t) (valid_events_loop [] (wh_Events t)) (wh_WebhookURL t) ?es s"
  obtain x where x: "?W = Some x" using assms(3,4) by (cases ?W) (simp_all add: SetWebhook_def Let_def)
  obtain r s2 where rs: "x = (r, s2)" by (rule prod.exhaust)
  note wr = x [unfolded rs]
  have s': "s' = (case r of Inl _ \<Rightarrow> s2 | Inr _ \<Rightarrow> cache_set token ?v s2)"
    using assms(3,4) wr by (cases r) (simp_all add: SetWebhook_def Let_def tok)
  obtain s1 where u: "on_db (update_user (Values_Get ui ''Id'') (\<lambda>x. x\<lparr>u_webhook := wh_WebhookURL t, u_events := ?es\<rparr>)) s = (r, s1)"
    and eq: "ss_cache s2 = ss_cache s1" "ss_db s2 = ss_db s1"
    using write_webhook_cases [OF wr assms(3)] by blast
  show ?thesis
    by (rule settings_inv_write [OF assms(1,2) u, where v' = ?v])
      (simp_all add: coherent_upd s' eq cache_set_def split: sum.split)
qed

lemma UpdateWebhook_step:
  assumes "settings_inv s" "map_of (ss_cache s) token = Some ui" "uw_Events t \<noteq> []" "UpdateWebhook ui (Some t) w s = Some (w', s')"
  shows "settings_inv s'"
proof -
  have tok: "Values_Get ui ''Token'' = token" using assms(1,2) coherent_token by (auto simp: settings_inv_def)
  let ?wh = "if uw_Active t then uw_WebhookURL t else []"
  let ?es = "if uw_Active t then webhook_eventstring (valid_events_loop [] (uw_Events t)) else []"
  let ?v = "updateUserInfo (updateUserInfo ui ''Webhook'' ?wh) ''Events'' ?es"
  let ?W = "write_webhook (Values_Get ui ''Id'') (uw_Events t) (valid_events_loop [] (uw_Events t)) ?wh ?es s"
  obtain x where x: "?W = Some x" using assms(4) by (cases ?W) (simp_all only: UpdateWebhook_def Let_def option.simps)
  obtain r s2 where rs: "x = (r, s2)" by (rule prod.exhaust)
  note wr = x [unfolded rs]
  have s': "s' = (case r of Inl _ \<Rightarrow> s2 | Inr _ \<Rightarrow> cache_set token ?v s2)"
    using assms(4) [unfolded UpdateWebhook_def Let_def option.case wr option.map prod.case tok]
    by (cases r) (simp_all only: sum.case option.inject prod.inject)
  obtain s1 where u: "on_db (update_user (Values_Get ui ''Id'') (\<lambda>x. x\<lparr>u_webhook := ?wh, u_events := ?es\<rparr>)) s = (r, s1)"
    and eq: "ss_cache s2 = ss_cache s1" "ss_db s2 = ss_db s1"
    using write_webhook_cases [OF wr assms(3)] by blast
  show ?thesis
    by (rule settings_inv_write [OF assms(1,2) u, where v' = ?v])
      (simp_all add: coherent_upd s' eq cache_set_def split: sum.split)
qed

lemma SetHistory_step:
  assumes "settings_inv s" "map_of (ss_cache s) token = Some ui" "SetHistory ui body w s = (w', s')"
  shows "settings_inv s'"
proof (cases "session_of (Values_Get ui ''Id'') s \<noteq> None \<and> (\<exists>h. body = Some h \<and> 0 \<le> h)")
  case True
  then obtain h where h: "body = Some h" "0 \<le> h" by blast
  have tok: "Values_Get ui ''Token'' = token" using assms(1,2) coherent_token by (auto simp: settings_inv_def)
  obtain r s1 where u: "on_db (update_user (Values_Get ui ''Id'') (\<lambda>r. r\<lparr>u_history := Some h\<rparr>)) s = (r, s1)"
    by (rule prod.exhaust)
  have hit: "map_of (ss_cache s1) token = Some ui" using on_db_update_user(2) [OF u] assms(2) by simp
  have s': "s' = (case r of Inl _ \<Rightarrow> s1 | Inr _ \<Rightarrow> cache_modify token (\<lambda>v. updateUserInfo v ''History'' (Itoa h)) s1)"
    using assms(3) True h u by (auto simp: SetHistory_def tok Let_def split: sum.splits)
  show ?thesis
    by (rule settings_inv_write [OF assms(1,2) u, where v' = "updateUserInfo ui ''History'' (Itoa h)"])
      (simp_all add: coherent_upd s' cache_modify_hit hit split: sum.split)
next
  case False
  with assms(1,3) show ?thesis by (auto simp: SetHistory_def Let_def split: if_splits option.splits)
qed

lemma SetProxy_step:
  assumes "settings_inv s" "map_of (ss_cache s) token = Some ui" "SetProxy parseURL ui body w s = (w', s')"
  shows "settings_inv s'"
proof -
  have tok: "Values_Get ui ''Token'' = token" using assms(1,2) coherent_token by (auto simp: settings_inv_def)
  have inv: "settings_inv s2"
    if u: "on_db (update_user (Values_Get ui ''Id'') (\<lambda>r. r\<lparr>u_proxy_url := Some p\<rparr>)) s = (r, s1)"
      and s2: "s2 = (case r of Inl _ \<Rightarrow> s1 | Inr _ \<Rightarrow> cache_modify token (\<lambda>v. updateUserInfo v ''Proxy'' p) s1)" for p r s1 s2
  proof -
    have hit: "map_of (ss_cache s1) token = Some ui" using on_db_update_user(2) [OF u] assms(2) by simp
    show ?thesis
      by (rule settings_inv_write [OF assms(1,2) u, where v' = "updateUserInfo ui ''Proxy'' p"])
        (simp_all add: coherent_upd s2 cache_modify_hit hit split: sum.split)
  qed
  obtain r0 s0 where u0: "on_db (update_user (Values_Get ui ''Id'') (\<lambda>r. r\<lparr>u_proxy_url := Some []\<rparr>)) s = (r0, s0)"
    by (rule prod.exhaust)
  show ?thesis
  proof (cases body)
    case None
    with assms(1,3) show ?thesis by (auto simp: SetProxy_def Let_def split: if_splits)
  next
    case (Some t)
    obtain r1 s1 where u1: "on_db (update_user (Values_Get ui ''Id'') (\<lambda>r. r\<lparr>u_proxy_url := Some (px_ProxyURL t)\<rparr>)) s = (r1, s1)"
      by (rule prod.exhaust)
    have "s' = s \<or> s' = (case r0 of Inl _ \<Rightarrow> s0 | Inr _ \<Rightarrow> cache_modify token (\<lambda>v. updateUserInfo v ''Proxy'' []) s0) \<or>
        s' = (case r1 of Inl _ \<Rightarrow> s1 | Inr _ \<Rightarrow> cache_modify token (\<lambda>v. updateUserInfo v ''Proxy'' (px_ProxyURL t)) s1)"
      using assms(3) Some u0 u1 tok by (auto simp: SetProxy_def Let_def split: if_splits option.splits sum.splits)
    with inv [OF u0] inv [OF u1] assms(1) show ?thesis by blast
  qed
qed

lemma s3_values_get:
  "Values_Get (s3_values t v) ''S3Enabled'' = FormatBool (s3_Enabled t)"
  "Values_Get (s3_values t v) ''MediaDelivery'' = s3_MediaDelivery t"
  "k \<notin> set [''S3Enabled'', ''S3Endpoint'', ''S3Region'', ''S3Bucket'', ''S3AccessKey'', ''S3SecretKey'', ''S3PathStyle'',
     ''S3PublicURL'', ''MediaDelivery'', ''S3RetentionDays''] \<Longrightarrow> Values_Get (s3_values t v) k = Values_Get v k"
  by (simp_all add: s3_values_def Values_Get_update)

lemma s3_coherent: "coherent token v x \<Longrightarrow> coherent token (s3_values t v) (s3_row t x)"
  by (simp add: coherent_def s3_values_get s3_row_def)

lemma ConfigureS3_step:
  assumes "settings_inv s" "map_of (ss_cache s) token = Some ui" "ConfigureS3 ui body w s = (w', s')"
  shows "settings_inv s'"
proof (cases "\<exists>t0. body = Some t0 \<and> s3_MediaDelivery t0 \<in> {[], ''base64'', ''s3'', ''both''}")
  case True
  then obtain t0 where t0: "body = Some t0" "s3_MediaDelivery t0 \<in> {[], ''base64'', ''s3'', ''both''}" by blast
  define t where "t = (if s3_MediaDelivery t0 = [] then t0\<lparr>s3_MediaDelivery := ''base64''\<rparr> else t0)"
  have tok: "Values_Get ui ''Token'' = token" using assms(1,2) coherent_token by (auto simp: settings_inv_def)
  obtain r s1 where u: "on_db (update_user (Values_Get ui ''Id'') (s3_row t)) s = (r, s1)" by (rule prod.exhaust)
  have hit: "map_of (ss_cache (s1\<lparr>ss_s3 := m\<rparr>)) token = Some ui" for m
    using on_db_update_user(2) [OF u] assms(2) by simp
  have s': "\<exists>m. s' = (case r of Inl _ \<Rightarrow> s1 | Inr _ \<Rightarrow> cache_modify token (s3_values t) (s1\<lparr>ss_s3 := m\<rparr>))"
  proof -
    have ok: "\<not> s3_MediaDelivery t0 \<notin> {[], ''base64'', ''s3'', ''both''}" using t0(2) by blast
    note eq = assms(3) [unfolded t0(1) ConfigureS3_def Let_def option.case t_def [symmetric] if_not_P [OF ok] u prod.case tok]
    show ?thesis
    proof (cases r)
      case (Inl e)
      with eq show ?thesis by simp
    next
      case (Inr x)
      with eq show ?thesis by auto
    qed
  qed
  then obtain m where m: "s' = (case r of Inl _ \<Rightarrow> s1 | Inr _ \<Rightarrow> cache_modify token (s3_values t) (s1\<lparr>ss_s3 := m\<rparr>))" by blast
  have uid: "u_id (s3_row t x) = u_id x" for x by (simp add: s3_row_def)
  have vid: "Values_Get (s3_values t ui) ''Id'' = Values_Get ui ''Id''" by (simp add: s3_values_get)
  have cache: "case r of Inl _ \<Rightarrow> ss_cache s' = ss_cache s1 | Inr _ \<Rightarrow> ss_cache s' = AList.update token (s3_values t ui) (ss_cache s1)"
    by (cases r) (simp_all add: m cache_modify_hit(1) [OF hit])
  have tbl: "users_tbl (ss_db s') = users_tbl (ss_db s1)" by (cases r) (simp_all add: m cache_modify_hit(2))
  show ?thesis by (rule settings_inv_write [OF assms(1,2) u uid vid s3_coherent cache tbl])
next
  case False
  with assms(1,3) show ?thesis by (auto simp: ConfigureS3_def Let_def split: if_splits option.splits)
qed

lemma hmac_write:
  assumes "settings_inv s" "map_of (ss_cache s) token = Some ui"
    "on_db (update_user (Values_Get ui ''Id'') (\<lambda>r. r\<lparr>u_hmac_key := k\<rparr>)) s = (r, s1)"
    "s2 = (case r of Inl _ \<Rightarrow> s1
           | Inr _ \<Rightarrow> cache_modify token (\<lambda>v. updateUserInfo (updateUserInfo v ''HasHmac'' h) ''HmacKeyEncrypted'' b) s1)"
  shows "settings_inv s2"
proof -
  have hit: "map_of (ss_cache s1) token = Some ui" using on_db_update_user(2) [OF assms(3)] assms(2) by simp
  show ?thesis
    by (rule settings_inv_write [OF assms(1,2,3), where v' = "updateUserInfo (updateUserInfo ui ''HasHmac'' h) ''HmacKeyEncrypted'' b"])
      (simp_all add: coherent_upd assms(4) cache_modify_hit hit split: sum.split)
qed

lemma ConfigureHmac_step:
  assumes "settings_inv s" "map_of (ss_cache s) token = Some ui" "ConfigureHmac cy key rnd b64 ui body w s = (w', s')"
  shows "settings_inv s'"
proof (cases "\<exists>k enc. body = Some k \<and> 32 \<le> length k \<and> encryptHMACKey cy key rnd k = Inr enc")
  case True
  then obtain k enc where k: "body = Some k" "32 \<le> length k" "encryptHMACKey cy key rnd k = Inr enc" by blast
  have tok: "Values_Get ui ''Token'' = token" using assms(1,2) coherent_token by (auto simp: settings_inv_def)
  obtain r s1 where u: "on_db (update_user (Values_Get ui ''Id'') (\<lambda>r. r\<lparr>u_hmac_key := Some enc\<rparr>)) s = (r, s1)"
    by (rule prod.exhaust)
  have "s' = (case r of Inl _ \<Rightarrow> s1
      | Inr _ \<Rightarrow> cache_modify token (\<lambda>v. updateUserInfo (updateUserInfo v ''HasHmac'' ''true'') ''HmacKeyEncrypted'' (b64 enc)) s1)"
    using assms(3) k u by (auto simp: ConfigureHmac_def tok Let_def split: sum.splits)
  then show ?thesis by (rule hmac_write [OF assms(1,2) u])
next
  case False
  with assms(1,3) show ?thesis by (auto simp: ConfigureHmac_def Let_def split: if_splits option.splits sum.splits)
qed

lemma DeleteHmac_step:
  assumes "settings_inv s" "map_of (ss_cache s) token = Some ui" "DeleteHmacConfig ui w s = (w', s')"
  shows "settings_inv s'"
proof -
  have tok: "Values_Get ui ''Token'' = token" using assms(1,2) coherent_token by (auto simp: settings_inv_def)
  obtain r s1 where u: "on_db (update_user (Values_Get ui ''Id'') (\<lambda>r. r\<lparr>u_hmac_key := None\<rparr>)) s = (r, s1)"
    by (rule prod.exhaust)
  have "s' = (case r of Inl _ \<Rightarrow> s1
      | Inr _ \<Rightarrow> cache_modify token (\<lambda>v. updateUserInfo (updateUserInfo v ''HasHmac'' ''false'') ''HmacKeyEncrypted'' []) s1)"
    using assms(3) u by (auto simp: DeleteHmacConfig_def tok split: sum.splits)
  then show ?thesis by (rule hmac_write [OF assms(1,2) u])
qed

lemma reads_step:
  assumes "settings_inv s" "GetWebhook ui w s = (w', s') \<or> GetS3Config ui w s = (w', s') \<or> GetHmacConfig ui w s = (w', s') \<or>
    TestS3Connection store ui w s = (w', s')"
  shows "settings_inv s'"
proof -
  obtain r s1 where q: "on_db (pg_query (find_user (Values_Get ui ''Id''))) s = (r, s1)" by (rule prod.exhaust)
  have "settings_inv s1" by (rule settings_inv_cong [OF assms(1) on_db_query(1,2) [OF q]])
  moreover have "\<exists>m. s' = s1\<lparr>ss_s3 := m\<rparr> \<or> s' = s1"
    using assms(2) q
    by (auto simp: GetWebhook_def GetS3Config_def GetHmacConfig_def TestS3Connection_def Let_def
        split: sum.splits option.splits if_splits)
  ultimately show ?thesis by (auto intro: settings_inv_cong)
qed

lemma settings_step_inv: "settings_step s s' \<Longrightarrow> settings_inv s \<Longrightarrow> settings_inv s'"
  by (induction rule: settings_step.induct)
    (blast intro: auth_step DeleteWebhook_step SetWebhook_step UpdateWebhook_step SetHistory_step SetProxy_step ConfigureS3_step
      ConfigureHmac_step DeleteHmac_step reads_step)+

end
