(* ===== verification/Users_Laws.thy ===== *)
theory Users_Laws
  imports Users "HOL-Library.Sublist"
begin

text \<open>
  What the users domain promises. The \<^verbatim>\<open>Repository\<close> interface is a locale whose laws relate the
  operations to the rows they persist; the service's behaviour is proved once over it and used
  through the interpretation on \<^verbatim>\<open>PostgresRepository\<close>.
\<close>

section \<open>Abstract specification of a patch\<close>

text \<open>A patch written on the row itself: a zero value leaves the column as it is.\<close>

definition patch_s3 :: "S3Config \<Rightarrow> user_row \<Rightarrow> user_row" where
  "patch_s3 c r =
     r\<lparr>u_s3_enabled := Some (s3_Enabled c), u_s3_endpoint := Some (s3_Endpoint c),
       u_s3_region := Some (s3_Region c), u_s3_bucket := Some (s3_Bucket c),
       u_s3_access_key := Some (s3_AccessKey c), u_s3_secret_key := Some (s3_SecretKey c),
       u_s3_path_style := Some (s3_PathStyle c), u_s3_public_url := Some (s3_PublicURL c),
       u_media_delivery := Some (s3_MediaDelivery c), u_s3_retention_days := Some (s3_RetentionDays c)\<rparr>"

definition patch_row :: "UpdateInput \<Rightarrow> user_row \<Rightarrow> user_row" where
  "patch_row inp r =
     (let r1 = r\<lparr>u_name := (if ui_Name inp = [] then u_name r else ui_Name inp),
                 u_token := (if ui_Token inp = [] then u_token r else ui_Token inp),
                 u_webhook := (if ui_Webhook inp = [] then u_webhook r else ui_Webhook inp),
                 u_expiration := (if ui_Expiration inp = 0 then u_expiration r else Some (ui_Expiration inp)),
                 u_events := (if ui_Events inp = [] then u_events r else ui_Events inp),
                 u_history := (if ui_History inp = 0 then u_history r else Some (ui_History inp)),
                 u_proxy_url := (case ui_ProxyConfig inp of None \<Rightarrow> u_proxy_url r
                                 | Some p \<Rightarrow> Some (if pc_Enabled p then pc_ProxyURL p else []))\<rparr>
      in case ui_S3Config inp of None \<Rightarrow> r1 | Some c \<Rightarrow> patch_s3 c r1)"

definition empty_patch :: "UpdateInput \<Rightarrow> bool" where
  "empty_patch inp \<longleftrightarrow> ui_Name inp = [] \<and> ui_Token inp = [] \<and> ui_Webhook inp = [] \<and> ui_Expiration inp = 0 \<and>
     ui_Events inp = [] \<and> ui_History inp = 0 \<and> ui_ProxyConfig inp = None \<and> ui_S3Config inp = None"

definition unique_ids :: "user_row list \<Rightarrow> bool" where
  "unique_ids rs \<longleftrightarrow> distinct (map u_id rs)"

definition unique_tokens :: "user_row list \<Rightarrow> bool" where
  "unique_tokens rs \<longleftrightarrow> distinct (map u_token rs)"

section \<open>Update fields\<close>

lemma set_columns_append:
  "set_columns (fs @ gs) r = Option.bind (set_columns fs r) (set_columns gs)"
  by (induction fs arbitrary: r) (auto split: Option.bind_splits)

lemma set_columns_opt_field:
  "set_columns (opt_field b c v) r = (if b then set_column c v r else Some r)"
  by (cases "set_column c v r") (simp_all add: opt_field_def)

lemma set_columns_s3_fields: "set_columns (s3_fields c) r = Some (patch_s3 c r)"
  by (simp add: s3_fields_def patch_s3_def set_column_def)

lemma set_columns_build: "set_columns (buildUpdateFields inp) r = Some (patch_row inp r)"
  by (simp add: buildUpdateFields_def patch_row_def set_columns_append set_columns_opt_field
      set_columns_s3_fields set_column_def Let_def split: option.split)

text \<open>The columns are among the table's, in a fixed order, so no column is named twice.\<close>

definition update_columns :: "string list" where
  "update_columns = [''name''] @ [''token''] @ [''webhook''] @ [''expiration''] @ [''events''] @ [''history''] @
     [''proxy_url''] @ [''s3_enabled'', ''s3_endpoint'', ''s3_region'', ''s3_bucket'', ''s3_access_key'',
      ''s3_secret_key'', ''s3_path_style'', ''s3_public_url'', ''media_delivery'', ''s3_retention_days'']"

lemma distinct_update_columns: "distinct update_columns"
  by code_simp

lemma subseq_distinct: "subseq xs ys \<Longrightarrow> distinct ys \<Longrightarrow> distinct xs"
  by (auto simp: subseq_conv_nths)

lemma subseq_opt_field: "subseq (map uf_Column (opt_field b c v)) [c]"
  by (simp add: opt_field_def)

lemma subseq_columns_build: "subseq (map uf_Column (buildUpdateFields inp)) update_columns"
  unfolding buildUpdateFields_def update_columns_def map_append
  by (intro list_emb_append_mono subseq_opt_field) (simp_all add: s3_fields_def split: option.split)

lemma distinct_columns_build: "distinct (map uf_Column (buildUpdateFields inp))"
  using subseq_columns_build distinct_update_columns by (rule subseq_distinct)

lemma column_ok_build: "list_all column_ok (buildUpdateFields inp)"
proof -
  have "list_all column_ok (opt_field b c v)" if "column_ok \<lparr>uf_Column = c, uf_Value = v\<rparr>" for b c v
    using that by (simp add: opt_field_def)
  then show ?thesis
    by (simp add: buildUpdateFields_def s3_fields_def column_ok_def split: option.split)
qed

lemma build_empty_iff: "buildUpdateFields inp = [] \<longleftrightarrow> empty_patch inp"
  by (simp add: buildUpdateFields_def opt_field_def s3_fields_def empty_patch_def split: option.split)

lemma u_id_patch_row [simp]: "u_id (patch_row inp r) = u_id r"
  by (simp add: patch_row_def patch_s3_def Let_def split: option.split)

lemma u_token_patch_row:
  "u_token (patch_row inp r) = (if ui_Token inp = [] then u_token r else ui_Token inp)"
  by (simp add: patch_row_def patch_s3_def Let_def split: option.split)

section \<open>The repository interface\<close>

locale users_repository =
  fixes R :: "'st Repository"
    and rows :: "'st \<Rightarrow> user_row list"
  assumes List_ok: "rp_List R s = (Inr us, s') \<Longrightarrow> us = map scanRow (rows s) \<and> rows s' = rows s"
    and List_err: "rp_List R s = (Inl e, s') \<Longrightarrow> rows s' = rows s"
    and Get_ok: "rp_Get R i s = (Inr u, s') \<Longrightarrow>
      rows s' = rows s \<and> (\<exists>r \<in> set (rows s). u_id r = i \<and> u = scanRow r)"
    and Get_err: "rp_Get R i s = (Inl e, s') \<Longrightarrow>
      rows s' = rows s \<and> (e = ErrNotFound \<longrightarrow> i \<notin> u_id ` set (rows s))"
    and Delete_ok: "rp_Delete R i s = (Inr un, s') \<Longrightarrow>
      i \<in> u_id ` set (rows s) \<and> rows s' = filter (\<lambda>r. u_id r \<noteq> i) (rows s)"
    and Delete_err: "rp_Delete R i s = (Inl e, s') \<Longrightarrow>
      rows s' = rows s \<and> (e = ErrNotFound \<longrightarrow> i \<notin> u_id ` set (rows s))"
    and TokenExists_ok: "rp_TokenExists R t s = (Inr b, s') \<Longrightarrow>
      rows s' = rows s \<and> (b \<longleftrightarrow> t \<in> u_token ` set (rows s))"
    and TokenExists_err: "rp_TokenExists R t s = (Inl e, s') \<Longrightarrow> rows s' = rows s"
    and Create_ok: "rp_Create R row s = (Inr un, s') \<Longrightarrow>
      cr_ID row \<notin> u_id ` set (rows s) \<and> rows s' = rows s @ [inserted_row row]"
    and Create_err: "rp_Create R row s = (Inl e, s') \<Longrightarrow> rows s' = rows s"
    and ExistsByID_ok: "rp_ExistsByID R i s = (Inr b, s') \<Longrightarrow>
      rows s' = rows s \<and> (b \<longleftrightarrow> i \<in> u_id ` set (rows s))"
    and ExistsByID_err: "rp_ExistsByID R i s = (Inl e, s') \<Longrightarrow> rows s' = rows s \<and> e \<noteq> ErrNotFound"
    and GetToken_ok: "rp_GetToken R i s = (Inr t, s') \<Longrightarrow>
      rows s' = rows s \<and> (\<exists>r \<in> set (rows s). u_id r = i \<and> u_token r = t)"
    and GetToken_err: "rp_GetToken R i s = (Inl e, s') \<Longrightarrow> rows s' = rows s \<and> e \<noteq> ErrNotFound"
    and Update_ok: "rp_Update R i fs s = (Inr un, s') \<Longrightarrow>
      rows s' = map (\<lambda>r. if u_id r = i then the (set_columns fs r) else r) (rows s)"
    and Update_err: "rp_Update R i fs s = (Inl e, s') \<Longrightarrow> rows s' = rows s \<and> e \<noteq> ErrNotFound"
begin

lemma Update_build:
  "rp_Update R i (buildUpdateFields inp) s = (Inr un, s') \<Longrightarrow>
     rows s' = map (\<lambda>r. if u_id r = i then patch_row inp r else r) (rows s)"
  by (drule Update_ok) (simp add: set_columns_build cong: if_cong)

text \<open>A failed \<^verbatim>\<open>Create\<close> leaves the rows as they were.\<close>

lemma Create_error_frame:
  assumes S [simp]: "sv_repo S = R" and "Service_Create S inp s = (Inl e, s')"
  shows "rows s' = rows s"
  using assms(2)
  by (auto simp: Service_Create_def split: option.splits sum.splits prod.splits if_splits
      dest!: TokenExists_ok TokenExists_err Create_err)

text \<open>A successful \<^verbatim>\<open>Create\<close> passed every check and added exactly the described row.\<close>

lemma Create_success:
  assumes S [simp]: "sv_repo S = R" and "Service_Create S inp s = (Inr u, s')"
  shows "\<exists>i hm. sv_ids S = Inr i \<and> create_hmac S inp = Inr hm \<and> ValidateEvents (ci_Events inp) = None \<and>
     ci_Token inp \<notin> u_token ` set (rows s) \<and> i \<notin> u_id ` set (rows s) \<and>
     u = created_user i inp \<and> rows s' = rows s @ [inserted_row (create_row i inp hm)]"
  using assms(2)
  by (auto simp: Service_Create_def create_row_def split: option.splits sum.splits prod.splits if_splits
      dest!: TokenExists_ok Create_ok)

lemma Update_error_frame:
  assumes S [simp]: "sv_repo S = R" and "Service_Update S i inp s = (Inl e, s')"
  shows "rows s' = rows s"
  using assms(2)
  by (auto simp: Service_Update_def Let_def split: option.splits sum.splits prod.splits if_splits
      dest!: ExistsByID_ok ExistsByID_err GetToken_ok GetToken_err Update_err)

lemma Update_success:
  assumes S [simp]: "sv_repo S = R" and "Service_Update S i inp s = (Inr res, s')"
  shows "\<exists>s3. i \<in> u_id ` set (rows s) \<and> \<not> empty_patch inp \<and>
     (ui_Events inp \<noteq> [] \<longrightarrow> ValidateEvents (ui_Events inp) = None) \<and>
     rows s3 = map (\<lambda>r. if u_id r = i then patch_row inp r else r) (rows s) \<and>
     s' = (case sv_updateHook S of None \<Rightarrow> s3 | Some h \<Rightarrow> h res s3) \<and>
     ur_UserID res = i \<and> ur_S3Config res = ui_S3Config inp \<and>
     (\<exists>r \<in> set (rows s). u_id r = i \<and> ur_OldToken res = u_token r) \<and>
     ur_NewToken res = (if ui_Token inp = [] then ur_OldToken res else ui_Token inp)"
  using assms(2)
  by (auto simp: Service_Update_def Let_def build_empty_iff
      split: option.splits sum.splits prod.splits if_splits
      dest!: ExistsByID_ok GetToken_ok Update_build) blast+

lemma Update_not_found:
  assumes S [simp]: "sv_repo S = R" and "Service_Update S i inp s = (Inl ErrNotFound, s')"
  shows "i \<notin> u_id ` set (rows s)"
  using assms(2)
  by (auto simp: Service_Update_def Let_def ValidateEvents_def validate_loop_eq
      split: option.splits sum.splits prod.splits if_splits
      dest!: ExistsByID_ok ExistsByID_err GetToken_err Update_err)

lemma List_keeps:
  assumes S [simp]: "sv_repo S = R" and "Service_List S s = (x, s')"
  shows "rows s' = rows s"
  using assms(2) by (auto simp: Service_List_def split: sum.splits prod.splits dest!: List_ok List_err)

lemma Get_keeps:
  assumes S [simp]: "sv_repo S = R" and "Service_Get S i s = (x, s')"
  shows "rows s' = rows s"
  using assms(2) by (auto simp: Service_Get_def split: sum.splits prod.splits dest!: Get_ok Get_err)

lemma Delete_rows:
  assumes S [simp]: "sv_repo S = R" and "Service_Delete S i s = (x, s')"
  shows "rows s' = (if isl x then rows s else filter (\<lambda>r. u_id r \<noteq> i) (rows s))"
  using assms(2) by (cases x) (auto simp: Service_Delete_def dest!: Delete_ok Delete_err)

end

section \<open>PostgreSQL implements the interface\<close>

lemma lift_err_Inr: "lift_err x = (Inr v, s) \<longleftrightarrow> x = (Inr v, s)"
  and lift_err_Inl: "lift_err x = (Inl e, s) \<longleftrightarrow> (\<exists>m. e = ErrOther m \<and> x = (Inl m, s))"
  by (auto simp: lift_err_def split: prod.splits sum.splits)

lemma find_user_Some: "find_user i d = Some r \<Longrightarrow> r \<in> set (users_tbl d) \<and> u_id r = i"
  by (auto simp: find_user_def find_Some_iff in_set_conv_nth)

lemma find_user_None: "find_user i d = None \<Longrightarrow> i \<notin> u_id ` set (users_tbl d)"
  by (auto simp: find_user_def find_None_iff)

lemmas pg_repo_defs = pgList_def pgGet_def pgDelete_def pgTokenExists_def pgCreate_def pgExistsByID_def
  pgGetToken_def pgUpdate_def

interpretation pgr: users_repository PostgresRepository users_tbl
proof (unfold_locales, goal_cases)
  case (1 s us s')
  then show ?case
    by (auto simp: PostgresRepository_def pg_query_iff pgList_def lift_err_Inr)
next
  case (2 s e s')
  then show ?case
    by (auto simp: PostgresRepository_def pg_query_iff pgList_def lift_err_Inl)
next
  case (3 i s u s')
  then show ?case
    by (auto simp: PostgresRepository_def pg_query_iff pgGet_def split: prod.splits sum.splits option.splits
        dest: find_user_Some)
next
  case (4 i s e s')
  then show ?case
    by (auto simp: PostgresRepository_def pg_query_iff pgGet_def split: prod.splits sum.splits option.splits
        dest: find_user_None)
next
  case (5 i s u s')
  then show ?case
    by (auto simp: PostgresRepository_def pg_query_iff pgDelete_def filter_empty_conv
        split: prod.splits sum.splits if_splits dest!: pg_exec_Inr)
next
  case (6 i s e s')
  then show ?case
    by (auto simp: PostgresRepository_def pg_query_iff pgDelete_def filter_empty_conv
        split: prod.splits sum.splits if_splits dest!: pg_exec_Inr dest: pg_exec_Inl
        intro!: filter_True)
next
  case (7 t s b s')
  then show ?case
    by (auto simp: PostgresRepository_def pg_query_iff pgTokenExists_def lift_err_Inr filter_empty_conv)
next
  case (8 t s e s')
  then show ?case
    by (auto simp: PostgresRepository_def pg_query_iff pgTokenExists_def lift_err_Inl)
next
  case (9 row s u s')
  then show ?case
    by (auto simp: PostgresRepository_def pg_query_iff pgCreate_def lift_err_Inr dest!: pg_exec_Inr split: if_splits)
next
  case (10 row s e s')
  then show ?case
    by (auto simp: PostgresRepository_def pg_query_iff pgCreate_def lift_err_Inl dest: pg_exec_Inl)
next
  case (11 i s b s')
  then show ?case
    by (auto simp: PostgresRepository_def pg_query_iff pgExistsByID_def lift_err_Inr filter_empty_conv)
next
  case (12 i s e s')
  then show ?case
    by (auto simp: PostgresRepository_def pg_query_iff pgExistsByID_def lift_err_Inl)
next
  case (13 i s t s')
  then show ?case
    by (auto simp: PostgresRepository_def pg_query_iff pgGetToken_def split: prod.splits sum.splits option.splits
        dest: find_user_Some)
next
  case (14 i s e s')
  then show ?case
    by (auto simp: PostgresRepository_def pg_query_iff pgGetToken_def split: prod.splits sum.splits option.splits)
next
  case (15 i fs s u s')
  then show ?case
    by (auto simp: PostgresRepository_def pg_query_iff pgUpdate_def lift_err_Inr dest!: pg_exec_Inr split: if_splits)
next
  case (16 i fs s e s')
  then show ?case
    by (auto simp: PostgresRepository_def pg_query_iff pgUpdate_def lift_err_Inl dest: pg_exec_Inl split: if_splits)
qed

section \<open>Operations in sequence\<close>

text \<open>
  The service over PostgreSQL with any state provider and encryptor; \<open>g\<close> is the result of the ID
  generator at this call. The hook acts on other state than the tables.
\<close>

definition pg_service :: "pg Service \<Rightarrow> string + string \<Rightarrow> pg Service" where
  "pg_service S g = S\<lparr>sv_repo := PostgresRepository, sv_ids := g, sv_updateHook := None\<rparr>"

lemma sv_pg_service [simp]:
  "sv_repo (pg_service S g) = PostgresRepository" "sv_updateHook (pg_service S g) = None"
  "sv_ids (pg_service S g) = g" "sv_crypto (pg_service S g) = sv_crypto S"
  "create_hmac (pg_service S g) inp = create_hmac S inp"
  by (simp_all add: pg_service_def create_hmac_def)

text \<open>One request to the service, with any outcome of the database and the generator.\<close>

inductive users_step :: "pg Service \<Rightarrow> (UpdateInput \<Rightarrow> bool) \<Rightarrow> pg \<Rightarrow> pg \<Rightarrow> bool" for S allowed where
  list: "Service_List (pg_service S g) d = (x, d') \<Longrightarrow> users_step S allowed d d'"
| get: "Service_Get (pg_service S g) i d = (x, d') \<Longrightarrow> users_step S allowed d d'"
| create: "Service_Create (pg_service S g) inp d = (x, d') \<Longrightarrow> users_step S allowed d d'"
| update: "allowed upd \<Longrightarrow> Service_Update (pg_service S g) i upd d = (x, d') \<Longrightarrow> users_step S allowed d d'"
| delete: "Service_Delete (pg_service S g) i d = (x, d') \<Longrightarrow> users_step S allowed d d'"

inductive users_reach :: "pg Service \<Rightarrow> (UpdateInput \<Rightarrow> bool) \<Rightarrow> pg \<Rightarrow> pg \<Rightarrow> bool" for S allowed d where
  start: "users_reach S allowed d d"
| step: "users_reach S allowed d d1 \<Longrightarrow> users_step S allowed d1 d2 \<Longrightarrow> users_reach S allowed d d2"

lemma Create_rows:
  assumes "Service_Create (pg_service S g) inp d = (x, d')"
  shows "users_tbl d' = users_tbl d \<or>
    (\<exists>r. users_tbl d' = users_tbl d @ [r] \<and> u_token r = ci_Token inp \<and>
       u_id r \<notin> u_id ` set (users_tbl d) \<and> u_token r \<notin> u_token ` set (users_tbl d))"
proof (cases x)
  case (Inl e)
  with assms show ?thesis using pgr.Create_error_frame [of "pg_service S g"] by auto
next
  case (Inr u)
  with assms pgr.Create_success [of "pg_service S g" inp d u d'] show ?thesis
    by (auto simp: inserted_row_def create_row_def)
qed

lemma Update_rows:
  assumes "Service_Update (pg_service S g) i upd d = (x, d')"
  shows "users_tbl d' = users_tbl d \<or>
    users_tbl d' = map (\<lambda>r. if u_id r = i then patch_row upd r else r) (users_tbl d)"
proof (cases x)
  case (Inl e)
  with assms show ?thesis using pgr.Update_error_frame [of "pg_service S g"] by auto
next
  case (Inr u)
  with assms pgr.Update_success [of "pg_service S g" i upd d u d'] show ?thesis by auto
qed

lemma step_unique_ids:
  assumes "users_step S allowed d d'" "unique_ids (users_tbl d)"
  shows "unique_ids (users_tbl d')"
  using assms
proof (induction rule: users_step.induct)
  case (list g d x d')
  then show ?case using pgr.List_keeps [of "pg_service S g"] by fastforce
next
  case (get g i d x d')
  then show ?case using pgr.Get_keeps [of "pg_service S g"] by fastforce
next
  case (create g inp d x d')
  from Create_rows [OF create(1)] create(2) show ?case by (auto simp: unique_ids_def)
next
  case (update upd g i d x d')
  from Update_rows [OF update(2)] update(3) show ?case
    by (auto simp: unique_ids_def map_u_id_update simp del: map_map)
next
  case (delete g i d x d')
  with pgr.Delete_rows [of "pg_service S g"] show ?case
    by (fastforce simp: unique_ids_def intro: distinct_map_filter)
qed

lemma step_unique_tokens:
  assumes "users_step S (\<lambda>upd. ui_Token upd = []) d d'" "unique_tokens (users_tbl d)"
  shows "unique_tokens (users_tbl d')"
  using assms
proof (induction rule: users_step.induct)
  case (list g d x d')
  then show ?case using pgr.List_keeps [of "pg_service S g"] by fastforce
next
  case (get g i d x d')
  then show ?case using pgr.Get_keeps [of "pg_service S g"] by fastforce
next
  case (create g inp d x d')
  from Create_rows [OF create(1)] create(2) show ?case by (auto simp: unique_tokens_def)
next
  case (update upd g i d x d')
  from Update_rows [OF update(2)] update(1,3) show ?case
    by (auto simp: unique_tokens_def map_u_token_update u_token_patch_row simp del: map_map)
next
  case (delete g i d x d')
  with pgr.Delete_rows [of "pg_service S g"] show ?case
    by (fastforce simp: unique_tokens_def intro: distinct_map_filter)
qed

end
