(* ===== verification/Users_Props.thy ===== *)
theory Users_Props
  imports Users_Laws
begin

text \<open>
  The properties of the users domain over PostgreSQL: what each operation of the service does to the
  table on every outcome, the invariants of sequences of operations, the statement text of updates,
  and what the HTTP handler answers and does not reveal.
\<close>

section \<open>Sample data\<close>

definition sample_row :: "string \<Rightarrow> string \<Rightarrow> user_row" where
  "sample_row i t =
     \<lparr>u_id = i, u_name = ''n'', u_token = t, u_webhook = [], u_jid = [], u_qrcode = [],
      u_connected = None, u_expiration = Some 0, u_events = ''Message'', u_proxy_url = Some [],
      u_s3_enabled = Some False, u_s3_endpoint = Some [], u_s3_region = Some [], u_s3_bucket = Some [],
      u_s3_access_key = Some ''ak'', u_s3_secret_key = Some ''sk'', u_s3_path_style = Some True,
      u_s3_public_url = Some [], u_media_delivery = Some ''base64'', u_s3_retention_days = Some 30,
      u_history = Some 0, u_hmac_key = None\<rparr>"

definition sample_pg :: "user_row list \<Rightarrow> pg" where
  "sample_pg rs = \<lparr>users_tbl = rs, history_tbl = [], history_seq = 0, secrets_tbl = [], calls = 0,
     fault = (\<lambda>_. None)\<rparr>"

definition sample_service :: "pg Service" where
  "sample_service = \<lparr>sv_repo = PostgresRepository, sv_Connected = (\<lambda>_ _. False),
     sv_LoggedIn = (\<lambda>_ _. False), sv_ids = Inr ''new'', sv_crypto = (\<lambda>_. Inr [1]), sv_updateHook = None\<rparr>"

definition sample_input :: "string \<Rightarrow> CreateUserInput" where
  "sample_input t = \<lparr>ci_Name = ''n'', ci_Token = t, ci_Webhook = [], ci_Expiration = 0, ci_Events = [],
     ci_ProxyConfig = zero_proxy, ci_S3Config = zero_s3, ci_HMACKey = [], ci_History = 0\<rparr>"

definition token_patch :: "string \<Rightarrow> UpdateInput" where
  "token_patch t = \<lparr>ui_Name = [], ui_Token = t, ui_Webhook = [], ui_Expiration = 0, ui_Events = [],
     ui_History = 0, ui_ProxyConfig = None, ui_S3Config = None\<rparr>"

lemmas users_eval = sample_row_def sample_pg_def sample_service_def sample_input_def token_patch_def
  PostgresRepository_def pg_repo_defs pg_query_def pg_exec_def lift_err_def find_user_def
  Service_Create_def Service_Update_def Service_Get_def Service_Delete_def Service_List_def
  create_hmac_def create_row_def created_user_def inserted_row_def mask_s3_def zero_proxy_def zero_s3_def
  buildUpdateFields_def opt_field_def column_ok_def set_column_def ValidateEvents_def

section \<open>Create, update, delete\<close>

text \<open>
  C3. \<^verbatim>\<open>Service.Create\<close> is all or nothing: an error leaves the users table as it was, and success adds
  exactly one row, the one described by the input with the encrypted HMAC key, only when the events
  are valid, the token is unused, the id is fresh and the key is absent or has at least 32 bytes; the
  returned user carries the masked S3 configuration.
\<close>

theorem Create_all_or_nothing:
  "(case Service_Create (S\<lparr>sv_repo := PostgresRepository\<rparr>) inp d of
      (Inl e, d') \<Rightarrow> users_tbl d' = users_tbl d
    | (Inr u, d') \<Rightarrow>
        (\<exists>i hm. users_tbl d' = users_tbl d @ [inserted_row (create_row i inp hm)] \<and>
           ValidateEvents (ci_Events inp) = None \<and>
           ci_Token inp \<notin> u_token ` set (users_tbl d) \<and> i \<notin> u_id ` set (users_tbl d) \<and>
           (if ci_HMACKey inp = [] then hm = []
            else 32 \<le> length (ci_HMACKey inp) \<and> sv_crypto S (ci_HMACKey inp) = Inr hm) \<and>
           u = created_user i inp \<and> s3_AccessKey (us_S3Config u) = ''***'' \<and>
           s3_SecretKey (us_S3Config u) = []))"
proof -
  let ?S = "S\<lparr>sv_repo := PostgresRepository\<rparr>"
  obtain x d' where eq: "Service_Create ?S inp d = (x, d')" by fastforce
  show ?thesis
  proof (cases x)
    case (Inl e)
    then show ?thesis using eq pgr.Create_error_frame [of ?S inp d e d'] by simp
  next
    case (Inr u)
    then show ?thesis using eq pgr.Create_success [of ?S inp d u d']
      by (force simp: create_hmac_def created_user_def mask_s3_def split: if_splits sum.splits)
  qed
qed

text \<open>
  C4. \<^verbatim>\<open>Service.Update\<close> refines the row-level patch: on success the row with the id, which exists, is
  changed exactly in the fields the patch names (zero values and nil configurations leave their
  columns alone) and every other row is untouched; on any error no row changes; \<^verbatim>\<open>ErrNotFound\<close> means
  that no row has the id.
\<close>

theorem Update_refines_patch:
  "(case Service_Update (pg_service S g) i inp d of
      (Inl e, d') \<Rightarrow> users_tbl d' = users_tbl d \<and>
        (if e = ErrNotFound then i \<notin> u_id ` set (users_tbl d) else True)
    | (Inr res, d') \<Rightarrow>
        i \<in> u_id ` set (users_tbl d) \<and> \<not> empty_patch inp \<and>
        users_tbl d' = map (\<lambda>r. if u_id r = i then patch_row inp r else r) (users_tbl d) \<and>
        ur_NewToken res = (if ui_Token inp = [] then ur_OldToken res else ui_Token inp))"
proof -
  let ?S = "pg_service S g"
  obtain x d' where eq: "Service_Update ?S i inp d = (x, d')" by fastforce
  show ?thesis
  proof (cases x)
    case (Inl e)
    then show ?thesis
      using eq pgr.Update_error_frame [of ?S i inp d e d'] pgr.Update_not_found [of ?S i inp d d']
      by simp
  next
    case (Inr u)
    then show ?thesis using eq pgr.Update_success [of ?S i inp d u d'] by simp
  qed
qed



text \<open>
  As long as no update sets the token column, tokens stay unique in every reachable state, since
  \<^verbatim>\<open>Create\<close> refuses a token in use.
\<close>

theorem tokens_stay_unique:
  assumes "users_reach S (\<lambda>upd. ui_Token upd = []) d d'" "unique_tokens (users_tbl d)"
  shows "unique_tokens (users_tbl d')"
  using assms(1) by (induction rule: users_reach.induct) (use assms(2) step_unique_tokens in auto)

theorem tokens_stay_unique_witness:
  "users_reach sample_service (\<lambda>upd. ui_Token upd = []) (sample_pg [])
     (snd (Service_Create (pg_service sample_service (Inr ''new'')) (sample_input ''t'') (sample_pg []))) \<and>
   unique_tokens (users_tbl
     (snd (Service_Create (pg_service sample_service (Inr ''new'')) (sample_input ''t'') (sample_pg []))))"
proof -
  let ?d = "sample_pg []"
  let ?r = "Service_Create (pg_service sample_service (Inr ''new'')) (sample_input ''t'') ?d"
  have reach: "users_reach sample_service (\<lambda>upd. ui_Token upd = []) ?d (snd ?r)"
    by (rule users_reach.step [OF users_reach.start], rule users_step.create) (rule prod.collapse [symmetric])
  have "unique_tokens (users_tbl ?d)" by (simp add: unique_tokens_def sample_pg_def)
  from tokens_stay_unique [OF reach this] reach show ?thesis by blast
qed

text \<open>
  \<^verbatim>\<open>Service.Update\<close> does not check the new token against the other users: from a table with unique
  tokens an update that succeeds leads to two users with the same token.
\<close>

theorem Update_can_duplicate_token:
  "unique_tokens (users_tbl (sample_pg [sample_row ''a'' ''ta'', sample_row ''b'' ''tb''])) \<and>
   (case Service_Update sample_service ''b'' (token_patch ''ta'')
           (sample_pg [sample_row ''a'' ''ta'', sample_row ''b'' ''tb'']) of
      (Inl e, d') \<Rightarrow> False
    | (Inr res, d') \<Rightarrow> map u_token (users_tbl d') = [''ta'', ''ta''] \<and> \<not> unique_tokens (users_tbl d'))"
  by (simp add: unique_tokens_def users_eval)

section \<open>Statement text\<close>

lemma update_assignments_columns:
  "map uf_Column fs = map uf_Column gs \<Longrightarrow> update_assignments i fs = update_assignments i gs"
proof (induction fs arbitrary: gs i)
  case (Cons f fs)
  then obtain h hs where "gs = h # hs" by (cases gs) auto
  with Cons show ?case by simp
qed simp

text \<open>
  The text of the \<^verbatim>\<open>UPDATE\<close> statement never contains a value of the patch: it is determined by
  the columns, which are a subsequence of a fixed list of distinct column names, and the values only
  travel as arguments.
\<close>

theorem update_sql_only_columns:
  "\<exists>cols. subseq cols update_columns \<and> distinct cols \<and>
     update_sql (buildUpdateFields inp) = update_sql (map (\<lambda>c. \<lparr>uf_Column = c, uf_Value = VText []\<rparr>) cols)"
proof (intro exI conjI)
  let ?cols = "map uf_Column (buildUpdateFields inp)"
  show "subseq ?cols update_columns" by (rule subseq_columns_build)
  show "distinct ?cols" by (rule distinct_columns_build)
  show "update_sql (buildUpdateFields inp) =
      update_sql (map (\<lambda>c. \<lparr>uf_Column = c, uf_Value = VText []\<rparr>) ?cols)"
    unfolding update_sql_def
    by (subst update_assignments_columns
        [of _ "map (\<lambda>c. \<lparr>uf_Column = c, uf_Value = VText []\<rparr>) ?cols"]) simp_all
qed

section \<open>Generated ids\<close>

lemma of_char_hex_digit: "a < 16 \<Longrightarrow> (of_char (hex_digit a) :: nat) = (if a < 10 then 48 + a else 87 + a)"
  by (simp add: hex_digit_def)

lemma hex_digit_inj:
  assumes "a < 16" "b < 16" "hex_digit a = hex_digit b"
  shows "a = b"
proof -
  have "(if a < 10 then 48 + a else 87 + a) = (if b < 10 then 48 + b else 87 + b)"
    using of_char_hex_digit [OF assms(1)] of_char_hex_digit [OF assms(2)] unfolding assms(3) by simp
  then show ?thesis by (simp split: if_splits)
qed

lemma hex_encode_Cons:
  "hex_encode (b # bs) = hex_digit (unat b div 16) # hex_digit (unat b mod 16) # hex_encode bs"
  by (simp add: hex_encode_def)

lemma hex_encode_inj: "hex_encode xs = hex_encode ys \<Longrightarrow> xs = ys"
proof (induction xs arbitrary: ys)
  case Nil
  then show ?case by (cases ys) (auto simp: hex_encode_def)
next
  case (Cons x xs)
  then obtain y zs where ys: "ys = y # zs" by (cases ys) (auto simp: hex_encode_def)
  have "unat x div 16 < 16" "unat y div 16 < 16" using unat_byte_less [of x] unat_byte_less [of y] by simp_all
  then have "unat x div 16 = unat y div 16" "unat x mod 16 = unat y mod 16"
    using Cons.prems by (auto simp: ys hex_encode_Cons intro: hex_digit_inj)
  then have "x = y" by (metis div_mult_mod_eq word_unat_eq_iff)
  with Cons ys show ?case by (simp add: hex_encode_Cons)
qed

text \<open>
  The default ID generator turns 16 random bytes into 32 characters, fails when the source is
  short, and different bytes give different ids.
\<close>

theorem generated_id_faithful:
  "(case cryptoRandIDGen_Generate src of
      Inl e \<Rightarrow> length src < 16
    | Inr i \<Rightarrow> length i = 32 \<and> (\<forall>src'. cryptoRandIDGen_Generate src' = Inr i \<longleftrightarrow>
                                  16 \<le> length src' \<and> take 16 src' = take 16 src))"
proof -
  have "length (hex_encode bs) = 2 * length bs" for bs
    by (induction bs) (simp_all add: hex_encode_def)
  then show ?thesis
    by (auto simp: cryptoRandIDGen_Generate_def dest: hex_encode_inj)
qed

section \<open>What the handler answers\<close>

text \<open>Each of the three writers answers a fresh writer once.\<close>

definition answered :: "nat \<Rightarrow> writer \<Rightarrow> bool" where
  "answered code w \<longleftrightarrow> status_of w = Some code \<and> length (w_body w) = 1 \<and>
     headers_of w ''Content-Type'' = Some ''application/json''"

definition json_writer :: writer where
  "json_writer = SetHeader ''Content-Type'' ''application/json'' new_writer"

lemma answered_json_writer [simp]:
  "answered c' (writeEnvelope c j json_writer) \<longleftrightarrow> c' = c"
  "answered c' (writeEnvelopeWithMessage c m json_writer) \<longleftrightarrow> c' = c"
  "answered c' (writeError c m json_writer) \<longleftrightarrow> c' = c"
  by (auto simp: answered_def json_writer_def new_writer_def SetHeader_def writeEnvelope_def
      writeEnvelopeWithMessage_def writeError_def WriteBody_def WriteHeader_def status_of_def
      headers_of_def Let_def)

lemma users_ServeHTTP_json_writer:
  "users_ServeHTTP S r (d, new_writer) =
     (if rq_Method r = ''POST'' then handleCreate S r (d, json_writer)
      else if rq_Method r = ''PUT'' then handleUpdate S r (d, json_writer)
      else if rq_Method r = ''DELETE'' then handleDelete S r (d, json_writer)
      else (case rq_id r of
          Some i \<Rightarrow>
            (case Service_Get S i d of
               (Inr user, d') \<Rightarrow> (d', writeEnvelope 200 (user_json user) json_writer)
             | (Inl e, d') \<Rightarrow>
                 (d', if e = ErrNotFound then writeError 404 ''user not found'' json_writer
                       else writeError 500 ''problem accessing DB'' json_writer))
        | None \<Rightarrow>
            (case Service_List S d of
               (Inr us, d') \<Rightarrow> (d', writeEnvelope 200 (JArr (map user_json us)) json_writer)
             | (Inl e, d') \<Rightarrow> (d', writeError 500 ''problem accessing DB'' json_writer))))"
  unfolding users_ServeHTTP_def json_writer_def Let_def prod.case by (rule refl)

text \<open>The status of each outcome of \<^verbatim>\<open>Create\<close>, \<^verbatim>\<open>Update\<close> and \<^verbatim>\<open>Delete\<close>.\<close>

definition create_status :: "users_error + User \<Rightarrow> nat" where
  "create_status x = (case x of Inr _ \<Rightarrow> 201 | Inl ErrTokenExists \<Rightarrow> 409 | Inl (ErrInvalidEvent _) \<Rightarrow> 400
     | Inl ErrHMACKeyTooShort \<Rightarrow> 400 | Inl _ \<Rightarrow> 500)"

definition update_status :: "users_error + UpdateResult \<Rightarrow> nat" where
  "update_status x = (case x of Inr _ \<Rightarrow> 200 | Inl ErrNotFound \<Rightarrow> 404 | Inl (ErrInvalidEvent _) \<Rightarrow> 400
     | Inl ErrNoFields \<Rightarrow> 400 | Inl _ \<Rightarrow> 500)"

definition lookup_status :: "users_error + 'a \<Rightarrow> nat" where
  "lookup_status x = (case x of Inr _ \<Rightarrow> 200 | Inl ErrNotFound \<Rightarrow> 404 | Inl _ \<Rightarrow> 500)"

lemma answered_create:
  "answered (case rq_create r of None \<Rightarrow> 400
      | Some p \<Rightarrow> create_status (fst (Service_Create S (create_input p) d)))
     (snd (handleCreate S r (d, json_writer)))"
proof (cases "rq_create r")
  case (Some p)
  obtain x d' where "Service_Create S (create_input p) d = (x, d')" by fastforce
  with Some show ?thesis
    by (cases x) (auto simp: handleCreate_def create_status_def split: users_error.split)
qed (simp add: handleCreate_def)

lemma answered_update:
  "answered (case (rq_id r, rq_update r) of
           (Some i, Some p) \<Rightarrow> update_status (fst (Service_Update S i (update_input p) d))
         | _ \<Rightarrow> 400)
     (snd (handleUpdate S r (d, json_writer)))"
proof (cases "rq_id r")
  case (Some i)
  show ?thesis
  proof (cases "rq_update r")
    case up: (Some p)
    obtain x d' where "Service_Update S i (update_input p) d = (x, d')" by fastforce
    with Some up show ?thesis
      by (cases x) (auto simp: handleUpdate_def update_status_def split: users_error.split)
  qed (simp add: handleUpdate_def Some)
qed (simp add: handleUpdate_def)

lemma answered_delete:
  "answered (case rq_id r of None \<Rightarrow> 400 | Some i \<Rightarrow> lookup_status (fst (Service_Delete S i d)))
     (snd (handleDelete S r (d, json_writer)))"
proof (cases "rq_id r")
  case (Some i)
  obtain x d' where "Service_Delete S i d = (x, d')" by fastforce
  with Some show ?thesis
    by (cases x) (auto simp: handleDelete_def lookup_status_def split: users_error.split)
qed (simp add: handleDelete_def)

lemma answered_read:
  "answered (case rq_id r of
           Some i \<Rightarrow> lookup_status (fst (Service_Get S i d))
         | None \<Rightarrow> (if isl (fst (Service_List S d)) then 500 else 200))
     (snd (case rq_id r of
          Some i \<Rightarrow>
            (case Service_Get S i d of
               (Inr user, d') \<Rightarrow> (d', writeEnvelope 200 (user_json user) json_writer)
             | (Inl e, d') \<Rightarrow>
                 (d', if e = ErrNotFound then writeError 404 ''user not found'' json_writer
                       else writeError 500 ''problem accessing DB'' json_writer))
        | None \<Rightarrow>
            (case Service_List S d of
               (Inr us, d') \<Rightarrow> (d', writeEnvelope 200 (JArr (map user_json us)) json_writer)
             | (Inl e, d') \<Rightarrow> (d', writeError 500 ''problem accessing DB'' json_writer))))"
proof (cases "rq_id r")
  case (Some i)
  obtain x d' where "Service_Get S i d = (x, d')" by fastforce
  with Some show ?thesis
    by (cases x) (auto simp: lookup_status_def split: users_error.split)
next
  case None
  obtain x d' where "Service_List S d = (x, d')" by fastforce
  with None show ?thesis by (cases x) auto
qed

text \<open>
  Every request to \<^verbatim>\<open>/admin/users\<close> is answered exactly once, as JSON, with the status code of its
  outcome: 400 for a body that does not decode or a missing id, and otherwise the code that belongs to
  the service's result (201, 409, 400 or 500 for a creation; 200, 404, 400 or 500 for an update; 200,
  404 or 500 for a deletion or a lookup; 200 or 500 for the list, which is never \<^verbatim>\<open>not found\<close>).
\<close>

theorem users_handler_answers:
  "answered
     (if rq_Method r = ''POST'' then
        (case rq_create r of None \<Rightarrow> 400 | Some p \<Rightarrow> create_status (fst (Service_Create S (create_input p) d)))
      else if rq_Method r = ''PUT'' then
        (case (rq_id r, rq_update r) of
           (Some i, Some p) \<Rightarrow> update_status (fst (Service_Update S i (update_input p) d))
         | _ \<Rightarrow> 400)
      else if rq_Method r = ''DELETE'' then
        (case rq_id r of None \<Rightarrow> 400 | Some i \<Rightarrow> lookup_status (fst (Service_Delete S i d)))
      else
        (case rq_id r of
           Some i \<Rightarrow> lookup_status (fst (Service_Get S i d))
         | None \<Rightarrow> (if isl (fst (Service_List S d)) then 500 else 200)))
     (snd (users_ServeHTTP S r (d, new_writer)))"
proof (cases "rq_Method r = ''POST''")
  case True
  show ?thesis unfolding users_ServeHTTP_json_writer if_P [OF True] by (rule answered_create)
next
  case post: False
  show ?thesis
  proof (cases "rq_Method r = ''PUT''")
    case True
    show ?thesis
      unfolding users_ServeHTTP_json_writer if_not_P [OF post] if_P [OF True] by (rule answered_update)
  next
    case put: False
    show ?thesis
      unfolding users_ServeHTTP_json_writer if_not_P [OF post] if_not_P [OF put]
      by (cases "rq_Method r = ''DELETE''") (simp_all only: simp_thms if_True if_False answered_delete answered_read)
  qed
qed

section \<open>Stored secrets stay in the database\<close>

text \<open>Two databases that differ at most in the stored S3 keys and HMAC keys.\<close>

definition erase_keys :: "user_row \<Rightarrow> user_row" where
  "erase_keys r = r\<lparr>u_s3_access_key := None, u_s3_secret_key := None, u_hmac_key := None\<rparr>"

definition same_but_keys :: "pg \<Rightarrow> pg \<Rightarrow> bool" where
  "same_but_keys d1 d2 \<longleftrightarrow> calls d1 = calls d2 \<and> fault d1 = fault d2 \<and>
     map erase_keys (users_tbl d1) = map erase_keys (users_tbl d2)"

lemma erase_keys_simps [simp]:
  "u_id (erase_keys r) = u_id r" "u_token (erase_keys r) = u_token r" "scanRow (erase_keys r) = scanRow r"
  by (simp_all add: erase_keys_def scanRow_def)

lemma map_erase_map:
  assumes "map erase_keys xs = map erase_keys ys" "\<And>r. f (erase_keys r) = f r"
  shows "map f xs = map f ys"
  using arg_cong [OF assms(1), of "map f"] by (simp add: assms(2) cong: map_cong)

lemma map_erase_find:
  assumes "map erase_keys xs = map erase_keys ys"
  shows "map_option erase_keys (find (\<lambda>r. u_id r = i) xs) = map_option erase_keys (find (\<lambda>r. u_id r = i) ys)"
proof -
  have "map_option erase_keys (find (\<lambda>r. u_id r = i) zs) = find (\<lambda>r. u_id r = i) (map erase_keys zs)" for zs
    by (induction zs) auto
  then show ?thesis using assms by metis
qed

lemma map_erase_filter:
  assumes "map erase_keys xs = map erase_keys ys" "\<And>r. P (erase_keys r) = P r"
  shows "map erase_keys (filter P xs) = map erase_keys (filter P ys)"
proof -
  have "map erase_keys (filter P zs) = filter P (map erase_keys zs)" for zs
    using assms(2) by (induction zs) auto
  then show ?thesis using assms(1) by metis
qed

lemma filter_Nil_erase:
  assumes "map erase_keys xs = map erase_keys ys" "\<And>r. P (erase_keys r) = P r"
  shows "filter P xs = [] \<longleftrightarrow> filter P ys = []"
  using map_erase_filter [of xs ys P, OF assms(1) assms(2)] by (metis Nil_is_map_conv)

lemma ids_erase:
  assumes "map erase_keys xs = map erase_keys ys"
  shows "(\<exists>r \<in> set xs. u_id r = i) \<longleftrightarrow> (\<exists>r \<in> set ys. u_id r = i)"
  using arg_cong [OF map_erase_map [OF assms, of u_id], of set] by auto (metis imageE imageI)+

lemma erase_patch_row: "erase_keys (patch_row inp (erase_keys r)) = erase_keys (patch_row inp r)"
  by (cases r; cases "ui_S3Config inp"; cases "ui_ProxyConfig inp")
    (simp_all add: patch_row_def patch_s3_def erase_keys_def)

lemma erase_update:
  assumes "map erase_keys xs = map erase_keys ys"
  shows "map erase_keys (map (\<lambda>r. if u_id r = i then patch_row inp r else r) xs) =
    map erase_keys (map (\<lambda>r. if u_id r = i then patch_row inp r else r) ys)"
proof -
  let ?f = "\<lambda>r. erase_keys (if u_id r = i then patch_row inp r else r)"
  have "?f (erase_keys r) = ?f r" for r
    by (cases "u_id r = i") (simp_all add: erase_patch_row, simp add: erase_keys_def)
  then show ?thesis using map_erase_map [OF assms, of ?f] by (simp add: comp_def)
qed

text \<open>Each operation of the repository gives the same result on both databases and keeps them alike.\<close>

lemma same_pgList:
  "same_but_keys d1 d2 \<Longrightarrow> rel_prod (=) same_but_keys (pgList d1) (pgList d2)"
  by (auto simp: pgList_def pg_query_def pg_exec_def lift_err_def same_but_keys_def Let_def
      split: option.split intro: map_erase_map)

lemma same_pg_query_find:
  assumes "same_but_keys d1 d2"
  shows "rel_prod (rel_sum (=) (\<lambda>a b. map_option erase_keys a = map_option erase_keys b)) same_but_keys
    (pg_query (find_user i) d1) (pg_query (find_user i) d2)"
  using assms map_erase_find [of "users_tbl d1" "users_tbl d2" i]
  by (auto simp: pg_query_def pg_exec_def find_user_def same_but_keys_def Let_def split: option.split)

lemma same_pgGet:
  "same_but_keys d1 d2 \<Longrightarrow> rel_prod (=) same_but_keys (pgGet i d1) (pgGet i d2)"
  using same_pg_query_find [of d1 d2 i]
  by (auto simp: pgGet_def rel_prod.simps rel_sum.simps split: option.split prod.splits)
    (metis erase_keys_simps(3))+

lemma same_pgGetToken:
  "same_but_keys d1 d2 \<Longrightarrow> rel_prod (=) same_but_keys (pgGetToken i d1) (pgGetToken i d2)"
  using same_pg_query_find [of d1 d2 i]
  by (auto simp: pgGetToken_def rel_prod.simps rel_sum.simps split: option.split prod.splits)
    (metis erase_keys_simps(2))+

lemma same_pgTokenExists:
  assumes "same_but_keys d1 d2"
  shows "rel_prod (=) same_but_keys (pgTokenExists t d1) (pgTokenExists t d2)"
proof -
  have "filter (\<lambda>r. u_token r = t) (users_tbl d1) = [] \<longleftrightarrow> filter (\<lambda>r. u_token r = t) (users_tbl d2) = []"
    using assms by (intro filter_Nil_erase) (simp_all add: same_but_keys_def)
  with assms show ?thesis
    by (auto simp: pgTokenExists_def pg_query_def pg_exec_def lift_err_def same_but_keys_def Let_def
        split: option.split)
qed

lemma same_pgExistsByID:
  assumes "same_but_keys d1 d2"
  shows "rel_prod (=) same_but_keys (pgExistsByID i d1) (pgExistsByID i d2)"
proof -
  have "filter (\<lambda>r. u_id r = i) (users_tbl d1) = [] \<longleftrightarrow> filter (\<lambda>r. u_id r = i) (users_tbl d2) = []"
    using assms by (intro filter_Nil_erase) (simp_all add: same_but_keys_def)
  with assms show ?thesis
    by (auto simp: pgExistsByID_def pg_query_def pg_exec_def lift_err_def same_but_keys_def Let_def
        split: option.split)
qed

lemma same_pgDelete:
  assumes "same_but_keys d1 d2"
  shows "rel_prod (=) same_but_keys (pgDelete i d1) (pgDelete i d2)"
proof -
  have "filter (\<lambda>r. u_id r = i) (users_tbl d1) = [] \<longleftrightarrow> filter (\<lambda>r. u_id r = i) (users_tbl d2) = []"
    using assms by (intro filter_Nil_erase) (simp_all add: same_but_keys_def)
  moreover have "map erase_keys (filter (\<lambda>r. u_id r \<noteq> i) (users_tbl d1)) =
      map erase_keys (filter (\<lambda>r. u_id r \<noteq> i) (users_tbl d2))"
    using assms by (intro map_erase_filter) (simp_all add: same_but_keys_def)
  ultimately show ?thesis using assms
    by (simp add: pgDelete_def pg_exec_def same_but_keys_def Let_def split: option.split)
qed

lemma same_pgCreate:
  "same_but_keys d1 d2 \<Longrightarrow> rel_prod (=) same_but_keys (pgCreate row d1) (pgCreate row d2)"
  using ids_erase [of "users_tbl d1" "users_tbl d2" "cr_ID row"]
  by (auto simp: pgCreate_def pg_exec_def lift_err_def same_but_keys_def Let_def split: option.split)

lemma pgUpdate_build:
  "pgUpdate i (buildUpdateFields inp) d =
     (if empty_patch inp then (Inl (ErrOther ''no fields to update''), d)
      else lift_err (pg_exec (\<lambda>d. Inr ((), d\<lparr>users_tbl :=
        map (\<lambda>r. if u_id r = i then patch_row inp r else r) (users_tbl d)\<rparr>)) d))"
proof (cases "empty_patch inp")
  case True
  then have "buildUpdateFields inp = []" by (simp add: build_empty_iff)
  with True show ?thesis by (simp add: pgUpdate_def)
next
  case False
  then have "buildUpdateFields inp \<noteq> []" by (simp add: build_empty_iff)
  with False show ?thesis
    by (simp add: pgUpdate_def distinct_columns_build column_ok_build set_columns_build cong: if_cong)
qed

lemma same_pgUpdate:
  "same_but_keys d1 d2 \<Longrightarrow>
     rel_prod (=) same_but_keys (pgUpdate i (buildUpdateFields inp) d1) (pgUpdate i (buildUpdateFields inp) d2)"
  using erase_update [of "users_tbl d1" "users_tbl d2" i inp]
  by (auto simp: pgUpdate_build pg_exec_def lift_err_def same_but_keys_def Let_def split: option.split)

lemma rel_prodD: "rel_prod (=) Q p q \<Longrightarrow> \<exists>x a b. p = (x, a) \<and> q = (x, b) \<and> Q a b"
  by (cases p; cases q) auto

lemma PostgresRepository_sel [simp]:
  "rp_List PostgresRepository = pgList" "rp_Get PostgresRepository = pgGet"
  "rp_Delete PostgresRepository = pgDelete" "rp_TokenExists PostgresRepository = pgTokenExists"
  "rp_Create PostgresRepository = pgCreate" "rp_ExistsByID PostgresRepository = pgExistsByID"
  "rp_GetToken PostgresRepository = pgGetToken" "rp_Update PostgresRepository = pgUpdate"
  by (simp_all add: PostgresRepository_def)

text \<open>A service over PostgreSQL whose live state does not come from the tables.\<close>

definition live_service :: "(string \<Rightarrow> bool) \<Rightarrow> (string \<Rightarrow> bool) \<Rightarrow> pg Service \<Rightarrow> pg Service" where
  "live_service c l S = S\<lparr>sv_repo := PostgresRepository, sv_Connected := (\<lambda>_. c), sv_LoggedIn := (\<lambda>_. l),
     sv_updateHook := None\<rparr>"

lemma live_service_sel [simp]:
  "sv_repo (live_service c l S) = PostgresRepository" "sv_Connected (live_service c l S) = (\<lambda>_. c)"
  "sv_LoggedIn (live_service c l S) = (\<lambda>_. l)" "sv_updateHook (live_service c l S) = None"
  "sv_ids (live_service c l S) = sv_ids S" "create_hmac (live_service c l S) inp = create_hmac S inp"
  by (simp_all add: live_service_def create_hmac_def)

lemma same_Create:
  assumes "same_but_keys d1 d2"
  shows "\<exists>x e1 e2. Service_Create (live_service c l S) inp d1 = (x, e1) \<and>
    Service_Create (live_service c l S) inp d2 = (x, e2) \<and> same_but_keys e1 e2"
proof -
  obtain x a1 a2 where a: "pgTokenExists (ci_Token inp) d1 = (x, a1)"
      "pgTokenExists (ci_Token inp) d2 = (x, a2)" "same_but_keys a1 a2"
    using rel_prodD [OF same_pgTokenExists [OF assms]] by blast
  obtain y b1 b2 where "pgCreate (create_row (projr (sv_ids S)) inp (projr (create_hmac S inp))) a1 = (y, b1)"
      "pgCreate (create_row (projr (sv_ids S)) inp (projr (create_hmac S inp))) a2 = (y, b2)" "same_but_keys b1 b2"
    using rel_prodD [OF same_pgCreate [OF a(3)]] by blast
  with a assms show ?thesis
    by (cases x; cases y) (auto simp: Service_Create_def split: option.split sum.split)
qed

lemma same_Update:
  assumes "same_but_keys d1 d2"
  shows "\<exists>x e1 e2. Service_Update (live_service c l S) i inp d1 = (x, e1) \<and>
    Service_Update (live_service c l S) i inp d2 = (x, e2) \<and> same_but_keys e1 e2"
proof -
  obtain x a1 a2 where a: "pgExistsByID i d1 = (x, a1)" "pgExistsByID i d2 = (x, a2)" "same_but_keys a1 a2"
    using rel_prodD [OF same_pgExistsByID [OF assms]] by blast
  obtain y b1 b2 where b: "pgGetToken i a1 = (y, b1)" "pgGetToken i a2 = (y, b2)" "same_but_keys b1 b2"
    using rel_prodD [OF same_pgGetToken [OF a(3)]] by blast
  obtain z c1 c2 where c: "pgUpdate i (buildUpdateFields inp) b1 = (z, c1)"
      "pgUpdate i (buildUpdateFields inp) b2 = (z, c2)" "same_but_keys c1 c2"
    using rel_prodD [OF same_pgUpdate [OF b(3)]] by blast
  from a b c assms show ?thesis
    by (cases x; cases y; cases z) (auto simp: Service_Update_def Let_def split: option.split)
qed

lemma same_reads:
  assumes "same_but_keys d1 d2"
  shows "\<exists>x e1 e2. Service_List (live_service c l S) d1 = (x, e1) \<and>
      Service_List (live_service c l S) d2 = (x, e2) \<and> same_but_keys e1 e2"
    and "\<exists>x e1 e2. Service_Get (live_service c l S) i d1 = (x, e1) \<and>
      Service_Get (live_service c l S) i d2 = (x, e2) \<and> same_but_keys e1 e2"
    and "\<exists>x e1 e2. Service_Delete (live_service c l S) i d1 = (x, e1) \<and>
      Service_Delete (live_service c l S) i d2 = (x, e2) \<and> same_but_keys e1 e2"
  using rel_prodD [OF same_pgList [OF assms]] rel_prodD [OF same_pgGet [OF assms, of i]]
    rel_prodD [OF same_pgDelete [OF assms, of i]]
  by (auto simp: Service_List_def Service_Get_def Service_Delete_def split: sum.split)

text \<open>
  C5. No answer of \<^verbatim>\<open>/admin/users\<close>, for any method, path, body and database faults, depends on the S3
  access keys, S3 secret keys or HMAC keys that are stored in the users table: two databases that differ
  only there get the same answer, and still differ only there afterwards.
\<close>

theorem users_handler_hides_keys:
  assumes "same_but_keys d1 d2"
  shows "snd (users_ServeHTTP (live_service c l S) r (d1, w)) = snd (users_ServeHTTP (live_service c l S) r (d2, w)) \<and>
    same_but_keys (fst (users_ServeHTTP (live_service c l S) r (d1, w)))
      (fst (users_ServeHTTP (live_service c l S) r (d2, w)))"
proof -
  have cr: "snd (handleCreate (live_service c l S) r (d1, w)) = snd (handleCreate (live_service c l S) r (d2, w)) \<and>
      same_but_keys (fst (handleCreate (live_service c l S) r (d1, w)))
        (fst (handleCreate (live_service c l S) r (d2, w)))" for w
  proof (cases "rq_create r")
    case (Some p)
    with same_Create [OF assms, of c l S "create_input p"] show ?thesis
      by (auto simp: handleCreate_def split: sum.split)
  qed (simp add: handleCreate_def assms)
  have up: "snd (handleUpdate (live_service c l S) r (d1, w)) = snd (handleUpdate (live_service c l S) r (d2, w)) \<and>
      same_but_keys (fst (handleUpdate (live_service c l S) r (d1, w)))
        (fst (handleUpdate (live_service c l S) r (d2, w)))" for w
  proof (cases "(rq_id r, rq_update r)")
    case (Pair a b)
    with assms same_Update [OF assms, of c l S "the a" "update_input (the b)"] show ?thesis
      by (cases a; cases b) (auto simp: handleUpdate_def split: sum.split)
  qed
  have dl: "snd (handleDelete (live_service c l S) r (d1, w)) = snd (handleDelete (live_service c l S) r (d2, w)) \<and>
      same_but_keys (fst (handleDelete (live_service c l S) r (d1, w)))
        (fst (handleDelete (live_service c l S) r (d2, w)))" for w
    using assms same_reads(3) [OF assms, of c l S "the (rq_id r)"]
    by (cases "rq_id r") (auto simp: handleDelete_def split: sum.split)
  show ?thesis
    using cr up dl same_reads(1) [OF assms, of c l S] same_reads(2) [OF assms, of c l S "the (rq_id r)"]
    by (cases "rq_id r") (auto simp: users_ServeHTTP_def Let_def split: sum.split)
qed

theorem users_handler_hides_keys_witness:
  "same_but_keys (sample_pg [sample_row ''a'' ''t''])
     (sample_pg [(sample_row ''a'' ''t'')\<lparr>u_s3_secret_key := Some ''other'', u_hmac_key := Some [7]\<rparr>]) \<and>
   snd (users_ServeHTTP (live_service (\<lambda>_. True) (\<lambda>_. True) sample_service)
     \<lparr>rq_Method = ''GET'', rq_id = None, rq_create = None, rq_update = None\<rparr>
     (sample_pg [sample_row ''a'' ''t''], new_writer)) =
   snd (users_ServeHTTP (live_service (\<lambda>_. True) (\<lambda>_. True) sample_service)
     \<lparr>rq_Method = ''GET'', rq_id = None, rq_create = None, rq_update = None\<rparr>
     (sample_pg [(sample_row ''a'' ''t'')\<lparr>u_s3_secret_key := Some ''other'', u_hmac_key := Some [7]\<rparr>], new_writer))"
proof -
  have "same_but_keys (sample_pg [sample_row ''a'' ''t''])
     (sample_pg [(sample_row ''a'' ''t'')\<lparr>u_s3_secret_key := Some ''other'', u_hmac_key := Some [7]\<rparr>])"
    by (simp add: same_but_keys_def sample_pg_def sample_row_def erase_keys_def)
  from this users_handler_hides_keys [OF this] show ?thesis by blast
qed

end
