(* ===== verification/Webhook_Props.thy ===== *)
theory Webhook_Props
  imports Webhook
begin

text \<open>
  Webhook delivery: which requests a call sends and when, what its result is, that the requests of
  a user with a key carry a signature the receiver can verify, and which webhooks an event reaches.
\<close>

section \<open>Bytes and keys\<close>

lemma of_bytes_to_bytes [simp]: "of_bytes (to_bytes s) = s"
proof -
  have "char_of (unat (word_of_nat (of_char c) :: 8 word)) = c" for c :: char
    by (simp add: unat_of_nat)
  then show ?thesis by (simp add: of_bytes_def to_bytes_def comp_def)
qed

text \<open>What is assumed of the ciphers: opening what was sealed with the same key and nonce gives the
  plaintext back, and a MAC has 32 bytes.\<close>

definition crypto_ok :: "crypto \<Rightarrow> bool" where
  "crypto_ok cy \<longleftrightarrow>
     (\<forall>k n p. length n = NonceSize \<longrightarrow> cy_open cy k n (cy_seal cy k n p) = Some p) \<and>
     (\<forall>k m. length (cy_hmac cy k m) = 32)"

lemma decrypt_encrypt:
  assumes "crypto_ok cy" "encryptHMACKey cy key rnd plain = Inr enc"
  shows "decryptHMACKey cy key enc = Inr plain" "enc \<noteq> []"
proof -
  have enc: "key \<noteq> []" "aes_key_ok key" "length rnd \<ge> NonceSize"
    "enc = take NonceSize rnd @ cy_seal cy (to_bytes key) (take NonceSize rnd) (to_bytes plain)"
    using assms(2) by (auto simp: encryptHMACKey_def Let_def split: if_splits)
  then have "length (take NonceSize rnd) = NonceSize" by simp
  with assms(1) enc show "decryptHMACKey cy key enc = Inr plain"
    by (simp add: decryptHMACKey_def crypto_ok_def)
  show "enc \<noteq> []" using enc by (auto simp: NonceSize_def)
qed

lemma hex_encode_eq_Nil: "hex_encode bs = [] \<longleftrightarrow> bs = []"
  by (cases bs) (simp_all add: hex_encode_def)

lemma signature_of_encrypted:
  assumes "crypto_ok cy" "encryptHMACKey cy key rnd plain = Inr enc"
  shows "sig_header (generateHmacSignature cy key msg enc) = Some (hex_encode (cy_hmac cy (to_bytes plain) msg))"
proof -
  have "length (cy_hmac cy (to_bytes plain) msg) = 32" using assms(1) by (simp add: crypto_ok_def)
  then have "hex_encode (cy_hmac cy (to_bytes plain) msg) \<noteq> []" by (auto simp: hex_encode_eq_Nil)
  with decrypt_encrypt [OF assms] show ?thesis
    by (simp add: generateHmacSignature_def sig_header_def)
qed

section \<open>The retry loop\<close>

definition delivered :: "(nat \<Rightarrow> hook_request \<Rightarrow> string + (int \<times> string)) \<Rightarrow> hook_request \<Rightarrow> nat \<Rightarrow> bool" where
  "delivered post req k = (case post k req of Inl _ \<Rightarrow> False | Inr (s, _) \<Rightarrow> 200 \<le> s \<and> s < 300)"

definition attempt_error ::
    "(nat \<Rightarrow> hook_request \<Rightarrow> string + (int \<times> string)) \<Rightarrow> hook_request \<Rightarrow> nat \<Rightarrow> hook_error option" where
  "attempt_error post req k =
     (if delivered post req k then None
      else Some (case post k req of Inl e \<Rightarrow> PostError e | Inr (s, b) \<Rightarrow> BadStatus s b))"

definition attempt_effects :: "hook_cfg \<Rightarrow> hook_request \<Rightarrow> nat \<Rightarrow> hook_effect list" where
  "attempt_effects cfg req k = (if k > 0 then [Sleep (delayDuration cfg k)] else []) @ [Post req]"

text \<open>The attempts of a list that are made: up to and with the first that is delivered.\<close>

fun attempts_until :: "(nat \<Rightarrow> bool) \<Rightarrow> nat list \<Rightarrow> nat list" where
  "attempts_until ok [] = []"
| "attempts_until ok (k # ks) = k # (if ok k then [] else attempts_until ok ks)"

lemma attempts_until_eq:
  "attempts_until ok ks =
     (case find ok ks of None \<Rightarrow> ks | Some _ \<Rightarrow> takeWhile (\<lambda>k. \<not> ok k) ks @ [hd (dropWhile (\<lambda>k. \<not> ok k) ks)])"
  by (induction ks) (auto split: option.splits)

lemma attempts_until_eq_Nil [simp]: "attempts_until ok ks = [] \<longleftrightarrow> ks = []"
  by (cases ks) simp_all

lemma last_attempt: "attempts_until ok ks \<noteq> [] \<Longrightarrow> ok (last (attempts_until ok ks)) \<longleftrightarrow> find ok ks \<noteq> None"
  by (induction ks) (auto split: if_splits)

lemma upt_attempt: "a < n \<Longrightarrow> [a..<n] = a # [Suc a..<n]"
  by (rule upt_conv_Cons)

lemma hook_loop_done:
  "nat (maxRetries cfg) \<le> attempt \<Longrightarrow> hook_loop cfg build post attempt body lastError = ([], HookReturn lastError)"
proof -
  assume "nat (maxRetries cfg) \<le> attempt"
  then have "\<not> int attempt < maxRetries cfg" by linarith
  then show ?thesis by (subst hook_loop.simps) (simp only: if_False)
qed

lemma hook_loop_go:
  assumes "attempt < nat (maxRetries cfg)" "build body = Some (b', req)"
  shows "hook_loop cfg build post attempt body lastError =
    (if delivered post req attempt then (attempt_effects cfg req attempt, HookReturn None)
     else if \<not> hc_RetryEnabled cfg \<and> \<not> isl (post attempt req)
     then (attempt_effects cfg req attempt, HookReturn (attempt_error post req attempt))
     else (attempt_effects cfg req attempt @ fst (hook_loop cfg build post (Suc attempt) b' (attempt_error post req attempt)),
           snd (hook_loop cfg build post (Suc attempt) b' (attempt_error post req attempt))))"
proof -
  have lt: "int attempt < maxRetries cfg" using assms(1) by linarith
  show ?thesis
  proof (cases "post attempt req")
    case (Inl e)
    then show ?thesis
      using lt assms(2) by (subst hook_loop.simps)
        (simp add: Let_def split_beta attempt_effects_def attempt_error_def delivered_def)
  next
    case (Inr p)
    obtain st rb where p: "p = (st, rb)" by (cases p)
    show ?thesis
      using lt assms(2) Inr p by (subst hook_loop.simps)
        (simp add: Let_def split_beta attempt_effects_def attempt_error_def delivered_def not_le not_less)
  qed
qed

lemma hook_loop_spec:
  assumes "\<And>b. P b \<Longrightarrow> \<exists>b'. build b = Some (b', req) \<and> P b'" "P body"
  shows "hook_loop cfg build post attempt body lastError =
    (let ks = attempts_until (delivered post req) [attempt..<nat (maxRetries cfg)]
     in (concat (map (attempt_effects cfg req) ks),
         HookReturn (if ks = [] then lastError else attempt_error post req (last ks))))"
  using assms(2)
proof (induction "nat (maxRetries cfg) - attempt" arbitrary: attempt body lastError)
  case 0
  then show ?case by (simp add: hook_loop_done)
next
  case (Suc n)
  then have lt: "attempt < nat (maxRetries cfg)" by simp
  obtain b' where b: "build body = Some (b', req)" "P b'" using assms(1) Suc.prems by blast
  let ?ks = "attempts_until (delivered post req) [Suc attempt..<nat (maxRetries cfg)]"
  have IH: "hook_loop cfg build post (Suc attempt) b' e =
      (concat (map (attempt_effects cfg req) ?ks),
       HookReturn (if ?ks = [] then e else attempt_error post req (last ?ks)))" for e
    using Suc.hyps(1) [of "Suc attempt" b' e] Suc.hyps(2) b(2) by (simp add: Let_def)
  have single: "?ks = []" if "\<not> hc_RetryEnabled cfg" using that lt by (simp add: maxRetries_def)
  show ?case
    unfolding hook_loop_go [of attempt cfg build body, OF lt b(1)] IH upt_attempt [OF lt] Let_def using single
    by (auto simp: attempt_error_def)
qed

lemma hook_loop_posts:
  "Post r \<in> set (fst (hook_loop cfg build post attempt body lastError)) \<Longrightarrow> \<exists>b b'. build b = Some (b', r)"
proof (induction "nat (maxRetries cfg) - attempt" arbitrary: attempt body lastError)
  case 0
  then show ?case by (simp add: hook_loop_done)
next
  case (Suc n)
  then have lt: "attempt < nat (maxRetries cfg)" "n = nat (maxRetries cfg) - Suc attempt" by simp_all
  show ?case
  proof (cases "build body")
    case None
    have "int attempt < maxRetries cfg" using lt by linarith
    with None Suc.prems show ?thesis by (subst (asm) hook_loop.simps) (simp split: if_splits)
  next
    case (Some x)
    obtain b' req where x: "x = (b', req)" by (cases x)
    with Some Suc.prems have "r = req \<or>
        Post r \<in> set (fst (hook_loop cfg build post (Suc attempt) b' (attempt_error post req attempt)))"
      by (simp add: hook_loop_go [OF lt(1)] attempt_effects_def split: if_splits)
    with Suc.hyps(1) [OF lt(2)] Some x show ?thesis by blast
  qed
qed

lemma json_body_stable: "json_body env payload uid b = Some b' \<Longrightarrow> json_body env payload uid b' = Some b'"
  by (simp add: json_body_def Let_def split: option.splits json.splits)

lemma hook_build_stable:
  assumes "hook_build env u payload uid key b = Some (b', req)"
  shows "hook_build env u payload uid key b' = Some (b', req)"
proof (cases "hc_Format (he_cfg env) = ''json''")
  case True
  with assms have "json_body env payload uid b = Some b'"
    by (auto simp: hook_build_def Let_def split: option.splits)
  with assms True json_body_stable [OF this] show ?thesis by (simp add: hook_build_def)
next
  case False
  with assms show ?thesis by (simp add: hook_build_def Let_def)
qed

section \<open>Properties\<close>

text \<open>
  A file webhook is sent once, and again after each failure, at most \<^verbatim>\<open>maxRetries\<close> times and never
  after a 2xx answer, with the delay of the attempt before every repetition; the call returns an
  error exactly when attempts were made and none of them was delivered, and it is the error of the
  last one.
\<close>

theorem callHookFile_schedule:
  "callHookFileWithHmac env cm post u payload uid path key =
     (if GetHTTPClient uid cm = None
      then ([], if maxRetries (he_cfg env) > 0 then HookPanic else HookReturn None)
      else
        (let req = snd (the (file_build env u payload path key JNull));
             ks = attempts_until (delivered post req) [0..<nat (maxRetries (he_cfg env))]
         in (concat (map (attempt_effects (he_cfg env) req) ks),
             HookReturn (if ks = [] then None else attempt_error post req (last ks)))))"
proof (cases "GetHTTPClient uid cm")
  case None
  then show ?thesis
    by (simp add: callHookFileWithHmac_def hook_loop.simps [of _ _ _ 0])
next
  case (Some c)
  define req where "req = snd (the (file_build env u payload path key JNull))"
  have "file_build env u payload path key b = Some (b, req)" for b
    by (simp add: req_def file_build_def Let_def)
  with Some show ?thesis
    unfolding callHookFileWithHmac_def req_def [symmetric]
    by (subst hook_loop_spec [where P = "\<lambda>_. True" and req = req]) (simp_all add: Let_def)
qed

text \<open>
  C7. The same for a webhook without a file: every attempt sends the same request, whose body does
  not drift although the code carries it in a variable from attempt to attempt.
\<close>

theorem callHook_schedule:
  assumes "GetHTTPClient uid cm \<noteq> None" "hook_build env u payload uid key (json_of_map payload) = Some (b, req)"
  shows "callHookWithHmac env cm post u payload uid key =
    (let ks = attempts_until (delivered post req) [0..<nat (maxRetries (he_cfg env))]
     in (concat (map (attempt_effects (he_cfg env) req) ks),
         HookReturn (if ks = [] then None else attempt_error post req (last ks))))"
proof -
  let ?P = "\<lambda>x. \<exists>x'. hook_build env u payload uid key x = Some (x', req)"
  have "\<exists>x'. (if GetHTTPClient uid cm = None then None else hook_build env u payload uid key x) = Some (x', req) \<and> ?P x'"
    if "?P x" for x
    using that assms(1) hook_build_stable by fastforce
  with assms(2) show ?thesis
    unfolding callHookWithHmac_def by (intro hook_loop_spec [where P = ?P]) auto
qed

text \<open>
  With exponential backoff the delay before repetition \<open>k\<close> is the configured number of seconds times
  \<open>2 ^ (k - 1)\<close>, as long as that number of nanoseconds fits into the signed 64-bit duration.
\<close>

theorem delayDuration_doubles:
  assumes "0 \<le> hc_RetryDelaySeconds cfg" "k > 0" "hc_RetryDelaySeconds cfg * 10 ^ 9 * 2 ^ (k - 1) < 2 ^ 63"
  shows "sint (delayDuration cfg k) = hc_RetryDelaySeconds cfg * 10 ^ 9 * 2 ^ (k - 1)"
proof -
  have "push_bit (k - 1) (1 :: 64 word) = word_of_int (2 ^ (k - 1))" by (simp add: push_bit_eq_mult)
  then have "delayDuration cfg k = word_of_int (hc_RetryDelaySeconds cfg * 10 ^ 9 * 2 ^ (k - 1))"
    by (simp add: delayDuration_def)
  moreover have "sint (word_of_int n :: 64 word) = n" if "0 \<le> n" "n < 2 ^ 63" for n :: int
    using that by (simp add: signed_take_bit_int_eq_self sint_sbintrunc')
  moreover have "0 \<le> hc_RetryDelaySeconds cfg * 10 ^ 9 * 2 ^ (k - 1)" using assms(1) by simp
  ultimately show ?thesis using assms(3) by presburger
qed

definition sample_cfg :: hook_cfg where
  "sample_cfg = \<lparr>hc_RetryEnabled = True, hc_RetryCount = 5, hc_RetryDelaySeconds = 30, hc_Format = [],
     hc_EncryptionKey = replicate 32 CHR ''k''\<rparr>"

theorem delayDuration_doubles_witness: "sint (delayDuration sample_cfg 4) = 240 * 10 ^ 9"
  using delayDuration_doubles [of sample_cfg 4] by (simp add: sample_cfg_def)

definition sample_crypto :: crypto where
  "sample_crypto = \<lparr>cy_seal = (\<lambda>k n p. p), cy_open = (\<lambda>k n c. Some c), cy_hmac = (\<lambda>k m. replicate 32 (word_of_nat (length m)))\<rparr>"

definition sample_env :: hook_env where
  "sample_env = \<lparr>he_cfg = sample_cfg, he_crypto = sample_crypto, he_marshal = (\<lambda>_. Some ''{}''), he_unmarshal = (\<lambda>_. None)\<rparr>"

definition sample_cm :: ClientManager where
  "sample_cm = SetHTTPClient ''u1'' (Some 7) (NewClientManager (\<lambda>_. undefined))"

lemma sample_client: "GetHTTPClient ''u1'' sample_cm = Some 7"
  by (simp add: sample_cm_def http.get_put)

definition sample_request :: hook_request where
  "sample_request = \<lparr>hq_url = ''http://h'', hq_body = FormBody [(''a'', ''b'')], hq_signature = None\<rparr>"

lemma sample_build:
  "hook_build sample_env ''http://h'' [(''a'', ''b'')] ''u1'' [] (json_of_map [(''a'', ''b'')]) =
     Some (json_of_map [(''a'', ''b'')], sample_request)"
  by (simp add: hook_build_def sample_env_def sample_cfg_def sample_request_def sig_header_def)

theorem callHook_schedule_witness:
  "callHookWithHmac sample_env sample_cm (\<lambda>k _. Inr (if k = 1 then 200 else 503, [])) ''http://h'' [(''a'', ''b'')] ''u1'' [] =
     ([Post sample_request, Sleep (delayDuration sample_cfg 1), Post sample_request], HookReturn None)"
proof -
  have "maxRetries sample_cfg = 5" by (simp add: maxRetries_def sample_cfg_def)
  moreover have "[0..<5] = [0, 1, 2, 3, 4 :: nat]" by code_simp
  moreover have "he_cfg sample_env = sample_cfg" by (simp add: sample_env_def)
  ultimately show ?thesis
    using callHook_schedule [OF _ sample_build, of sample_cm "\<lambda>k _. Inr (if k = 1 then 200 else 503, [])"]
    by (simp add: sample_client delivered_def attempt_effects_def attempt_error_def Let_def)
qed

definition signed_bytes :: "hook_env \<Rightarrow> hook_body \<Rightarrow> bytes" where
  "signed_bytes env b =
     (case b of
        JSONBody j \<Rightarrow> to_bytes (the (he_marshal env j))
      | FormBody m \<Rightarrow> to_bytes (Values_Encode m)
      | MultipartBody m _ \<Rightarrow> to_bytes (the (he_marshal env (json_of_map m))))"

text \<open>
  C8. A user's HMAC key survives storage: what \<^verbatim>\<open>encryptHMACKey\<close> writes, \<^verbatim>\<open>decryptHMACKey\<close> reads back, and
  every request of a webhook call with that stored key carries as signature the HMAC, under the plain
  key, of the encoding of its body: the JSON text, the encoded form, or for a file the JSON text of
  the form fields.
\<close>

theorem webhook_signature_verifies:
  assumes "crypto_ok (he_crypto env)"
    "encryptHMACKey (he_crypto env) (hc_EncryptionKey (he_cfg env)) rnd plain = Inr enc"
    "\<And>j. he_marshal env j \<noteq> None \<and> he_marshal env j \<noteq> Some []"
  shows "decryptHMACKey (he_crypto env) (hc_EncryptionKey (he_cfg env)) enc = Inr plain \<and>
    (\<forall>req. Post req \<in> set (fst (callHookWithHmac env cm post u payload uid enc)) \<union>
       set (fst (callHookFileWithHmac env cm post u payload uid path enc)) \<longrightarrow>
     hq_signature req = Some (hex_encode (cy_hmac (he_crypto env) (to_bytes plain) (signed_bytes env (hq_body req)))))"
proof -
  note sg = signature_of_encrypted [OF assms(1,2)] and ne = decrypt_encrypt(2) [OF assms(1,2)]
  have dec: "decryptHMACKey (he_crypto env) (hc_EncryptionKey (he_cfg env)) enc = Inr plain"
    by (rule decrypt_encrypt(1) [OF assms(1,2)])
  have msg: "\<exists>c s. he_marshal env j = Some (c # s)" for j
    using assms(3) [of j] by (metis list.exhaust option.exhaust)
  have by_hook: "hq_signature req = Some (hex_encode (cy_hmac (he_crypto env) (to_bytes plain) (signed_bytes env (hq_body req))))"
    if "hook_build env u payload uid enc b = Some (b', req)" for b b' req
  proof (cases "hc_Format (he_cfg env) = ''json''")
    case True
    with that obtain j where j: "json_body env payload uid b = Some j" by (auto simp: hook_build_def split: option.splits)
    obtain c s where "he_marshal env j = Some (c # s)" using msg by blast
    with that True j ne show ?thesis by (auto simp: hook_build_def sg signed_bytes_def Let_def)
  next
    case False
    with that ne show ?thesis by (auto simp: hook_build_def sg signed_bytes_def Let_def)
  qed
  have by_file: "hq_signature req = Some (hex_encode (cy_hmac (he_crypto env) (to_bytes plain) (signed_bytes env (hq_body req))))"
    if "file_build env u payload path enc b = Some (b', req)" for b b' req
  proof -
    obtain c s where "he_marshal env (json_of_map (AList.update ''file'' path payload)) = Some (c # s)" using msg by blast
    with that ne show ?thesis by (auto simp: file_build_def sg signed_bytes_def Let_def)
  qed
  have "hq_signature req = Some (hex_encode (cy_hmac (he_crypto env) (to_bytes plain) (signed_bytes env (hq_body req))))"
    if "Post req \<in> set (fst (callHookWithHmac env cm post u payload uid enc)) \<union>
       set (fst (callHookFileWithHmac env cm post u payload uid path enc))" for req
    using that unfolding callHookWithHmac_def callHookFileWithHmac_def
    by (auto dest!: hook_loop_posts split: if_splits intro: by_hook by_file)
  with dec show ?thesis by blast
qed

lemma sample_crypto_ok: "crypto_ok sample_crypto"
  by (simp add: crypto_ok_def sample_crypto_def)

theorem webhook_signature_verifies_witness:
  "decryptHMACKey sample_crypto (replicate 32 CHR ''k'') (replicate 12 3 @ to_bytes ''secret'') = Inr ''secret''"
proof -
  have "encryptHMACKey sample_crypto (replicate 32 CHR ''k'') (replicate 12 3) ''secret'' =
      Inr (replicate 12 3 @ to_bytes ''secret'')"
    by (simp add: encryptHMACKey_def aes_key_ok_def NonceSize_def sample_crypto_def)
  then show ?thesis
    using webhook_signature_verifies [of sample_env] sample_crypto_ok
    by (simp add: sample_env_def sample_cfg_def)
qed

text \<open>
  With retries enabled and a count of zero or less nothing is ever sent, and a file webhook still
  reports success.
\<close>

theorem no_attempts_reported_as_success:
  assumes "hc_RetryEnabled (he_cfg env)" "hc_RetryCount (he_cfg env) \<le> 0"
  shows "callHookFileWithHmac env cm post u payload uid path key = ([], HookReturn None)"
  using assms by (simp add: callHookFileWithHmac_def hook_loop.simps [of _ _ _ 0] maxRetries_def)

theorem no_attempts_reported_as_success_witness:
  "callHookFileWithHmac (sample_env\<lparr>he_cfg := sample_cfg\<lparr>hc_RetryCount := 0\<rparr>\<rparr>) sample_cm
     (\<lambda>_ _. Inr (200, [])) ''http://h'' [] ''u1'' ''/tmp/f'' [] = ([], HookReturn None)"
  by (rule no_attempts_reported_as_success) (simp_all add: sample_env_def sample_cfg_def)


end
