(* ===== verification/Session_Props.thy ===== *)
theory Session_Props
  imports Session Settings_Props Users_Props Webhook_Props
begin

text \<open>
  Properties that span authentication, the user cache, the settings and the session handlers: whose
  requests are served, when the cache follows the users table and when it does not, what starting the
  server and removing a user leave behind.
\<close>

section \<open>Sample states\<close>

definition auth_srv :: "user_row list \<Rightarrow> user_cache \<Rightarrow> srv" where
  "auth_srv rows cache =
     \<lparr>ss_db = sample_pg rows, ss_cache = cache, ss_cm = NewClientManager (\<lambda>_. undefined), ss_s3 = new_S3Manager,
      ss_kill = [], ss_started = [], ss_connected = (\<lambda>_. False), ss_loggedIn = (\<lambda>_. False), ss_wa = [], ss_s3_deleted = [], ss_lastMessage = [], ss_files = []\<rparr>"

definition alice :: user_row where
  "alice = (sample_row ''a'' ''ta'')\<lparr>u_webhook := ''http://hook'', u_events := ''Message'', u_proxy_url := Some [], u_connected := Some 1,
     u_hmac_key := Some [1, 2, 3], u_media_delivery := Some ''base64''\<rparr>"

lemmas srv_eval = auth_srv_def alice_def sample_row_def sample_pg_def

section \<open>Authentication\<close>

text \<open>What \<^verbatim>\<open>authalice\<close> does, by cases, over any cache that follows the table.\<close>

lemma authalice_cases:
  assumes "settings_inv s"
  shows "(\<exists>v s' r. authalice header query nxt w s = nxt v w s' \<and> settings_inv s' \<and> users_tbl (ss_db s') = users_tbl (ss_db s) \<and>
       map_of (ss_cache s') (request_token header query) = Some v \<and>
       r \<in> set (users_tbl (ss_db s)) \<and> coherent (request_token header query) v r \<and> u_id r \<noteq> []) \<or>
     (\<exists>code e s'. authalice header query nxt w s = (Respond code (RErr e) w, s') \<and> code \<in> {401, 500} \<and> settings_inv s' \<and>
       users_tbl (ss_db s') = users_tbl (ss_db s))"
proof -
  let ?t = "request_token header query"
  have member: "r \<in> set (users_tbl (ss_db s))" if "find_user k (ss_db s) = Some r" for k r
    using that by (auto simp: find_user_def find_Some_iff)
  show ?thesis
  proof (cases "map_of (ss_cache s) ?t")
    case (Some v)
    then obtain r where r: "find_user (Values_Get v ''Id'') (ss_db s) = Some r" "coherent ?t v r"
      using assms by (auto simp: settings_inv_def cache_coherent_def)
    then have id: "Values_Get v ''Id'' = u_id r" by (simp add: coherent_def)
    show ?thesis
    proof (cases "u_id r = []")
      case True
      then have "authalice header query nxt w s = (Respond 401 (RErr ''unauthorized'') w, s)"
        using Some id by (simp add: authalice_def)
      with assms show ?thesis by blast
    next
      case False
      then have "authalice header query nxt w s = nxt v w s" using Some id by (simp add: authalice_def)
      with assms Some r False member show ?thesis by blast
    qed
  next
    case None
    obtain q s1 where q: "on_db (pg_query (find_token ?t)) s = (q, s1)" by (rule prod.exhaust)
    note qs = on_db_query [OF q]
    have inv1: "settings_inv s1" by (rule settings_inv_cong [OF assms qs(1,2)])
    show ?thesis
    proof (cases "\<exists>r v. q = Inr (Some r) \<and> auth_values ?t r = Some v")
      case True
      then obtain r v where r: "q = Inr (Some r)" "auth_values ?t r = Some v" by blast
      have ft: "find_token ?t (ss_db s) = Some r" using qs(3) [OF r(1)] by (simp add: find_token_def)
      then have mem: "r \<in> set (users_tbl (ss_db s))" "u_token r = ?t" by (auto simp: find_token_def find_Some_iff)
      have co: "coherent ?t v r" by (rule auth_values_coherent [OF r(2) mem(2)])
      have "authalice header query (\<lambda>v w s. (w, s)) w s = (if u_id r = [] then Respond 401 (RErr ''unauthorized'') w else w, cache_set ?t v s1)"
        using None q r by (simp add: authalice_def Let_def)
      then have inv2: "settings_inv (cache_set ?t v s1)" by (rule auth_step [OF assms])
      have tbl: "users_tbl (ss_db (cache_set ?t v s1)) = users_tbl (ss_db s)" using qs(2) by (simp add: cache_set_def)
      show ?thesis
      proof (cases "u_id r = []")
        case True
        then have "authalice header query nxt w s = (Respond 401 (RErr ''unauthorized'') w, cache_set ?t v s1)"
          using None q r by (simp add: authalice_def Let_def)
        with inv2 tbl show ?thesis by blast
      next
        case False
        then have "authalice header query nxt w s = nxt v w (cache_set ?t v s1)"
          using None q r by (simp add: authalice_def Let_def)
        moreover have "map_of (ss_cache (cache_set ?t v s1)) ?t = Some v" by (simp add: map_of_cache_set)
        ultimately show ?thesis using inv2 tbl mem co False by blast
      qed
    next
      case False
      have "\<exists>code e. authalice header query nxt w s = (Respond code (RErr e) w, s1) \<and> code \<in> {401, 500}"
      proof (cases q)
        case (Inl e)
        with None q have "authalice header query nxt w s = (Respond 500 (RErr e) w, s1)" by (simp add: authalice_def Let_def)
        then show ?thesis by blast
      next
        case (Inr row)
        with False None q show ?thesis by (cases row; cases "auth_values ?t (the row)") (simp_all add: authalice_def Let_def, blast+)
      qed
      with inv1 qs(2) show ?thesis by blast
    qed
  qed
qed

lemma coherent_owner:
  "coherent token v r \<Longrightarrow> u_token r = token \<and> Values_Get v ''Id'' = u_id r \<and> Values_Get v ''Token'' = u_token r"
  by (simp add: coherent_def)

lemma settings_reach_inv:
  assumes "settings_step\<^sup>*\<^sup>* s0 s" "ss_cache s0 = []" "distinct (map u_id (users_tbl (ss_db s0)))"
  shows "settings_inv s"
proof -
  have "settings_inv s0" using assms(2,3) by (simp add: settings_inv_def cache_coherent_def)
  with assms(1) show ?thesis
    by (induction rule: rtranclp_induct) (auto dest: settings_step_inv)
qed

section \<open>Properties\<close>


lemma auth_alice_reach:
  "settings_step\<^sup>*\<^sup>* (auth_srv [alice] []) (snd (authalice ''ta'' [] (\<lambda>v w s. (w, s)) new_writer (auth_srv [alice] [])))"
proof (rule r_into_rtranclp)
  show "settings_step (auth_srv [alice] []) (snd (authalice ''ta'' [] (\<lambda>v w s. (w, s)) new_writer (auth_srv [alice] [])))"
    by (rule settings_step.auth) (rule surjective_pairing)
qed




section \<open>Where the cache does not follow the table\<close>

text \<open>
  C40. \<^verbatim>\<open>DELETE /admin/users/{id}\<close> does not revoke access: whatever the deletion answers, a token that is in the
  cache is still served, with the cached values, although the user's row is gone.
\<close>

theorem deleted_token_still_served:
  assumes "map_of (ss_cache s) token = Some v" "token \<noteq> []" "Values_Get v ''Id'' \<noteq> []"
    "Service_Delete (newUsersService cy key idRandom nonceRandom) i s = (r, s')"
  shows "authalice token [] nxt w s' = nxt v w s'"
proof -
  have "s' = snd (on_db (pgDelete i) s)"
    using assms(4) by (simp add: Service_Delete_def newUsersService_def WithUpdateHook_def WithHMACEncryptor_def
        WithIDGenerator_def New_def server_repo_def PostgresRepository_def)
  then have "ss_cache s' = ss_cache s" by (simp add: on_db_def split: prod.split)
  with assms(1-3) show ?thesis by (simp add: authalice_def request_token_def)
qed

theorem deleted_token_still_served_witness:
  "\<forall>nxt w. let s' = snd (Service_Delete (newUsersService sample_crypto [] [] []) ''a'' (auth_srv [alice] [(''ta'', [(''Id'', ''a'')])]))
     in users_tbl (ss_db s') = [] \<and> authalice ''ta'' [] nxt w s' = nxt [(''Id'', ''a'')] w s'"
proof (intro allI)
  fix nxt :: "user_values \<Rightarrow> writer \<Rightarrow> srv \<Rightarrow> writer \<times> srv" and w
  let ?svc = "newUsersService sample_crypto [] [] []" and ?s = "auth_srv [alice] [(''ta'', [(''Id'', ''a'')])]"
  have v: "map_of (ss_cache ?s) ''ta'' = Some [(''Id'', ''a'')]" "''ta'' \<noteq> []" "Values_Get [(''Id'', ''a'')] ''Id'' \<noteq> []"
    by (simp_all add: srv_eval Values_Get_def)
  have "users_tbl (ss_db (snd (Service_Delete ?svc ''a'' ?s))) = []"
    by (simp add: srv_eval Service_Delete_def newUsersService_def WithUpdateHook_def WithHMACEncryptor_def
        WithIDGenerator_def New_def server_repo_def PostgresRepository_def on_db_def pgDelete_def pg_exec_def)
  then show "let s' = snd (Service_Delete ?svc ''a'' ?s)
     in users_tbl (ss_db s') = [] \<and> authalice ''ta'' [] nxt w s' = nxt [(''Id'', ''a'')] w s'"
    using deleted_token_still_served [OF v surjective_pairing, where cy = sample_crypto and key = "[]" and idRandom = "[]"
      and nonceRandom = "[]" and i = "''a''" and nxt = nxt and w = w] unfolding Let_def by blast
qed

text \<open>
  Setting a webhook without naming events silences the user: the row keeps its events, but the cached
  events become empty, so that the event path sends none of the user's events to any webhook.
\<close>

theorem SetWebhook_without_events_silences:
  assumes "no_faults (ss_db s)" "wh_Events t = []"
  shows "\<exists>w' s'. SetWebhook ui (Some t) w s = Some (w', s') \<and>
    map u_events (users_tbl (ss_db s')) = map u_events (users_tbl (ss_db s)) \<and>
    (\<forall>mycli. mc_token mycli = Values_Get ui ''Token'' \<longrightarrow>
      (\<forall>env postmap path d. fst (sendEventWithWebHook env (ss_cache s') mycli postmap path d) = []))"
proof -
  obtain r s1 where u: "on_db (update_user (Values_Get ui ''Id'') (\<lambda>x. x\<lparr>u_webhook := wh_WebhookURL t\<rparr>)) s = (r, s1)"
    by (rule prod.exhaust)
  have r: "r = Inr ()" and tbl: "users_tbl (ss_db s1) =
      map (\<lambda>x. if u_id x = Values_Get ui ''Id'' then x\<lparr>u_webhook := wh_WebhookURL t\<rparr> else x) (users_tbl (ss_db s))"
    using u by (auto simp: on_db_def update_user_no_fault [OF assms(1)])
  let ?v = "updateUserInfo (updateUserInfo ui ''Webhook'' (wh_WebhookURL t)) ''Events'' []"
  let ?s' = "cache_set (Values_Get ui ''Token'') ?v s1"
  have "SetWebhook ui (Some t) w s = Some (Respond 200 (RData (JObj [(''webhook'', JStr (wh_WebhookURL t))])) w, ?s')"
    using assms(2) u r by (simp add: SetWebhook_def write_webhook_def Let_def)
  moreover have "map u_events (users_tbl (ss_db ?s')) = map u_events (users_tbl (ss_db s))"
    by (simp add: cache_set_def tbl)
  moreover have "fst (sendEventWithWebHook env (ss_cache ?s') mycli postmap path d) = []"
    if "mc_token mycli = Values_Get ui ''Token''" for env mycli postmap path d
  proof -
    have "updateAndGetUserSubscriptions (ss_cache ?s') mycli d = (Inr [], mycli\<lparr>mc_subscriptions := []\<rparr>, d)"
      by (simp add: updateAndGetUserSubscriptions_def map_of_cache_set that Values_Get_update parse_subscriptions_def)
    then show ?thesis
      by (simp add: sendEventWithWebHook_def checkIfSubscribedToEvent_def split: option.split json.split)
  qed
  ultimately show ?thesis by blast
qed

theorem SetWebhook_without_events_silences_witness:
  "\<exists>w' s'. SetWebhook [(''Id'', ''a''), (''Token'', ''ta'')] (Some \<lparr>wh_WebhookURL = ''http://new'', wh_Events = []\<rparr>) new_writer (auth_srv [alice] []) =
       Some (w', s') \<and> map u_events (users_tbl (ss_db s')) = [''Message'']"
proof -
  have nf: "no_faults (ss_db (auth_srv [alice] []))" by (simp add: srv_eval no_faults_def)
  have es: "wh_Events \<lparr>wh_WebhookURL = ''http://new'', wh_Events = []\<rparr> = []" by simp
  have t: "map u_events (users_tbl (ss_db (auth_srv [alice] []))) = [''Message'']" by (simp add: srv_eval)
  show ?thesis
    using SetWebhook_without_events_silences [OF nf es, of "[(''Id'', ''a''), (''Token'', ''ta'')]" new_writer] unfolding t
    by (elim exE conjE) (intro exI conjI)
qed

text \<open>
  The values that authentication puts in the cache carry no signing key: after an authentication that
  had to read the table, the webhooks of that user are unsigned even if the row has an HMAC key.
\<close>

theorem authenticated_users_unsigned:
  assumes "map_of (ss_cache s) (request_token header query) = None"
  shows "cached_hmac_key b64 (ss_cache (snd (authalice header query (\<lambda>v w s. (w, s)) w s))) (request_token header query) = []"
proof -
  let ?t = "request_token header query"
  obtain q s1 where q: "on_db (pg_query (find_token ?t)) s = (q, s1)" by (rule prod.exhaust)
  have none: "cached_hmac_key b64 (ss_cache s1) ?t = []"
    using assms on_db_query(1) [OF q] by (simp add: cached_hmac_key_def)
  have some: "cached_hmac_key b64 (ss_cache (cache_set ?t v s1)) ?t = []" if "auth_values ?t r = Some v" for r v
  proof -
    have "Values_Get v ''HmacKeyEncrypted'' = []"
      using that by (auto simp: auth_values_def Values_Get_def split: option.splits)
    then show ?thesis by (simp add: cached_hmac_key_def map_of_cache_set)
  qed
  show ?thesis
    using none some q assms by (auto simp: authalice_def Let_def split: sum.split option.split)
qed

theorem authenticated_users_unsigned_witness:
  "u_hmac_key alice = Some [1, 2, 3] \<and>
   (\<forall>b64 w. cached_hmac_key b64 (ss_cache (snd (authalice ''ta'' [] (\<lambda>v w s. (w, s)) w (auth_srv [alice] [])))) ''ta'' = [])"
proof (intro conjI allI)
  show "u_hmac_key alice = Some [1, 2, 3]" by (simp add: srv_eval)
  fix b64 w
  have m: "map_of (ss_cache (auth_srv [alice] [])) (request_token ''ta'' []) = None" by (simp add: srv_eval)
  have t: "request_token ''ta'' [] = ''ta''" by (simp add: request_token_def)
  show "cached_hmac_key b64 (ss_cache (snd (authalice ''ta'' [] (\<lambda>v w s. (w, s)) w (auth_srv [alice] [])))) ''ta'' = []"
    using authenticated_users_unsigned [OF m, of b64 w] unfolding t .
qed

section \<open>Startup and removal\<close>

definition startup_job :: "user_row \<Rightarrow> string \<times> string \<times> string \<times> string list" where
  "startup_job r = (u_id r, u_jid r, u_token r, startup_events (u_events r))"

lemma EnsureClientFromDB_tables:
  "EnsureClientFromDB uid m d = (b, m', d') \<Longrightarrow> users_tbl d' = users_tbl d \<and> history_tbl d' = history_tbl d"
  by (auto simp: EnsureClientFromDB_def pg_query_def pg_exec_def Let_def split: if_splits option.splits sum.splits)

lemma startup_loop_spec:
  assumes "\<forall>r\<in>set rows. startup_values b64 r \<noteq> None"
  shows "ss_started (startup_loop b64 rows s) = ss_started s @ map startup_job rows"
    "users_tbl (ss_db (startup_loop b64 rows s)) = users_tbl (ss_db s)"
    "\<And>u. map_of (ss_kill (startup_loop b64 rows s)) u = (if u \<in> u_id ` set rows then Some False else map_of (ss_kill s) u)"
    "\<And>t. map_of (ss_cache (startup_loop b64 rows s)) t =
       (case find (\<lambda>r. u_token r = t) (rev rows) of Some r \<Rightarrow> startup_values b64 r | None \<Rightarrow> map_of (ss_cache s) t)"
proof -
  have "ss_started (startup_loop b64 rows s) = ss_started s @ map startup_job rows \<and>
    users_tbl (ss_db (startup_loop b64 rows s)) = users_tbl (ss_db s) \<and>
    (\<forall>u. map_of (ss_kill (startup_loop b64 rows s)) u = (if u \<in> u_id ` set rows then Some False else map_of (ss_kill s) u)) \<and>
    (\<forall>t. map_of (ss_cache (startup_loop b64 rows s)) t =
       (case find (\<lambda>r. u_token r = t) (rev rows) of Some r \<Rightarrow> startup_values b64 r | None \<Rightarrow> map_of (ss_cache s) t))"
    using assms
  proof (induction rows arbitrary: s)
    case (Cons r rows)
    obtain v where v: "startup_values b64 r = Some v" using Cons.prems by auto
    let ?s3 = "(make_kill (u_id r) (cache_set (u_token r) v s))\<lparr>ss_started := ss_started s @ [startup_job r]\<rparr>"
    obtain b m d where e: "EnsureClientFromDB (u_id r) (ss_s3 ?s3) (ss_db ?s3) = (b, m, d)" by (rule prod_cases3)
    have step: "startup_loop b64 (r # rows) s = startup_loop b64 rows (?s3\<lparr>ss_s3 := m, ss_db := d\<rparr>)"
      using e by (simp add: v Let_def startup_job_def make_kill_def cache_set_def)
    have rows: "\<forall>r\<in>set rows. startup_values b64 r \<noteq> None" using Cons.prems by simp
    have tbl: "users_tbl d = users_tbl (ss_db s)"
      using EnsureClientFromDB_tables [OF e] by (simp add: make_kill_def cache_set_def)
    show ?case
      unfolding step using Cons.IH [OF rows, of "?s3\<lparr>ss_s3 := m, ss_db := d\<rparr>"] tbl v
      by (auto simp: make_kill_def cache_set_def gomap_simps find_append split: option.split)
  qed simp
  then show "ss_started (startup_loop b64 rows s) = ss_started s @ map startup_job rows"
    "users_tbl (ss_db (startup_loop b64 rows s)) = users_tbl (ss_db s)"
    "\<And>u. map_of (ss_kill (startup_loop b64 rows s)) u = (if u \<in> u_id ` set rows then Some False else map_of (ss_kill s) u)"
    "\<And>t. map_of (ss_cache (startup_loop b64 rows s)) t =
       (case find (\<lambda>r. u_token r = t) (rev rows) of Some r \<Rightarrow> startup_values b64 r | None \<Rightarrow> map_of (ss_cache s) t)"
    by blast+
qed

lemma startup_values_coherent:
  assumes "startup_values b64 r = Some v"
  shows "coherent (u_token r) v r"
proof -
  obtain p m where p: "u_proxy_url r = Some p" "u_media_delivery r = Some m"
    using assms by (auto simp: startup_values_def split: option.splits)
  let ?k = "coalesce (u_hmac_key r) []"
  have v: "v = [(''Id'', u_id r), (''Name'', u_name r), (''Jid'', u_jid r), (''Webhook'', u_webhook r),
                    (''Token'', u_token r), (''Proxy'', p), (''Events'', u_events r),
                    (''S3Enabled'', if u_s3_enabled r = Some True then ''true'' else ''false''),
                    (''MediaDelivery'', m), (''History'', Itoa (coalesce (u_history r) 0)),
                    (''HmacKeyEncrypted'', if length ?k > 0 then b64 ?k else [])]"
    using assms by (simp add: startup_values_def p Let_def)
  have "Values_Get v ''Token'' = u_token r" "Values_Get v ''Id'' = u_id r" "Values_Get v ''Webhook'' = u_webhook r"
    "Values_Get v ''Events'' = u_events r" "Values_Get v ''Proxy'' = p" "Values_Get v ''History'' = Itoa (coalesce (u_history r) 0)"
    "Values_Get v ''S3Enabled'' = (if u_s3_enabled r = Some True then ''true'' else ''false'')" "Values_Get v ''MediaDelivery'' = m"
    by (simp_all add: v Values_Get_def)
  then show ?thesis
    unfolding coherent_def using p by (cases "u_s3_enabled r") (simp_all add: FormatBool_def)
qed

lemma find_distinct_token:
  assumes "distinct (map u_token rows)" "r \<in> set rows"
  shows "find (\<lambda>x. u_token x = u_token r) (rev rows) = Some r"
  using assms
proof (induction rows)
  case (Cons x rows)
  show ?case
  proof (cases "r = x")
    case True
    with Cons.prems have "find (\<lambda>x. u_token x = u_token r) (rev rows) = None"
      by (auto simp: find_None_iff image_iff)
    with True show ?thesis by (simp add: find_append)
  next
    case False
    with Cons show ?thesis by (simp add: find_append)
  qed
qed simp



lemma on_db_query_ok:
  "no_faults (ss_db s) \<Longrightarrow> on_db (pg_query q) s =
     (Inr (q ((ss_db s)\<lparr>calls := Suc (calls (ss_db s))\<rparr>)), s\<lparr>ss_db := (ss_db s)\<lparr>calls := Suc (calls (ss_db s))\<rparr>\<rparr>)"
  by (simp add: on_db_def pg_query_no_fault)

lemma on_db_exec_ok:
  "no_faults (ss_db s) \<Longrightarrow> on_db (pg_exec (\<lambda>d. Inr (x, f d))) s =
     (Inr x, s\<lparr>ss_db := f ((ss_db s)\<lparr>calls := Suc (calls (ss_db s))\<rparr>)\<rparr>)"
  by (simp add: on_db_def pg_exec_def no_faults_def)

text \<open>The calls of the client that the removal of a user makes.\<close>

definition removal_calls :: "string \<Rightarrow> srv \<Rightarrow> wa_call list" where
  "removal_calls uid s =
     (case session_of uid s of
        None \<Rightarrow> []
      | Some c \<Rightarrow> (if ss_connected s c then [WALogout c] else []) @ [WADisconnect c])"

lemma DeleteUserComplete_ok:
  assumes "no_faults (ss_db s)" "find_user uid (ss_db s) = Some r" "uid \<noteq> []"
  shows "\<exists>body files objs. DeleteUserComplete store userDir isDir uid w s =
    (respondWithJSON 200 body (SetHeader ''Content-Type'' ''application/json'' w),
     s\<lparr>ss_db := (ss_db s)\<lparr>calls := calls (ss_db s) + 4, users_tbl := filter (\<lambda>r. u_id r \<noteq> uid) (users_tbl (ss_db s))\<rparr>,
       ss_cache := AList.delete (u_token r) (ss_cache s),
       ss_cm := DeleteHTTPClient uid (DeleteMyClient uid (DeleteWhatsmeowClient uid (ss_cm s))),
       ss_wa := ss_wa s @ removal_calls uid s @ files, ss_s3_deleted := objs\<rparr>)"
  by (rule exI [of _ "JObj [(''code'', JNum 200), (''data'', JObj [(''id'', JStr uid), (''jid'', JStr (u_jid r)), (''name'', JStr (u_name r))]),
        (''details'', JStr ''user instance removed completely''), (''success'', JBool True)]"],
      rule exI [of _ "if isDir (userDir uid) then [RemoveAllFiles (userDir uid)] else []"],
      rule exI [of _ "if u_s3_enabled r = Some True then ss_s3_deleted s @ [DeleteAllUserObjects store uid (ss_s3 s)] else ss_s3_deleted s"],
      use assms in \<open>simp add: DeleteUserComplete_def Let_def on_db_query_ok on_db_exec_ok find_user_def session_of_def removal_calls_def
        IsConnected_def on_cm_def cache_delete_def eval_nat_numeral split: option.split\<close>)

text \<open>
  \<^verbatim>\<open>DELETE /admin/users/{id}/full\<close> removes a user from the database and from memory: with a working
  database and an existing id the answer is 200, exactly the rows with that id are gone, the row's
  token is no longer cached, the three client registries have no entry for the id and keep every other
  one, and a client that was there has been disconnected, after a logout if it was connected. The
  message history, however, keeps the rows of the removed user.
\<close>

theorem DeleteUserComplete_removes:
  assumes "no_faults (ss_db s)" "find_user uid (ss_db s) = Some r" "uid \<noteq> []"
    "DeleteUserComplete store userDir isDir uid w s = (w', s')"
  shows "users_tbl (ss_db s') = filter (\<lambda>r. u_id r \<noteq> uid) (users_tbl (ss_db s)) \<and>
    map_of (ss_cache s') (u_token r) = None \<and>
    (\<forall>u. GetWhatsmeowClient u (ss_cm s') = (if u = uid then None else GetWhatsmeowClient u (ss_cm s)) \<and>
      GetMyClient u (ss_cm s') = (if u = uid then None else GetMyClient u (ss_cm s)) \<and>
      GetHTTPClient u (ss_cm s') = (if u = uid then None else GetHTTPClient u (ss_cm s))) \<and>
    (\<forall>c. session_of uid s = Some c \<longrightarrow> WADisconnect c \<in> set (ss_wa s') \<and>
      (ss_connected s c \<longrightarrow> WALogout c \<in> set (ss_wa s'))) \<and>
    status_of w' = (case status_of w of None \<Rightarrow> Some 200 | Some c \<Rightarrow> Some c) \<and>
    history_tbl (ss_db s') = history_tbl (ss_db s)"
proof -
  obtain body files objs where eq: "DeleteUserComplete store userDir isDir uid w s =
    (respondWithJSON 200 body (SetHeader ''Content-Type'' ''application/json'' w),
     s\<lparr>ss_db := (ss_db s)\<lparr>calls := calls (ss_db s) + 4, users_tbl := filter (\<lambda>r. u_id r \<noteq> uid) (users_tbl (ss_db s))\<rparr>,
       ss_cache := AList.delete (u_token r) (ss_cache s),
       ss_cm := DeleteHTTPClient uid (DeleteMyClient uid (DeleteWhatsmeowClient uid (ss_cm s))),
       ss_wa := ss_wa s @ removal_calls uid s @ files, ss_s3_deleted := objs\<rparr>)"
    using DeleteUserComplete_ok [OF assms(1-3), of store userDir isDir w] by blast
  show ?thesis
    using assms(4)
    by (auto simp: eq gomap_simps removal_calls_def respondWithJSON_def writer_simps GetWhatsmeowClient_def GetMyClient_def
        GetHTTPClient_def DeleteHTTPClient_def DeleteMyClient_def DeleteWhatsmeowClient_def gm_ptr_delete split: option.split)
qed

theorem DeleteUserComplete_removes_witness:
  "\<forall>store userDir isDir w. users_tbl (ss_db (snd (DeleteUserComplete store userDir isDir ''a'' w (auth_srv [alice] [])))) = []"
proof (intro allI)
  fix store userDir isDir w
  have h: "no_faults (ss_db (auth_srv [alice] []))" "find_user ''a'' (ss_db (auth_srv [alice] [])) = Some alice" "''a'' \<noteq> []"
    by (simp_all add: srv_eval no_faults_def find_user_def)
  have "filter (\<lambda>r. u_id r \<noteq> ''a'') (users_tbl (ss_db (auth_srv [alice] []))) = []" by (simp add: srv_eval)
  then show "users_tbl (ss_db (snd (DeleteUserComplete store userDir isDir ''a'' w (auth_srv [alice] [])))) = []"
    using DeleteUserComplete_removes [OF h surjective_pairing, of store userDir isDir w] by presburger
qed

end
