(* ===== verification/Lifecycle.thy ===== *)
theory Lifecycle
  imports Session
begin

text \<open>
  The life of a WhatsApp client: \<^verbatim>\<open>startClient\<close> of \<^verbatim>\<open>cmd/api/wmiau.go\<close>, from the registration of the client
  through login or pairing to the loop that waits for the kill signal, and the interleaving of these
  goroutines as a step relation. The whatsmeow library is an argument: which device the container
  holds, what the calls of the client return, which QR events arrive.
\<close>

section \<open>Events of a client object\<close>

text \<open>\<^verbatim>\<open>sendEventWithWebHook(&mycli, ...)\<close> on the client object \<open>m\<close>, which takes over the new subscriptions.\<close>

definition send_event ::
    "dispatch_env \<Rightarrow> ref \<Rightarrow> (string, json) gomap \<Rightarrow> string \<Rightarrow> srv \<Rightarrow> hook_job list \<times> srv" where
  "send_event denv m postmap path s =
     (case sendEventWithWebHook denv (ss_cache s) (my_objs (ss_cm s) m) postmap path (ss_db s) of
        (jobs, mycli, d) \<Rightarrow>
          (jobs, s\<lparr>ss_db := d, ss_cm := (ss_cm s)\<lparr>my_objs := (my_objs (ss_cm s))(m := mycli)\<rparr>\<rparr>))"

section \<open>Registration\<close>

datatype qr_channel = QRChannel | QRStoreContainsID | QRFailed

text \<open>
  What the libraries do for one call of \<^verbatim>\<open>startClient\<close>: \<open>sc_GetDevice\<close> and \<open>sc_NewDevice\<close> are the container's,
  \<open>sc_hasID\<close> says whether a device is paired, \<open>sc_parseURL\<close> gives scheme and text of a URL, \<open>sc_socks\<close>
  whether a SOCKS dialer can be built, \<open>sc_Connect\<close> is the error of the n-th \<^verbatim>\<open>client.Connect()\<close>.
\<close>

record 'd start_env =
  sc_jids :: jid_env
  sc_GetDevice :: "JID \<Rightarrow> string + 'd option"
  sc_NewDevice :: 'd
  sc_hasID :: "'d \<Rightarrow> bool"
  sc_parseURL :: "string \<Rightarrow> (string \<times> string) option"
  sc_socks :: "string \<Rightarrow> bool"
  sc_QRChannel :: qr_channel
  sc_Connect :: "nat \<Rightarrow> string option"
  sc_platformType :: string
  sc_osName :: string

definition deviceStore :: "'d start_env \<Rightarrow> string \<Rightarrow> 'd" where
  "deviceStore env textjid =
     (let found =
        (if textjid \<noteq> [] then
           (case parseJID (sc_jids env) textjid of
              None \<Rightarrow> None
            | Some (jid, _) \<Rightarrow>
                (case sc_GetDevice env jid of Inl e \<Rightarrow> Some (sc_NewDevice env) | Inr dev \<Rightarrow> dev))
         else Some (sc_NewDevice env))
      in case found of None \<Rightarrow> sc_NewDevice env | Some dev \<Rightarrow> dev)"

text \<open>The proxy of the row; a NULL column fails the read. \<open>c\<close> is the client, \<open>h\<close> the HTTP client.\<close>

definition proxy_calls :: "'d start_env \<Rightarrow> ref \<Rightarrow> ref \<Rightarrow> string + user_row option \<Rightarrow> wa_call list" where
  "proxy_calls env c h q =
     (case q of
        Inr (Some r) \<Rightarrow>
          (case u_proxy_url r of
             Some proxyURL \<Rightarrow>
               if proxyURL = [] then []
               else (case sc_parseURL env proxyURL of
                       None \<Rightarrow> []
                     | Some (scheme, parsed) \<Rightarrow>
                         if scheme = ''socks5'' \<or> scheme = ''socks5h'' then
                           (if sc_socks env proxyURL then [HTTPSetProxy h proxyURL, WASetSOCKSProxy c proxyURL] else [])
                         else [HTTPSetProxy h proxyURL, WASetProxyAddress c parsed])
           | None \<Rightarrow> [])
      | _ \<Rightarrow> [])"

text \<open>
  The first half of \<^verbatim>\<open>startClient\<close>, with the new objects: the client \<open>c\<close>, the \<^verbatim>\<open>MyClient\<close> \<open>m\<close> and the HTTP
  client \<open>h\<close>.
\<close>

definition start_register ::
    "'d start_env \<Rightarrow> ref \<Rightarrow> ref \<Rightarrow> ref \<Rightarrow> string \<Rightarrow> string \<Rightarrow> string list \<Rightarrow> srv \<Rightarrow> srv" where
  "start_register env c m h userID token subscriptions s =
     (let s1 = on_cm (SetWhatsmeowClient userID (Some c)) s;
          s2 = s1\<lparr>ss_wa := ss_wa s1 @ [WADeviceProps (getPlatformTypeEnum (sc_platformType env)) (sc_osName env)]\<rparr>;
          mycli = \<lparr>mc_WAClient = c, mc_userID = userID, mc_token = token, mc_subscriptions = subscriptions\<rparr>;
          s3 = on_cm (\<lambda>cm. SetMyClient userID (Some m) (cm\<lparr>my_objs := (my_objs cm)(m := mycli)\<rparr>)) s2;
          (q, s4) = on_db (pg_query (find_user userID)) s3;
          s5 = s4\<lparr>ss_wa := ss_wa s4 @ proxy_calls env c h q\<rparr>;
          s6 = on_cm (SetHTTPClient userID (Some h)) s5;
          (_, mgr, d) = EnsureClientFromDB userID (ss_s3 s6) (ss_db s6)
      in s6\<lparr>ss_s3 := mgr, ss_db := d\<rparr>)"

section \<open>Connecting a paired device\<close>

definition maxConnectionRetries :: nat where "maxConnectionRetries = 3"
definition connectionRetryBaseWait :: nat where "connectionRetryBaseWait = 5"

text \<open>The retry loop: the calls it makes, the seconds it sleeps before each, and \<^verbatim>\<open>lastErr\<close> behind it.\<close>

function connect_loop :: "(nat \<Rightarrow> string option) \<Rightarrow> nat \<Rightarrow> string option \<Rightarrow> nat list \<times> string option" where
  "connect_loop connect attempt lastErr =
     (if attempt < maxConnectionRetries then
        (case connect attempt of
           None \<Rightarrow> ([attempt * connectionRetryBaseWait], lastErr)
         | Some e \<Rightarrow>
             (case connect_loop connect (Suc attempt) (Some e) of
                (waits, r) \<Rightarrow> (attempt * connectionRetryBaseWait # waits, r)))
      else ([], lastErr))"
  by pat_completeness auto
termination
  by (relation "measure (\<lambda>(_, attempt, _). maxConnectionRetries - attempt)") auto

declare connect_loop.simps [simp del]

definition forget_client :: "string \<Rightarrow> srv \<Rightarrow> srv" where
  "forget_client userID = on_cm (\<lambda>cm. DeleteHTTPClient userID (DeleteMyClient userID (DeleteWhatsmeowClient userID cm)))"

definition mark_disconnected :: "string \<Rightarrow> srv \<Rightarrow> srv" where
  "mark_disconnected userID s = snd (on_db (update_user userID (\<lambda>r. r\<lparr>u_qrcode := [], u_connected := Some 0\<rparr>)) s)"

definition connect_failure :: "string \<Rightarrow> (string, json) gomap" where
  "connect_failure lastErr =
     [(''event'', JStr ''ConnectFailure''), (''error'', JStr lastErr), (''type'', JStr ''ConnectFailure''),
      (''attempts'', JNum (int maxConnectionRetries)), (''reason'', JStr ''Failed to connect after retry attempts'')]"

section \<open>Pairing\<close>

datatype qr_event = QRCode string | QRTimeout | QRSuccess | QROther string

text \<open>\<open>info\<close> is what the \<^verbatim>\<open>Values\<close> found in the cache when pairing began hold now, if they were found.\<close>

definition cache_qrcode :: "string \<Rightarrow> user_values option \<Rightarrow> string \<Rightarrow> srv \<Rightarrow> srv" where
  "cache_qrcode token info code s =
     (case info of None \<Rightarrow> s | Some v \<Rightarrow> cache_set token (updateUserInfo v ''Qrcode'' code) s)"

definition write_qrcode :: "string \<Rightarrow> string \<Rightarrow> user_values option \<Rightarrow> (user_row \<Rightarrow> user_row) \<Rightarrow> string \<Rightarrow> srv \<Rightarrow> srv" where
  "write_qrcode userID token info f code s =
     (case on_db (update_user userID f) s of
        (Inl e, s1) \<Rightarrow> s1
      | (Inr _, s1) \<Rightarrow> cache_qrcode token info code s1)"

text \<open>One turn of the loop over the QR channel; \<open>encodeQR\<close> gives the base64 text of the image of a code.\<close>

definition qr_turn ::
    "dispatch_env \<Rightarrow> (string \<Rightarrow> string) \<Rightarrow> ref \<Rightarrow> string \<Rightarrow> string \<Rightarrow> user_values option \<Rightarrow> qr_event \<Rightarrow> srv \<Rightarrow> hook_job list \<times> srv" where
  "qr_turn denv encodeQR m userID token info evt s =
     (case evt of
        QRCode code \<Rightarrow>
          (let img = ''data:image/png;base64,'' @ encodeQR code;
               s1 = write_qrcode userID token info (\<lambda>r. r\<lparr>u_qrcode := img\<rparr>) img s
           in send_event denv m [(''event'', JStr ''code''), (''qrCodeBase64'', JStr img), (''type'', JStr ''QR'')] [] s1)
      | QRTimeout \<Rightarrow>
          (let (jobs, s1) = send_event denv m [(''event'', JStr ''timeout''), (''type'', JStr ''QRTimeout'')] [] s;
               s2 = write_qrcode userID token info (\<lambda>r. r\<lparr>u_qrcode := []\<rparr>) [] s1
           in (jobs, send_kill userID (forget_client userID s2)))
      | QRSuccess \<Rightarrow> ([], write_qrcode userID token info (\<lambda>r. r\<lparr>u_qrcode := [], u_connected := Some 1\<rparr>) [] s)
      | QROther _ \<Rightarrow> ([], s))"

section \<open>The whole goroutine\<close>

text \<open>Where a call of \<^verbatim>\<open>startClient\<close> stands: in the loop over the QR channel, in the loop that waits for the
  kill signal, or returned.\<close>

datatype phase = Pairing | Running | Returned

definition start_login ::
    "'d start_env \<Rightarrow> dispatch_env \<Rightarrow> ref \<Rightarrow> ref \<Rightarrow> string \<Rightarrow> 'd \<Rightarrow> srv \<Rightarrow> phase \<times> hook_job list \<times> srv" where
  "start_login env denv c m userID dev s =
     (if \<not> sc_hasID env dev then
        (case sc_QRChannel env of
           QRFailed \<Rightarrow> (Returned, [], s)
         | QRStoreContainsID \<Rightarrow> (Running, [], s)
         | QRChannel \<Rightarrow>
             (let s1 = s\<lparr>ss_wa := ss_wa s @ [WAConnect c]\<rparr>
              in case sc_Connect env 0 of Some e \<Rightarrow> (Returned, [], s1) | None \<Rightarrow> (Pairing, [], s1)))
      else
        (case connect_loop (sc_Connect env) 0 None of
           (waits, lastErr) \<Rightarrow>
             (let s1 = s\<lparr>ss_wa := ss_wa s @ map (\<lambda>_. WAConnect c) waits\<rparr>
              in case lastErr of
                   None \<Rightarrow> (Running, [], s1)
                 | Some e \<Rightarrow>
                     (let s2 = mark_disconnected userID (forget_client userID s1);
                          (jobs, s3) = send_event denv m (connect_failure e) [] s2
                      in (Returned, jobs, s3)))))"

definition startClient ::
    "'d start_env \<Rightarrow> dispatch_env \<Rightarrow> ref \<Rightarrow> ref \<Rightarrow> ref \<Rightarrow> string \<Rightarrow> string \<Rightarrow> string \<Rightarrow> string list \<Rightarrow> srv \<Rightarrow>
     phase \<times> hook_job list \<times> srv" where
  "startClient env denv c m h userID textjid token subscriptions s =
     start_login env denv c m userID (deviceStore env textjid) (start_register env c m h userID token subscriptions s)"

text \<open>One turn of the last loop: when \<^verbatim>\<open>killchannel[userID]\<close> holds a value the client ends; a missing channel
  is nil and never ready.\<close>

definition keep_alive_turn :: "ref \<Rightarrow> string \<Rightarrow> srv \<Rightarrow> phase \<times> srv" where
  "keep_alive_turn c userID s =
     (case map_of (ss_kill s) userID of
        Some True \<Rightarrow>
          (let s1 = s\<lparr>ss_kill := AList.update userID False (ss_kill s), ss_wa := ss_wa s @ [WADisconnect c]\<rparr>;
               s2 = mark_disconnected userID (forget_client userID s1)
           in (Returned, s2\<lparr>ss_kill := AList.delete userID (ss_kill s2)\<rparr>))
      | _ \<Rightarrow> (Running, s))"

section \<open>Interleaving\<close>

record goroutine =
  g_user :: string
  g_token :: string
  g_client :: ref
  g_my :: ref
  g_phase :: phase

type_synonym world = "srv \<times> goroutine list"

text \<open>
  A step of the program as far as clients are concerned: \<^verbatim>\<open>Connect\<close> or \<^verbatim>\<open>connectOnStartup\<close> makes a kill
  channel and starts a client with new objects (devices are references); a goroutine handles a QR event, leaves the closed QR
  channel or makes a turn of its last loop; somebody sends a kill signal or changes subscriptions.
\<close>

inductive life_step :: "dispatch_env \<Rightarrow> world \<Rightarrow> world \<Rightarrow> bool" for denv where
  start: "startClient (env :: ref start_env) denv c m h uid textjid token subs (make_kill uid s) = (ph, jobs, s') \<Longrightarrow>
    c \<notin> g_client ` set gs \<Longrightarrow> m \<notin> g_my ` set gs \<Longrightarrow>
    life_step denv (s, gs) (s', gs @ [\<lparr>g_user = uid, g_token = token, g_client = c, g_my = m, g_phase = ph\<rparr>])"
| qr: "i < length gs \<Longrightarrow> g_phase (gs ! i) = Pairing \<Longrightarrow>
    qr_turn denv encodeQR (g_my (gs ! i)) (g_user (gs ! i)) (g_token (gs ! i)) info evt s = (jobs, s') \<Longrightarrow>
    life_step denv (s, gs) (s', gs)"
| qr_closed: "i < length gs \<Longrightarrow> g_phase (gs ! i) = Pairing \<Longrightarrow> life_step denv (s, gs) (s, gs[i := (gs ! i)\<lparr>g_phase := Running\<rparr>])"
| turn: "i < length gs \<Longrightarrow> g_phase (gs ! i) = Running \<Longrightarrow>
    keep_alive_turn (g_client (gs ! i)) (g_user (gs ! i)) s = (ph, s') \<Longrightarrow>
    life_step denv (s, gs) (s', gs[i := (gs ! i)\<lparr>g_phase := ph\<rparr>])"
| kill: "life_step denv (s, gs) (send_kill uid s, gs)"
| subscribe: "UpdateMyClientSubscriptions uid evs (ss_cm s) = Some cm \<Longrightarrow> life_step denv (s, gs) (s\<lparr>ss_cm := cm\<rparr>, gs)"

inductive_cases life_stepE: "life_step denv (s, gs) w"

end
