(* ===== verification/Lifecycle_Props.thy ===== *)
theory Lifecycle_Props
  imports Lifecycle Settings_Props
begin

text \<open>
  Properties of the clients' life: what a started client leaves in the registries, what the retry loop
  does, when a client ends, and invariants of the interleaved goroutines.
\<close>

section \<open>Sample state\<close>

definition idle_srv :: "user_row list \<Rightarrow> srv" where
  "idle_srv rows =
     \<lparr>ss_db = \<lparr>users_tbl = rows, history_tbl = [], history_seq = 0, secrets_tbl = [], calls = 0, fault = (\<lambda>_. None)\<rparr>,
      ss_cache = [], ss_cm = NewClientManager (\<lambda>_. \<lparr>mc_WAClient = 0, mc_userID = [], mc_token = [], mc_subscriptions = []\<rparr>),
      ss_s3 = new_S3Manager, ss_kill = [], ss_started = [], ss_connected = (\<lambda>_. True), ss_loggedIn = (\<lambda>_. True),
      ss_wa = [], ss_s3_deleted = [], ss_lastMessage = [], ss_files = []\<rparr>"

text \<open>A paired device whose \<open>n\<close>-th connection attempt ends as \<open>f n\<close> says.\<close>

definition paired_env :: "(nat \<Rightarrow> string option) \<Rightarrow> ref start_env" where
  "paired_env f =
     \<lparr>sc_jids = \<lparr>je_NewJID = (\<lambda>u. \<lparr>jv_User = u, jv_String = u, jv_isGroup = False\<rparr>),
                 je_ParseJID = (\<lambda>u. (\<lparr>jv_User = u, jv_String = u, jv_isGroup = False\<rparr>, None))\<rparr>,
      sc_GetDevice = (\<lambda>_. Inr (Some 1)), sc_NewDevice = 0, sc_hasID = (\<lambda>d. d = 1), sc_parseURL = (\<lambda>_. None),
      sc_socks = (\<lambda>_. False), sc_QRChannel = QRChannel, sc_Connect = f, sc_platformType = ''desktop'', sc_osName = ''x''\<rparr>"

definition mute_env :: dispatch_env where
  "mute_env = \<lparr>de_marshal = (\<lambda>_. None), de_b64 = (\<lambda>_. ([], None)), de_globalWebhook = [], de_globalHMACKeyEncrypted = []\<rparr>"

lemma paired_device: "sc_hasID (paired_env f) (deviceStore (paired_env f) ''5511'')"
  by (simp add: paired_env_def deviceStore_def parseJID_def Let_def)

lemma idle_ok: "no_faults (ss_db (idle_srv rows))" "users_tbl (ss_db (idle_srv rows)) = rows"
  by (simp_all add: idle_srv_def no_faults_def)

section \<open>Frames\<close>

text \<open>Sending an event changes at most the subscriptions of the client object and the number of database
  calls.\<close>

lemma calls_self: "\<exists>n. (d :: pg) = d\<lparr>calls := n\<rparr>"
  by (rule exI [of _ "calls d"]) simp

lemma sendEvent_frame:
  assumes "sendEventWithWebHook env cache mycli postmap path d = (jobs, mycli', d')"
  shows "\<exists>subs n. mycli' = mycli\<lparr>mc_subscriptions := subs\<rparr> \<and> d' = d\<lparr>calls := n\<rparr>"
proof -
  obtain r my d1 where u: "updateAndGetUserSubscriptions cache mycli d = (r, my, d1)" by (rule prod_cases3)
  have "\<exists>subs n. my = mycli\<lparr>mc_subscriptions := subs\<rparr> \<and> d1 = d\<lparr>calls := n\<rparr>"
  proof (cases "map_of cache (mc_token mycli)")
    case None
    obtain q d2 where q: "pg_query (find_user (mc_userID mycli)) d = (q, d2)" by (rule prod.exhaust)
    have d2: "d2 = d\<lparr>calls := Suc (calls d)\<rparr>" by (rule pg_query_tables [OF q])
    have "my = mycli\<lparr>mc_subscriptions := mc_subscriptions mycli\<rparr> \<and> d1 = d2 \<or> (\<exists>subs. my = mycli\<lparr>mc_subscriptions := subs\<rparr> \<and> d1 = d2)"
      using u None q by (auto simp: updateAndGetUserSubscriptions_def Let_def split: sum.splits option.splits)
    then show ?thesis using d2 by blast
  next
    case (Some v)
    with u show ?thesis by (auto simp: updateAndGetUserSubscriptions_def Let_def intro: calls_self)
  qed
  moreover have "mycli' = my \<and> d' = d1"
    using assms u by (auto simp: sendEventWithWebHook_def Let_def split: sum.splits option.splits json.splits if_splits)
  ultimately show ?thesis by simp
qed

lemma send_event_frame:
  assumes "send_event denv m postmap path s = (jobs, s')"
  shows "\<exists>subs n. s' = s\<lparr>ss_db := (ss_db s)\<lparr>calls := n\<rparr>,
    ss_cm := (ss_cm s)\<lparr>my_objs := (my_objs (ss_cm s))(m := (my_objs (ss_cm s) m)\<lparr>mc_subscriptions := subs\<rparr>)\<rparr>\<rparr>"
proof -
  obtain j my d where e: "sendEventWithWebHook denv (ss_cache s) (my_objs (ss_cm s) m) postmap path (ss_db s) = (j, my, d)"
    by (rule prod_cases3)
  from sendEvent_frame [OF e] assms e show ?thesis by (auto simp: send_event_def)
qed

lemma on_db_update_frame: "on_db (update_user uid f) s = (r, s1) \<Longrightarrow> s1 = s\<lparr>ss_db := ss_db s1\<rparr>"
  by (auto simp: on_db_def split: prod.splits)

lemma EnsureClient_db:
  assumes "EnsureClientFromDB uid mgr d = (b, mgr', d')"
  shows "\<exists>n. d' = d\<lparr>calls := n\<rparr>"
proof -
  obtain q d2 where q: "pg_query (\<lambda>d. Option.bind (find_user uid d) s3_config_row) d = (q, d2)" by (rule prod.exhaust)
  have "d' = d \<or> d' = d2"
    using assms q by (auto simp: EnsureClientFromDB_def split: if_splits sum.splits option.splits)
  with pg_query_tables [OF q] calls_self show ?thesis by blast
qed

section \<open>Registries\<close>

text \<open>The three registries of a user.\<close>

definition registered :: "string \<Rightarrow> ClientManager \<Rightarrow> ref option \<times> ref option \<times> ref option" where
  "registered uid cm = (GetWhatsmeowClient uid cm, GetMyClient uid cm, GetHTTPClient uid cm)"

lemmas registry_ops = registered_def SetWhatsmeowClient_def SetMyClient_def SetHTTPClient_def DeleteWhatsmeowClient_def
  DeleteMyClient_def DeleteHTTPClient_def GetWhatsmeowClient_def GetMyClient_def GetHTTPClient_def gm_ptr_update gm_ptr_delete

lemma registered_objs [simp]: "registered uid (cm\<lparr>my_objs := f\<rparr>) = registered uid cm"
  by (simp add: registry_ops)

lemma registered_forget:
  "registered u (ss_cm (forget_client uid s)) = (if u = uid then (None, None, None) else registered u (ss_cm s))"
  "my_objs (ss_cm (forget_client uid s)) = my_objs (ss_cm s)"
  by (simp_all add: forget_client_def on_cm_def registry_ops)

lemma forget_frame: "forget_client uid s = s\<lparr>ss_cm := ss_cm (forget_client uid s)\<rparr>"
  by (simp add: forget_client_def on_cm_def)

lemma mark_frame: "mark_disconnected uid s = s\<lparr>ss_db := ss_db (mark_disconnected uid s)\<rparr>"
  by (simp add: mark_disconnected_def on_db_def split: prod.split)

lemma start_register_spec:
  "registered u (ss_cm (start_register env c m h uid token subs s)) =
     (if u = uid then (Some c, Some m, Some h) else registered u (ss_cm s))"
  "my_objs (ss_cm (start_register env c m h uid token subs s)) =
     (my_objs (ss_cm s))(m := \<lparr>mc_WAClient = c, mc_userID = uid, mc_token = token, mc_subscriptions = subs\<rparr>)"
  "users_tbl (ss_db (start_register env c m h uid token subs s)) = users_tbl (ss_db s)"
  "ss_kill (start_register env c m h uid token subs s) = ss_kill s"
  "ss_cache (start_register env c m h uid token subs s) = ss_cache s"
  "no_faults (ss_db (start_register env c m h uid token subs s)) = no_faults (ss_db s)"
proof -
  let ?mycli = "\<lparr>mc_WAClient = c, mc_userID = uid, mc_token = token, mc_subscriptions = subs\<rparr>"
  let ?s2 = "(on_cm (SetWhatsmeowClient uid (Some c)) s)\<lparr>ss_wa := ss_wa s @ [WADeviceProps (getPlatformTypeEnum (sc_platformType env)) (sc_osName env)]\<rparr>"
  let ?s3 = "on_cm (\<lambda>cm. SetMyClient uid (Some m) (cm\<lparr>my_objs := (my_objs cm)(m := ?mycli)\<rparr>)) ?s2"
  obtain q s4 where q: "on_db (pg_query (find_user uid)) ?s3 = (q, s4)" by (rule prod.exhaust)
  let ?s6 = "on_cm (SetHTTPClient uid (Some h)) (s4\<lparr>ss_wa := ss_wa s4 @ proxy_calls env c h q\<rparr>)"
  obtain b mgr d where e: "EnsureClientFromDB uid (ss_s3 ?s6) (ss_db ?s6) = (b, mgr, d)" by (rule prod_cases3)
  have eq: "start_register env c m h uid token subs s = ?s6\<lparr>ss_s3 := mgr, ss_db := d\<rparr>"
    using q e by (simp add: start_register_def Let_def on_cm_def)
  have s4: "s4 = ?s3\<lparr>ss_db := ss_db s4\<rparr>" "users_tbl (ss_db s4) = users_tbl (ss_db s)" "no_faults (ss_db s4) = no_faults (ss_db s)"
    using q by (auto simp: on_db_def on_cm_def dest!: pg_query_tables split: prod.splits)
  obtain n where n: "d = (ss_db ?s6)\<lparr>calls := n\<rparr>" using EnsureClient_db [OF e] by blast
  have cm: "ss_cm ?s6 = SetHTTPClient uid (Some h) (SetMyClient uid (Some m)
      ((SetWhatsmeowClient uid (Some c) (ss_cm s))\<lparr>my_objs := (my_objs (ss_cm s))(m := ?mycli)\<rparr>))"
    by (subst s4(1)) (simp add: on_cm_def SetWhatsmeowClient_def)
  show "registered u (ss_cm (start_register env c m h uid token subs s)) =
     (if u = uid then (Some c, Some m, Some h) else registered u (ss_cm s))"
    "my_objs (ss_cm (start_register env c m h uid token subs s)) = (my_objs (ss_cm s))(m := ?mycli)"
    unfolding eq by (simp_all add: cm, simp_all add: registry_ops)
  show "users_tbl (ss_db (start_register env c m h uid token subs s)) = users_tbl (ss_db s)"
    unfolding eq n using s4(2) by (simp add: on_cm_def)
  show "ss_kill (start_register env c m h uid token subs s) = ss_kill s"
    "ss_cache (start_register env c m h uid token subs s) = ss_cache s"
    unfolding eq by (subst s4(1), simp add: on_cm_def)+
  show "no_faults (ss_db (start_register env c m h uid token subs s)) = no_faults (ss_db s)"
    unfolding eq n using s4(3) by (simp add: on_cm_def)
qed

section \<open>The retry loop\<close>

lemma connect_loop_attempts:
  "connect_loop connect 0 None =
     (case (connect 0, connect 1, connect 2) of
        (None, _, _) \<Rightarrow> ([0], None)
      | (Some e, None, _) \<Rightarrow> ([0, 5], Some e)
      | (Some _, Some e, None) \<Rightarrow> ([0, 5, 10], Some e)
      | (Some _, Some _, Some e) \<Rightarrow> ([0, 5, 10], Some e))"
  by (simp add: connect_loop.simps [of connect] maxConnectionRetries_def connectionRetryBaseWait_def eval_nat_numeral split: option.split)

section \<open>Starting a client\<close>

lemma start_login_registers:
  assumes "start_login env denv c m uid dev s = (ph, jobs, s')"
  shows "registered u (ss_cm s') = (if u = uid \<and> ph = Returned \<and> sc_hasID env dev then (None, None, None) else registered u (ss_cm s))"
    "\<exists>subs. my_objs (ss_cm s') = (my_objs (ss_cm s))(m := (my_objs (ss_cm s) m)\<lparr>mc_subscriptions := subs\<rparr>)"
    "ss_kill s' = ss_kill s"
proof -
  have self: "\<exists>subs. f = f(m := (f m)\<lparr>mc_subscriptions := subs\<rparr>)" for f :: "ref \<Rightarrow> MyClient"
    by (rule exI [of _ "mc_subscriptions (f m)"]) simp
  have "registered u (ss_cm s') = (if u = uid \<and> ph = Returned \<and> sc_hasID env dev then (None, None, None) else registered u (ss_cm s)) \<and>
    (\<exists>subs. my_objs (ss_cm s') = (my_objs (ss_cm s))(m := (my_objs (ss_cm s) m)\<lparr>mc_subscriptions := subs\<rparr>)) \<and> ss_kill s' = ss_kill s"
  proof (cases "sc_hasID env dev \<and> snd (connect_loop (sc_Connect env) 0 None) \<noteq> None")
    case True
    then obtain waits e where l: "connect_loop (sc_Connect env) 0 None = (waits, Some e)"
      by (cases "connect_loop (sc_Connect env) 0 None") auto
    let ?s1 = "s\<lparr>ss_wa := ss_wa s @ map (\<lambda>_. WAConnect c) waits\<rparr>"
    let ?s2 = "mark_disconnected uid (forget_client uid ?s1)"
    obtain j s3 where ev: "send_event denv m (connect_failure e) [] ?s2 = (j, s3)" by (rule prod.exhaust)
    have eq: "ph = Returned" "s' = s3" using assms True l ev by (simp_all add: start_login_def)
    have cm: "ss_cm ?s2 = ss_cm (forget_client uid ?s1)" "ss_kill ?s2 = ss_kill s"
      by (subst mark_frame, simp)+ (simp add: forget_client_def on_cm_def)
    from send_event_frame [OF ev] obtain subs n where s3: "s3 = ?s2\<lparr>ss_db := (ss_db ?s2)\<lparr>calls := n\<rparr>,
      ss_cm := (ss_cm ?s2)\<lparr>my_objs := (my_objs (ss_cm ?s2))(m := (my_objs (ss_cm ?s2) m)\<lparr>mc_subscriptions := subs\<rparr>)\<rparr>\<rparr>" by blast
    have reg: "registered u (ss_cm s3) = registered u (ss_cm (forget_client uid ?s1))" by (subst s3) (simp add: cm)
    have objs: "my_objs (ss_cm s3) = (my_objs (ss_cm s))(m := (my_objs (ss_cm s) m)\<lparr>mc_subscriptions := subs\<rparr>)"
      by (subst s3) (simp add: cm registered_forget(2))
    have kl: "ss_kill s3 = ss_kill s" by (subst s3) (simp add: cm)
    show ?thesis using True reg objs kl unfolding eq registered_forget(1) by auto
  next
    case False
    then have "ss_cm s' = ss_cm s \<and> ss_kill s' = ss_kill s \<and> (ph = Returned \<longrightarrow> \<not> sc_hasID env dev)"
      using assms by (auto simp: start_login_def Let_def split: if_splits prod.splits option.splits qr_channel.splits)
    with self [of "my_objs (ss_cm s)"] show ?thesis by auto
  qed
  then show "registered u (ss_cm s') = (if u = uid \<and> ph = Returned \<and> sc_hasID env dev then (None, None, None) else registered u (ss_cm s))"
    "\<exists>subs. my_objs (ss_cm s') = (my_objs (ss_cm s))(m := (my_objs (ss_cm s) m)\<lparr>mc_subscriptions := subs\<rparr>)" "ss_kill s' = ss_kill s"
    by blast+
qed

lemma startClient_spec:
  assumes "startClient env denv c m h uid textjid token subs s = (ph, jobs, s')"
  shows "registered u (ss_cm s') =
      (if u = uid then (if ph = Returned \<and> sc_hasID env (deviceStore env textjid) then (None, None, None) else (Some c, Some m, Some h))
       else registered u (ss_cm s))"
    "\<exists>subs'. my_objs (ss_cm s') = (my_objs (ss_cm s))(m := \<lparr>mc_WAClient = c, mc_userID = uid, mc_token = token, mc_subscriptions = subs'\<rparr>)"
    "ss_kill s' = ss_kill s"
  using start_login_registers [OF assms [unfolded startClient_def]] by (auto simp: start_register_spec)

text \<open>
  C18. A client that has been started and did not give up is registered, in all three registries, under its
  user and nobody else, and its object carries the user's id, token and client.
\<close>

theorem startClient_registers:
  assumes "startClient env denv c m h uid textjid token subs s = (ph, jobs, s')" "ph \<noteq> Returned"
  shows "registered uid (ss_cm s') = (Some c, Some m, Some h) \<and>
    (\<forall>u. u \<noteq> uid \<longrightarrow> registered u (ss_cm s') = registered u (ss_cm s)) \<and>
    mc_userID (my_objs (ss_cm s') m) = uid \<and> mc_token (my_objs (ss_cm s') m) = token \<and>
    mc_WAClient (my_objs (ss_cm s') m) = c"
  using startClient_spec [OF assms(1)] assms(2) by auto

theorem startClient_registers_witness:
  "registered ''u'' (ss_cm (snd (snd (startClient (paired_env (\<lambda>_. None)) mute_env 1 2 3 ''u'' ''5511'' ''t'' [] (idle_srv []))))) =
     (Some 1, Some 2, Some 3)"
proof -
  obtain ph jobs s' where st: "startClient (paired_env (\<lambda>_. None)) mute_env 1 2 3 ''u'' ''5511'' ''t'' [] (idle_srv []) = (ph, jobs, s')"
    by (rule prod_cases3)
  have "sc_Connect (paired_env (\<lambda>_. None)) = (\<lambda>_. None)" by (simp add: paired_env_def)
  with st paired_device have "ph \<noteq> Returned"
    by (auto simp: startClient_def start_login_def connect_loop_attempts)
  from startClient_registers [OF st this] show ?thesis unfolding st by simp
qed

section \<open>Ending a client\<close>

lemma mark_disconnected_ok:
  assumes "no_faults (ss_db s)"
  shows "users_tbl (ss_db (mark_disconnected uid s)) =
      map (\<lambda>r. if u_id r = uid then r\<lparr>u_qrcode := [], u_connected := Some 0\<rparr> else r) (users_tbl (ss_db s))"
    "no_faults (ss_db (mark_disconnected uid s))"
  by (simp_all add: mark_disconnected_def on_db_def update_user_no_fault [OF assms] assms)

lemma keep_alive_ends:
  assumes "map_of (ss_kill s) uid = Some True" "keep_alive_turn c uid s = (ph, s')"
  shows "ph = Returned" "registered u (ss_cm s') = (if u = uid then (None, None, None) else registered u (ss_cm s))"
    "map_of (ss_kill s') uid = None" "ss_wa s' = ss_wa s @ [WADisconnect c]" "my_objs (ss_cm s') = my_objs (ss_cm s)"
    "no_faults (ss_db s) \<Longrightarrow> users_tbl (ss_db s') =
      map (\<lambda>r. if u_id r = uid then r\<lparr>u_qrcode := [], u_connected := Some 0\<rparr> else r) (users_tbl (ss_db s))"
proof -
  let ?s1 = "s\<lparr>ss_kill := AList.update uid False (ss_kill s), ss_wa := ss_wa s @ [WADisconnect c]\<rparr>"
  let ?f = "forget_client uid ?s1"
  let ?s2 = "mark_disconnected uid ?f"
  have eq: "ph = Returned" "s' = ?s2\<lparr>ss_kill := AList.delete uid (ss_kill ?s2)\<rparr>"
    using assms by (simp_all add: keep_alive_turn_def Let_def)
  have f: "ss_wa ?f = ss_wa s @ [WADisconnect c]" "ss_db ?f = ss_db s" by (subst forget_frame, simp)+
  have m: "ss_cm ?s2 = ss_cm ?f" "ss_wa ?s2 = ss_wa ?f" by (subst mark_frame, simp)+
  show "ph = Returned" by (rule eq(1))
  show "registered u (ss_cm s') = (if u = uid then (None, None, None) else registered u (ss_cm s))"
    "my_objs (ss_cm s') = my_objs (ss_cm s)"
    unfolding eq(2) by (simp_all add: m registered_forget)
  show "map_of (ss_kill s') uid = None" unfolding eq(2) by (simp add: gomap_simps)
  show "ss_wa s' = ss_wa s @ [WADisconnect c]" unfolding eq(2) by (simp add: m f)
  show "users_tbl (ss_db s') = map (\<lambda>r. if u_id r = uid then r\<lparr>u_qrcode := [], u_connected := Some 0\<rparr> else r) (users_tbl (ss_db s))"
    if "no_faults (ss_db s)"
    unfolding eq(2) using mark_disconnected_ok(1) [of ?f uid] that by (simp add: f)
qed

lemma keep_alive_goes_on: "map_of (ss_kill s) uid \<noteq> Some True \<Longrightarrow> keep_alive_turn c uid s = (Running, s)"
  by (auto simp: keep_alive_turn_def split: option.split bool.split)

text \<open>
  C17. Disconnecting ends the session: when the database works and the user's client is connected and has its
  kill channel, the handler answers 200, and the next turn of the client's goroutine returns, after
  which the client is disconnected, no registry knows the user, the kill channel is gone and every
  row of the user says disconnected, without events and without a QR code.
\<close>

theorem Disconnect_ends_session:
  assumes "no_faults (ss_db s)" "session_of (Values_Get ui ''Id'') s = Some c" "ss_connected s c"
    "map_of (ss_kill s) (Values_Get ui ''Id'') = Some pending" "Disconnect ui w s = (w', s1)"
    "keep_alive_turn c (Values_Get ui ''Id'') s1 = (ph, s2)"
  shows "ph = Returned \<and> registered (Values_Get ui ''Id'') (ss_cm s2) = (None, None, None) \<and>
    map_of (ss_kill s2) (Values_Get ui ''Id'') = None \<and> WADisconnect c \<in> set (ss_wa s2) \<and>
    users_tbl (ss_db s2) = map (\<lambda>r. if u_id r = Values_Get ui ''Id'' then r\<lparr>u_connected := Some 0, u_events := [], u_qrcode := []\<rparr> else r)
      (users_tbl (ss_db s)) \<and>
    w' = Respond 200 (RData (JObj [(''Details'', JStr ''Disconnected'')])) w"
proof -
  let ?u = "Values_Get ui ''Id''"
  obtain r sa where u: "on_db (update_user ?u (\<lambda>r. r\<lparr>u_connected := Some 0, u_events := []\<rparr>)) s = (r, sa)" by (rule prod.exhaust)
  have sa: "sa = s\<lparr>ss_db := ss_db sa\<rparr>" by (rule on_db_update_frame [OF u])
  have db: "users_tbl (ss_db sa) = map (\<lambda>r. if u_id r = ?u then r\<lparr>u_connected := Some 0, u_events := []\<rparr> else r) (users_tbl (ss_db s))"
    "no_faults (ss_db sa)"
    using u by (auto simp: on_db_def update_user_no_fault [OF assms(1)] assms(1))
  let ?sb = "on_cm (DeleteWhatsmeowClient ?u) (cache_set (Values_Get ui ''Token'') (updateUserInfo ui ''Events'' []) sa)"
  have w': "w' = Respond 200 (RData (JObj [(''Details'', JStr ''Disconnected'')])) w" and s1: "s1 = send_kill ?u ?sb"
    using assms(5) u by (simp_all add: Disconnect_def assms(2,3) IsConnected_def Let_def)
  have kill: "ss_kill ?sb = ss_kill s" by (subst sa) (simp add: on_cm_def cache_set_def)
  have pending: "map_of (ss_kill s1) ?u = Some True"
    using assms(4) kill by (cases pending) (simp_all add: s1 send_kill_def gomap_simps)
  have "ss_db ?sb = ss_db sa" by (simp add: on_cm_def cache_set_def)
  then have "ss_db s1 = ss_db sa" using kill assms(4) by (cases pending) (simp_all add: s1 send_kill_def)
  then show ?thesis
    using keep_alive_ends [OF pending assms(6)] db w' by (auto simp: comp_def)
qed

theorem Disconnect_ends_session_witness:
  "\<forall>r. let ui = [(''Id'', ''u'')];
        s = (idle_srv [r])\<lparr>ss_cm := SetWhatsmeowClient ''u'' (Some 1) (ss_cm (idle_srv [r])), ss_kill := [(''u'', False)]\<rparr>;
        s1 = snd (Disconnect ui new_writer s)
    in fst (keep_alive_turn 1 ''u'' s1) = Returned"
proof
  fix r
  let ?ui = "[(''Id'', ''u'')]"
  let ?s = "(idle_srv [r])\<lparr>ss_cm := SetWhatsmeowClient ''u'' (Some 1) (ss_cm (idle_srv [r])), ss_kill := [(''u'', False)]\<rparr>"
  have id: "Values_Get ?ui ''Id'' = ''u''" by (simp add: Values_Get_def)
  have h: "no_faults (ss_db ?s)" "session_of (Values_Get ?ui ''Id'') ?s = Some 1" "ss_connected ?s 1"
    "map_of (ss_kill ?s) (Values_Get ?ui ''Id'') = Some False"
    unfolding id by (simp_all add: idle_ok session_of_def registry_ops, simp add: idle_srv_def)
  show "let ui = ?ui; s = ?s; s1 = snd (Disconnect ui new_writer s) in fst (keep_alive_turn 1 ''u'' s1) = Returned"
    using Disconnect_ends_session [OF h surjective_pairing surjective_pairing, of new_writer] unfolding id Let_def by blast
qed

text \<open>A kill signal reaches one goroutine: behind it the channel is gone, later signals are dropped, and
  another goroutine of the same user goes on forever.\<close>

lemma one_signal_one_client:
  assumes "map_of (ss_kill s) uid = Some True" "keep_alive_turn c1 uid s = (ph, s1)"
  shows "ph = Returned" "send_kill uid s1 = s1" "keep_alive_turn c2 uid s1 = (Running, s1)"
  using keep_alive_ends(1,3) [OF assms] by (simp_all add: send_kill_def keep_alive_goes_on)



section \<open>Invariants of the interleaving\<close>

text \<open>Every registered client and object is that of a goroutine of the same user, and the object of a goroutine
  carries its user, token and client.\<close>

definition g_ids :: "goroutine list \<Rightarrow> (string \<times> string \<times> ref \<times> ref) list" where
  "g_ids gs = map (\<lambda>g. (g_user g, g_token g, g_client g, g_my g)) gs"

definition life_inv :: "world \<Rightarrow> bool" where
  "life_inv w \<longleftrightarrow> (case w of (s, gs) \<Rightarrow>
     (\<forall>uid c. GetWhatsmeowClient uid (ss_cm s) = Some c \<longrightarrow> (\<exists>t m. (uid, t, c, m) \<in> set (g_ids gs))) \<and>
     (\<forall>uid m. GetMyClient uid (ss_cm s) = Some m \<longrightarrow> (\<exists>t c. (uid, t, c, m) \<in> set (g_ids gs))) \<and>
     (\<forall>uid t c m. (uid, t, c, m) \<in> set (g_ids gs) \<longrightarrow>
        mc_userID (my_objs (ss_cm s) m) = uid \<and> mc_token (my_objs (ss_cm s) m) = t \<and> mc_WAClient (my_objs (ss_cm s) m) = c))"

text \<open>A change that only removes registrations, touches objects at their subscriptions and goroutines at their
  phases keeps the invariant.\<close>

lemma life_inv_shrink:
  assumes "life_inv (s, gs)" "\<And>u. registered u (ss_cm s') = registered u (ss_cm s) \<or> registered u (ss_cm s') = (None, None, None)"
    "\<And>m. \<exists>subs. my_objs (ss_cm s') m = (my_objs (ss_cm s) m)\<lparr>mc_subscriptions := subs\<rparr>" "g_ids gs' = g_ids gs"
  shows "life_inv (s', gs')"
proof -
  have same: "mc_userID (my_objs (ss_cm s') m) = mc_userID (my_objs (ss_cm s) m)" "mc_token (my_objs (ss_cm s') m) = mc_token (my_objs (ss_cm s) m)"
    "mc_WAClient (my_objs (ss_cm s') m) = mc_WAClient (my_objs (ss_cm s) m)" for m
    using assms(3) [of m] by auto
  have reg: "GetWhatsmeowClient u (ss_cm s) = Some c" if "GetWhatsmeowClient u (ss_cm s') = Some c" for u c
    using assms(2) [of u] that by (auto simp: registered_def)
  have my: "GetMyClient u (ss_cm s) = Some m" if "GetMyClient u (ss_cm s') = Some m" for u m
    using assms(2) [of u] that by (auto simp: registered_def)
  show ?thesis
    using assms(1) unfolding life_inv_def prod.case assms(4) same by (blast dest: reg my)
qed

lemma phase_update_ids: "i < length gs \<Longrightarrow> g_ids (gs[i := (gs ! i)\<lparr>g_phase := ph\<rparr>]) = g_ids gs"
  unfolding g_ids_def by (rule nth_equalityI) (auto simp: nth_list_update)

lemma subs_self: "\<exists>subs. (x :: MyClient) = x\<lparr>mc_subscriptions := subs\<rparr>"
  by (rule exI [of _ "mc_subscriptions x"]) simp

lemma send_event_objs:
  assumes "send_event denv m postmap path s = (jobs, s')"
  shows "registered u (ss_cm s') = registered u (ss_cm s)" "\<exists>subs. my_objs (ss_cm s') x = (my_objs (ss_cm s) x)\<lparr>mc_subscriptions := subs\<rparr>"
    "ss_kill s' = ss_kill s" "ss_cache s' = ss_cache s" "users_tbl (ss_db s') = users_tbl (ss_db s)" "no_faults (ss_db s') = no_faults (ss_db s)"
proof -
  obtain subs n where s': "s' = s\<lparr>ss_db := (ss_db s)\<lparr>calls := n\<rparr>,
      ss_cm := (ss_cm s)\<lparr>my_objs := (my_objs (ss_cm s))(m := (my_objs (ss_cm s) m)\<lparr>mc_subscriptions := subs\<rparr>)\<rparr>\<rparr>"
    using send_event_frame [OF assms] by blast
  show "registered u (ss_cm s') = registered u (ss_cm s)" "ss_kill s' = ss_kill s" "ss_cache s' = ss_cache s"
    "users_tbl (ss_db s') = users_tbl (ss_db s)" "no_faults (ss_db s') = no_faults (ss_db s)"
    by (simp_all add: s')
  show "\<exists>subs. my_objs (ss_cm s') x = (my_objs (ss_cm s) x)\<lparr>mc_subscriptions := subs\<rparr>"
    using subs_self [of "my_objs (ss_cm s) x"] by (cases "x = m") (auto simp: s')
qed

lemma write_qrcode_cm: "ss_cm (write_qrcode uid token info f code s) = ss_cm s"
  by (auto simp: write_qrcode_def cache_qrcode_def cache_set_def on_db_def split: prod.split sum.split option.split)

lemma send_kill_cm: "ss_cm (send_kill uid s) = ss_cm s"
  by (simp add: send_kill_def split: option.split bool.split)

lemma qr_turn_objs:
  assumes "qr_turn denv encodeQR m uid token info evt s = (jobs, s')"
  shows "registered u (ss_cm s') = registered u (ss_cm s) \<or> registered u (ss_cm s') = (None, None, None)"
    "\<exists>subs. my_objs (ss_cm s') x = (my_objs (ss_cm s) x)\<lparr>mc_subscriptions := subs\<rparr>"
proof -
  have "(registered u (ss_cm s') = registered u (ss_cm s) \<or> registered u (ss_cm s') = (None, None, None)) \<and>
    (\<exists>subs. my_objs (ss_cm s') x = (my_objs (ss_cm s) x)\<lparr>mc_subscriptions := subs\<rparr>)"
  proof (cases evt)
    case (QRCode code)
    define img where "img = ''data:image/png;base64,'' @ encodeQR code"
    have "send_event denv m [(''event'', JStr ''code''), (''qrCodeBase64'', JStr img), (''type'', JStr ''QR'')] []
        (write_qrcode uid token info (\<lambda>r. r\<lparr>u_qrcode := img\<rparr>) img s) = (jobs, s')"
      using assms unfolding qr_turn_def QRCode qr_event.case Let_def img_def [symmetric] .
    from send_event_objs(1,2) [OF this] show ?thesis by (simp add: write_qrcode_cm)
  next
    case QRTimeout
    obtain j s1 where e: "send_event denv m [(''event'', JStr ''timeout''), (''type'', JStr ''QRTimeout'')] [] s = (j, s1)" by (rule prod.exhaust)
    have "s' = send_kill uid (forget_client uid (write_qrcode uid token info (\<lambda>r. r\<lparr>u_qrcode := []\<rparr>) [] s1))"
      using assms QRTimeout e by (simp add: qr_turn_def)
    then show ?thesis using send_event_objs(1,2) [OF e] by (simp add: send_kill_cm registered_forget write_qrcode_cm)
  qed (use assms subs_self in \<open>auto simp: qr_turn_def write_qrcode_cm\<close>)
  then show "registered u (ss_cm s') = registered u (ss_cm s) \<or> registered u (ss_cm s') = (None, None, None)"
    "\<exists>subs. my_objs (ss_cm s') x = (my_objs (ss_cm s) x)\<lparr>mc_subscriptions := subs\<rparr>" by blast+
qed

lemma life_inv_start:
  assumes "life_inv (s, gs)" "startClient env denv c m h uid textjid token subs (make_kill uid s) = (ph, jobs, s')" "m \<notin> g_my ` set gs"
  shows "life_inv (s', gs @ [\<lparr>g_user = uid, g_token = token, g_client = c, g_my = m, g_phase = ph\<rparr>])"
proof -
  note sp = startClient_spec [OF assms(2)]
  obtain subs' where objs: "my_objs (ss_cm s') = (my_objs (ss_cm s))(m := \<lparr>mc_WAClient = c, mc_userID = uid, mc_token = token, mc_subscriptions = subs'\<rparr>)"
    using sp(2) by (auto simp: make_kill_def)
  have new: "m' \<noteq> m" if "(u, t, c', m') \<in> set (g_ids gs)" for u t c' m'
    using that assms(3) by (auto simp: g_ids_def)
  have reg: "registered u (ss_cm s') = registered u (ss_cm s)" if "u \<noteq> uid" for u
    using sp(1) [of u] that by (simp add: make_kill_def)
  have own: "registered uid (ss_cm s') = (None, None, None) \<or> registered uid (ss_cm s') = (Some c, Some m, Some h)"
    using sp(1) [of uid] by simp
  have ids: "set (g_ids (gs @ [\<lparr>g_user = uid, g_token = token, g_client = c, g_my = m, g_phase = ph\<rparr>])) = insert (uid, token, c, m) (set (g_ids gs))"
    by (auto simp: g_ids_def)
  have wa: "\<exists>t m'. (u, t, x, m') \<in> insert (uid, token, c, m) (set (g_ids gs))" if "GetWhatsmeowClient u (ss_cm s') = Some x" for u x
  proof (cases "u = uid")
    case True
    with own that show ?thesis by (auto simp: registered_def)
  next
    case False
    then show ?thesis using reg [OF False] that assms(1) by (auto simp: registered_def life_inv_def)
  qed
  have my: "\<exists>t c'. (u, t, c', x) \<in> insert (uid, token, c, m) (set (g_ids gs))" if "GetMyClient u (ss_cm s') = Some x" for u x
  proof (cases "u = uid")
    case True
    with own that show ?thesis by (auto simp: registered_def)
  next
    case False
    then show ?thesis using reg [OF False] that assms(1) by (auto simp: registered_def life_inv_def)
  qed
  show ?thesis
    unfolding life_inv_def prod.case ids using wa my new assms(1) by (auto simp: objs life_inv_def)
qed

lemma life_inv_step:
  assumes "life_step denv w w'" "life_inv w"
  shows "life_inv w'"
  using assms
proof (induction rule: life_step.induct)
  case (start env c m h uid textjid token subs s ph jobs s' gs)
  then show ?case using life_inv_start by blast
next
  case (qr i gs encodeQR info evt s jobs s')
  show ?case by (rule life_inv_shrink [OF qr.prems qr_turn_objs [OF qr.hyps(3)]]) simp
next
  case (qr_closed i gs s)
  show ?case by (rule life_inv_shrink [OF qr_closed.prems]) (simp_all add: phase_update_ids qr_closed.hyps subs_self)
next
  case (turn i gs s ph s')
  show ?case
  proof (cases "map_of (ss_kill s) (g_user (gs ! i)) = Some True")
    case True
    note ka = keep_alive_ends [OF True turn.hyps(3)]
    show ?thesis
      by (rule life_inv_shrink [OF turn.prems]) (simp_all add: ka(2,5) phase_update_ids turn.hyps(1) subs_self)
  next
    case False
    then have "s' = s" using keep_alive_goes_on turn.hyps(3) by (metis prod.inject)
    then show ?thesis by (intro life_inv_shrink [OF turn.prems]) (simp_all add: phase_update_ids turn.hyps(1) subs_self)
  qed
next
  case (kill s gs uid)
  show ?case by (rule life_inv_shrink [OF kill.prems]) (simp_all add: send_kill_cm subs_self)
next
  case (subscribe uid evs s cm gs)
  have cm: "cm = ss_cm s \<or> (\<exists>p. cm = (ss_cm s)\<lparr>my_objs := (my_objs (ss_cm s))(p := (my_objs (ss_cm s) p)\<lparr>mc_subscriptions := evs\<rparr>)\<rparr>)"
    using subscribe.hyps by (auto simp: UpdateMyClientSubscriptions_def split: option.splits)
  then have objs: "\<exists>subs. my_objs cm x = (my_objs (ss_cm s) x)\<lparr>mc_subscriptions := subs\<rparr>" for x
    using subs_self [of "my_objs (ss_cm s) x"] by (auto simp: fun_upd_def)
  from cm have "registered u cm = registered u (ss_cm s)" for u by auto
  with objs show ?case by (intro life_inv_shrink [OF subscribe.prems]) simp_all
qed

text \<open>
  C13. No client object ever serves another user: from a server without clients, after any interleaving of
  starts, QR events, kill signals, turns of the goroutines and changes of subscriptions, the object
  that the registry holds for a user carries that user's id, and the client in it is the client of a
  goroutine that was started for the user.
\<close>

theorem clients_belong_to_users:
  assumes "(life_step denv)\<^sup>*\<^sup>* (s0, []) (s, gs)" "\<And>u. registered u (ss_cm s0) = (None, None, None)"
    "GetMyClient uid (ss_cm s) = Some m"
  shows "mc_userID (my_objs (ss_cm s) m) = uid \<and>
    (\<exists>g. g \<in> set gs \<and> g_user g = uid \<and> g_my g = m \<and> g_client g = mc_WAClient (my_objs (ss_cm s) m))"
proof -
  have "life_inv (s0, [])" using assms(2) by (simp add: life_inv_def registered_def g_ids_def)
  with assms(1) have "life_inv (s, gs)" by (induction rule: rtranclp_induct) (auto intro: life_inv_step)
  then obtain t c where "(uid, t, c, m) \<in> set (g_ids gs)" "mc_userID (my_objs (ss_cm s) m) = uid" "mc_WAClient (my_objs (ss_cm s) m) = c"
    using assms(3) unfolding life_inv_def prod.case by blast
  then show ?thesis by (auto simp: g_ids_def)
qed

theorem clients_belong_to_users_witness:
  "\<exists>s gs. (life_step mute_env)\<^sup>*\<^sup>* (idle_srv [], []) (s, gs) \<and> GetMyClient ''u'' (ss_cm s) = Some 2 \<and>
     mc_userID (my_objs (ss_cm s) 2) = ''u''"
proof -
  obtain ph jobs s where st: "startClient (paired_env (\<lambda>_. None)) mute_env 1 2 3 ''u'' ''5511'' ''t'' [] (make_kill ''u'' (idle_srv [])) = (ph, jobs, s)"
    by (rule prod_cases3)
  have "sc_Connect (paired_env (\<lambda>_. None)) = (\<lambda>_. None)" by (simp add: paired_env_def)
  with st paired_device have ph: "ph \<noteq> Returned"
    by (auto simp: startClient_def start_login_def connect_loop_attempts)
  have my: "GetMyClient ''u'' (ss_cm s) = Some 2" using startClient_spec(1) [OF st, of "''u''"] ph by (simp add: registered_def)
  let ?g = "\<lparr>g_user = ''u'', g_token = ''t'', g_client = 1, g_my = 2, g_phase = ph\<rparr>"
  have "life_step mute_env (idle_srv [], []) (s, [] @ [?g])" by (rule life_step.start [OF st]) simp_all
  then have reach: "(life_step mute_env)\<^sup>*\<^sup>* (idle_srv [], []) (s, [?g])" by auto
  have none: "registered u (ss_cm (idle_srv [])) = (None, None, None)" for u
    by (simp add: idle_srv_def NewClientManager_def registry_ops gm_ptr_def)
  show ?thesis using clients_belong_to_users [OF reach none my] reach my by blast
qed

section \<open>Pairing\<close>

fun qr_run ::
    "dispatch_env \<Rightarrow> (string \<Rightarrow> string) \<Rightarrow> ref \<Rightarrow> string \<Rightarrow> string \<Rightarrow> (user_values option \<times> qr_event) list \<Rightarrow> srv \<Rightarrow> srv" where
  "qr_run denv encodeQR m uid token [] s = s"
| "qr_run denv encodeQR m uid token ((info, evt) # evs) s =
     qr_run denv encodeQR m uid token evs (snd (qr_turn denv encodeQR m uid token info evt s))"

definition qr_row :: "(string \<Rightarrow> string) \<Rightarrow> qr_event \<Rightarrow> user_row \<Rightarrow> user_row" where
  "qr_row encodeQR evt r =
     (case evt of
        QRCode code \<Rightarrow> r\<lparr>u_qrcode := ''data:image/png;base64,'' @ encodeQR code\<rparr>
      | QRTimeout \<Rightarrow> r\<lparr>u_qrcode := []\<rparr>
      | QRSuccess \<Rightarrow> r\<lparr>u_qrcode := [], u_connected := Some 1\<rparr>
      | QROther _ \<Rightarrow> r)"

lemma write_qrcode_ok:
  assumes "no_faults (ss_db s)"
  shows "users_tbl (ss_db (write_qrcode uid token info f code s)) = map (\<lambda>r. if u_id r = uid then f r else r) (users_tbl (ss_db s))"
    "no_faults (ss_db (write_qrcode uid token info f code s))"
  using assms by (simp_all add: write_qrcode_def on_db_def update_user_no_fault cache_qrcode_def cache_set_def split: option.split)

lemma send_kill_db: "ss_db (send_kill uid s) = ss_db s"
  by (simp add: send_kill_def split: option.split bool.split)

lemma qr_turn_row:
  assumes "no_faults (ss_db s)"
  shows "users_tbl (ss_db (snd (qr_turn denv encodeQR m uid token info evt s))) =
      map (\<lambda>r. if u_id r = uid then qr_row encodeQR evt r else r) (users_tbl (ss_db s))"
    "no_faults (ss_db (snd (qr_turn denv encodeQR m uid token info evt s)))"
proof -
  have ev: "users_tbl (ss_db (snd (send_event denv m pm p t))) = users_tbl (ss_db t)"
    "no_faults (ss_db (snd (send_event denv m pm p t))) = no_faults (ss_db t)" for pm p t
    using send_event_objs(5,6) [OF surjective_pairing] by blast+
  have fg: "ss_db (forget_client uid t) = ss_db t" for t by (simp add: forget_client_def on_cm_def)
  have "users_tbl (ss_db (snd (qr_turn denv encodeQR m uid token info evt s))) =
      map (\<lambda>r. if u_id r = uid then qr_row encodeQR evt r else r) (users_tbl (ss_db s)) \<and>
    no_faults (ss_db (snd (qr_turn denv encodeQR m uid token info evt s)))"
  proof (cases evt)
    case QRTimeout
    then show ?thesis
      unfolding qr_turn_def qr_row_def
      by (simp add: case_prod_beta send_kill_db fg write_qrcode_ok ev assms del: list.map)
  next
    case (QRCode code)
    define img where "img = ''data:image/png;base64,'' @ encodeQR code"
    show ?thesis
      unfolding qr_turn_def qr_row_def QRCode qr_event.case Let_def img_def [symmetric] ev
      using write_qrcode_ok [OF assms] by simp
  qed (simp_all add: qr_turn_def qr_row_def write_qrcode_ok assms map_idI cong: if_cong)
  then show "users_tbl (ss_db (snd (qr_turn denv encodeQR m uid token info evt s))) =
      map (\<lambda>r. if u_id r = uid then qr_row encodeQR evt r else r) (users_tbl (ss_db s))"
    "no_faults (ss_db (snd (qr_turn denv encodeQR m uid token info evt s)))" by blast+
qed

text \<open>
  C19. While a device is being paired, the user's row follows the QR channel: with a working database, after
  any sequence of QR events the row shows the image of the last code unless a timeout or the success
  came later, and it is marked connected once the pairing has succeeded; other rows do not change.
\<close>

theorem qr_events_refine_row:
  assumes "no_faults (ss_db s)"
  shows "users_tbl (ss_db (qr_run denv encodeQR m uid token evs s)) =
    map (\<lambda>r. if u_id r = uid then fold (\<lambda>(_, evt). qr_row encodeQR evt) evs r else r) (users_tbl (ss_db s))"
  using assms
proof (induction evs arbitrary: s)
  case (Cons e evs)
  obtain info evt where e: "e = (info, evt)" by (rule prod.exhaust)
  have "u_id (qr_row encodeQR evt r) = u_id r" for r by (simp add: qr_row_def split: qr_event.split)
  then show ?case
    using Cons.IH [OF qr_turn_row(2) [OF Cons.prems, of denv encodeQR m uid token info evt]]
    by (simp add: e qr_turn_row(1) [OF Cons.prems] comp_def cong: if_cong)
qed (simp add: map_idI)

definition unpaired_row :: "string \<Rightarrow> string \<Rightarrow> user_row" where
  "unpaired_row i t =
     \<lparr>u_id = i, u_name = ''n'', u_token = t, u_webhook = [], u_jid = [], u_qrcode = [], u_connected = None, u_expiration = Some 0,
      u_events = ''Message'', u_proxy_url = Some [], u_s3_enabled = Some False, u_s3_endpoint = Some [], u_s3_region = Some [],
      u_s3_bucket = Some [], u_s3_access_key = Some [], u_s3_secret_key = Some [], u_s3_path_style = Some True,
      u_s3_public_url = Some [], u_media_delivery = Some ''base64'', u_s3_retention_days = Some 30, u_history = Some 0, u_hmac_key = None\<rparr>"

theorem qr_events_refine_row_witness:
  "map u_qrcode (users_tbl (ss_db (qr_run mute_env (\<lambda>c. c) 1 ''u'' ''t'' [(None, QRCode ''abc''), (None, QRSuccess)]
     (idle_srv [unpaired_row ''u'' ''t''])))) = [[]]"
  unfolding qr_events_refine_row [OF idle_ok(1)] by (simp add: idle_ok(2) qr_row_def unpaired_row_def)

end
