(* ===== verification/Dispatcher.thy ===== *)
theory Dispatcher
  imports Lifecycle History
begin

text \<open>
  \<^verbatim>\<open>myEventHandler\<close> of \<^verbatim>\<open>cmd/api/wmiau.go\<close>: what every WhatsApp event does to the database, the caches, the
  message history and the webhooks. Events and messages of the whatsmeow library are records of the
  fields the handler reads; protobuf getters on a missing part give the empty value. Decryption,
  hashing, JSON encoding and the contact store are arguments.
\<close>

section \<open>Messages\<close>

record wa_media =
  md_Mimetype :: string
  md_Caption :: string
  md_FileName :: "string option"
  md_IsAnimated :: bool
  md_Download :: "string + bytes"

text \<open>
  A message: extended text with the id of the quoted message, protocol messages with type and the id of
  their key, reactions with the id of their key and the text, contacts and locations with their names,
  poll updates with the id of the poll.
\<close>

record wa_message =
  m_Conversation :: string
  m_ExtendedText :: "(string \<times> message_id) option"
  m_Protocol :: "(int \<times> message_id option) option"
  m_Reaction :: "(message_id \<times> string) option"
  m_Image :: "wa_media option"
  m_Video :: "wa_media option"
  m_Audio :: "wa_media option"
  m_Document :: "wa_media option"
  m_Sticker :: "wa_media option"
  m_Contact :: "string option"
  m_Location :: "string option"
  m_ButtonsResponse :: "string option"
  m_ListResponse :: "string option"
  m_PollUpdate :: "message_id option"
  m_SecretEncrypted :: bool

text \<open>A message in which nothing is set, or only the text to the empty string.\<close>

definition no_message :: wa_message where
  "no_message = \<lparr>m_Conversation = [], m_ExtendedText = None, m_Protocol = None, m_Reaction = None, m_Image = None, m_Video = None,
     m_Audio = None, m_Document = None, m_Sticker = None, m_Contact = None, m_Location = None, m_ButtonsResponse = None,
     m_ListResponse = None, m_PollUpdate = None, m_SecretEncrypted = False\<rparr>"

record message_event =
  ev_Info :: MessageInfo
  ev_Message :: wa_message

text \<open>The placeholder for media without a caption; both paths have the same table.\<close>

definition default_text :: "string \<Rightarrow> string" where
  "default_text messageType =
     (case map_of [(''image'', '':image:''), (''video'', '':video:''), (''audio'', '':audio:''), (''document'', '':document:''),
                   (''sticker'', '':sticker:''), (''contact'', '':contact:''), (''location'', '':location:'')] messageType of
        None \<Rightarrow> [] | Some t \<Rightarrow> t)"

text \<open>The id of the message that a protocol message of type 0 deletes.\<close>

definition deleted_message :: "wa_message \<Rightarrow> message_id option" where
  "deleted_message msg =
     (case m_Protocol msg of
        Some (ty, key) \<Rightarrow> if ty = 0 then Some (case key of None \<Rightarrow> [] | Some i \<Rightarrow> i) else None
      | None \<Rightarrow> None)"

text \<open>The classification of an incoming message: type, text, caption and the message it refers to.\<close>

definition live_kind :: "wa_message \<Rightarrow> string \<times> string \<times> string \<times> message_id" where
  "live_kind msg =
     (case deleted_message msg of
        Some i \<Rightarrow> (''delete'', i, [], [])
      | None \<Rightarrow>
     (case m_Reaction msg of
        Some (key, txt) \<Rightarrow> (''reaction'', txt, [], key)
      | None \<Rightarrow>
     (case m_Image msg of
        Some x \<Rightarrow> (''image'', [], md_Caption x, [])
      | None \<Rightarrow>
     (case m_Video msg of
        Some x \<Rightarrow> (''video'', [], md_Caption x, [])
      | None \<Rightarrow>
     (case m_Audio msg of
        Some x \<Rightarrow> (''audio'', [], [], [])
      | None \<Rightarrow>
     (case m_Document msg of
        Some x \<Rightarrow> (''document'', [], md_Caption x, [])
      | None \<Rightarrow>
     (case m_Sticker msg of
        Some x \<Rightarrow> (''sticker'', [], [], [])
      | None \<Rightarrow>
     (case m_Contact msg of
        Some n \<Rightarrow> (''contact'', n, [], [])
      | None \<Rightarrow>
     (case m_Location msg of
        Some n \<Rightarrow> (''location'', n, [], [])
      | None \<Rightarrow> (''text'', [], [], []))))))))))"

text \<open>Type, text and reference that are stored for an incoming message.\<close>

definition live_content :: "wa_message \<Rightarrow> string \<times> string \<times> message_id" where
  "live_content msg =
     (case live_kind msg of
        (messageType, textContent, caption, replyTo) \<Rightarrow>
          if messageType \<noteq> ''reaction'' \<and> messageType \<noteq> ''delete'' then
            (let (txt, reply) =
               (if m_Conversation msg \<noteq> [] then (m_Conversation msg, replyTo)
                else (case m_ExtendedText msg of
                        Some (t, stanza) \<Rightarrow> (t, if stanza \<noteq> [] then stanza else replyTo)
                      | None \<Rightarrow> (caption, replyTo)))
             in (messageType, if txt = [] then default_text messageType else txt, reply))
          else (messageType, textContent, replyTo))"

definition live_worth_saving :: "string \<Rightarrow> string \<Rightarrow> string \<Rightarrow> bool" where
  "live_worth_saving messageType textContent mediaLink \<longleftrightarrow>
     textContent \<noteq> [] \<or> mediaLink \<noteq> [] \<or> (messageType \<noteq> ''text'' \<and> messageType \<noteq> ''reaction'') \<or> messageType = ''delete''"

text \<open>The classification of a message of a history synchronisation.\<close>

definition sync_content :: "wa_message \<Rightarrow> string \<times> string \<times> message_id" where
  "sync_content msg =
     (let (messageType, textContent, quoted) =
        (if m_Conversation msg \<noteq> [] then (''text'', m_Conversation msg, [])
         else
        (case m_ExtendedText msg of
           Some (t, stanza) \<Rightarrow> (''text'', t, stanza)
         | None \<Rightarrow>
        (case m_Image msg of
           Some x \<Rightarrow> (''image'', md_Caption x, [])
         | None \<Rightarrow>
        (case m_Video msg of
           Some x \<Rightarrow> (''video'', md_Caption x, [])
         | None \<Rightarrow>
        (case m_Audio msg of
           Some x \<Rightarrow> (''audio'', [], [])
         | None \<Rightarrow>
        (case m_Document msg of
           Some x \<Rightarrow> (''document'', md_Caption x, [])
         | None \<Rightarrow>
        (case m_Sticker msg of
           Some x \<Rightarrow> (''sticker'', [], [])
         | None \<Rightarrow>
        (case m_Location msg of
           Some n \<Rightarrow> (''location'', n, [])
         | None \<Rightarrow>
        (case m_Contact msg of
           Some n \<Rightarrow> (''contact'', n, [])
         | None \<Rightarrow>
        (case m_ButtonsResponse msg of
           Some i \<Rightarrow> (''buttons_response'', i, [])
         | None \<Rightarrow>
        (case m_ListResponse msg of
           Some i \<Rightarrow> (''list_response'', i, [])
         | None \<Rightarrow>
        (case m_Reaction msg of
           Some (key, txt) \<Rightarrow> (''reaction'', txt, key)
         | None \<Rightarrow> (''unknown'', [], [])))))))))))))
      in (messageType,
          if textContent = [] \<and> messageType \<noteq> ''text'' \<and> messageType \<noteq> ''reaction'' \<and> messageType \<noteq> ''delete''
          then default_text messageType else textContent,
          quoted))"

section \<open>Poll votes\<close>

text \<open>The plain texts of the selected options: the stored options by their hashes, looked up in the order of the
  vote.\<close>

definition poll_selected :: "(string \<Rightarrow> bytes) \<Rightarrow> string list \<Rightarrow> bytes list \<Rightarrow> string list" where
  "poll_selected sha256 stored hashes =
     (let optionsByHash = fold (\<lambda>opt. AList.update (sha256 opt) opt) stored []
      in List.map_filter (\<lambda>h. map_of optionsByHash h) hashes)"

section \<open>Events\<close>

text \<open>The events whose only effect is a webhook with the name of their type.\<close>

datatype plain_event =
    ChatPresence | CallOffer | CallAccept | CallTerminate | CallOfferNotice | CallRelayLatency | Disconnected
  | ConnectFailure | UndecryptableMessage | MediaRetry | GroupInfo | JoinedGroup | Picture | BlocklistChange
  | Blocklist | KeepAliveRestored | KeepAliveTimeout | ClientOutdated | TemporaryBan | StreamError | PairError
  | PrivacySettings | UserAbout | OfflineSyncCompleted | OfflineSyncPreview | IdentityChange | NewsletterJoin
  | NewsletterLeave | NewsletterMuteChange | NewsletterLiveUpdate | FBMessage

fun plain_type :: "plain_event \<Rightarrow> string" where
  "plain_type ChatPresence = ''ChatPresence''"
| "plain_type CallOffer = ''CallOffer''"
| "plain_type CallAccept = ''CallAccept''"
| "plain_type CallTerminate = ''CallTerminate''"
| "plain_type CallOfferNotice = ''CallOfferNotice''"
| "plain_type CallRelayLatency = ''CallRelayLatency''"
| "plain_type Disconnected = ''Disconnected''"
| "plain_type ConnectFailure = ''ConnectFailure''"
| "plain_type UndecryptableMessage = ''UndecryptableMessage''"
| "plain_type MediaRetry = ''MediaRetry''"
| "plain_type GroupInfo = ''GroupInfo''"
| "plain_type JoinedGroup = ''JoinedGroup''"
| "plain_type Picture = ''Picture''"
| "plain_type BlocklistChange = ''BlocklistChange''"
| "plain_type Blocklist = ''Blocklist''"
| "plain_type KeepAliveRestored = ''KeepAliveRestored''"
| "plain_type KeepAliveTimeout = ''KeepAliveTimeout''"
| "plain_type ClientOutdated = ''ClientOutdated''"
| "plain_type TemporaryBan = ''TemporaryBan''"
| "plain_type StreamError = ''StreamError''"
| "plain_type PairError = ''PairError''"
| "plain_type PrivacySettings = ''PrivacySettings''"
| "plain_type UserAbout = ''UserAbout''"
| "plain_type OfflineSyncCompleted = ''OfflineSyncCompleted''"
| "plain_type OfflineSyncPreview = ''OfflineSyncPreview''"
| "plain_type IdentityChange = ''IdentityChange''"
| "plain_type NewsletterJoin = ''NewsletterJoin''"
| "plain_type NewsletterLeave = ''NewsletterLeave''"
| "plain_type NewsletterMuteChange = ''NewsletterMuteChange''"
| "plain_type NewsletterLiveUpdate = ''NewsletterLiveUpdate''"
| "plain_type FBMessage = ''FBMessage''"

datatype receipt_type = ReceiptRead | ReceiptReadSelf | ReceiptDelivered | ReceiptOther

text \<open>A message of a conversation to be synchronised: its key, if any, with id, \<^verbatim>\<open>FromMe\<close> and participant, its
  content, if any, and its time in seconds, 0 when it has none. A conversation without id, or nil, is \<^term>\<open>None\<close>, as is a nil message.\<close>

record sync_message =
  sm_Key :: "(message_id \<times> bool \<times> jid) option"
  sm_Message :: "wa_message option"
  sm_Timestamp :: nat

text \<open>The \<^verbatim>\<open>types.MessageInfo\<close> of a stored event. Times are in milliseconds.\<close>

record event_info = MessageInfo +
  mi_Type :: string
  mi_PushName :: string

datatype wa_event =
    AppStateSyncComplete bool
  | Connected
  | PushNameSetting
  | PairSuccess jid
  | StreamReplaced
  | Message message_event
  | Receipt receipt_type "message_id list"
  | Presence bool
  | HistorySync "(string \<times> sync_message option list) option list option"
  | AppState
  | LoggedOut
  | Plain plain_event
  | Unhandled

text \<open>
  What the libraries give: names and contents of the client's store, the decoded votes and secret messages
  and encodings. \<open>hv_ParseJID\<close> is \<^verbatim>\<open>types.ParseJID\<close>, which returns a JID also with an error; \<open>hv_contact\<close> is the push
  name of a contact, \<open>hv_marshalSync\<close> encodes the event of a synchronised message: its info and the message.
\<close>

record handler_env =
  hv_dispatch :: dispatch_env
  hv_media :: media_env
  hv_store :: s3_store
  hv_clock :: clock
  hv_now :: int
  hv_skipMedia :: bool
  hv_PushName :: "ref \<Rightarrow> string"
  hv_owner :: "ref \<Rightarrow> jid"
  hv_ParseJID :: "string \<Rightarrow> JID \<times> string option"
  hv_contact :: "ref \<Rightarrow> JID \<Rightarrow> string option"
  hv_eventJSON :: "wa_event \<Rightarrow> json"
  hv_marshalMessage :: "message_event \<Rightarrow> string option"
  hv_marshalSync :: "event_info \<Rightarrow> wa_message \<Rightarrow> sync_message \<Rightarrow> string option"
  hv_pollVote :: "message_event \<Rightarrow> string + bytes list option"
  hv_decrypt :: "message_event \<Rightarrow> string + wa_message option"
  hv_sha256 :: "string \<Rightarrow> bytes"
  hv_base64 :: "bytes \<Rightarrow> string"
  hv_Ext :: "string \<Rightarrow> string"

section \<open>Incoming messages\<close>

text \<open>The media settings: from the cache, else from the database; the query compares a boolean column with 1, which
  PostgreSQL refuses, so that the defaults are used.\<close>

definition message_s3 :: "string \<Rightarrow> srv \<Rightarrow> mediaS3Config \<times> srv" where
  "message_s3 token s =
     (case map_of (ss_cache s) token of
        Some v \<Rightarrow> (\<lparr>ms_Enabled = Values_Get v ''S3Enabled'', ms_MediaDelivery = Values_Get v ''MediaDelivery''\<rparr>, s)
      | None \<Rightarrow>
          (\<lparr>ms_Enabled = ''false'', ms_MediaDelivery = ''base64''\<rparr>,
           snd (on_db (pg_exec (\<lambda>_. Inl ''operator does not exist: boolean = integer'' :: string + unit \<times> pg)) s)))"

definition message_poll :: "handler_env \<Rightarrow> string \<Rightarrow> message_event \<Rightarrow> ClientManager \<Rightarrow> (string, json) gomap \<Rightarrow> (string, json) gomap" where
  "message_poll env userID ev cm postmap =
     (case m_PollUpdate (ev_Message ev) of
        None \<Rightarrow> postmap
      | Some pollMsgID \<Rightarrow>
          (case hv_pollVote env ev of
             Inr (Some hashes) \<Rightarrow>
               AList.update ''pollVote''
                 (JObj [(''pollCreationMsgID'', JStr pollMsgID),
                        (''selectedOptions'', JArr (map JStr (poll_selected (hv_sha256 env)
                           (case GetPollOptions userID pollMsgID cm of None \<Rightarrow> [] | Some stored \<Rightarrow> stored) hashes))),
                        (''selectedHashesB64'', JArr (map (\<lambda>h. JStr (hv_base64 env h)) hashes))]) postmap
           | _ \<Rightarrow> postmap))"

text \<open>One \<^verbatim>\<open>if x := evt.Message.Get...(); x != nil\<close> of the media block; \<^term>\<open>None\<close> is a panic.\<close>

definition media_part ::
    "handler_env \<Rightarrow> string \<Rightarrow> MessageInfo \<Rightarrow> mediaS3Config \<Rightarrow> wa_media option \<Rightarrow> (wa_media \<Rightarrow> string) \<Rightarrow> (wa_media \<Rightarrow> (string \<times> json) list) \<Rightarrow>
     (string, json) gomap option \<times> srv \<Rightarrow> (string, json) gomap option \<times> srv" where
  "media_part env userID info s3cfg part ext extra = (\<lambda>(pm, s).
     case (pm, part) of
       (Some postmap, Some x) \<Rightarrow>
         (let chatJID = (if mi_IsGroup info then jv_String (mi_Chat info) else jv_String (mi_Sender info));
              (pm', fs, mgr, d) =
                processMedia ((hv_media env)\<lparr>me_download := md_Download x\<rparr>) (hv_store env) (hv_clock env) userID (md_Mimetype x) (ext x)
                  (\<not> mi_IsFromMe info) chatJID (mi_ID info) s3cfg postmap (extra x) (ss_files s) (ss_s3 s) (ss_db s)
          in (pm', s\<lparr>ss_files := fs, ss_s3 := mgr, ss_db := d\<rparr>))
     | _ \<Rightarrow> (pm, s))"

definition document_ext :: "handler_env \<Rightarrow> wa_media \<Rightarrow> string" where
  "document_ext env x = (case md_FileName x of None \<Rightarrow> ''.bin'' | Some f \<Rightarrow> hv_Ext env f)"

definition message_media ::
    "handler_env \<Rightarrow> string \<Rightarrow> mediaS3Config \<Rightarrow> message_event \<Rightarrow> (string, json) gomap option \<times> srv \<Rightarrow> (string, json) gomap option \<times> srv" where
  "message_media env userID s3cfg ev ps =
     (let info = ev_Info ev; msg = ev_Message ev; none = (\<lambda>_. [])
      in media_part env userID info s3cfg (m_Sticker msg) (\<lambda>_. ''.webp'')
           (\<lambda>x. [(''isSticker'', JBool True), (''stickerAnimated'', JBool (md_IsAnimated x))])
           (media_part env userID info s3cfg (m_Video msg) (\<lambda>_. ''.mp4'') none
           (media_part env userID info s3cfg (m_Document msg) (document_ext env) none
           (media_part env userID info s3cfg (m_Audio msg) (\<lambda>_. ''.ogg'') none
           (media_part env userID info s3cfg (m_Image msg) (\<lambda>_. ''.jpg'') none ps)))))"

definition history_limit :: "string \<Rightarrow> srv \<Rightarrow> int" where
  "history_limit token s =
     (case map_of (ss_cache s) token of
        None \<Rightarrow> 0
      | Some v \<Rightarrow> (case Atoi (Values_Get v ''History'') of None \<Rightarrow> 0 | Some n \<Rightarrow> n))"

definition media_link :: "(string, json) gomap \<Rightarrow> string" where
  "media_link postmap =
     (case map_of postmap ''s3'' of
        Some (JObj s3Data) \<Rightarrow> (case map_of s3Data ''url'' of Some (JStr url) \<Rightarrow> url | _ \<Rightarrow> [])
      | _ \<Rightarrow> [])"

definition message_history ::
    "handler_env \<Rightarrow> string \<Rightarrow> string \<Rightarrow> message_event \<Rightarrow> (string, json) gomap \<Rightarrow> srv \<Rightarrow> srv" where
  "message_history env userID token ev postmap s =
     (let historyLimit = history_limit token s
      in if historyLimit > 0 then
           (let (messageType, textContent, replyTo) = live_content (ev_Message ev);
                mediaLink = media_link postmap
            in if live_worth_saving messageType textContent mediaLink then
                 (let evtJSON = (case hv_marshalMessage env ev of None \<Rightarrow> ''{}'' | Some t \<Rightarrow> t);
                      chat = jv_String (mi_Chat (ev_Info ev))
                  in case on_db (saveMessageToHistory (hv_now env) userID chat (jv_String (mi_Sender (ev_Info ev))) (mi_ID (ev_Info ev))
                                   messageType textContent mediaLink replyTo evtJSON) s of
                       (Inl e, s1) \<Rightarrow> s1
                     | (Inr _, s1) \<Rightarrow> snd (on_db (trimMessageHistory userID chat historyLimit) s1))
               else s)
         else s)"

text \<open>The whole case: the event as it is left (a decrypted secret message replaces its content), the post map and
  the state.\<close>

definition handle_message ::
    "handler_env \<Rightarrow> MyClient \<Rightarrow> message_event \<Rightarrow> srv \<Rightarrow> (message_event \<times> (string, json) gomap) option \<times> srv" where
  "handle_message env mycli ev s =
     (let userID = mc_userID mycli; token = mc_token mycli;
          s1 = s\<lparr>ss_lastMessage := AList.update userID (ev_Info ev) (ss_lastMessage s)\<rparr>;
          (s3cfg, s2) = message_s3 token s1;
          s3 = (if ms_Enabled s3cfg = ''true'' \<and> (ms_MediaDelivery s3cfg = ''s3'' \<or> ms_MediaDelivery s3cfg = ''both'')
                then (case EnsureClientFromDB userID (ss_s3 s2) (ss_db s2) of (_, mgr, d) \<Rightarrow> s2\<lparr>ss_s3 := mgr, ss_db := d\<rparr>) else s2);
          pm1 = message_poll env userID ev (ss_cm s3) [(''type'', JStr ''Message'')];
          ev' = (if m_SecretEncrypted (ev_Message ev)
                 then (case hv_decrypt env ev of Inr (Some msg) \<Rightarrow> ev\<lparr>ev_Message := msg\<rparr> | _ \<Rightarrow> ev) else ev);
          (pm2, s4) = (if hv_skipMedia env then (Some pm1, s3) else message_media env userID s3cfg ev' (Some pm1, s3))
      in case pm2 of
           None \<Rightarrow> (None, s4)
         | Some pm \<Rightarrow> (Some (ev', pm), message_history env userID token ev' pm s4))"

section \<open>History synchronisation\<close>

definition sync_sender :: "handler_env \<Rightarrow> ref \<Rightarrow> JID \<Rightarrow> bool \<Rightarrow> jid \<Rightarrow> jid" where
  "sync_sender env c chat isFromMe participant =
     (if isFromMe then (if hv_owner env c = [] then ''me'' else hv_owner env c)
      else if jv_isGroup chat then participant
      else jv_String chat)"

text \<open>The sender in the info of a stored event; without a parsable one it is what \<^verbatim>\<open>types.ParseJID\<close> returned or the empty JID.\<close>

definition sync_info_sender :: "handler_env \<Rightarrow> ref \<Rightarrow> JID \<Rightarrow> bool \<Rightarrow> jid \<Rightarrow> JID" where
  "sync_info_sender env c chat isFromMe participant =
     (let parsed = (\<lambda>t. if t \<noteq> [] then fst (hv_ParseJID env t) else \<lparr>jv_User = [], jv_String = [], jv_isGroup = False\<rparr>)
      in if isFromMe then parsed (hv_owner env c)
         else if jv_isGroup chat then parsed participant
         else chat)"

definition sync_info :: "handler_env \<Rightarrow> ref \<Rightarrow> JID \<Rightarrow> message_id \<Rightarrow> bool \<Rightarrow> jid \<Rightarrow> string \<Rightarrow> nat \<Rightarrow> event_info" where
  "sync_info env c chat messageID isFromMe participant messageType timestamp =
     (let sender = sync_info_sender env c chat isFromMe participant
      in \<lparr>mi_ID = messageID, mi_Chat = chat, mi_Sender = sender, mi_IsFromMe = isFromMe, mi_IsGroup = jv_isGroup chat,
          mi_Timestamp = (if timestamp > 0 then int timestamp * 1000 else hv_now env), mi_Type = messageType,
          mi_PushName = (if \<not> isFromMe \<and> jv_User sender \<noteq> [] then
                           (case hv_contact env c sender of Some n \<Rightarrow> n | None \<Rightarrow> []) else [])\<rparr>)"

definition sync_one :: "handler_env \<Rightarrow> ref \<Rightarrow> string \<Rightarrow> JID \<Rightarrow> sync_message option \<Rightarrow> srv \<Rightarrow> srv" where
  "sync_one env c userID chat msg s =
     (case msg of
        None \<Rightarrow> s
      | Some sm \<Rightarrow>
     (case sm_Key sm of
        None \<Rightarrow> s
      | Some (messageID, isFromMe, participant) \<Rightarrow>
          (let senderJID = sync_sender env c chat isFromMe participant
           in if messageID = [] \<or> senderJID = [] then s
              else (case sm_Message sm of
                      None \<Rightarrow> s
                    | Some message \<Rightarrow>
                        (let (messageType, textContent, quoted) = sync_content message;
                             info = sync_info env c chat messageID isFromMe participant messageType (sm_Timestamp sm)
                         in if textContent \<noteq> [] \<or> (messageType \<noteq> ''text'' \<and> messageType \<noteq> ''reaction'') then
                              snd (on_db (saveMessageToHistory (hv_now env) userID (jv_String chat) senderJID messageID messageType
                                 textContent [] quoted (case hv_marshalSync env info message sm of None \<Rightarrow> ''{}'' | Some t \<Rightarrow> t)) s)
                            else s)))))"

definition sync_conversation ::
    "handler_env \<Rightarrow> ref \<Rightarrow> string \<Rightarrow> (string \<times> sync_message option list) option \<Rightarrow> srv \<Rightarrow> srv" where
  "sync_conversation env c userID conv s =
     (case conv of
        None \<Rightarrow> s
      | Some (convID, msgs) \<Rightarrow>
          (case hv_ParseJID env convID of
             (_, Some e) \<Rightarrow> s
           | (chat, None) \<Rightarrow> fold (sync_one env c userID chat) msgs s))"

definition history_sync ::
    "handler_env \<Rightarrow> ref \<Rightarrow> string \<Rightarrow> (string \<times> sync_message option list) option list \<Rightarrow> srv \<Rightarrow> srv" where
  "history_sync env c userID convs s = fold (sync_conversation env c userID) convs s"

section \<open>The handler\<close>

definition presence :: "handler_env \<Rightarrow> ref \<Rightarrow> srv \<Rightarrow> srv" where
  "presence env c s = s\<lparr>ss_wa := ss_wa s @ [WAPresence c]\<rparr>"

text \<open>\<open>post\<close> is the common end: the event with its type and state goes to the webhooks.\<close>

definition post ::
    "handler_env \<Rightarrow> ref \<Rightarrow> wa_event \<Rightarrow> (string, json) gomap \<Rightarrow> srv \<Rightarrow> hook_job list \<times> srv" where
  "post env m evt flds s = send_event (hv_dispatch env) m ((''event'', hv_eventJSON env evt) # flds) [] s"

text \<open>The cases of the switch on the client object \<open>m\<close>; the first component is \<^term>\<open>None\<close> when the handler panics.\<close>

definition posted :: "hook_job list \<times> srv \<Rightarrow> hook_job list option \<times> srv" where
  "posted r = (case r of (jobs, s') \<Rightarrow> (Some jobs, s'))"

definition connected_event :: "handler_env \<Rightarrow> ref \<Rightarrow> wa_event \<Rightarrow> srv \<Rightarrow> hook_job list option \<times> srv" where
  "connected_event env m evt s =
     (let mycli = my_objs (ss_cm s) m; c = mc_WAClient mycli
      in if hv_PushName env c = [] then posted (post env m evt [(''type'', JStr ''Connected'')] s)
         else (case on_db (update_user (mc_userID mycli) (\<lambda>r. r\<lparr>u_connected := Some 1\<rparr>)) (presence env c s) of
                 (Inl e, s1) \<Rightarrow> (Some [], s1)
               | (Inr _, s1) \<Rightarrow> posted (post env m evt [(''type'', JStr ''Connected'')] s1)))"

text \<open>After a pairing the query for \<^verbatim>\<open>days_to_sync_history\<close> fails, since no migration creates that column, so the
  goroutine behind it is never started.\<close>

definition pair_success :: "handler_env \<Rightarrow> ref \<Rightarrow> wa_event \<Rightarrow> jid \<Rightarrow> srv \<Rightarrow> hook_job list option \<times> srv" where
  "pair_success env m evt jid s =
     (let mycli = my_objs (ss_cm s) m
      in case on_db (update_user (mc_userID mycli) (\<lambda>r. r\<lparr>u_jid := jid\<rparr>)) s of
           (Inl e, s1) \<Rightarrow> (Some [], s1)
         | (Inr _, s1) \<Rightarrow>
             (let s2 = (case map_of (ss_cache s1) (mc_token mycli) of
                          None \<Rightarrow> s1
                        | Some v \<Rightarrow> cache_set (Values_Get v ''Token'') (updateUserInfo v ''Jid'' jid) s1);
                  (_, s3) = on_db (pg_exec (\<lambda>_. Inl ''column days_to_sync_history does not exist'' :: string + unit \<times> pg)) s2
              in posted (post env m evt [(''type'', JStr ''PairSuccess'')] s3)))"

definition receipt_event ::
    "handler_env \<Rightarrow> ref \<Rightarrow> wa_event \<Rightarrow> receipt_type \<Rightarrow> message_id list \<Rightarrow> srv \<Rightarrow> hook_job list option \<times> srv" where
  "receipt_event env m evt ty ids s =
     (case ty of
        ReceiptRead \<Rightarrow> posted (post env m evt [(''type'', JStr ''ReadReceipt''), (''state'', JStr ''Read'')] s)
      | ReceiptReadSelf \<Rightarrow> posted (post env m evt [(''type'', JStr ''ReadReceipt''), (''state'', JStr ''ReadSelf'')] s)
      | ReceiptDelivered \<Rightarrow>
          if ids = [] then (None, s)
          else posted (post env m evt [(''type'', JStr ''ReadReceipt''), (''state'', JStr ''Delivered'')] s)
      | ReceiptOther \<Rightarrow> (Some [], s))"

definition presence_event :: "handler_env \<Rightarrow> ref \<Rightarrow> wa_event \<Rightarrow> bool \<Rightarrow> srv \<Rightarrow> hook_job list option \<times> srv" where
  "presence_event env m evt unavailable s =
     posted (post env m evt [(''type'', JStr ''Presence''), (''state'', JStr (if unavailable then ''offline'' else ''online''))] s)"

text \<open>The deferred kill signal is sent at the end of every path.\<close>

definition logged_out :: "handler_env \<Rightarrow> ref \<Rightarrow> wa_event \<Rightarrow> srv \<Rightarrow> hook_job list option \<times> srv" where
  "logged_out env m evt s =
     (let uid = mc_userID (my_objs (ss_cm s) m)
      in case on_db (update_user uid (\<lambda>r. r\<lparr>u_connected := Some 0\<rparr>)) s of
           (Inl e, s1) \<Rightarrow> (Some [], send_kill uid s1)
         | (Inr _, s1) \<Rightarrow>
             (case post env m evt [(''type'', JStr ''LoggedOut'')] s1 of
                (jobs, s2) \<Rightarrow> (Some jobs, send_kill uid s2)))"

text \<open>The whole handler. The goroutine of a history synchronisation runs beside it; here it runs to its end after
  the webhook.\<close>

definition myEventHandler :: "handler_env \<Rightarrow> ref \<Rightarrow> wa_event \<Rightarrow> srv \<Rightarrow> hook_job list option \<times> srv" where
  "myEventHandler env m evt s =
     (let mycli = my_objs (ss_cm s) m; uid = mc_userID mycli; c = mc_WAClient mycli
      in case evt of
           AppStateSyncComplete critical \<Rightarrow>
             (Some [], if hv_PushName env c \<noteq> [] \<and> critical then presence env c s else s)
         | Connected \<Rightarrow> connected_event env m evt s
         | PushNameSetting \<Rightarrow> connected_event env m evt s
         | PairSuccess jid \<Rightarrow> pair_success env m evt jid s
         | StreamReplaced \<Rightarrow> (Some [], s)
         | Message ev \<Rightarrow>
             (case handle_message env mycli ev s of
                (None, s1) \<Rightarrow> (None, s1)
              | (Some (ev', flds), s1) \<Rightarrow> posted (post env m (Message ev') flds s1))
         | Receipt ty ids \<Rightarrow> receipt_event env m evt ty ids s
         | Presence unavailable \<Rightarrow> presence_event env m evt unavailable s
         | HistorySync convs \<Rightarrow>
             (case post env m evt [(''type'', JStr ''HistorySync'')] s of
                (jobs, s1) \<Rightarrow>
                  (Some jobs, case convs of None \<Rightarrow> s1 | Some cs \<Rightarrow> history_sync env c uid cs s1))
         | AppState \<Rightarrow> (Some [], s)
         | LoggedOut \<Rightarrow> logged_out env m evt s
         | Plain p \<Rightarrow> posted (post env m evt [(''type'', JStr (plain_type p))] s)
         | Unhandled \<Rightarrow> (Some [], s))"

lemmas handler_cases = myEventHandler_def connected_event_def pair_success_def receipt_event_def presence_event_def logged_out_def posted_def

end
