(* ===== verification/Dispatcher_Props.thy ===== *)
theory Dispatcher_Props
  imports Dispatcher Lifecycle_Props S3_Props History_Props Webhook_Props
begin

text \<open>
  Properties of the event handler: which events reach a webhook, that it keeps the state well formed and
  when it panics, what becomes of polls, and how the two ways into the message history agree.
\<close>

section \<open>What the parts of the handler keep\<close>

text \<open>The parts of the state with an invariant of their own.\<close>

definition server_ok :: "srv \<Rightarrow> bool" where
  "server_ok s \<longleftrightarrow> s3_wf (ss_s3 s) \<and> history_ok (ss_db s)"

lemma server_ok_frames [simp]:
  "server_ok (s\<lparr>ss_wa := x\<rparr>) = server_ok s" "server_ok (s\<lparr>ss_kill := y\<rparr>) = server_ok s" "server_ok (s\<lparr>ss_cache := z\<rparr>) = server_ok s"
  "server_ok (s\<lparr>ss_cm := c\<rparr>) = server_ok s" "server_ok (s\<lparr>ss_lastMessage := l\<rparr>) = server_ok s"
  by (simp_all add: server_ok_def)

lemma history_ok_users [simp]: "history_ok (d\<lparr>users_tbl := t\<rparr>) = history_ok d"
  by (simp add: history_ok_def)

lemma history_ok_update_user: "history_ok d \<Longrightarrow> history_ok (snd (update_user uid f d))"
  by (simp add: update_user_def pg_exec_def Let_def split: option.split)

lemma server_ok_send_kill: "server_ok s \<Longrightarrow> server_ok (send_kill uid s)"
  by (simp add: send_kill_def split: option.split bool.split)

lemma server_ok_post:
  assumes "post env m evt flds s = (jobs, s')" "server_ok s"
  shows "server_ok s'"
proof -
  from send_event_frame [OF assms(1) [unfolded post_def]] obtain subs n where "s' = s\<lparr>ss_db := (ss_db s)\<lparr>calls := n\<rparr>,
    ss_cm := (ss_cm s)\<lparr>my_objs := (my_objs (ss_cm s))(m := (my_objs (ss_cm s) m)\<lparr>mc_subscriptions := subs\<rparr>)\<rparr>\<rparr>" by blast
  with assms(2) show ?thesis by (simp add: server_ok_def)
qed

text \<open>A step that keeps the invariants and does not concern the sessions.\<close>

definition untouched :: "srv \<Rightarrow> srv \<Rightarrow> bool" where
  "untouched s s' \<longleftrightarrow> server_ok s' \<and> ss_cm s' = ss_cm s \<and> ss_cache s' = ss_cache s \<and> ss_kill s' = ss_kill s"

lemma untouched_refl: "server_ok s \<Longrightarrow> untouched s s"
  by (simp add: untouched_def)

lemma untouched_ok: "untouched s s' \<Longrightarrow> server_ok s'"
  by (simp add: untouched_def)

lemma untouched_trans: "untouched s s' \<Longrightarrow> untouched s' s'' \<Longrightarrow> untouched s s''"
  by (simp add: untouched_def)

lemma untouched_on_db:
  "server_ok s \<Longrightarrow> history_ok (snd (f (ss_db s))) \<Longrightarrow> untouched s (snd (on_db f s))"
  by (cases "f (ss_db s)") (simp add: server_ok_def on_db_def untouched_def)

lemma untouched_failed: "server_ok s \<Longrightarrow> untouched s (snd (on_db (pg_exec (\<lambda>_. Inl e :: string + unit \<times> pg)) s))"
  by (rule untouched_on_db) (auto simp: server_ok_def pg_exec_def Let_def split: option.split)

lemma untouched_update_user: "server_ok s \<Longrightarrow> untouched s (snd (on_db (update_user uid f) s))"
  by (rule untouched_on_db) (auto simp: server_ok_def intro: history_ok_update_user)

subsection \<open>Media\<close>

lemma Upload_db:
  assumes "UploadToS3 st now u key data mime m d = (r, m', d')"
  shows "\<exists>n. d' = d\<lparr>calls := n\<rparr>"
proof -
  obtain ok m1 d1 where e: "EnsureClientFromDB u m d = (ok, m1, d1)" by (rule prod_cases3)
  have "d' = d \<or> d' = d1"
    using assms e by (auto simp: UploadToS3_def Let_def split: option.splits if_splits)
  with EnsureClient_db [OF e] calls_self show ?thesis by blast
qed

lemma ProcessMediaForS3_wf:
  assumes "s3_wf m" "ProcessMediaForS3 st now u contact msg data mime fname inc m d = (r, m', d')"
  shows "r \<noteq> None" "s3_wf m'" "\<exists>n. d' = d\<lparr>calls := n\<rparr>"
proof -
  obtain r1 m1 d1 where up: "UploadToS3 st now u (GenerateS3Key now u contact msg mime inc) data mime m d = (r1, m1, d1)"
    by (rule prod_cases3)
  have eq: "m' = m1" "d' = d1" using assms(2) up by (auto simp: ProcessMediaForS3_def Let_def split: sum.splits)
  show "s3_wf m'" "\<exists>n. d' = d\<lparr>calls := n\<rparr>" using Upload_wf(1) [OF assms(1) up] Upload_db [OF up] by (simp_all add: eq)
  show "r \<noteq> None"
    using assms(2) up Upload_wf(2) [OF assms(1) up] by (cases r1) (auto simp: ProcessMediaForS3_def Let_def)
qed

text \<open>The post map keeps its type, whatever the media block adds to it.\<close>

lemma set_all_get: "k \<notin> fst ` set kvs \<Longrightarrow> map_of (set_all kvs pm) k = map_of pm k"
  unfolding set_all_def by (induction kvs arbitrary: pm) (auto simp: gomap_simps)

lemma processMedia_ok:
  assumes "s3_wf m" "processMedia env st now uid mime ext inc chat msg cfg pm extra fs m d = (r, fs', m', d')"
    "''type'' \<notin> fst ` set extra"
  shows "\<exists>pm'. r = Some pm' \<and> map_of pm' ''type'' = map_of pm ''type''" "s3_wf m'" "\<exists>n. d' = d\<lparr>calls := n\<rparr>"
proof -
  let ?path = "me_join env (me_join env ''/tmp'' (''user_'' @ uid)) (msg @ (case me_extensions env mime of [] \<Rightarrow> ext | e # _ \<Rightarrow> e))"
  define data where "data = (case me_download env of Inl _ \<Rightarrow> [] | Inr x \<Rightarrow> x)"
  obtain q m1 d1 where p: "ProcessMediaForS3 st now uid chat msg data mime (me_base env ?path) inc m d = (q, m1, d1)"
    by (rule prod_cases3)
  note pw = ProcessMediaForS3_wf [OF assms(1) p]
  have "(\<exists>pm'. r = Some pm' \<and> map_of pm' ''type'' = map_of pm ''type'') \<and> (m' = m \<and> d' = d \<or> m' = m1 \<and> d' = d1)"
    using assms(2,3) p pw(1)
    by (auto simp: processMedia_def Let_def data_def set_all_get gomap_simps split: if_splits sum.splits option.splits prod.splits)
  with pw(2,3) assms(1) calls_self
  show "\<exists>pm'. r = Some pm' \<and> map_of pm' ''type'' = map_of pm ''type''" "s3_wf m'" "\<exists>n. d' = d\<lparr>calls := n\<rparr>" by blast+
qed


lemma media_part_ok:
  assumes "server_ok s" "\<And>x. ''type'' \<notin> fst ` set (extra x)" "media_part env uid info cfg part ext extra (Some pm, s) = (r, s')"
  shows "\<exists>pm'. r = Some pm' \<and> map_of pm' ''type'' = map_of pm ''type''" "untouched s s'"
proof -
  have "(\<exists>pm'. r = Some pm' \<and> map_of pm' ''type'' = map_of pm ''type'') \<and> untouched s s'"
  proof (cases part)
    case None
    with assms show ?thesis by (auto simp: media_part_def untouched_def)
  next
    case (Some x)
    let ?chat = "if mi_IsGroup info then jv_String (mi_Chat info) else jv_String (mi_Sender info)"
    obtain q fs m d where p: "processMedia ((hv_media env)\<lparr>me_download := md_Download x\<rparr>) (hv_store env) (hv_clock env) uid (md_Mimetype x) (ext x)
        (\<not> mi_IsFromMe info) ?chat (mi_ID info) cfg pm (extra x) (ss_files s) (ss_s3 s) (ss_db s) = (q, fs, m, d)"
      by (rule prod_cases4)
    have eq: "r = q" "s' = s\<lparr>ss_files := fs, ss_s3 := m, ss_db := d\<rparr>"
      using assms(3) Some p by (auto simp: media_part_def Let_def)
    have "s3_wf (ss_s3 s)" using assms(1) by (simp add: server_ok_def)
    from processMedia_ok [OF this p assms(2)] assms(1) show ?thesis unfolding eq by (auto simp: server_ok_def untouched_def)
  qed
  then show "\<exists>pm'. r = Some pm' \<and> map_of pm' ''type'' = map_of pm ''type''" "untouched s s'" by blast+
qed

definition typed_as :: "srv \<Rightarrow> string \<Rightarrow> (string, json) gomap option \<times> srv \<Rightarrow> bool" where
  "typed_as s ty ps \<longleftrightarrow> (\<exists>pm. fst ps = Some pm \<and> map_of pm ''type'' = Some (JStr ty)) \<and> untouched s (snd ps)"

lemma media_part_typed:
  assumes "typed_as s ty ps" "\<And>x. ''type'' \<notin> fst ` set (extra x)"
  shows "typed_as s ty (media_part env uid info cfg part ext extra ps)"
proof -
  obtain pm t where ps: "ps = (Some pm, t)" and t: "map_of pm ''type'' = Some (JStr ty)" "untouched s t"
    using assms(1) by (cases ps) (auto simp: typed_as_def)
  obtain r t' where m: "media_part env uid info cfg part ext extra (Some pm, t) = (r, t')" by (rule prod.exhaust)
  from media_part_ok [OF untouched_ok [OF t(2)] assms(2) m] t show ?thesis
    unfolding ps m typed_as_def by (auto intro: untouched_trans)
qed

lemma message_media_typed: "typed_as s ty ps \<Longrightarrow> typed_as s ty (message_media env uid cfg ev ps)"
  unfolding message_media_def Let_def by (intro media_part_typed) simp_all

lemma message_s3_untouched:
  assumes "server_ok s"
  shows "untouched s (snd (message_s3 token s))"
proof -
  have "snd (message_s3 token s) = s \<or>
      snd (message_s3 token s) = snd (on_db (pg_exec (\<lambda>_. Inl ''operator does not exist: boolean = integer'' :: string + unit \<times> pg)) s)"
    by (simp add: message_s3_def split: option.split)
  then show ?thesis using untouched_failed [OF assms] untouched_refl [OF assms] by metis
qed

lemma Ensure_untouched:
  assumes "server_ok s" "EnsureClientFromDB uid (ss_s3 s) (ss_db s) = (b, mgr, d)"
  shows "untouched s (s\<lparr>ss_s3 := mgr, ss_db := d\<rparr>)"
  using assms Ensure_wf(1) [OF _ assms(2)] EnsureClient_db [OF assms(2)] by (auto simp: untouched_def server_ok_def)

subsection \<open>History\<close>

lemma message_history_untouched:
  assumes "server_ok s"
  shows "untouched s (message_history env uid token ev pm s)"
proof -
  obtain ty tx rp where c: "live_content (ev_Message ev) = (ty, tx, rp)" by (rule prod_cases3)
  let ?save = "saveMessageToHistory (hv_now env) uid (jv_String (mi_Chat (ev_Info ev))) (jv_String (mi_Sender (ev_Info ev))) (mi_ID (ev_Info ev))
    ty tx (media_link pm) rp (case hv_marshalMessage env ev of None \<Rightarrow> ''{}'' | Some t \<Rightarrow> t)"
  obtain r s1 where sv: "on_db ?save s = (r, s1)" by (rule prod.exhaust)
  have 1: "untouched s s1" using untouched_on_db [of s ?save] assms sv by (simp add: history_ok_save server_ok_def)
  let ?s2 = "snd (on_db (trimMessageHistory uid (jv_String (mi_Chat (ev_Info ev))) (history_limit token s)) s1)"
  have 2: "untouched s1 ?s2" using untouched_ok [OF 1] by (intro untouched_on_db) (simp_all add: history_ok_trim server_ok_def)
  have "message_history env uid token ev pm s \<in> {s, s1, ?s2}"
    using sv c by (auto simp: message_history_def Let_def split: sum.splits)
  then show ?thesis using 1 untouched_trans [OF 1 2] untouched_refl [OF assms] by auto
qed

lemma sync_one_untouched:
  assumes "server_ok s"
  shows "untouched s (sync_one env c uid chat msg s)"
proof -
  have "untouched s (snd (on_db (saveMessageToHistory (hv_now env) uid (jv_String chat) sd m ty tx [] q dj) s))" for sd m ty tx q dj
    using assms by (intro untouched_on_db) (simp_all add: history_ok_save server_ok_def)
  then show ?thesis using untouched_refl [OF assms] by (simp add: sync_one_def Let_def split: option.split prod.split)
qed

lemma untouched_fold:
  assumes "\<And>x s. server_ok s \<Longrightarrow> untouched s (f x s)" "server_ok s"
  shows "untouched s (fold f xs s)"
  using assms(2)
proof (induction xs arbitrary: s)
  case Nil
  then show ?case by (simp add: untouched_refl)
next
  case (Cons x xs)
  from untouched_trans [OF assms(1) [OF Cons.prems] Cons.IH [OF untouched_ok [OF assms(1) [OF Cons.prems]]]] show ?case by simp
qed

lemma history_sync_untouched: "server_ok s \<Longrightarrow> untouched s (history_sync env c uid convs s)"
  unfolding history_sync_def
  by (rule untouched_fold) (auto simp: sync_conversation_def intro: untouched_fold sync_one_untouched untouched_refl split: option.split prod.split)


subsection \<open>The whole handler\<close>

lemma handle_message_ok:
  assumes "server_ok s" "handle_message env mycli ev s = (r, s')"
  shows "\<exists>ev' pm. r = Some (ev', pm) \<and> map_of pm ''type'' = Some (JStr ''Message'')" "untouched s s'"
proof -
  let ?uid = "mc_userID mycli" and ?token = "mc_token mycli"
  let ?s1 = "s\<lparr>ss_lastMessage := AList.update ?uid (ev_Info ev) (ss_lastMessage s)\<rparr>"
  obtain cfg s2 where c: "message_s3 ?token ?s1 = (cfg, s2)" by (rule prod.exhaust)
  have 2: "untouched s s2" using message_s3_untouched [of ?s1 ?token] c assms(1) by (simp add: untouched_def)
  obtain b mgr d where e: "EnsureClientFromDB ?uid (ss_s3 s2) (ss_db s2) = (b, mgr, d)" by (rule prod_cases3)
  define s3 where "s3 = (if ms_Enabled cfg = ''true'' \<and> (ms_MediaDelivery cfg = ''s3'' \<or> ms_MediaDelivery cfg = ''both'')
    then s2\<lparr>ss_s3 := mgr, ss_db := d\<rparr> else s2)"
  have 3: "untouched s s3" using 2 Ensure_untouched [OF untouched_ok [OF 2] e] by (auto simp: s3_def intro: untouched_trans)
  define pm1 where "pm1 = message_poll env ?uid ev (ss_cm s3) [(''type'', JStr ''Message'')]"
  have pm1: "map_of pm1 ''type'' = Some (JStr ''Message'')"
    by (simp add: pm1_def message_poll_def gomap_simps split: option.split sum.split)
  define ev' where "ev' = (if m_SecretEncrypted (ev_Message ev)
    then (case hv_decrypt env ev of Inr (Some msg) \<Rightarrow> ev\<lparr>ev_Message := msg\<rparr> | _ \<Rightarrow> ev) else ev)"
  define ps where "ps = (if hv_skipMedia env then (Some pm1, s3) else message_media env ?uid cfg ev' (Some pm1, s3))"
  have "typed_as s ''Message'' (Some pm1, s3)" using pm1 3 by (simp add: typed_as_def)
  then have "typed_as s ''Message'' ps" using message_media_typed by (simp add: ps_def)
  then obtain pm s4 where 4: "ps = (Some pm, s4)" "map_of pm ''type'' = Some (JStr ''Message'')" "untouched s s4"
    by (cases ps) (auto simp: typed_as_def)
  have "handle_message env mycli ev s = (case ps of (None, t) \<Rightarrow> (None, t) | (Some q, t) \<Rightarrow> (Some (ev', q), message_history env ?uid ?token ev' q t))"
    unfolding handle_message_def Let_def c prod.case e s3_def [symmetric] pm1_def [symmetric] ev'_def [symmetric] ps_def [symmetric]
    by (simp split: prod.split option.split)
  then have "r = Some (ev', pm)" "s' = message_history env ?uid ?token ev' pm s4" using assms(2) by (simp_all add: 4(1))
  then show "\<exists>ev' pm. r = Some (ev', pm) \<and> map_of pm ''type'' = Some (JStr ''Message'')" "untouched s s'"
    using 4 message_history_untouched [OF untouched_ok [OF 4(3)]] by (auto intro: untouched_trans)
qed


text \<open>The type under which an event is posted, if it ever is.\<close>

fun event_type :: "wa_event \<Rightarrow> string option" where
  "event_type Connected = Some ''Connected''"
| "event_type PushNameSetting = Some ''Connected''"
| "event_type (PairSuccess _) = Some ''PairSuccess''"
| "event_type (Message _) = Some ''Message''"
| "event_type (Receipt ty _) = (if ty = ReceiptOther then None else Some ''ReadReceipt'')"
| "event_type (Presence _) = Some ''Presence''"
| "event_type (HistorySync _) = Some ''HistorySync''"
| "event_type LoggedOut = Some ''LoggedOut''"
| "event_type (Plain p) = Some (plain_type p)"
| "event_type _ = None"

text \<open>The handler returns, the invariants hold, and what it posts is one event of type \<open>ty\<close> on the client
  object as it was.\<close>

definition handled :: "handler_env \<Rightarrow> ref \<Rightarrow> srv \<Rightarrow> string option \<Rightarrow> hook_job list option \<times> srv \<Rightarrow> bool" where
  "handled env m s ty rs \<longleftrightarrow> server_ok (snd rs) \<and> (\<exists>jobs. fst rs = Some jobs \<and>
     (jobs = [] \<or> (\<exists>evt flds s1 s2 t. post env m evt flds s1 = (jobs, s2) \<and> ty = Some t \<and> map_of flds ''type'' = Some (JStr t) \<and>
        ss_cm s1 = ss_cm s \<and> ss_cm (snd rs) = ss_cm s2)))"

lemma handled_silent: "server_ok s' \<Longrightarrow> handled env m s ty (Some [], s')"
  by (simp add: handled_def)

lemma handled_post:
  assumes "server_ok s1" "ss_cm s1 = ss_cm s" "map_of flds ''type'' = Some (JStr t)"
    "\<And>s2. server_ok s2 \<Longrightarrow> server_ok (g s2) \<and> ss_cm (g s2) = ss_cm s2"
  shows "handled env m s (Some t) (case post env m evt flds s1 of (jobs, s2) \<Rightarrow> (Some jobs, g s2))"
proof -
  obtain jobs s2 where p: "post env m evt flds s1 = (jobs, s2)" by (rule prod.exhaust)
  from assms(4) [OF server_ok_post [OF p assms(1)]] show ?thesis
    unfolding p prod.case handled_def fst_conv snd_conv using p assms(2,3) by blast
qed

lemmas handled_post_id = handled_post [where g = "\<lambda>s. s", simplified]

lemma handled_connected:
  assumes "server_ok s"
  shows "handled env m s (Some ''Connected'') (connected_event env m evt s)"
proof -
  let ?uid = "mc_userID (my_objs (ss_cm s) m)" and ?c = "mc_WAClient (my_objs (ss_cm s) m)"
  have ok: "server_ok (presence env ?c s)" "ss_cm (presence env ?c s) = ss_cm s" using assms by (simp_all add: presence_def)
  obtain r s1 where u: "on_db (update_user ?uid (\<lambda>r. r\<lparr>u_connected := Some 1\<rparr>)) (presence env ?c s) = (r, s1)" by (rule prod.exhaust)
  have "untouched (presence env ?c s) s1" using untouched_update_user [OF ok(1), of ?uid] u by (metis snd_conv)
  then have s1: "server_ok s1" "ss_cm s1 = ss_cm s" using ok(2) by (simp_all add: untouched_def)
  show ?thesis
  proof (cases "hv_PushName env ?c = []")
    case True
    then show ?thesis using handled_post_id [OF assms refl] by (simp add: connected_event_def posted_def)
  next
    case False
    then show ?thesis using handled_silent [OF s1(1)] handled_post_id [OF s1]
      by (cases r) (simp_all add: connected_event_def posted_def u)
  qed
qed

lemma handler_handled:
  assumes "server_ok s" "evt \<noteq> Receipt ReceiptDelivered []"
  shows "handled env m s (event_type evt) (myEventHandler env m evt s)"
proof (cases evt)
  case (AppStateSyncComplete b)
  then show ?thesis using assms(1) by (simp add: handler_cases Let_def presence_def handled_silent)
next
  case Connected
  then show ?thesis using handled_connected [OF assms(1)] by (simp add: myEventHandler_def Let_def)
next
  case PushNameSetting
  then show ?thesis using handled_connected [OF assms(1)] by (simp add: myEventHandler_def Let_def)
next
  case (PairSuccess jid)
  let ?my = "my_objs (ss_cm s) m"
  obtain r s1 where u: "on_db (update_user (mc_userID ?my) (\<lambda>r. r\<lparr>u_jid := jid\<rparr>)) s = (r, s1)" by (rule prod.exhaust)
  have 1: "untouched s s1" using untouched_update_user [OF assms(1), of "mc_userID ?my"] u by (metis snd_conv)
  define s2 where "s2 = (case map_of (ss_cache s1) (mc_token ?my) of None \<Rightarrow> s1
    | Some v \<Rightarrow> cache_set (Values_Get v ''Token'') (updateUserInfo v ''Jid'' jid) s1)"
  have 2: "server_ok s2" "ss_cm s2 = ss_cm s" using 1 by (auto simp: s2_def untouched_def cache_set_def split: option.split)
  obtain q s3 where f: "on_db (pg_exec (\<lambda>_. Inl ''column days_to_sync_history does not exist'' :: string + unit \<times> pg)) s2 = (q, s3)" by (rule prod.exhaust)
  have 3: "server_ok s3" "ss_cm s3 = ss_cm s" using untouched_failed [OF 2(1)] f 2(2) unfolding untouched_def by (metis snd_conv)+
  show ?thesis
  proof (cases r)
    case (Inl e)
    then show ?thesis using 1 PairSuccess u by (simp add: handler_cases Let_def untouched_def handled_silent)
  next
    case (Inr x)
    have "myEventHandler env m evt s = (case post env m evt [(''type'', JStr ''PairSuccess'')] s3 of (jobs, s') \<Rightarrow> (Some jobs, s'))"
      unfolding PairSuccess handler_cases Let_def wa_event.case u Inr prod.case sum.case s2_def [symmetric] f by simp
    then show ?thesis using handled_post_id [OF 3] PairSuccess by simp
  qed
next
  case StreamReplaced
  then show ?thesis using assms(1) by (simp add: handler_cases handled_silent)
next
  case (Message ev)
  obtain r s1 where h: "handle_message env (my_objs (ss_cm s) m) ev s = (r, s1)" by (rule prod.exhaust)
  obtain ev' pm where pm: "r = Some (ev', pm)" "map_of pm ''type'' = Some (JStr ''Message'')" using handle_message_ok(1) [OF assms(1) h] by blast
  have "server_ok s1" "ss_cm s1 = ss_cm s" using handle_message_ok(2) [OF assms(1) h] by (simp_all add: untouched_def)
  from handled_post_id [OF this pm(2)] show ?thesis using Message by (simp add: handler_cases Let_def h pm(1))
next
  case (Receipt ty ids)
  then show ?thesis using assms handled_post_id [OF assms(1) refl] by (cases ty) (simp_all add: handler_cases Let_def handled_silent)
next
  case (Presence b)
  then show ?thesis using handled_post_id [OF assms(1) refl] by (simp add: handler_cases Let_def)
next
  case (HistorySync convs)
  let ?g = "\<lambda>s1. case convs of None \<Rightarrow> s1 | Some cs \<Rightarrow> history_sync env (mc_WAClient (my_objs (ss_cm s) m)) (mc_userID (my_objs (ss_cm s) m)) cs s1"
  have "server_ok (?g s2) \<and> ss_cm (?g s2) = ss_cm s2" if "server_ok s2" for s2
    using that history_sync_untouched [OF that] by (auto simp: untouched_def split: option.split)
  from handled_post [OF assms(1) refl _ this] HistorySync show ?thesis by (simp add: handler_cases Let_def)
next
  case AppState
  then show ?thesis using assms(1) by (simp add: handler_cases handled_silent)
next
  case LoggedOut
  let ?uid = "mc_userID (my_objs (ss_cm s) m)"
  obtain r s1 where u: "on_db (update_user ?uid (\<lambda>r. r\<lparr>u_connected := Some 0\<rparr>)) s = (r, s1)" by (rule prod.exhaust)
  have "untouched s s1" using untouched_update_user [OF assms(1), of ?uid] u by (metis snd_conv)
  then have s1: "server_ok s1" "ss_cm s1 = ss_cm s" by (simp_all add: untouched_def)
  have k: "server_ok s2 \<Longrightarrow> server_ok (send_kill ?uid s2) \<and> ss_cm (send_kill ?uid s2) = ss_cm s2" for s2
    by (simp add: server_ok_send_kill send_kill_cm)
  show ?thesis using LoggedOut k [OF s1(1)] handled_post [OF s1 _ k] by (cases r) (simp_all add: handler_cases Let_def u handled_silent)
next
  case (Plain p)
  then show ?thesis using handled_post_id [OF assms(1) refl] by (simp add: handler_cases Let_def)
next
  case Unhandled
  then show ?thesis using assms(1) by (simp add: handler_cases handled_silent)
qed


section \<open>Webhooks\<close>

fun job_user :: "hook_job \<Rightarrow> string" where
  "job_user (CallHook _ _ uid _) = uid"
| "job_user (CallHookFile _ _ uid _ _) = uid"

lemma sendEvent_jobs:
  assumes "sendEventWithWebHook denv cache my pm path d = (jobs, my', d')" "jobs \<noteq> []" "map_of pm ''type'' = Some (JStr ty)"
  shows "ty \<in> set (mc_subscriptions my') \<or> ''All'' \<in> set (mc_subscriptions my')" "list_all (\<lambda>j. job_user j = mc_userID my) jobs"
proof -
  obtain r m1 d1 where u: "updateAndGetUserSubscriptions cache my d = (r, m1, d1)" by (rule prod_cases3)
  have sub: "r = Inr subs \<Longrightarrow> mc_subscriptions m1 = subs" for subs
    using u by (auto simp: updateAndGetUserSubscriptions_def Let_def split: option.splits sum.splits prod.splits)
  show "ty \<in> set (mc_subscriptions my') \<or> ''All'' \<in> set (mc_subscriptions my')"
    using assms u sub by (auto simp: sendEventWithWebHook_def checkIfSubscribedToEvent_def Let_def split: sum.splits if_splits option.splits)
  show "list_all (\<lambda>j. job_user j = mc_userID my) jobs"
    using assms u by (auto simp: sendEventWithWebHook_def sendToUserWebHookWithHmac_def sendToGlobalWebHook_def Let_def
        split: sum.splits if_splits option.splits)
qed

lemma plain_type_valid: "isValidEventType (plain_type p)"
  unfolding isValidEventType_iff supportedEventTypes_def by (cases p) simp_all

lemma event_type_valid: "event_type evt = Some ty \<Longrightarrow> isValidEventType ty"
proof -
  have v: "isValidEventType ''Connected''" "isValidEventType ''PairSuccess''" "isValidEventType ''Message''" "isValidEventType ''ReadReceipt''"
    "isValidEventType ''Presence''" "isValidEventType ''HistorySync''" "isValidEventType ''LoggedOut''"
    unfolding isValidEventType_iff supportedEventTypes_def by simp_all
  have "case event_type evt of None \<Rightarrow> True | Some t \<Rightarrow> isValidEventType t" by (cases evt) (simp_all add: v plain_type_valid)
  then show "event_type evt = Some ty \<Longrightarrow> isValidEventType ty" by simp
qed

text \<open>
  C12. A webhook is called only for an event whose type is one of the supported types of constants.go and that
  the user subscribed to, by its name or by \<^verbatim>\<open>All\<close>, at the time of the event (the subscriptions the client
  object then has); and it is called for the user of the client object that received the event and for nobody else.
\<close>

theorem events_need_subscription:
  assumes "server_ok s" "myEventHandler env m evt s = (Some jobs, s')" "jobs \<noteq> []"
  shows "\<exists>ty. event_type evt = Some ty \<and> isValidEventType ty \<and>
    (ty \<in> set (mc_subscriptions (my_objs (ss_cm s') m)) \<or> ''All'' \<in> set (mc_subscriptions (my_objs (ss_cm s') m))) \<and>
    list_all (\<lambda>j. job_user j = mc_userID (my_objs (ss_cm s) m)) jobs"
proof -
  have "evt \<noteq> Receipt ReceiptDelivered []" using assms(2) by (auto simp: handler_cases Let_def)
  from handler_handled [OF assms(1) this, of env m] assms(2,3) obtain e flds s1 s2 t where
    p: "post env m e flds s1 = (jobs, s2)" "event_type evt = Some t" "map_of flds ''type'' = Some (JStr t)" "ss_cm s1 = ss_cm s" "ss_cm s' = ss_cm s2"
    by (auto simp: handled_def)
  obtain j my d where e: "sendEventWithWebHook (hv_dispatch env) (ss_cache s1) (my_objs (ss_cm s1) m) ((''event'', hv_eventJSON env e) # flds) [] (ss_db s1) = (j, my, d)"
    by (rule prod_cases3)
  have j: "j = jobs" "my_objs (ss_cm s') m = my" using p(1,5) e by (auto simp: post_def send_event_def)
  have "map_of ((''event'', hv_eventJSON env e) # flds) ''type'' = Some (JStr t)" using p(3) by simp
  from sendEvent_jobs [OF e [unfolded j(1)] assms(3) this] event_type_valid [OF p(2)] p(2,4) j(2) show ?thesis by auto
qed

text \<open>
  C14. The handler keeps the invariants of the S3 manager and of the message history, whatever event arrives,
  and it panics on exactly one kind of event, a delivery receipt without message ids.
\<close>

theorem handler_keeps_invariants:
  assumes "server_ok s"
  shows "server_ok (snd (myEventHandler env m evt s)) \<and>
    (fst (myEventHandler env m evt s) = None \<longleftrightarrow> evt = Receipt ReceiptDelivered [])"
proof (cases "evt = Receipt ReceiptDelivered []")
  case True
  then show ?thesis using assms by (simp add: handler_cases Let_def)
next
  case False
  from handler_handled [OF assms False, of env m] show ?thesis using False by (auto simp: handled_def)
qed


section \<open>Samples\<close>

definition sample_handler :: handler_env where
  "sample_handler =
     \<lparr>hv_dispatch = \<lparr>de_marshal = (\<lambda>_. Some ''{}''), de_b64 = (\<lambda>_. ([], None)), de_globalWebhook = [], de_globalHMACKeyEncrypted = []\<rparr>,
      hv_media = sample_media, hv_store = sample_store,
      hv_clock = \<lparr>ck_year = 2025, ck_month = 7, ck_day = 3, ck_second = 9, ck_unixNano = 0\<rparr>,
      hv_now = 0, hv_skipMedia = False, hv_PushName = (\<lambda>_. ''me''), hv_owner = (\<lambda>_. ''5511''),
      hv_ParseJID = (\<lambda>u. (\<lparr>jv_User = u, jv_String = u, jv_isGroup = False\<rparr>, None)), hv_contact = (\<lambda>_ _. None), hv_eventJSON = (\<lambda>_. JNull),
      hv_marshalMessage = (\<lambda>_. None), hv_marshalSync = (\<lambda>_ _ _. None), hv_pollVote = (\<lambda>_. Inr (Some [to_bytes ''b'', to_bytes ''a''])),
      hv_decrypt = (\<lambda>_. Inr None), hv_sha256 = to_bytes, hv_base64 = of_bytes, hv_Ext = (\<lambda>_. [])\<rparr>"

definition subscribed_srv :: srv where
  "subscribed_srv = (idle_srv [])\<lparr>ss_cache := [([], [(''Events'', ''All''), (''Webhook'', ''http://h'')])]\<rparr>"

lemma subscribed_ok: "server_ok subscribed_srv"
  by (simp add: subscribed_srv_def idle_srv_def server_ok_def s3_wf_new history_ok_def)

theorem events_need_subscription_witness:
  "\<exists>jobs s'. myEventHandler sample_handler 0 (Plain CallOffer) subscribed_srv = (Some jobs, s') \<and> jobs \<noteq> [] \<and>
     list_all (\<lambda>j. job_user j = mc_userID (my_objs (ss_cm subscribed_srv) 0)) jobs"
proof -
  obtain r s' where h: "myEventHandler sample_handler 0 (Plain CallOffer) subscribed_srv = (r, s')" by (rule prod.exhaust)
  have sub: "parse_subscriptions ''All'' = [''All'']" by code_simp
  obtain jobs where j: "r = Some jobs" "jobs \<noteq> []"
    using h by (auto simp: handler_cases Let_def post_def send_event_def sendEventWithWebHook_def updateAndGetUserSubscriptions_def
        subscribed_srv_def idle_srv_def NewClientManager_def getUserWebhookUrl_def Values_Get_def sub checkIfSubscribedToEvent_def
        sample_handler_def sendToUserWebHookWithHmac_def)
  with events_need_subscription [OF subscribed_ok h [unfolded j(1)] j(2)] h show ?thesis by blast
qed

theorem handler_keeps_invariants_witness:
  "server_ok (snd (myEventHandler sample_handler 0 (Receipt ReceiptDelivered []) subscribed_srv)) \<and>
   fst (myEventHandler sample_handler 0 (Receipt ReceiptDelivered []) subscribed_srv) = None"
  using handler_keeps_invariants [OF subscribed_ok, of sample_handler 0 "Receipt ReceiptDelivered []"] by blast


section \<open>Polls\<close>

lemma fold_update_map_of:
  "map_of (fold (\<lambda>x. AList.update (f x) x) xs m) k = (case find (\<lambda>x. f x = k) (rev xs) of Some x \<Rightarrow> Some x | None \<Rightarrow> map_of m k)"
  by (induction xs arbitrary: m) (auto simp: gomap_simps find_append split: option.split)

lemma find_inj:
  assumes "inj_on f (set xs)" "x \<in> set xs"
  shows "find (\<lambda>y. f y = f x) xs = Some x"
  using assms by (induction xs) (auto simp: inj_on_def)

lemma poll_selected_votes:
  assumes "inj_on sha (set opts)" "set votes \<subseteq> set opts"
  shows "poll_selected sha opts (map sha votes) = votes"
proof -
  have "map_of (fold (\<lambda>opt. AList.update (sha opt) opt) opts []) (sha v) = Some v" if "v \<in> set opts" for v
    using find_inj [of sha "rev opts" v] assms(1) that by (simp add: fold_update_map_of)
  with assms(2) show ?thesis
    unfolding poll_selected_def Let_def by (induction votes) (simp_all add: List.map_filter_simps)
qed

lemma GetPollOptions_Set: "GetPollOptions uid pid (SetPollOptions uid pid opts cm) = Some opts"
  by (simp add: GetPollOptions_def SetPollOptions_def Let_def gomap_simps)

text \<open>
  Votes are decoded: when the options of a poll were stored as the poll was sent and SHA-256 tells them
  apart, the webhook of a vote names exactly the options that were selected, in the order of the vote.
\<close>

theorem poll_votes_decoded:
  assumes "inj_on (hv_sha256 env) (set opts)" "set votes \<subseteq> set opts" "m_PollUpdate (ev_Message ev) = Some pid"
    "hv_pollVote env ev = Inr (Some (map (hv_sha256 env) votes))"
  shows "\<exists>fields'. map_of (message_poll env uid ev (SetPollOptions uid pid opts cm) pm) ''pollVote'' = Some (JObj fields') \<and>
    map_of fields' ''pollCreationMsgID'' = Some (JStr pid) \<and> map_of fields' ''selectedOptions'' = Some (JArr (map JStr votes))"
  using assms by (simp add: message_poll_def gomap_simps GetPollOptions_Set poll_selected_votes)

definition vote_event :: message_event where
  "vote_event = \<lparr>ev_Info = \<lparr>mi_ID = ''V'', mi_Chat = \<lparr>jv_User = ''c'', jv_String = ''c'', jv_isGroup = False\<rparr>,
       mi_Sender = \<lparr>jv_User = ''s'', jv_String = ''s'', jv_isGroup = False\<rparr>, mi_IsFromMe = False, mi_IsGroup = False, mi_Timestamp = 0\<rparr>,
     ev_Message = no_message\<lparr>m_PollUpdate := Some ''P''\<rparr>\<rparr>"

theorem poll_votes_decoded_witness:
  "\<exists>fields'. map_of (message_poll sample_handler ''u'' vote_event
       (SetPollOptions ''u'' ''P'' [''a'', ''b'', ''c''] (NewClientManager (\<lambda>_. undefined))) []) ''pollVote'' = Some (JObj fields') \<and>
     map_of fields' ''pollCreationMsgID'' = Some (JStr ''P'') \<and> map_of fields' ''selectedOptions'' = Some (JArr [JStr ''b'', JStr ''a''])"
proof -
  have "inj to_bytes" by (rule inj_on_inverseI [of _ of_bytes]) simp
  then have "inj_on (hv_sha256 sample_handler) (set [''a'', ''b'', ''c''])" by (auto simp: sample_handler_def inj_on_def)
  from poll_votes_decoded [OF this, of "[''b'', ''a'']" vote_event "''P''" "''u''" "NewClientManager (\<lambda>_. undefined)" "[]"]
  show ?thesis by (simp add: vote_event_def sample_handler_def)
qed

section \<open>The two ways into the history\<close>

text \<open>Text only, or media only.\<close>

definition only_text :: "wa_message \<Rightarrow> bool" where
  "only_text msg \<longleftrightarrow> (m_Conversation msg \<noteq> [] \<or> m_ExtendedText msg \<noteq> None) \<and> m_Image msg = None \<and> m_Video msg = None \<and>
     m_Audio msg = None \<and> m_Document msg = None \<and> m_Sticker msg = None \<and> m_Contact msg = None \<and> m_Location msg = None"

definition only_media :: "wa_message \<Rightarrow> bool" where
  "only_media msg \<longleftrightarrow> m_Conversation msg = [] \<and> m_ExtendedText msg = None \<and>
     (m_Image msg \<noteq> None \<or> m_Video msg \<noteq> None \<or> m_Audio msg \<noteq> None \<or> m_Document msg \<noteq> None \<or> m_Sticker msg \<noteq> None)"



text \<open>
  The name of a contact or place is lost on the live path: the text read from the message is
  overwritten, and the placeholder is stored, where a history synchronisation stores the name.
\<close>

theorem contact_name_lost:
  assumes "n \<noteq> []"
  shows "live_content (no_message\<lparr>m_Contact := Some n\<rparr>) = (''contact'', '':contact:'', []) \<and>
    sync_content (no_message\<lparr>m_Contact := Some n\<rparr>) = (''contact'', n, []) \<and>
    live_content (no_message\<lparr>m_Location := Some n\<rparr>) = (''location'', '':location:'', []) \<and>
    sync_content (no_message\<lparr>m_Location := Some n\<rparr>) = (''location'', n, [])"
  using assms
  by (simp add: live_content_def live_kind_def sync_content_def no_message_def deleted_message_def default_text_def)

theorem contact_name_lost_witness:
  "live_content (no_message\<lparr>m_Contact := Some ''Ana''\<rparr>) = (''contact'', '':contact:'', [])"
  using contact_name_lost [of "''Ana''"] by simp

lemma save_no_fault:
  assumes "no_faults d" "list_all (\<lambda>r. \<not> (h_user_id r = uid \<and> h_message_id r = mid)) (history_tbl d)"
  shows "history_tbl (snd (saveMessageToHistory now uid c sd mid ty tx ml q dj d)) =
    history_tbl d @ [\<lparr>h_id = history_seq d, h_user_id = uid, h_chat_jid = c, h_sender_jid = sd, h_message_id = mid, h_timestamp = now,
      h_message_type = ty, h_text_content = tx, h_media_link = ml, h_quoted_message_id = q, h_datajson = dj\<rparr>]"
  using assms by (auto simp: saveMessageToHistory_def pg_exec_def no_faults_def list_ex_iff list_all_iff Let_def)

text \<open>
  A history synchronisation ignores the history setting: for a user whose limit is 0 a live message is not
  stored, but a text message of a synchronisation is, with the time of the synchronisation for its own
  time, and nothing is trimmed.
\<close>

theorem sync_ignores_history_limit:
  assumes "no_faults (ss_db s)" "history_limit token s = 0" "sm_Key sm = Some (mid, False, participant)" "mid \<noteq> []"
    "jv_String chat \<noteq> []" "\<not> jv_isGroup chat" "sm_Message sm = Some msg" "m_Conversation msg \<noteq> []"
    "list_all (\<lambda>r. \<not> (h_user_id r = uid \<and> h_message_id r = mid)) (history_tbl (ss_db s))"
  shows "message_history env uid token ev pm s = s \<and>
    (\<exists>r. history_tbl (ss_db (sync_one env c uid chat (Some sm) s)) = history_tbl (ss_db s) @ [r] \<and> h_user_id r = uid \<and>
       h_text_content r = m_Conversation msg \<and> h_timestamp r = hv_now env)"
proof -
  let ?save = "saveMessageToHistory (hv_now env) uid (jv_String chat) (jv_String chat) mid ''text'' (m_Conversation msg) [] []
    (case hv_marshalSync env (sync_info env c chat mid False participant ''text'' (sm_Timestamp sm)) msg sm of None \<Rightarrow> ''{}'' | Some t \<Rightarrow> t)"
  have "sync_one env c uid chat (Some sm) s = snd (on_db ?save s)"
    using assms by (simp add: sync_one_def sync_sender_def sync_content_def Let_def)
  moreover have "ss_db (snd (on_db ?save s)) = snd (?save (ss_db s))" by (simp add: on_db_def split: prod.split)
  ultimately show ?thesis using save_no_fault [OF assms(1,9)] assms(2) by (simp add: message_history_def)
qed

theorem sync_ignores_history_limit_witness:
  "\<exists>r. history_tbl (ss_db (sync_one sample_handler 0 ''u'' \<lparr>jv_User = ''a'', jv_String = ''a'', jv_isGroup = False\<rparr>
      (Some \<lparr>sm_Key = Some (''M'', False, []), sm_Message = Some (no_message\<lparr>m_Conversation := ''hi''\<rparr>), sm_Timestamp = 0\<rparr>) (idle_srv []))) =
    history_tbl (ss_db (idle_srv [])) @ [r] \<and> h_user_id r = ''u'' \<and> h_text_content r = ''hi''"
  using sync_ignores_history_limit [of "idle_srv []" "[]" "\<lparr>sm_Key = Some (''M'', False, []), sm_Message = Some (no_message\<lparr>m_Conversation := ''hi''\<rparr>), sm_Timestamp = 0\<rparr>"
      "''M''" "[]" "\<lparr>jv_User = ''a'', jv_String = ''a'', jv_isGroup = False\<rparr>" "no_message\<lparr>m_Conversation := ''hi''\<rparr>" "''u''"
      sample_handler undefined "[]" 0]
  by (auto simp: idle_srv_def no_faults_def history_limit_def)

section \<open>Logging out\<close>

text \<open>
  A log out ends the session: when the database works and the user has a kill channel, the next turn of the
  client's goroutine returns, after which no registry knows the user, the kill channel is gone and every
  row of the user says disconnected and has no QR code.
\<close>

theorem LoggedOut_ends_session:
  assumes "no_faults (ss_db s)" "map_of (ss_kill s) (mc_userID (my_objs (ss_cm s) m)) = Some pending"
    "myEventHandler env m LoggedOut s = (r, s1)" "keep_alive_turn c (mc_userID (my_objs (ss_cm s) m)) s1 = (ph, s2)"
  shows "ph = Returned \<and> registered (mc_userID (my_objs (ss_cm s) m)) (ss_cm s2) = (None, None, None) \<and>
    map_of (ss_kill s2) (mc_userID (my_objs (ss_cm s) m)) = None \<and> WADisconnect c \<in> set (ss_wa s2) \<and>
    users_tbl (ss_db s2) = map (\<lambda>r. if u_id r = mc_userID (my_objs (ss_cm s) m) then r\<lparr>u_connected := Some 0, u_qrcode := []\<rparr> else r)
      (users_tbl (ss_db s))"
proof -
  let ?u = "mc_userID (my_objs (ss_cm s) m)"
  obtain q sa where u: "on_db (update_user ?u (\<lambda>r. r\<lparr>u_connected := Some 0\<rparr>)) s = (q, sa)" by (rule prod.exhaust)
  have sa: "sa = s\<lparr>ss_db := ss_db sa\<rparr>" by (rule on_db_update_frame [OF u])
  have db: "users_tbl (ss_db sa) = map (\<lambda>r. if u_id r = ?u then r\<lparr>u_connected := Some 0\<rparr> else r) (users_tbl (ss_db s))"
    "no_faults (ss_db sa)" "q = Inr ()"
    using u by (auto simp: on_db_def update_user_no_fault [OF assms(1)] assms(1))
  obtain jobs sb where p: "post env m LoggedOut [(''type'', JStr ''LoggedOut'')] sa = (jobs, sb)" by (rule prod.exhaust)
  note f = send_event_objs [OF p [unfolded post_def]]
  have s1: "s1 = send_kill ?u sb" using assms(3) u db(3) p by (simp add: handler_cases Let_def)
  have "map_of (ss_kill sb) ?u = Some pending" using f(3) assms(2) by (subst (asm) sa) simp
  then have "map_of (ss_kill s1) ?u = Some True" "ss_db s1 = ss_db sb"
    by (cases pending; simp add: s1 send_kill_def gomap_simps)+
  then show ?thesis using keep_alive_ends [OF _ assms(4)] f(5,6) db by (auto simp: comp_def)
qed

theorem LoggedOut_ends_session_witness:
  "\<forall>r. let s = (idle_srv [r])\<lparr>ss_kill := [([], False)]\<rparr>; s1 = snd (myEventHandler sample_handler 0 LoggedOut s)
    in fst (keep_alive_turn 1 [] s1) = Returned"
proof
  fix r
  let ?s = "(idle_srv [r])\<lparr>ss_kill := [([], False)]\<rparr>"
  have uid: "mc_userID (my_objs (ss_cm ?s) 0) = []" by (simp add: idle_srv_def NewClientManager_def)
  have h: "no_faults (ss_db ?s)" "map_of (ss_kill ?s) (mc_userID (my_objs (ss_cm ?s) 0)) = Some False"
    unfolding uid by (simp_all add: idle_ok)
  show "let s = ?s; s1 = snd (myEventHandler sample_handler 0 LoggedOut s) in fst (keep_alive_turn 1 [] s1) = Returned"
    using LoggedOut_ends_session [OF h surjective_pairing surjective_pairing, where env = sample_handler] unfolding uid Let_def by blast
qed

end
