(* ===== verification/Outgoing.thy ===== *)
theory Outgoing
  imports Complex_Main Dispatcher Fetch Webp
begin

text \<open>
  The endpoints of \<^verbatim>\<open>cmd/api/handlers.go\<close> that send a message: documents, audio, images, stickers, videos,
  contacts, locations, buttons, lists, texts, polls, deletions, edits and history requests. A handler
  maps the authenticated user's \<^verbatim>\<open>Values\<close>, the decoded payload (\<^term>\<open>None\<close> when it does not decode), the
  writer and the state to the response, the messages given to \<^verbatim>\<open>client.SendMessage\<close> and the state; the
  result \<^term>\<open>None\<close> is a panic. The payload's JSON field names are those of the structs.
\<close>

section \<open>Messages as they are built\<close>

text \<open>The parts of \<^verbatim>\<open>waE2E.ContextInfo\<close> that a request may set, and that a message carries.\<close>

record context_in =
  cx_StanzaID :: "string option"
  cx_Participant :: "string option"
  cx_MentionedJID :: "string list option"
  cx_IsForwarded :: "bool option"

record context_out =
  co_StanzaID :: "string option"
  co_Participant :: "string option"
  co_QuotedMessage :: "wa_message option"
  co_MentionedJID :: "string list option"
  co_IsForwarded :: "bool option"

definition empty_context :: context_out where
  "empty_context = \<lparr>co_StanzaID = None, co_Participant = None, co_QuotedMessage = None, co_MentionedJID = None, co_IsForwarded = None\<rparr>"

text \<open>The result of \<^verbatim>\<open>client.Upload\<close>.\<close>

record uploaded =
  up_URL :: string
  up_DirectPath :: string
  up_MediaKey :: bytes
  up_FileEncSHA256 :: bytes
  up_FileSHA256 :: bytes

record media_out =
  mo_Uploaded :: uploaded
  mo_Mimetype :: string
  mo_FileLength :: "64 word"

record native_button =
  nb_Name :: string
  nb_Params :: "(string, string) gomap"

record list_row =
  lr_RowID :: string
  lr_Title :: string
  lr_Description :: "string option"

record list_section =
  ls_Title :: "string option"
  ls_Rows :: "list_row list"

text \<open>
  A \<^verbatim>\<open>*waE2E.Message\<close> as a handler builds it; \<^verbatim>\<open>BuildPollCreation\<close>, \<^verbatim>\<open>BuildRevoke\<close>, \<^verbatim>\<open>BuildEdit\<close> and
  \<^verbatim>\<open>BuildHistorySyncRequest\<close> and \<^verbatim>\<open>BuildUnavailableMessageRequest\<close> are constructors of the library. A list message is wrapped in a
  \<^verbatim>\<open>DocumentWithCaptionMessage\<close>; the parameters of a native flow button are the map that is marshalled.
\<close>

datatype out_message =
    DocumentMessage media_out string string "context_out option"
  | AudioMessage media_out bool "32 word" bytes "context_out option"
  | ImageMessage media_out string bytes "context_out option"
  | StickerMessage media_out bytes "context_out option"
  | VideoMessage media_out string bytes "context_out option"
  | ContactMessage string string "context_out option"
  | LocationMessage real real string "context_out option"
  | ExtendedTextMessage string string string string bytes "context_out option"
  | InteractiveMessage "media_out option" "string option" string "string option" "native_button list" context_out
  | ListMessage string string "string option" "string option" "list_section list" "context_out option"
  | BuildPollCreation string "string list" nat
  | BuildRevoke JID message_id
  | BuildEdit JID message_id out_message
  | BuildHistorySyncRequest MessageInfo int
  | BuildUnavailableMessageRequest JID JID message_id
  | ReactionMessage string bool message_id "string option" string int

text \<open>A call of \<^verbatim>\<open>client.SendMessage\<close>: the client, the recipient, the message and the id asked for.\<close>

record sent =
  sn_client :: ref
  sn_to :: JID
  sn_msg :: out_message
  sn_id :: "message_id option"

text \<open>The result of a handler, with the calls \<open>'x\<close> it made; \<^term>\<open>None\<close> is a panic.\<close>

type_synonym 'x api_result = "(writer \<times> 'x list \<times> srv) option"
type_synonym send_result = "sent api_result"

datatype media_kind = MediaDocument | MediaAudio | MediaImage | MediaVideo

text \<open>
  What the libraries give: \<open>sv_DecodeString\<close> decodes a data URL to its bytes and content type, \<open>sv_NewDataURL\<close>
  is \<^verbatim>\<open>dataurl.New(...).String()\<close>, which panics on a media type that is none; \<open>sv_DecodeImage\<close> is the error of
  \<^verbatim>\<open>image.Decode\<close>, \<open>sv_CreateTemp\<close> the name of a new file, \<open>sv_Thumbnail\<close> resize and JPEG encode, \<open>sv_Send\<close> the
  timestamp of a sent message and \<open>sv_respID\<close> its id; \<open>sv_StoreID\<close> is \<^verbatim>\<open>Store.ID.ToNonAD()\<close> of a client and
  \<open>sv_syncRequest\<close> says whether \<^verbatim>\<open>BuildHistorySyncRequest\<close> gives a message.
\<close>

record send_env =
  sv_jids :: jid_env
  sv_GenerateMessageID :: message_id
  sv_parseRequestURI :: "string \<Rightarrow> (string \<times> string) option"
  sv_newRequest :: "string \<Rightarrow> string option"
  sv_do :: "string \<Rightarrow> string + http_response"
  sv_DetectContentType :: "bytes \<Rightarrow> string"
  sv_DecodeString :: "string \<Rightarrow> (bytes \<times> string) option"
  sv_NewDataURL :: "bytes \<Rightarrow> string \<Rightarrow> string option"
  sv_Upload :: "bytes \<Rightarrow> media_kind \<Rightarrow> string + uploaded"
  sv_DecodeImage :: "bytes \<Rightarrow> string option"
  sv_CreateTemp :: "string + string"
  sv_Thumbnail :: "bytes \<Rightarrow> string + bytes"
  sv_ReadFile :: "string \<Rightarrow> string option"
  sv_sticker :: sticker_env
  sv_OpenGraph :: "string \<Rightarrow> openGraphResult"
  sv_Send :: "JID \<Rightarrow> out_message \<Rightarrow> string + int"
  sv_StoreID :: "ref \<Rightarrow> JID option"
  sv_syncRequest :: "MessageInfo \<Rightarrow> int \<Rightarrow> bool"
  sv_respID :: message_id
  sv_now :: int

section \<open>Common steps\<close>

definition fail :: "nat \<Rightarrow> string \<Rightarrow> writer \<Rightarrow> srv \<Rightarrow> 'x api_result" where
  "fail status e w s = Some (Respond status (RErr e) w, [], s)"

text \<open>The session check, the decoded payload, and the first field that is missing.\<close>

definition with_session ::
    "user_values \<Rightarrow> 'r option \<Rightarrow> string \<Rightarrow> writer \<Rightarrow> srv \<Rightarrow> (ref \<Rightarrow> 'r \<Rightarrow> 'x api_result) \<Rightarrow> 'x api_result" where
  "with_session ui req undecoded w s k =
     (case session_of (Values_Get ui ''Id'') s of
        None \<Rightarrow> fail 500 ''no session'' w s
      | Some c \<Rightarrow> (case req of None \<Rightarrow> fail 400 undecoded w s | Some t \<Rightarrow> k c t))"

definition required :: "(bool \<times> string) list \<Rightarrow> writer \<Rightarrow> srv \<Rightarrow> 'x api_result \<Rightarrow> 'x api_result" where
  "required checks w s k = (case find fst checks of Some (_, e) \<Rightarrow> fail 400 e w s | None \<Rightarrow> k)"

definition with_recipient ::
    "send_env \<Rightarrow> string \<Rightarrow> string option \<Rightarrow> string option \<Rightarrow> writer \<Rightarrow> srv \<Rightarrow> (JID \<Rightarrow> send_result) \<Rightarrow> send_result" where
  "with_recipient env phone stanzaid participant w s k =
     (case validateMessageFields (sv_jids env) phone stanzaid participant of
        None \<Rightarrow> None
      | Some (Inl e) \<Rightarrow> fail 400 e w s
      | Some (Inr recipient) \<Rightarrow> k recipient)"

definition with_parsed :: "jid_env \<Rightarrow> string \<Rightarrow> string \<Rightarrow> writer \<Rightarrow> srv \<Rightarrow> (JID \<Rightarrow> 'x api_result) \<Rightarrow> 'x api_result" where
  "with_parsed je phone e w s k =
     (case parseJID je phone of
        None \<Rightarrow> None
      | Some (recipient, ok) \<Rightarrow> if \<not> ok then fail 400 e w s else k recipient)"

definition message_id_of :: "send_env \<Rightarrow> message_id \<Rightarrow> message_id" where
  "message_id_of env i = (if i = [] then sv_GenerateMessageID env else i)"

text \<open>The quoted message, mentions and forward mark; the outer \<^term>\<open>None\<close> is the dereference of a nil participant.\<close>

definition build_context :: "context_in \<Rightarrow> wa_message \<Rightarrow> context_out option option" where
  "build_context cx qm =
     (let quoted =
        (case cx_StanzaID cx of
           None \<Rightarrow> Some None
         | Some stanza \<Rightarrow>
             (case cx_Participant cx of
                None \<Rightarrow> None
              | Some p \<Rightarrow> Some (Some (empty_context\<lparr>co_StanzaID := Some stanza, co_Participant := Some p, co_QuotedMessage := Some qm\<rparr>))))
      in case quoted of
           None \<Rightarrow> None
         | Some c0 \<Rightarrow>
             (let ensure = (\<lambda>c. case c of None \<Rightarrow> empty_context | Some c' \<Rightarrow> c');
                  c1 = (case cx_MentionedJID cx of None \<Rightarrow> c0 | Some js \<Rightarrow> Some ((ensure c0)\<lparr>co_MentionedJID := Some js\<rparr>));
                  c2 = (if cx_IsForwarded cx = Some True then Some ((ensure c1)\<lparr>co_IsForwarded := Some True\<rparr>) else c1)
              in Some c2))"

definition with_context :: "context_in \<Rightarrow> wa_message option \<Rightarrow> (context_out option \<Rightarrow> send_result) \<Rightarrow> send_result" where
  "with_context cx quoted k =
     (case build_context cx (case quoted of Some qm \<Rightarrow> qm | None \<Rightarrow> no_message) of None \<Rightarrow> None | Some ctx \<Rightarrow> k ctx)"

definition sent_json :: "int \<Rightarrow> message_id \<Rightarrow> json" where
  "sent_json timestamp msgid = JObj [(''Details'', JStr ''Sent''), (''Timestamp'', JNum timestamp), (''Id'', JStr msgid)]"

text \<open>
  The end of a handler: the message is sent, saved to the history of the chat, and answered.
  \<^verbatim>\<open>publishSentMessageEvent\<close> only computes an event that it drops.
\<close>

definition finish_send ::
    "send_env \<Rightarrow> user_values \<Rightarrow> ref \<Rightarrow> JID \<Rightarrow> out_message \<Rightarrow> message_id \<Rightarrow> string \<Rightarrow> string \<Rightarrow> string \<Rightarrow> writer \<Rightarrow> srv \<Rightarrow> send_result" where
  "finish_send env ui c recipient msg msgid errorPrefix messageType textContent w s =
     (let call = \<lparr>sn_client = c, sn_to = recipient, sn_msg = msg, sn_id = Some msgid\<rparr>
      in case sv_Send env recipient msg of
           Inl e \<Rightarrow> Some (Respond 500 (RErr (errorPrefix @ e)) w, [call], s)
         | Inr timestamp \<Rightarrow>
             (let historyLimit = (case Atoi (Values_Get ui ''History'') of None \<Rightarrow> 0 | Some n \<Rightarrow> n);
                  d = saveOutgoingMessageToHistory (sv_now env) (Values_Get ui ''Id'') (jv_String recipient) msgid messageType textContent []
                        historyLimit (ss_db s)
              in Some (Respond 200 (RData (sent_json timestamp msgid)) w, [call], s\<lparr>ss_db := d\<rparr>)))"

text \<open>\<^verbatim>\<open>getMessageType\<close> on the messages that are built here.\<close>

fun getMessageType :: "out_message \<Rightarrow> string" where
  "getMessageType (ExtendedTextMessage _ _ _ _ _ _) = ''text''"
| "getMessageType (ImageMessage _ _ _ _) = ''image''"
| "getMessageType (VideoMessage _ _ _ _) = ''video''"
| "getMessageType (AudioMessage _ _ _ _ _) = ''audio''"
| "getMessageType (DocumentMessage _ _ _ _) = ''document''"
| "getMessageType (StickerMessage _ _ _) = ''sticker''"
| "getMessageType (ContactMessage _ _ _) = ''contact''"
| "getMessageType (LocationMessage _ _ _ _) = ''location''"
| "getMessageType _ = ''text''"

section \<open>Media\<close>

definition fetchImageMaxBytes :: nat where "fetchImageMaxBytes = 16 * 1024 * 1024"
definition fetchVideoMaxBytes :: nat where "fetchVideoMaxBytes = 100 * 1024 * 1024"
definition fetchAudioMaxBytes :: nat where "fetchAudioMaxBytes = 16 * 1024 * 1024"
definition fetchDocumentMaxBytes :: nat where "fetchDocumentMaxBytes = 100 * 1024 * 1024"

definition fetch_bytes :: "send_env \<Rightarrow> string \<Rightarrow> nat \<Rightarrow> string + (bytes \<times> string)" where
  "fetch_bytes env url limit = fetchURLBytes (sv_newRequest env) (sv_do env) (sv_DetectContentType env) url limit"

definition is_url :: "send_env \<Rightarrow> string \<Rightarrow> bool" where
  "is_url env u = isHTTPURL (sv_parseRequestURI env) u"

definition with_upload ::
    "send_env \<Rightarrow> bytes \<Rightarrow> media_kind \<Rightarrow> string \<Rightarrow> writer \<Rightarrow> srv \<Rightarrow> (uploaded \<Rightarrow> send_result) \<Rightarrow> send_result" where
  "with_upload env filedata kind errorPrefix w s k =
     (case sv_Upload env filedata kind of Inl e \<Rightarrow> fail 500 (errorPrefix @ e) w s | Inr up \<Rightarrow> k up)"

definition media_of :: "uploaded \<Rightarrow> string \<Rightarrow> bytes \<Rightarrow> media_out" where
  "media_of up mime filedata = \<lparr>mo_Uploaded = up, mo_Mimetype = mime, mo_FileLength = word_of_nat (length filedata)\<rparr>"

definition mime_or_detected :: "send_env \<Rightarrow> string \<Rightarrow> bytes \<Rightarrow> string" where
  "mime_or_detected env mime filedata = (if mime \<noteq> [] then mime else sv_DetectContentType env filedata)"

text \<open>The fields that all requests have.\<close>

record send_req =
  rq_Phone :: string
  rq_Id :: message_id
  rq_Context :: context_in
  rq_Quoted :: "wa_message option"

record document_req = send_req +
  dq_Caption :: string
  dq_Document :: string
  dq_FileName :: string
  dq_MimeType :: string

text \<open>The bytes and the media type of a document.\<close>

definition document_data :: "send_env \<Rightarrow> document_req \<Rightarrow> string + (bytes \<times> string)" where
  "document_data env t =
     (if HasPrefix (dq_Document t) ''data:'' then
        (case sv_DecodeString env (dq_Document t) of
           None \<Rightarrow> Inl ''could not decode base64 encoded data from payload''
         | Some (data, _) \<Rightarrow> Inr (data, dq_MimeType t))
      else if is_url env (dq_Document t) then
        (case fetch_bytes env (dq_Document t) fetchDocumentMaxBytes of
           Inl e \<Rightarrow> Inl (''failed to fetch document from url: '' @ e)
         | Inr (data, ct) \<Rightarrow> Inr (data, if dq_MimeType t = [] then ct else dq_MimeType t))
      else Inl ''document data should start with \"data:\" or be a valid HTTP URL'')"

definition SendDocument :: "send_env \<Rightarrow> user_values \<Rightarrow> document_req option \<Rightarrow> writer \<Rightarrow> srv \<Rightarrow> send_result" where
  "SendDocument env ui req w s =
     with_session ui req ''could not decode Payload'' w s (\<lambda>c t.
     required [(rq_Phone t = [], ''missing Phone in Payload''), (dq_Document t = [], ''missing Document in Payload''),
               (dq_FileName t = [], ''missing FileName in Payload'')] w s (
     with_recipient env (rq_Phone t) (cx_StanzaID (rq_Context t)) (cx_Participant (rq_Context t)) w s (\<lambda>recipient.
     case document_data env t of
       Inl e \<Rightarrow> fail 400 e w s
     | Inr (filedata, mime) \<Rightarrow>
     with_upload env filedata MediaDocument ''failed to upload file: '' w s (\<lambda>up.
     with_context (rq_Context t) (rq_Quoted t) (\<lambda>ctx.
     finish_send env ui c recipient
       (DocumentMessage (media_of up (mime_or_detected env mime filedata) filedata) (dq_FileName t) (dq_Caption t) ctx)
       (message_id_of env (rq_Id t)) ''Error sending message: '' ''document'' (dq_Caption t) w s)))))"

record audio_req = send_req +
  aq_Audio :: string
  aq_PTT :: "bool option"
  aq_MimeType :: string
  aq_Seconds :: "32 word"
  aq_Waveform :: bytes

text \<open>The bytes of an audio file and the media type its source gives.\<close>

definition audio_data :: "send_env \<Rightarrow> audio_req \<Rightarrow> string + (bytes \<times> string)" where
  "audio_data env t =
     (if HasPrefix (aq_Audio t) ''data:audio/'' then
        (case sv_DecodeString env (aq_Audio t) of
           None \<Rightarrow> Inl ''could not decode base64 encoded data''
         | Some (data, ct) \<Rightarrow> Inr (data, ct))
      else if is_url env (aq_Audio t) then
        (case fetch_bytes env (aq_Audio t) fetchAudioMaxBytes of
           Inl e \<Rightarrow> Inl (''failed to fetch audio: '' @ e)
         | Inr (data, ct) \<Rightarrow> Inr (data, if HasPrefix (ToLower ct) ''audio/'' then ct else []))
      else Inl ''audio must be base64 (data:audio/) or valid HTTP URL'')"

definition audio_mime :: "send_env \<Rightarrow> string \<Rightarrow> string \<Rightarrow> bool \<Rightarrow> bytes \<Rightarrow> string" where
  "audio_mime env mimeType detectedMime ptt filedata =
     (if mimeType \<noteq> [] then mimeType
      else if detectedMime \<noteq> [] then detectedMime
      else if sv_DetectContentType env filedata \<noteq> ''application/octet-stream'' then sv_DetectContentType env filedata
      else if ptt then ''audio/ogg; codecs=opus'' else ''audio/mpeg'')"

definition SendAudio :: "send_env \<Rightarrow> user_values \<Rightarrow> audio_req option \<Rightarrow> writer \<Rightarrow> srv \<Rightarrow> send_result" where
  "SendAudio env ui req w s =
     with_session ui req ''could not decode Payload'' w s (\<lambda>c t.
     required [(rq_Phone t = [], ''missing Phone in Payload''), (aq_Audio t = [], ''missing Audio in Payload'')] w s (
     with_recipient env (rq_Phone t) (cx_StanzaID (rq_Context t)) (cx_Participant (rq_Context t)) w s (\<lambda>recipient.
     case audio_data env t of
       Inl e \<Rightarrow> fail 400 e w s
     | Inr (filedata, detectedMime) \<Rightarrow>
         (let ptt = (case aq_PTT t of None \<Rightarrow> True | Some b \<Rightarrow> b);
              mime = audio_mime env (aq_MimeType t) detectedMime ptt filedata
          in with_upload env filedata MediaAudio ''failed to upload file: '' w s (\<lambda>up.
             with_context (rq_Context t) (rq_Quoted t) (\<lambda>ctx.
             finish_send env ui c recipient (AudioMessage (media_of up mime filedata) ptt (aq_Seconds t) (aq_Waveform t) ctx)
               (message_id_of env (rq_Id t)) ''Error sending message: '' ''audio'' [] w s))))))"

record image_req = send_req +
  iq_Image :: string
  iq_Caption :: string
  iq_MimeType :: string

text \<open>Fetched bytes go through a data URL; the outer \<^term>\<open>None\<close> is a panic, \<^term>\<open>Inl\<close> has the status of the error.\<close>

definition refetched :: "send_env \<Rightarrow> string \<Rightarrow> nat \<Rightarrow> string \<Rightarrow> string \<Rightarrow> string \<Rightarrow> string \<Rightarrow> ((nat \<times> string) + bytes) option" where
  "refetched env url limit prefix mime0 fetchError reencodeError =
     (case fetch_bytes env url limit of
        Inl e \<Rightarrow> Some (Inl (400, fetchError @ e))
      | Inr (data, ct) \<Rightarrow>
          (let mimeType = (if HasPrefix (ToLower ct) prefix then ct else mime0)
           in case sv_NewDataURL env data mimeType of
                None \<Rightarrow> None
              | Some u \<Rightarrow>
                  (case sv_DecodeString env u of
                     None \<Rightarrow> Some (Inl (500, reencodeError))
                   | Some (parsed, _) \<Rightarrow> Some (Inr parsed))))"

definition image_data :: "send_env \<Rightarrow> string \<Rightarrow> ((nat \<times> string) + bytes) option" where
  "image_data env img =
     (if length img \<ge> 10 \<and> take 10 img = ''data:image'' then
        (case sv_DecodeString env img of
           None \<Rightarrow> Some (Inl (400, ''could not decode base64 encoded data from payload''))
         | Some (data, _) \<Rightarrow> Some (Inr data))
      else if is_url env img then
        refetched env img fetchImageMaxBytes ''image/'' ''image/jpeg'' ''failed to fetch image from url: ''
          ''could not re-encode image to base64''
      else Some (Inl (400, ''Image data should start with \"data:image/png;base64,\"'')))"

text \<open>
  The thumbnail is written to a temporary file and read back; the file is closed but not removed. What a
  failed encoding leaves in it is not modelled.
\<close>

definition image_thumbnail :: "send_env \<Rightarrow> bytes \<Rightarrow> srv \<Rightarrow> (string + bytes) \<times> srv" where
  "image_thumbnail env filedata s =
     (case sv_DecodeImage env filedata of
        Some e \<Rightarrow> (Inl (''could not decode image for thumbnail preparation: '' @ e), s)
      | None \<Rightarrow>
     (case sv_CreateTemp env of
        Inl e \<Rightarrow> (Inl (''Could not create temp file for thumbnail: '' @ e), s)
      | Inr tmp \<Rightarrow>
          (let s1 = s\<lparr>ss_files := AList.update tmp [] (ss_files s)\<rparr>
           in case sv_Thumbnail env filedata of
                Inl e \<Rightarrow> (Inl (''Failed to encode jpeg: '' @ e), s1)
              | Inr thumb \<Rightarrow>
                  (let s2 = s1\<lparr>ss_files := AList.update tmp thumb (ss_files s1)\<rparr>
                   in case sv_ReadFile env tmp of
                        Some e \<Rightarrow> (Inl (''Failed to read '' @ tmp @ '': '' @ e), s2)
                      | None \<Rightarrow> (Inr thumb, s2)))))"

definition with_data :: "((nat \<times> string) + bytes) option \<Rightarrow> writer \<Rightarrow> srv \<Rightarrow> (bytes \<Rightarrow> send_result) \<Rightarrow> send_result" where
  "with_data r w s k =
     (case r of None \<Rightarrow> None | Some (Inl (status, e)) \<Rightarrow> fail status e w s | Some (Inr filedata) \<Rightarrow> k filedata)"

definition with_thumbnail :: "send_env \<Rightarrow> bytes \<Rightarrow> writer \<Rightarrow> srv \<Rightarrow> (bytes \<Rightarrow> srv \<Rightarrow> send_result) \<Rightarrow> send_result" where
  "with_thumbnail env filedata w s k =
     (case image_thumbnail env filedata s of (Inl e, s1) \<Rightarrow> fail 500 e w s1 | (Inr thumb, s1) \<Rightarrow> k thumb s1)"

definition SendImage :: "send_env \<Rightarrow> user_values \<Rightarrow> image_req option \<Rightarrow> writer \<Rightarrow> srv \<Rightarrow> send_result" where
  "SendImage env ui req w s =
     with_session ui req ''could not decode Payload'' w s (\<lambda>c t.
     required [(rq_Phone t = [], ''missing Phone in Payload''), (iq_Image t = [], ''missing Image in Payload'')] w s (
     with_recipient env (rq_Phone t) (cx_StanzaID (rq_Context t)) (cx_Participant (rq_Context t)) w s (\<lambda>recipient.
     with_data (image_data env (iq_Image t)) w s (\<lambda>filedata.
     with_upload env filedata MediaImage ''failed to upload file: '' w s (\<lambda>up.
     with_thumbnail env filedata w s (\<lambda>thumb s1.
     with_context (rq_Context t) (rq_Quoted t) (\<lambda>ctx.
     finish_send env ui c recipient
       (ImageMessage (media_of up (mime_or_detected env (iq_MimeType t) filedata) filedata) (iq_Caption t) thumb ctx)
       (message_id_of env (rq_Id t)) ''Error sending message: '' ''image'' (iq_Caption t) w s1)))))))"

record sticker_req = send_req +
  sq_Sticker :: string
  sq_PngThumbnail :: bytes
  sq_MimeType :: string
  sq_PackId :: string
  sq_PackName :: string
  sq_PackPublisher :: string
  sq_Emojis :: "string list"

text \<open>A sticker behind a URL becomes a data URL; the outer \<^term>\<open>None\<close> is a panic.\<close>

definition sticker_source :: "send_env \<Rightarrow> string \<Rightarrow> (string + string) option" where
  "sticker_source env sticker =
     (if is_url env sticker then
        (case fetch_bytes env sticker fetchImageMaxBytes of
           Inl e \<Rightarrow> Some (Inl (''failed to fetch sticker from url: '' @ e))
         | Inr (data, ct) \<Rightarrow>
             map_option Inr (sv_NewDataURL env data (if HasPrefix (ToLower ct) ''image/'' then ct else ''image/webp'')))
      else Some (Inr sticker))"

definition SendSticker :: "send_env \<Rightarrow> user_values \<Rightarrow> sticker_req option \<Rightarrow> writer \<Rightarrow> srv \<Rightarrow> send_result" where
  "SendSticker env ui req w s =
     with_session ui req ''could not decode Payload'' w s (\<lambda>c t.
     required [(rq_Phone t = [], ''missing Phone in Payload''), (sq_Sticker t = [], ''missing Sticker in Payload'')] w s (
     with_recipient env (rq_Phone t) (cx_StanzaID (rq_Context t)) (cx_Participant (rq_Context t)) w s (\<lambda>recipient.
     case sticker_source env (sq_Sticker t) of
       None \<Rightarrow> None
     | Some (Inl e) \<Rightarrow> fail 400 e w s
     | Some (Inr src) \<Rightarrow>
     (case processStickerData (sv_sticker env) src (sq_MimeType t) (sq_PackId t) (sq_PackName t) (sq_PackPublisher t) (sq_Emojis t) of
        None \<Rightarrow> None
      | Some (Inl e) \<Rightarrow> fail (if Contains e ''failed to convert'' then 500 else 400) e w s
      | Some (Inr (processedData, mime)) \<Rightarrow>
     with_upload env processedData MediaImage ''Failed to upload file: '' w s (\<lambda>up.
     with_context (rq_Context t) (rq_Quoted t) (\<lambda>ctx.
     finish_send env ui c recipient (StickerMessage (media_of up mime processedData) (sq_PngThumbnail t) ctx)
       (message_id_of env (rq_Id t)) ''Error sending message: '' ''sticker'' [] w s))))))"

record video_req = send_req +
  vq_Video :: string
  vq_Caption :: string
  vq_JPEGThumbnail :: bytes
  vq_MimeType :: string

text \<open>\<^verbatim>\<open>t.Video[0:4]\<close> panics when there are fewer than four bytes.\<close>

definition video_data :: "send_env \<Rightarrow> string \<Rightarrow> ((nat \<times> string) + bytes) option" where
  "video_data env video =
     (if length video < 4 then None
      else if take 4 video = ''data'' then
        (case sv_DecodeString env video of
           None \<Rightarrow> Some (Inl (400, ''could not decode base64 encoded data from payload''))
         | Some (data, _) \<Rightarrow> Some (Inr data))
      else if is_url env video then
        refetched env video fetchVideoMaxBytes ''video/'' ''video/mpeg'' ''failed to fetch video from url: ''
          ''could not re-encode video to base64''
      else Some (Inl (400, ''data should start with \"data:mime/type;base64,\"'')))"

definition SendVideo :: "send_env \<Rightarrow> user_values \<Rightarrow> video_req option \<Rightarrow> writer \<Rightarrow> srv \<Rightarrow> send_result" where
  "SendVideo env ui req w s =
     with_session ui req ''could not decode Payload'' w s (\<lambda>c t.
     required [(rq_Phone t = [], ''missing Phone in Payload''), (vq_Video t = [], ''missing Video in Payload'')] w s (
     with_recipient env (rq_Phone t) (cx_StanzaID (rq_Context t)) (cx_Participant (rq_Context t)) w s (\<lambda>recipient.
     with_data (video_data env (vq_Video t)) w s (\<lambda>filedata.
     with_upload env filedata MediaVideo ''failed to upload file: '' w s (\<lambda>up.
     with_context (rq_Context t) (rq_Quoted t) (\<lambda>ctx.
     finish_send env ui c recipient
       (VideoMessage (media_of up (mime_or_detected env (vq_MimeType t) filedata) filedata) (vq_Caption t) (vq_JPEGThumbnail t) ctx)
       (message_id_of env (rq_Id t)) ''error sending message: '' ''video'' (vq_Caption t) w s))))))"

section \<open>Contacts, locations and texts\<close>

record contact_req = send_req +
  nq_Name :: string
  nq_Vcard :: string

definition SendContact :: "send_env \<Rightarrow> user_values \<Rightarrow> contact_req option \<Rightarrow> writer \<Rightarrow> srv \<Rightarrow> send_result" where
  "SendContact env ui req w s =
     with_session ui req ''could not decode Payload'' w s (\<lambda>c t.
     required [(rq_Phone t = [], ''missing Phone in Payload''), (nq_Name t = [], ''missing Name in Payload''),
               (nq_Vcard t = [], ''missing Vcard in Payload'')] w s (
     with_recipient env (rq_Phone t) (cx_StanzaID (rq_Context t)) (cx_Participant (rq_Context t)) w s (\<lambda>recipient.
     with_context (rq_Context t) (rq_Quoted t) (\<lambda>ctx.
     finish_send env ui c recipient (ContactMessage (nq_Name t) (nq_Vcard t) ctx)
       (message_id_of env (rq_Id t)) ''error sending message: '' ''contact'' (nq_Name t) w s))))"

record location_req = send_req +
  lq_Name :: string
  lq_Latitude :: real
  lq_Longitude :: real

definition SendLocation :: "send_env \<Rightarrow> user_values \<Rightarrow> location_req option \<Rightarrow> writer \<Rightarrow> srv \<Rightarrow> send_result" where
  "SendLocation env ui req w s =
     with_session ui req ''could not decode Payload'' w s (\<lambda>c t.
     required [(rq_Phone t = [], ''missing Phone in Payload''), (lq_Latitude t = 0, ''missing Latitude in Payload''),
               (lq_Longitude t = 0, ''missing Longitude in Payload'')] w s (
     with_recipient env (rq_Phone t) (cx_StanzaID (rq_Context t)) (cx_Participant (rq_Context t)) w s (\<lambda>recipient.
     with_context (rq_Context t) (rq_Quoted t) (\<lambda>ctx.
     finish_send env ui c recipient (LocationMessage (lq_Latitude t) (lq_Longitude t) (lq_Name t) ctx)
       (message_id_of env (rq_Id t)) ''error sending message: '' ''location'' (lq_Name t) w s))))"

record text_req = send_req +
  tq_Body :: string
  tq_LinkPreview :: bool
  tq_QuotedText :: string

text \<open>The link and its preview: \<open>sv_OpenGraph\<close> is \<^verbatim>\<open>getOpenGraphData\<close> with its caches.\<close>

definition text_preview :: "send_env \<Rightarrow> text_req \<Rightarrow> string \<times> openGraphResult" where
  "text_preview env t =
     (let url = (if tq_LinkPreview t then extractFirstURL (tq_Body t) else [])
      in (url, if url \<noteq> [] then sv_OpenGraph env url else no_preview))"

definition quoted_text :: "text_req \<Rightarrow> wa_message" where
  "quoted_text t =
     (case rq_Quoted t of
        Some qm \<Rightarrow> qm
      | None \<Rightarrow> if tq_QuotedText t \<noteq> [] then no_message\<lparr>m_ExtendedText := Some (tq_QuotedText t, [])\<rparr> else no_message)"

definition SendMessage :: "send_env \<Rightarrow> user_values \<Rightarrow> text_req option \<Rightarrow> writer \<Rightarrow> srv \<Rightarrow> send_result" where
  "SendMessage env ui req w s =
     with_session ui req ''could not decode Payload'' w s (\<lambda>c t.
     required [(rq_Phone t = [], ''missing Phone in Payload''), (tq_Body t = [], ''missing Body in Payload'')] w s (
     with_recipient env (rq_Phone t) (cx_StanzaID (rq_Context t)) (cx_Participant (rq_Context t)) w s (\<lambda>recipient.
     with_context (rq_Context t) (Some (quoted_text t)) (\<lambda>ctx.
     let (url, og) = text_preview env t
     in finish_send env ui c recipient
          (ExtendedTextMessage (tq_Body t) url (og_Title og) (og_Description og) (og_ImageData og) ctx)
          (message_id_of env (rq_Id t)) ''error sending message: '' ''text'' (tq_Body t) w s))))"

section \<open>Buttons and lists\<close>

text \<open>
  \<^verbatim>\<open>[]rune(s)\<close>: the UTF-8 sequences of a string; a byte that starts no valid sequence becomes U+FFFD.
  \<open>rune_len\<close> is the length of the valid sequence at the front, 0 when there is none.
\<close>

fun in_ranges :: "(nat \<times> nat) list \<Rightarrow> string \<Rightarrow> bool" where
  "in_ranges [] cs = True"
| "in_ranges ((lo, hi) # rs) [] = False"
| "in_ranges ((lo, hi) # rs) (c # cs) = (lo \<le> of_char c \<and> of_char c \<le> hi \<and> in_ranges rs cs)"

definition rune_tail :: "nat \<Rightarrow> (nat \<times> nat) list option" where
  "rune_tail b =
     (let cont = (0x80, 0xBF)
      in if b < 0x80 then Some []
         else if 0xC2 \<le> b \<and> b \<le> 0xDF then Some [cont]
         else if b = 0xE0 then Some [(0xA0, 0xBF), cont]
         else if b = 0xED then Some [(0x80, 0x9F), cont]
         else if 0xE1 \<le> b \<and> b \<le> 0xEF then Some [cont, cont]
         else if b = 0xF0 then Some [(0x90, 0xBF), cont, cont]
         else if 0xF1 \<le> b \<and> b \<le> 0xF3 then Some [cont, cont, cont]
         else if b = 0xF4 then Some [(0x80, 0x8F), cont, cont]
         else None)"

fun rune_len :: "string \<Rightarrow> nat" where
  "rune_len [] = 0"
| "rune_len (c # cs) =
     (case rune_tail (of_char c) of
        None \<Rightarrow> 0
      | Some rs \<Rightarrow> if in_ranges rs cs then Suc (length rs) else 0)"

definition replacement :: string where
  "replacement = [CHR 0xEF, CHR 0xBF, CHR 0xBD]"

function runes :: "string \<Rightarrow> string list" where
  "runes [] = []"
| "runes (c # cs) =
     (let n = rune_len (c # cs)
      in if n = 0 then replacement # runes cs else take n (c # cs) # runes (drop n (c # cs)))"
  by pat_completeness auto
termination
  by (relation "measure length") auto

fun first_text :: "string list \<Rightarrow> string" where
  "first_text [] = []"
| "first_text (v # vs) = (if TrimSpace v \<noteq> [] then TrimSpace v else first_text vs)"

record button_req =
  bt_Type :: string
  bt_Title :: string
  bt_Text :: string
  bt_ButtonText :: string
  bt_ID :: string
  bt_ButtonId :: string
  bt_URL :: string
  bt_PhoneNumber :: string
  bt_CopyCode :: string

definition short_title :: "string \<Rightarrow> string" where
  "short_title title = (if length (runes title) > 20 then concat (take 20 (runes title)) else title)"

text \<open>One turn of the loop over the buttons; \<^term>\<open>None\<close> is \<^verbatim>\<open>continue\<close>.\<close>

definition native_button_of :: "button_req \<Rightarrow> native_button option" where
  "native_button_of btn =
     (let title0 = first_text [bt_Title btn, bt_Text btn, bt_ButtonText btn]
      in if title0 = [] then None
         else
           (let title = short_title title0;
                id0 = first_text [bt_ID btn, bt_ButtonId btn];
                i = (if id0 = [] then title else id0);
                ty0 = ToLower (TrimSpace (bt_Type btn));
                ty = (if ty0 = [] then ''reply'' else ty0)
            in if ty = ''reply'' then
                 Some \<lparr>nb_Name = ''quick_reply'', nb_Params = [(''display_text'', title), (''id'', i)]\<rparr>
               else if ty = ''cta_url'' then
                 Some \<lparr>nb_Name = ''cta_url'', nb_Params = [(''display_text'', title), (''url'', bt_URL btn), (''merchant_url'', bt_URL btn)]\<rparr>
               else if ty = ''cta_call'' then
                 Some \<lparr>nb_Name = ''cta_call'', nb_Params = [(''display_text'', title), (''phone_number'', bt_PhoneNumber btn)]\<rparr>
               else if ty = ''copy'' then
                 Some \<lparr>nb_Name = ''cta_copy'', nb_Params = [(''display_text'', title), (''copy_code'', bt_CopyCode btn)]\<rparr>
               else None))"

record buttons_req = send_req +
  bq_Body :: string
  bq_Text :: string
  bq_Title :: string
  bq_Footer :: string
  bq_Image :: string
  bq_Buttons :: "button_req list"

text \<open>The header image; every failure is ignored.\<close>

definition buttons_image :: "send_env \<Rightarrow> string \<Rightarrow> media_out option" where
  "buttons_image env img =
     (let filedata =
        (if length img > 10 \<and> take 10 img = ''data:image'' then
           (case sv_DecodeString env img of Some (data, _) \<Rightarrow> data | None \<Rightarrow> [])
         else if img \<noteq> [] \<and> is_url env img then
           (case fetch_bytes env img openGraphImageMaxBytes of Inr (data, _) \<Rightarrow> data | Inl _ \<Rightarrow> [])
         else [])
      in if length filedata > 0 then
           (case sv_Upload env filedata MediaImage of
              Inr up \<Rightarrow> Some (media_of up (sv_DetectContentType env filedata) filedata)
            | Inl _ \<Rightarrow> None)
         else None)"

text \<open>Here the context is always there and a forward mark is copied as it is.\<close>

definition buttons_context :: "context_in \<Rightarrow> wa_message option \<Rightarrow> context_out option" where
  "buttons_context cx quoted =
     (let quotedctx =
        (case cx_StanzaID cx of
           None \<Rightarrow> Some empty_context
         | Some stanza \<Rightarrow>
             (case cx_Participant cx of
                None \<Rightarrow> None
              | Some p \<Rightarrow> Some (empty_context\<lparr>co_StanzaID := Some stanza, co_Participant := Some p,
                  co_QuotedMessage := Some (case quoted of Some qm \<Rightarrow> qm | None \<Rightarrow> no_message)\<rparr>)))
      in map_option (\<lambda>c. c\<lparr>co_MentionedJID := cx_MentionedJID cx, co_IsForwarded := cx_IsForwarded cx\<rparr>) quotedctx)"

definition nonempty :: "string \<Rightarrow> string option" where
  "nonempty t = (if t = [] then None else Some t)"

definition SendButtons :: "send_env \<Rightarrow> user_values \<Rightarrow> buttons_req option \<Rightarrow> writer \<Rightarrow> srv \<Rightarrow> send_result" where
  "SendButtons env ui req w s =
     with_session ui req ''could not decode Payload'' w s (\<lambda>c t.
     let body = first_text [bq_Body t, bq_Text t]; nativeBtns = List.map_filter native_button_of (bq_Buttons t)
     in required [(rq_Phone t = [] \<or> body = [] \<or> bq_Buttons t = [], ''missing Phone, Body or Buttons''),
                  (nativeBtns = [], ''no valid buttons parsed'')] w s (
     with_recipient env (rq_Phone t) (cx_StanzaID (rq_Context t)) (cx_Participant (rq_Context t)) w s (\<lambda>recipient.
     case buttons_context (rq_Context t) (rq_Quoted t) of
       None \<Rightarrow> None
     | Some ctx \<Rightarrow>
         (let img = buttons_image env (bq_Image t);
              title = (if img = None then nonempty (bq_Title t) else None)
          in finish_send env ui c recipient (InteractiveMessage img title body (nonempty (bq_Footer t)) nativeBtns ctx)
               (message_id_of env (rq_Id t)) ''error sending message: '' ''buttons'' body w s))))"

record list_item =
  li_Title :: string
  li_Description :: string
  li_RowId :: string
  li_RowID :: string
  li_Rowid :: string
  li_Rowid2 :: string

record list_req = send_req +
  ls_ButtonText :: string
  ls_Desc :: string
  ls_Body :: string
  ls_Body2 :: string
  ls_Text :: string
  ls_TopText :: string
  ls_FooterText :: string
  ls_Sections :: "(string \<times> list_item list) list"
  ls_List :: "list_item list"

definition resolveRowID :: "list_item \<Rightarrow> string" where
  "resolveRowID item =
     (let i = first_text [li_RowId item, li_RowID item, li_Rowid item, li_Rowid2 item]
      in if i \<noteq> [] then i else TrimSpace (li_Title item))"

definition list_row_of :: "list_item \<Rightarrow> list_row option" where
  "list_row_of item =
     (let rowTitle = TrimSpace (li_Title item)
      in if rowTitle = [] then None
         else Some \<lparr>lr_RowID = (if resolveRowID item = [] then rowTitle else resolveRowID item), lr_Title = rowTitle,
                    lr_Description = nonempty (TrimSpace (li_Description item))\<rparr>)"

definition list_sections :: "list_req \<Rightarrow> list_section list" where
  "list_sections t =
     (if ls_Sections t \<noteq> [] then
        List.map_filter (\<lambda>(title, items).
          let rows = List.map_filter list_row_of items
          in if rows = [] then None else Some \<lparr>ls_Title = nonempty (TrimSpace title), ls_Rows = rows\<rparr>) (ls_Sections t)
      else
        (let title = TrimSpace (ls_TopText t); rows = List.map_filter list_row_of (ls_List t)
         in if rows = [] then [] else [\<lparr>ls_Title = Some (if title = [] then ''Menu'' else title), ls_Rows = rows\<rparr>]))"

definition SendList :: "send_env \<Rightarrow> user_values \<Rightarrow> list_req option \<Rightarrow> writer \<Rightarrow> srv \<Rightarrow> send_result" where
  "SendList env ui req w s =
     with_session ui req ''could not decode Payload'' w s (\<lambda>c t.
     let body = first_text [ls_Desc t, ls_Body t, ls_Body2 t, ls_Text t]; sections = list_sections t
     in required [(rq_Phone t = [], ''missing Phone in Payload''), (body = [], ''missing Desc/Body in Payload''),
                  (ls_Sections t = [] \<and> ls_List t = [], ''missing Sections (or List) in Payload''),
                  (sections = [], ''no valid sections/rows found in Payload'')] w s (
     with_recipient env (rq_Phone t) (cx_StanzaID (rq_Context t)) (cx_Participant (rq_Context t)) w s (\<lambda>recipient.
     with_context (rq_Context t) (rq_Quoted t) (\<lambda>ctx.
     let buttonText = TrimSpace (ls_ButtonText t)
     in finish_send env ui c recipient
          (ListMessage body (if buttonText = [] then ''Select'' else buttonText) (nonempty (TrimSpace (ls_TopText t)))
             (nonempty (TrimSpace (ls_FooterText t))) sections ctx)
          (message_id_of env (rq_Id t)) ''error sending message: '' ''list'' body w s))))"

section \<open>Polls, deletions, edits and reactions\<close>

record poll_req =
  pq_Group :: string
  pq_Header :: string
  pq_Options :: "string list"
  pq_Id :: message_id

definition SendPoll :: "send_env \<Rightarrow> user_values \<Rightarrow> poll_req option \<Rightarrow> writer \<Rightarrow> srv \<Rightarrow> send_result" where
  "SendPoll env ui req w s =
     with_session ui req ''could not decode payload'' w s (\<lambda>c t.
     required [(pq_Group t = [], ''missing Grouop in payload''), (pq_Header t = [], ''missing Header in payload''),
               (length (pq_Options t) < 2, ''at least 2 options are required'')] w s (
     with_recipient env (pq_Group t) None None w s (\<lambda>recipient.
     let msgid = message_id_of env (pq_Id t); msg = BuildPollCreation (pq_Header t) (pq_Options t) 1;
         call = \<lparr>sn_client = c, sn_to = recipient, sn_msg = msg, sn_id = Some msgid\<rparr>
     in case sv_Send env recipient msg of
          Inl e \<Rightarrow> Some (Respond 500 (RErr (''failed to send poll: '' @ e)) w, [call], s)
        | Inr timestamp \<Rightarrow>
            Some (Respond 200 (RData (JObj [(''Details'', JStr ''Poll sent successfully''), (''Id'', JStr msgid)])) w, [call],
                  on_cm (SetPollOptions (Values_Get ui ''Id'') msgid (pq_Options t)) s))))"

text \<open>A message that is sent without an id of its own and not saved; \<open>reply\<close> is the answer.\<close>

definition send_plain :: "send_env \<Rightarrow> ref \<Rightarrow> JID \<Rightarrow> out_message \<Rightarrow> string \<Rightarrow> (int \<Rightarrow> json) \<Rightarrow> writer \<Rightarrow> srv \<Rightarrow> send_result" where
  "send_plain env c recipient msg errorPrefix reply w s =
     (let call = \<lparr>sn_client = c, sn_to = recipient, sn_msg = msg, sn_id = None\<rparr>
      in case sv_Send env recipient msg of
           Inl e \<Rightarrow> Some (Respond 500 (RErr (errorPrefix @ e)) w, [call], s)
         | Inr timestamp \<Rightarrow> Some (Respond 200 (RData (reply timestamp)) w, [call], s))"

record delete_req =
  xq_Phone :: string
  xq_Id :: message_id

definition DeleteMessage :: "send_env \<Rightarrow> user_values \<Rightarrow> delete_req option \<Rightarrow> writer \<Rightarrow> srv \<Rightarrow> send_result" where
  "DeleteMessage env ui req w s =
     with_session ui req ''could not decode Payload'' w s (\<lambda>c t.
     required [(xq_Phone t = [], ''missing Phone in Payload''), (xq_Id t = [], ''missing Id in Payload'')] w s (
     with_parsed (sv_jids env) (xq_Phone t) ''could not parse Phone'' w s (\<lambda>recipient.
     send_plain env c recipient (BuildRevoke recipient (xq_Id t)) ''error sending message: ''
       (\<lambda>ts. JObj [(''Details'', JStr ''Deleted''), (''Timestamp'', JNum ts), (''Id'', JStr (xq_Id t))]) w s)))"

record edit_req =
  eq_Phone :: string
  eq_Body :: string
  eq_Id :: message_id
  eq_Context :: context_in

definition SendEditMessage :: "send_env \<Rightarrow> user_values \<Rightarrow> edit_req option \<Rightarrow> writer \<Rightarrow> srv \<Rightarrow> send_result" where
  "SendEditMessage env ui req w s =
     with_session ui req ''could not decode Payload'' w s (\<lambda>c t.
     required [(eq_Phone t = [], ''missing Phone in Payload''), (eq_Body t = [], ''missing Body in Payload'')] w s (
     with_recipient env (eq_Phone t) (cx_StanzaID (eq_Context t)) (cx_Participant (eq_Context t)) w s (\<lambda>recipient.
     required [(eq_Id t = [], ''missing Id in Payload'')] w s (
     with_context ((eq_Context t)\<lparr>cx_IsForwarded := None\<rparr>) None (\<lambda>ctx.
     send_plain env c recipient (BuildEdit recipient (eq_Id t) (ExtendedTextMessage (eq_Body t) [] [] [] [] ctx))
       ''error sending edit message: '' (\<lambda>ts. sent_json ts (eq_Id t)) w s)))))"

record react_req =
  re_Phone :: string
  re_Body :: string
  re_Id :: message_id
  re_Participant :: string

text \<open>A prefix \<^verbatim>\<open>me:\<close> of the id marks the own messages; \<^verbatim>\<open>remove\<close> takes the reaction back.\<close>

definition reaction_of :: "send_env \<Rightarrow> JID \<Rightarrow> react_req \<Rightarrow> out_message" where
  "reaction_of env recipient t =
     (let fromMe = HasPrefix (re_Id t) ''me:'';
          msgid = (if fromMe then drop 3 (re_Id t) else re_Id t);
          reaction = (if re_Body t = ''remove'' then [] else re_Body t);
          participant = (if \<not> fromMe \<and> re_Participant t \<noteq> [] then
                           (case parseJID (sv_jids env) (re_Participant t) of Some (pj, True) \<Rightarrow> nonempty (jv_String pj) | _ \<Rightarrow> None)
                         else None)
      in ReactionMessage (jv_String recipient) fromMe msgid participant reaction (sv_now env))"

definition React :: "send_env \<Rightarrow> user_values \<Rightarrow> react_req option \<Rightarrow> writer \<Rightarrow> srv \<Rightarrow> send_result" where
  "React env ui req w s =
     with_session ui req ''could not decode Payload'' w s (\<lambda>c t.
     required [(re_Phone t = [], ''missing Phone in Payload''), (re_Body t = [], ''missing Body in Payload'')] w s (
     with_parsed (sv_jids env) (re_Phone t) ''could not parse Group JID'' w s (\<lambda>recipient.
     required [(re_Id t = [], ''missing Id in Payload'')] w s (
     send_plain env c recipient (reaction_of env recipient t) ''error sending message: ''
       (\<lambda>ts. sent_json ts (if HasPrefix (re_Id t) ''me:'' then drop 3 (re_Id t) else re_Id t)) w s))))"

section \<open>Requests to the own device\<close>

record unavailable_req =
  uq_Chat :: string
  uq_Sender :: string
  uq_ID :: message_id

definition RequestUnavailableMessage :: "send_env \<Rightarrow> user_values \<Rightarrow> unavailable_req option \<Rightarrow> writer \<Rightarrow> srv \<Rightarrow> send_result" where
  "RequestUnavailableMessage env ui req w s =
     with_session ui req ''could not decode Payload'' w s (\<lambda>c t.
     required [(uq_Chat t = [], ''missing Chat in Payload''), (uq_Sender t = [], ''missing Sender in Payload''),
               (uq_ID t = [], ''missing ID in Payload''),
               (snd (je_ParseJID (sv_jids env) (uq_Chat t)) \<noteq> None, ''invalid Chat JID format''),
               (snd (je_ParseJID (sv_jids env) (uq_Sender t)) \<noteq> None, ''invalid Sender JID format'')] w s (
     let chatJID = fst (je_ParseJID (sv_jids env) (uq_Chat t)); senderJID = fst (je_ParseJID (sv_jids env) (uq_Sender t))
     in send_plain env c chatJID (BuildUnavailableMessageRequest chatJID senderJID (uq_ID t)) ''failed to send unavailable message request: ''
          (\<lambda>ts. JObj [(''success'', JBool True), (''message'', JStr ''Unavailable message request sent successfully''),
             (''request_id'', JStr (sv_respID env)), (''chat'', JStr (uq_Chat t)), (''sender'', JStr (uq_Sender t)),
             (''message_id'', JStr (uq_ID t)), (''timestamp'', JNum ts)]) w s))"

text \<open>\<^verbatim>\<open>strconv.ParseBool\<close>.\<close>

definition ParseBool :: "string \<Rightarrow> bool option" where
  "ParseBool t =
     (if t \<in> set [''1'', ''t'', ''T'', ''true'', ''TRUE'', ''True''] then Some True
      else if t \<in> set [''0'', ''f'', ''F'', ''false'', ''FALSE'', ''False''] then Some False else None)"

record sync_query =
  sy_count :: string
  sy_chat_jid :: string
  sy_oldest_msg_id :: string
  sy_oldest_msg_from_me :: string
  sy_oldest_msg_timestamp :: string

text \<open>The zero value; the Unix milliseconds of the zero time are negative.\<close>

definition zero_info :: MessageInfo where
  "zero_info =
     (let empty = \<lparr>jv_User = [], jv_String = [], jv_isGroup = False\<rparr>
      in \<lparr>mi_ID = [], mi_Chat = empty, mi_Sender = empty, mi_IsFromMe = False, mi_IsGroup = False, mi_Timestamp = - 62135596800000\<rparr>)"

definition override_info :: "jid_env \<Rightarrow> sync_query \<Rightarrow> MessageInfo \<Rightarrow> MessageInfo" where
  "override_info je q info =
     (let i1 = (if sy_chat_jid q \<noteq> [] then (case je_ParseJID je (sy_chat_jid q) of (j, None) \<Rightarrow> info\<lparr>mi_Chat := j\<rparr> | _ \<Rightarrow> info) else info);
          i2 = (if sy_oldest_msg_id q \<noteq> [] then i1\<lparr>mi_ID := sy_oldest_msg_id q\<rparr> else i1);
          i3 = (case ParseBool (sy_oldest_msg_from_me q) of Some b \<Rightarrow> i2\<lparr>mi_IsFromMe := b\<rparr> | None \<Rightarrow> i2)
      in (case Atoi (sy_oldest_msg_timestamp q) of Some ms \<Rightarrow> i3\<lparr>mi_Timestamp := ms\<rparr> | None \<Rightarrow> i3))"

text \<open>
  The cache holds a pointer: overriding the fields of a cached message changes the cache. An entry that
  has expired is no entry.
\<close>

definition RequestHistorySync :: "send_env \<Rightarrow> user_values \<Rightarrow> sync_query \<Rightarrow> writer \<Rightarrow> srv \<Rightarrow> send_result" where
  "RequestHistorySync env ui q w s =
     with_session ui (Some q) [] w s (\<lambda>c t.
     let txtid = Values_Get ui ''Id'';
         count = (case Atoi (sy_count t) of Some n \<Rightarrow> if n > 0 then n else 50 | None \<Rightarrow> 50);
         info = override_info (sv_jids env) t (case map_of (ss_lastMessage s) txtid of Some i \<Rightarrow> i | None \<Rightarrow> zero_info);
         s1 = (if map_of (ss_lastMessage s) txtid = None then s
               else s\<lparr>ss_lastMessage := AList.update txtid info (ss_lastMessage s)\<rparr>)
     in if \<not> sv_syncRequest env info count then fail 500 ''Failed to build history sync request.'' w s1
        else
          (case GetMyClient txtid (ss_cm s1) of
             None \<Rightarrow> None
           | Some m \<Rightarrow>
          (case sv_StoreID env (mc_WAClient (my_objs (ss_cm s1) m)) of
             None \<Rightarrow> None
           | Some own \<Rightarrow>
               (let call = \<lparr>sn_client = c, sn_to = own, sn_msg = BuildHistorySyncRequest info count, sn_id = None\<rparr>
                in case sv_Send env own (BuildHistorySyncRequest info count) of
                     Inl e \<Rightarrow> Some (Respond 500 (RErr ''Failed to request history sync.'') w, [call], s1)
                   | Inr timestamp \<Rightarrow>
                       Some (Respond 200 (RData (JObj
                         [(''details'', JStr ''History sync request Sent''), (''timestamp'', JNum timestamp), (''count'', JNum count),
                          (''chat_jid'', JStr (jv_String (mi_Chat info))), (''oldest_msg_id'', JStr (mi_ID info)),
                          (''oldest_msg_from_me'', JBool (mi_IsFromMe info)), (''oldest_msg_timestamp'', JNum (mi_Timestamp info))])) w,
                         [call], s1)))))"

section \<open>Routes\<close>

text \<open>The routes behind \<^verbatim>\<open>/chat\<close> that send a message, each with its decoded payload, if it decodes.\<close>

datatype message_request =
    PostText "text_req option"
  | PostDelete "delete_req option"
  | PostImage "image_req option"
  | PostAudio "audio_req option"
  | PostDocument "document_req option"
  | PostVideo "video_req option"
  | PostSticker "sticker_req option"
  | PostLocation "location_req option"
  | PostContact "contact_req option"
  | PostReact "react_req option"
  | PostButtons "buttons_req option"
  | PostList "list_req option"
  | PostPoll "poll_req option"
  | PostEdit "edit_req option"
  | PostUnavailable "unavailable_req option"

fun serve_message :: "send_env \<Rightarrow> user_values \<Rightarrow> message_request \<Rightarrow> writer \<Rightarrow> srv \<Rightarrow> send_result" where
  "serve_message env ui (PostText r) w s = SendMessage env ui r w s"
| "serve_message env ui (PostDelete r) w s = DeleteMessage env ui r w s"
| "serve_message env ui (PostImage r) w s = SendImage env ui r w s"
| "serve_message env ui (PostAudio r) w s = SendAudio env ui r w s"
| "serve_message env ui (PostDocument r) w s = SendDocument env ui r w s"
| "serve_message env ui (PostVideo r) w s = SendVideo env ui r w s"
| "serve_message env ui (PostSticker r) w s = SendSticker env ui r w s"
| "serve_message env ui (PostLocation r) w s = SendLocation env ui r w s"
| "serve_message env ui (PostContact r) w s = SendContact env ui r w s"
| "serve_message env ui (PostReact r) w s = React env ui r w s"
| "serve_message env ui (PostButtons r) w s = SendButtons env ui r w s"
| "serve_message env ui (PostList r) w s = SendList env ui r w s"
| "serve_message env ui (PostPoll r) w s = SendPoll env ui r w s"
| "serve_message env ui (PostEdit r) w s = SendEditMessage env ui r w s"
| "serve_message env ui (PostUnavailable r) w s = RequestUnavailableMessage env ui r w s"

end
