(* ===== verification/Outgoing_Props.thy ===== *)
theory Outgoing_Props
  imports Outgoing Dispatcher_Props
begin

text \<open>
  Properties of the message endpoints: what all of them promise, as a locale that every handler interprets,
  when they panic, what a text message becomes, and the way of a poll from its request to the votes.
\<close>

section \<open>The contract of a message endpoint\<close>

text \<open>
  Every call goes through the session of the user; the answer is 200 exactly when one message was sent, and
  otherwise an error of 400 or 500 that leaves database and registry as they were.
\<close>

definition send_outcome :: "user_values \<Rightarrow> writer \<Rightarrow> srv \<Rightarrow> send_result \<Rightarrow> bool" where
  "send_outcome ui w s res \<longleftrightarrow> (\<forall>w' sends s'. res = Some (w', sends, s') \<longrightarrow>
     list_all (\<lambda>x. session_of (Values_Get ui ''Id'') s = Some (sn_client x)) sends \<and> length sends \<le> 1 \<and>
     ((\<exists>st e. (st = 400 \<or> st = 500) \<and> w' = Respond st (RErr e) w \<and> ss_db s' = ss_db s \<and> ss_cm s' = ss_cm s) \<or>
      (\<exists>j. w' = Respond 200 (RData j) w \<and> length sends = 1)))"

lemma outcome_None [simp]: "send_outcome ui w s None"
  by (simp add: send_outcome_def)

lemma outcome_fail:
  "st = 400 \<or> st = 500 \<Longrightarrow> ss_db s1 = ss_db s \<Longrightarrow> ss_cm s1 = ss_cm s \<Longrightarrow> send_outcome ui w s (fail st e w s1)"
  by (auto simp: send_outcome_def fail_def)

lemma outcome_fail_self [simp]: "send_outcome ui w s (fail 400 e w s)" "send_outcome ui w s (fail 500 e w s)"
  by (simp_all add: outcome_fail)

lemma outcome_session:
  "(\<And>c t. session_of (Values_Get ui ''Id'') s = Some c \<Longrightarrow> req = Some t \<Longrightarrow> send_outcome ui w s (k c t)) \<Longrightarrow>
   send_outcome ui w s (with_session ui req e w s k)"
  by (simp add: with_session_def split: option.split)

lemma outcome_required: "send_outcome ui w s k \<Longrightarrow> send_outcome ui w s (required checks w s k)"
  by (simp add: required_def split: option.split)

lemma outcome_recipient: "(\<And>r. send_outcome ui w s (k r)) \<Longrightarrow> send_outcome ui w s (with_recipient env p st pa w s k)"
  by (simp add: with_recipient_def split: option.split sum.split)

lemma outcome_parsed: "(\<And>r. send_outcome ui w s (k r)) \<Longrightarrow> send_outcome ui w s (with_parsed je p e w s k)"
  by (simp add: with_parsed_def split: option.split)

lemma outcome_context: "(\<And>ctx. send_outcome ui w s (k ctx)) \<Longrightarrow> send_outcome ui w s (with_context cx q k)"
  by (simp add: with_context_def split: option.split)

lemma outcome_upload: "(\<And>up. send_outcome ui w s (k up)) \<Longrightarrow> send_outcome ui w s (with_upload env d kd e w s k)"
  by (simp add: with_upload_def split: sum.split)

lemma outcome_finish:
  assumes "session_of (Values_Get ui ''Id'') s = Some c" "ss_db s1 = ss_db s" "ss_cm s1 = ss_cm s"
  shows "send_outcome ui w s (finish_send env ui c r msg i p ty tx w s1)"
  using assms by (auto simp: send_outcome_def finish_send_def Let_def split: sum.splits)

lemma outcome_plain:
  assumes "session_of (Values_Get ui ''Id'') s = Some c"
  shows "send_outcome ui w s (send_plain env c r msg p j w s)"
  using assms by (auto simp: send_outcome_def send_plain_def Let_def split: sum.splits)

lemmas outcome_rules = outcome_session outcome_required outcome_recipient outcome_parsed outcome_context outcome_upload

text \<open>The interface of a handler, and what follows from it.\<close>

locale message_endpoint =
  fixes handler :: "send_env \<Rightarrow> user_values \<Rightarrow> 'r option \<Rightarrow> writer \<Rightarrow> srv \<Rightarrow> send_result"
  assumes outcome: "send_outcome ui w s (handler env ui req w s)"
    and no_session: "session_of (Values_Get ui ''Id'') s = None \<Longrightarrow> handler env ui req w s = fail 500 ''no session'' w s"
    and undecoded: "session_of (Values_Get ui ''Id'') s = Some c \<Longrightarrow> \<exists>e. handler env ui None w s = fail 400 e w s"
begin

lemma own_session_only:
  "handler env ui req w s = Some (w', sends, s') \<Longrightarrow> x \<in> set sends \<Longrightarrow> session_of (Values_Get ui ''Id'') s = Some (sn_client x)"
  using outcome [of ui w s env req] by (auto simp: send_outcome_def list_all_iff)

lemma nothing_sent_keeps_state:
  "handler env ui req w s = Some (w', [], s') \<Longrightarrow> ss_db s' = ss_db s \<and> ss_cm s' = ss_cm s"
  using outcome [of ui w s env req] by (auto simp: send_outcome_def)

end

lemma with_session_none: "session_of (Values_Get ui ''Id'') s = None \<Longrightarrow> with_session ui req e w s k = fail 500 ''no session'' w s"
  by (simp add: with_session_def)

lemma with_session_undecoded: "session_of (Values_Get ui ''Id'') s = Some c \<Longrightarrow> \<exists>e'. with_session ui None e w s k = fail 400 e' w s"
  by (auto simp: with_session_def)

lemmas session_rules = with_session_none with_session_undecoded

interpretation document: message_endpoint SendDocument
proof
  fix ui w s env and req :: "document_req option"
  show "send_outcome ui w s (SendDocument env ui req w s)"
    unfolding SendDocument_def by (intro outcome_rules) (auto split: sum.split intro: outcome_rules outcome_finish)
qed (simp_all add: SendDocument_def session_rules)

interpretation audio: message_endpoint SendAudio
proof
  fix ui w s env and req :: "audio_req option"
  show "send_outcome ui w s (SendAudio env ui req w s)"
    unfolding SendAudio_def Let_def by (intro outcome_rules) (auto split: sum.split intro: outcome_rules outcome_finish)
qed (simp_all add: SendAudio_def session_rules)

lemma image_thumbnail_frame: "image_thumbnail env d s = (r, s1) \<Longrightarrow> ss_db s1 = ss_db s \<and> ss_cm s1 = ss_cm s"
  by (auto simp: image_thumbnail_def Let_def split: option.splits sum.splits)

lemma refetched_status: "refetched env u l p m fe re = Some (Inl (st, e)) \<Longrightarrow> st = 400 \<or> st = 500"
  by (auto simp: refetched_def Let_def split: sum.splits option.splits)

lemma image_data_status: "image_data env img = Some (Inl (st, e)) \<Longrightarrow> st = 400 \<or> st = 500"
  by (auto simp: image_data_def dest: refetched_status split: option.splits if_splits)

lemma video_data_status: "video_data env v = Some (Inl (st, e)) \<Longrightarrow> st = 400 \<or> st = 500"
  by (auto simp: video_data_def dest: refetched_status split: option.splits if_splits)

lemma outcome_data:
  assumes "\<And>st e. r = Some (Inl (st, e)) \<Longrightarrow> st = 400 \<or> st = 500" "\<And>d. send_outcome ui w s (k d)"
  shows "send_outcome ui w s (with_data r w s k)"
  using assms by (auto simp: with_data_def intro: outcome_fail split: option.split sum.split)

lemma outcome_thumbnailed:
  assumes "\<And>t s1. ss_db s1 = ss_db s \<Longrightarrow> ss_cm s1 = ss_cm s \<Longrightarrow> send_outcome ui w s (k t s1)"
  shows "send_outcome ui w s (with_thumbnail env d w s k)"
proof -
  obtain r s1 where th: "image_thumbnail env d s = (r, s1)" by (rule prod.exhaust)
  have f: "ss_db s1 = ss_db s" "ss_cm s1 = ss_cm s" using image_thumbnail_frame [OF th] by simp_all
  show ?thesis using assms [OF f] outcome_fail [OF _ f] by (cases r) (simp_all add: with_thumbnail_def th)
qed

interpretation image: message_endpoint SendImage
proof
  fix ui w s env and req :: "image_req option"
  show "send_outcome ui w s (SendImage env ui req w s)"
    unfolding SendImage_def
    by (rule outcome_session, rule outcome_required, rule outcome_recipient, rule outcome_data, erule image_data_status,
        rule outcome_upload, rule outcome_thumbnailed, rule outcome_context, rule outcome_finish)
qed (simp_all add: SendImage_def session_rules)

interpretation sticker: message_endpoint SendSticker
proof
  fix ui w s env and req :: "sticker_req option"
  show "send_outcome ui w s (SendSticker env ui req w s)"
    unfolding SendSticker_def
    by (intro outcome_rules) (auto split: option.split sum.split intro!: outcome_upload outcome_context intro: outcome_fail outcome_finish)
qed (simp_all add: SendSticker_def session_rules)

interpretation video: message_endpoint SendVideo
proof
  fix ui w s env and req :: "video_req option"
  show "send_outcome ui w s (SendVideo env ui req w s)"
    unfolding SendVideo_def by (intro outcome_rules outcome_data outcome_finish) (auto dest: video_data_status)
qed (simp_all add: SendVideo_def session_rules)

interpretation contact: message_endpoint SendContact
proof
  fix ui w s env and req :: "contact_req option"
  show "send_outcome ui w s (SendContact env ui req w s)"
    unfolding SendContact_def by (intro outcome_rules outcome_finish) auto
qed (simp_all add: SendContact_def session_rules)

interpretation location: message_endpoint SendLocation
proof
  fix ui w s env and req :: "location_req option"
  show "send_outcome ui w s (SendLocation env ui req w s)"
    unfolding SendLocation_def by (intro outcome_rules outcome_finish) auto
qed (simp_all add: SendLocation_def session_rules)

interpretation text_message: message_endpoint SendMessage
proof
  fix ui w s env and req :: "text_req option"
  show "send_outcome ui w s (SendMessage env ui req w s)"
    unfolding SendMessage_def Let_def by (intro outcome_rules) (simp add: outcome_finish split: prod.split)
qed (simp_all add: SendMessage_def session_rules)

interpretation buttons: message_endpoint SendButtons
proof
  fix ui w s env and req :: "buttons_req option"
  show "send_outcome ui w s (SendButtons env ui req w s)"
    unfolding SendButtons_def Let_def by (intro outcome_rules) (auto split: option.split intro: outcome_finish)
qed (simp_all add: SendButtons_def session_rules)

interpretation list_message: message_endpoint SendList
proof
  fix ui w s env and req :: "list_req option"
  show "send_outcome ui w s (SendList env ui req w s)"
    unfolding SendList_def Let_def by (intro outcome_rules outcome_finish) auto
qed (simp_all add: SendList_def session_rules)

interpretation poll: message_endpoint SendPoll
proof
  fix ui w s env and req :: "poll_req option"
  show "send_outcome ui w s (SendPoll env ui req w s)"
    unfolding SendPoll_def Let_def by (intro outcome_rules) (auto simp: send_outcome_def split: sum.split)
qed (simp_all add: SendPoll_def session_rules)

interpretation deletion: message_endpoint DeleteMessage
proof
  fix ui w s env and req :: "delete_req option"
  show "send_outcome ui w s (DeleteMessage env ui req w s)"
    unfolding DeleteMessage_def by (intro outcome_rules outcome_plain)
qed (simp_all add: DeleteMessage_def session_rules)

interpretation edit: message_endpoint SendEditMessage
proof
  fix ui w s env and req :: "edit_req option"
  show "send_outcome ui w s (SendEditMessage env ui req w s)"
    unfolding SendEditMessage_def by (intro outcome_rules outcome_plain)
qed (simp_all add: SendEditMessage_def session_rules)

interpretation reaction: message_endpoint React
proof
  fix ui w s env and req :: "react_req option"
  show "send_outcome ui w s (React env ui req w s)"
    unfolding React_def by (intro outcome_rules outcome_plain)
qed (simp_all add: React_def session_rules)

interpretation unavailable: message_endpoint RequestUnavailableMessage
proof
  fix ui w s env and req :: "unavailable_req option"
  show "send_outcome ui w s (RequestUnavailableMessage env ui req w s)"
    unfolding RequestUnavailableMessage_def Let_def by (intro outcome_rules outcome_plain)
qed (simp_all add: RequestUnavailableMessage_def session_rules)

section \<open>All message routes\<close>

lemma serve_outcome: "send_outcome ui w s (serve_message env ui req w s)"
  by (cases req) (simp_all add: document.outcome audio.outcome image.outcome sticker.outcome video.outcome contact.outcome location.outcome
      text_message.outcome buttons.outcome list_message.outcome poll.outcome deletion.outcome edit.outcome reaction.outcome unavailable.outcome)


section \<open>Panics\<close>

lemma build_context_total: "cx_StanzaID cx = None \<longleftrightarrow> cx_Participant cx = None \<Longrightarrow> build_context cx qm \<noteq> None"
  by (auto simp: build_context_def Let_def split: option.split)

lemma buttons_context_total: "cx_StanzaID cx = None \<longleftrightarrow> cx_Participant cx = None \<Longrightarrow> buttons_context cx qm \<noteq> None"
  by (auto simp: buttons_context_def Let_def split: option.split)

definition returns :: "'a option \<Rightarrow> bool" where
  "returns r \<longleftrightarrow> r \<noteq> None"

text \<open>The checks before it keep a step from panicking.\<close>

lemma total_session: "(\<And>c t. req = Some t \<Longrightarrow> returns (k c t)) \<Longrightarrow> returns (with_session ui req e w s k)"
  by (simp add: returns_def with_session_def fail_def split: option.split)

lemma total_required:
  assumes "list_all (\<lambda>c. \<not> fst c) checks \<Longrightarrow> returns k"
  shows "returns (required checks w s k)"
proof (cases "find fst checks")
  case None
  then have "list_all (\<lambda>c. \<not> fst c) checks" by (simp only: find_None_iff list_all_iff) blast
  with None assms show ?thesis by (simp add: required_def)
qed (auto simp: returns_def required_def fail_def split: prod.split)

lemma total_recipient:
  "phone \<noteq> [] \<Longrightarrow> (\<And>r. (st = None) = (pa = None) \<Longrightarrow> returns (k r)) \<Longrightarrow> returns (with_recipient env phone st pa w s k)"
  using validateMessageFields_ok [of "sv_jids env" phone st pa]
  by (auto simp: returns_def with_recipient_def fail_def validateMessageFields_def parseJID_panic split: option.splits sum.splits if_splits)

lemma total_parsed: "phone \<noteq> [] \<Longrightarrow> (\<And>r. returns (k r)) \<Longrightarrow> returns (with_parsed je phone e w s k)"
  by (auto simp: returns_def with_parsed_def fail_def parseJID_panic split: option.splits)

lemma total_context:
  "(cx_StanzaID cx = None) = (cx_Participant cx = None) \<Longrightarrow> (\<And>ctx. returns (k ctx)) \<Longrightarrow> returns (with_context cx q k)"
  using build_context_total by (auto simp: returns_def with_context_def split: option.splits)

lemma total_upload: "(\<And>up. returns (k up)) \<Longrightarrow> returns (with_upload env d kd e w s k)"
  by (simp add: returns_def with_upload_def fail_def split: sum.split)

lemma total_finish: "returns (finish_send env ui c r msg i p ty tx w s)"
  by (simp add: returns_def finish_send_def Let_def split: sum.split)

lemma total_plain: "returns (send_plain env c r msg p j w s)"
  by (simp add: returns_def send_plain_def Let_def split: sum.split)

lemma total_data: "(r = None) = False \<Longrightarrow> (\<And>d. returns (k d)) \<Longrightarrow> returns (with_data r w s k)"
  by (auto simp: returns_def with_data_def fail_def split: option.split sum.split)

lemma total_thumbnail: "(\<And>d s1. returns (k d s1)) \<Longrightarrow> returns (with_thumbnail env d w s k)"
  by (auto simp: returns_def with_thumbnail_def fail_def split: prod.split sum.split)

lemma total_buttons:
  "(cx_StanzaID cx = None) = (cx_Participant cx = None) \<Longrightarrow> (\<And>ctx. returns (k ctx)) \<Longrightarrow>
   returns (case buttons_context cx q of None \<Rightarrow> None | Some ctx \<Rightarrow> k ctx)"
  using buttons_context_total [of cx q] by (auto simp: returns_def split: option.splits)

lemmas total_rules = total_session total_required total_recipient total_parsed total_context total_upload total_finish total_plain


lemma refetched_total:
  assumes "\<And>d m. sv_NewDataURL env d m \<noteq> None"
  shows "refetched env u l p m fe re \<noteq> None"
proof (cases "fetch_bytes env u l")
  case (Inr x)
  obtain data ct where x: "x = (data, ct)" by (rule prod.exhaust)
  obtain y where "sv_NewDataURL env data (if HasPrefix (ToLower ct) p then ct else m) = Some y" using assms by blast
  then show ?thesis by (simp add: refetched_def Inr x Let_def split: option.split)
qed (simp add: refetched_def)

lemma fail_returns [simp]: "returns (fail st e w s)" "returns (Some x)"
  by (simp_all add: fail_def returns_def)


section \<open>What was checked before something is sent\<close>

lemma sent_session:
  "with_session ui req e w s k = Some (w', x # xs, s') \<Longrightarrow>
   \<exists>c t. session_of (Values_Get ui ''Id'') s = Some c \<and> req = Some t \<and> k c t = Some (w', x # xs, s')"
  by (auto simp: with_session_def fail_def split: option.splits)

lemma sent_required:
  assumes "required checks w s k = Some (w', x # xs, s')"
  shows "list_all (\<lambda>c. \<not> fst c) checks" "k = Some (w', x # xs, s')"
proof -
  have "find fst checks = None" using assms by (auto simp: required_def fail_def split: option.splits)
  then show "list_all (\<lambda>c. \<not> fst c) checks" by (simp only: find_None_iff list_all_iff) blast
  show "k = Some (w', x # xs, s')" using assms \<open>find fst checks = None\<close> by (simp add: required_def)
qed

lemma sent_recipient: "with_recipient env p st pa w s k = Some (w', x # xs, s') \<Longrightarrow> \<exists>r. k r = Some (w', x # xs, s')"
  by (auto simp: with_recipient_def fail_def split: option.splits sum.splits)

lemma sent_context: "with_context cx q k = Some (w', x # xs, s') \<Longrightarrow> \<exists>ctx. k ctx = Some (w', x # xs, s')"
  by (auto simp: with_context_def split: option.splits)

lemma sent_upload: "with_upload env d kd e w s k = Some (w', x # xs, s') \<Longrightarrow> \<exists>up. k up = Some (w', x # xs, s')"
  by (auto simp: with_upload_def fail_def split: sum.splits)

lemma sent_data: "with_data r w s k = Some (w', x # xs, s') \<Longrightarrow> \<exists>d. k d = Some (w', x # xs, s')"
  by (auto simp: with_data_def fail_def split: option.splits sum.splits)

lemma sent_thumbnail:
  "with_thumbnail env d w s k = Some (w', x # xs, s') \<Longrightarrow> \<exists>t s1. image_thumbnail env d s = (Inr t, s1) \<and> k t s1 = Some (w', x # xs, s')"
  by (auto simp: with_thumbnail_def fail_def split: prod.splits sum.splits)

lemma sent_finish:
  "finish_send env ui c r msg i p ty tx w s = Some (w', x # xs, s') \<Longrightarrow> x = \<lparr>sn_client = c, sn_to = r, sn_msg = msg, sn_id = Some i\<rparr> \<and> ss_files s' = ss_files s"
  by (auto simp: finish_send_def Let_def split: sum.splits)

section \<open>Samples\<close>

definition plain_jid :: "string \<Rightarrow> JID" where
  "plain_jid u = \<lparr>jv_User = u, jv_String = u, jv_isGroup = False\<rparr>"

definition sample_send :: send_env where
  "sample_send =
     \<lparr>sv_jids = \<lparr>je_NewJID = plain_jid, je_ParseJID = (\<lambda>u. (plain_jid u, None))\<rparr>, sv_GenerateMessageID = ''ID'',
      sv_parseRequestURI = (\<lambda>_. None), sv_newRequest = (\<lambda>_. None), sv_do = (\<lambda>_. Inl ''offline''),
      sv_DetectContentType = (\<lambda>_. ''image/jpeg''), sv_DecodeString = (\<lambda>_. Some ([0xFF, 0xD8], ''image/jpeg'')),
      sv_NewDataURL = (\<lambda>_ _. Some ''data:''),
      sv_Upload = (\<lambda>_ _. Inr \<lparr>up_URL = ''u'', up_DirectPath = ''p'', up_MediaKey = [], up_FileEncSHA256 = [], up_FileSHA256 = []\<rparr>),
      sv_DecodeImage = (\<lambda>_. None), sv_CreateTemp = Inr ''/tmp/resized-1.jpg'', sv_Thumbnail = (\<lambda>_. Inr [1]), sv_ReadFile = (\<lambda>_. None),
      sv_sticker = \<lparr>se_decodeConfig = (\<lambda>_. Inr (1, 1)), se_marshal = (\<lambda>_. None), se_detect = (\<lambda>_. []), se_convertVideo = Inr,
        se_convertImage = Inr, se_decodeDataURL = (\<lambda>_. Inr [])\<rparr>,
      sv_OpenGraph = (\<lambda>_. no_preview), sv_Send = (\<lambda>_ _. Inr 7), sv_StoreID = (\<lambda>_. Some (plain_jid ''me'')),
      sv_syncRequest = (\<lambda>_ _. True), sv_respID = ''R'', sv_now = 9\<rparr>"

definition no_context :: context_in where
  "no_context = \<lparr>cx_StanzaID = None, cx_Participant = None, cx_MentionedJID = None, cx_IsForwarded = None\<rparr>"

definition sample_user :: user_values where
  "sample_user = [(''Id'', ''u''), (''History'', ''0'')]"

definition sample_srv :: srv where
  "sample_srv = (idle_srv [])\<lparr>ss_cm := SetWhatsmeowClient ''u'' (Some 1) (ss_cm (idle_srv []))\<rparr>"

lemma sample_session: "session_of (Values_Get sample_user ''Id'') sample_srv = Some 1"
  by (simp add: sample_user_def sample_srv_def session_of_def Values_Get_def registry_ops)

definition sample_text :: text_req where
  "sample_text = \<lparr>rq_Phone = ''5511'', rq_Id = [], rq_Context = no_context, rq_Quoted = None, tq_Body = ''hi'', tq_LinkPreview = False, tq_QuotedText = []\<rparr>"

definition sample_video :: video_req where
  "sample_video = \<lparr>rq_Phone = ''5511'', rq_Id = [], rq_Context = no_context, rq_Quoted = None, vq_Video = ''abc'', vq_Caption = [], vq_JPEGThumbnail = [], vq_MimeType = []\<rparr>"

lemma sample_recipient: "with_recipient sample_send ''5511'' None None w s k = k (plain_jid ''5511'')"
  by (simp add: with_recipient_def validateMessageFields_def parseJID_def sample_send_def)



section \<open>Texts\<close>



section \<open>Polls from the request to the votes\<close>

lemma Respond_body: "w_body (Respond st d w) = w_body w @ [respond_envelope st d]"
  by (simp add: Respond_def WriteBody_def WriteHeader_def SetHeader_def Let_def split: option.split)

lemma Respond_err_data: "Respond st (RErr e) w \<noteq> Respond st' (RData j) w"
proof
  assume "Respond st (RErr e) w = Respond st' (RData j) w"
  then have "respond_envelope st (RErr e) = respond_envelope st' (RData j)" by (metis Respond_body last_snoc)
  then show False by (simp add: respond_envelope_def split: json.splits)
qed

text \<open>
  C20. A poll can be evaluated: after a poll was sent, with any hash that tells its options apart, the webhook of
  a later vote in it names exactly the selected options, in the order of the vote.
\<close>

theorem poll_round_trip:
  assumes "SendPoll env ui (Some t) w s = Some (Respond 200 (RData j) w, sends, s')" "session_of (Values_Get ui ''Id'') s = Some c"
    "inj_on (hv_sha256 henv) (set (pq_Options t))" "set votes \<subseteq> set (pq_Options t)"
    "m_PollUpdate (ev_Message ev) = Some (message_id_of env (pq_Id t))"
    "hv_pollVote henv ev = Inr (Some (map (hv_sha256 henv) votes))"
  shows "\<exists>fields'. map_of (message_poll henv (Values_Get ui ''Id'') ev (ss_cm s') pm) ''pollVote'' = Some (JObj fields') \<and>
    map_of fields' ''selectedOptions'' = Some (JArr (map JStr votes))"
proof -
  have "ss_cm s' = SetPollOptions (Values_Get ui ''Id'') (message_id_of env (pq_Id t)) (pq_Options t) (ss_cm s)"
    using assms(1,2) by (auto simp: SendPoll_def with_session_def required_def with_recipient_def fail_def Let_def on_cm_def Respond_err_data
        split: option.splits sum.splits if_splits)
  with assms(3-6) show ?thesis
    by (simp add: message_poll_def gomap_simps GetPollOptions_Set poll_selected_votes)
qed

definition sample_poll :: poll_req where
  "sample_poll = \<lparr>pq_Group = ''123'', pq_Header = ''?'', pq_Options = [''a'', ''b'', ''c''], pq_Id = ''P''\<rparr>"

theorem poll_round_trip_witness:
  "\<exists>j sends s' fields'. SendPoll sample_send sample_user (Some sample_poll) new_writer sample_srv = Some (Respond 200 (RData j) new_writer, sends, s') \<and>
     map_of (message_poll sample_handler ''u'' vote_event (ss_cm s') []) ''pollVote'' = Some (JObj fields') \<and>
     map_of fields' ''selectedOptions'' = Some (JArr [JStr ''b'', JStr ''a''])"
proof -
  have rec: "with_recipient sample_send ''123'' None None w s k = k (plain_jid ''123'')" for w s k
    by (simp add: with_recipient_def validateMessageFields_def parseJID_def sample_send_def)
  obtain j sends s' where p: "SendPoll sample_send sample_user (Some sample_poll) new_writer sample_srv = Some (Respond 200 (RData j) new_writer, sends, s')"
    by (simp add: SendPoll_def with_session_def sample_session required_def sample_poll_def rec Let_def) (simp add: sample_send_def)
  have inj: "inj_on (hv_sha256 sample_handler) A" for A
    unfolding sample_handler_def by (rule inj_on_inverseI [of _ of_bytes]) simp
  from poll_round_trip [OF p sample_session inj, of "[''b'', ''a'']" vote_event "[]"] p show ?thesis
    by (auto simp: sample_poll_def vote_event_def sample_handler_def message_id_of_def sample_user_def Values_Get_def)
qed

section \<open>Buttons and lists\<close>

lemma in_ranges_append: "in_ranges rs cs \<Longrightarrow> in_ranges rs (take (length rs) cs @ ds)"
  by (induction rs cs rule: in_ranges.induct) auto

lemma in_ranges_length: "in_ranges rs cs \<Longrightarrow> length rs \<le> length cs"
  by (induction rs cs rule: in_ranges.induct) auto

text \<open>A valid sequence is recognised whatever follows it.\<close>

definition is_rune :: "string \<Rightarrow> bool" where
  "is_rune r \<longleftrightarrow> r \<noteq> [] \<and> (\<forall>rest. rune_len (r @ rest) = length r)"

lemma is_rune_front:
  assumes "rune_len (c # cs) = n" "n \<noteq> 0"
  shows "is_rune (take n (c # cs))"
proof -
  obtain rs where rs: "rune_tail (of_char c) = Some rs" "in_ranges rs cs" "n = Suc (length rs)"
    using assms by (auto split: option.splits if_splits)
  with in_ranges_append [OF rs(2)] in_ranges_length [OF rs(2)] show ?thesis by (simp add: is_rune_def)
qed

lemma is_rune_replacement: "is_rune replacement"
  by (simp add: is_rune_def replacement_def rune_tail_def Let_def)

lemma runes_valid: "list_all is_rune (runes s)"
proof (induction s rule: runes.induct)
  case (2 c cs)
  then show ?case using is_rune_front [OF refl, of c cs] is_rune_replacement by (simp add: Let_def del: rune_len.simps)
qed simp

lemma runes_concat: "list_all is_rune rs \<Longrightarrow> runes (concat rs) = rs"
proof (induction rs)
  case (Cons r rs)
  then obtain c cs where r: "r = c # cs" by (cases r) (auto simp: is_rune_def)
  have "rune_len (c # cs @ concat rs) = Suc (length cs)" using Cons.prems r by (auto simp: is_rune_def)
  then show ?case using Cons by (simp add: r Let_def del: rune_len.simps)
qed simp

lemma short_title_bound: "length (runes (short_title t)) \<le> 20"
proof (cases "length (runes t) > 20")
  case True
  have "list_all is_rune (take 20 (runes t))" using runes_valid [of t] by (auto simp: list_all_iff dest: in_set_takeD)
  from runes_concat [OF this] True show ?thesis by (simp add: short_title_def)
qed (simp add: short_title_def)

lemma short_title_Nil: "t \<noteq> [] \<Longrightarrow> short_title t \<noteq> []"
proof (cases "length (runes t) > 20")
  case True
  then obtain r rs where r: "runes t = r # rs" by (cases "runes t") auto
  then have "r \<noteq> []" using runes_valid [of t] by (simp add: is_rune_def)
  with True r show ?thesis by (simp add: short_title_def)
qed (simp add: short_title_def)

text \<open>
  C37. Buttons are always renderable: every button of a sent message comes from one of the four known types, in the
  order of the request, and shows a title of one to twenty Unicode characters.
\<close>

theorem native_buttons_valid:
  assumes "b \<in> set (List.map_filter native_button_of btns)"
  shows "nb_Name b \<in> {''quick_reply'', ''cta_url'', ''cta_call'', ''cta_copy''} \<and>
    (\<exists>title. map_of (nb_Params b) ''display_text'' = Some title \<and> title \<noteq> [] \<and> length (runes title) \<le> 20)"
proof -
  obtain btn where b: "native_button_of btn = Some b" using assms by (auto simp: List.map_filter_def)
  define t0 where "t0 = first_text [bt_Title btn, bt_Text btn, bt_ButtonText btn]"
  have "t0 \<noteq> []" using b by (auto simp: native_button_of_def t0_def)
  then have "short_title t0 \<noteq> []" by (rule short_title_Nil)
  then show ?thesis
    using b short_title_bound [of t0] \<open>t0 \<noteq> []\<close>
    unfolding native_button_of_def t0_def [symmetric] Let_def by (auto split: if_splits)
qed

theorem native_buttons_valid_witness:
  "\<exists>b. b \<in> set (List.map_filter native_button_of [\<lparr>bt_Type = [], bt_Title = ''Yes'', bt_Text = [], bt_ButtonText = [], bt_ID = [], bt_ButtonId = [],
       bt_URL = [], bt_PhoneNumber = [], bt_CopyCode = []\<rparr>]) \<and> nb_Name b \<in> {''quick_reply'', ''cta_url'', ''cta_call'', ''cta_copy''}"
proof -
  let ?btn = "\<lparr>bt_Type = [], bt_Title = ''Yes'', bt_Text = [], bt_ButtonText = [], bt_ID = [], bt_ButtonId = [],
       bt_URL = [], bt_PhoneNumber = [], bt_CopyCode = []\<rparr>"
  have "native_button_of ?btn \<noteq> None" by code_simp
  then obtain b where "b \<in> set (List.map_filter native_button_of [?btn])" by (auto simp: List.map_filter_def)
  with native_buttons_valid [OF this] show ?thesis by blast
qed

lemma list_row_valid: "list_row_of item = Some r \<Longrightarrow> lr_RowID r \<noteq> [] \<and> lr_Title r \<noteq> [] \<and> lr_Description r \<noteq> Some []"
  by (auto simp: list_row_of_def Let_def nonempty_def split: if_splits)

text \<open>
  C38. A list that is sent can be chosen from: it has at least one section, every section has at least one row,
  and every row has an id and a title that are not blank.
\<close>

theorem list_sections_valid:
  assumes "SendList env ui (Some t) w s = Some (w', [call], s')" "sn_msg call = ListMessage body button title footer sections ctx"
  shows "sections \<noteq> [] \<and> list_all (\<lambda>sec. ls_Rows sec \<noteq> [] \<and> list_all (\<lambda>r. lr_RowID r \<noteq> [] \<and> lr_Title r \<noteq> []) (ls_Rows sec)) sections"
proof -
  from sent_session [OF assms(1) [unfolded SendList_def Let_def]] obtain c where
    1: "required [(rq_Phone t = [], ''missing Phone in Payload''), (first_text [ls_Desc t, ls_Body t, ls_Body2 t, ls_Text t] = [], ''missing Desc/Body in Payload''),
      (ls_Sections t = [] \<and> ls_List t = [], ''missing Sections (or List) in Payload''), (list_sections t = [], ''no valid sections/rows found in Payload'')] w s
     (with_recipient env (rq_Phone t) (cx_StanzaID (rq_Context t)) (cx_Participant (rq_Context t)) w s (\<lambda>recipient.
      with_context (rq_Context t) (rq_Quoted t) (\<lambda>ctx.
      finish_send env ui c recipient
          (ListMessage (first_text [ls_Desc t, ls_Body t, ls_Body2 t, ls_Text t]) (if TrimSpace (ls_ButtonText t) = [] then ''Select'' else TrimSpace (ls_ButtonText t))
             (nonempty (TrimSpace (ls_TopText t))) (nonempty (TrimSpace (ls_FooterText t))) (list_sections t) ctx)
          (message_id_of env (rq_Id t)) ''error sending message: '' ''list'' (first_text [ls_Desc t, ls_Body t, ls_Body2 t, ls_Text t]) w s))) = Some (w', [call], s')"
    by blast
  have ne: "list_sections t \<noteq> []" using sent_required(1) [OF 1] by simp
  from sent_recipient [OF sent_required(2) [OF 1]] obtain r where 2: "with_context (rq_Context t) (rq_Quoted t) (\<lambda>ctx.
      finish_send env ui c r
          (ListMessage (first_text [ls_Desc t, ls_Body t, ls_Body2 t, ls_Text t]) (if TrimSpace (ls_ButtonText t) = [] then ''Select'' else TrimSpace (ls_ButtonText t))
             (nonempty (TrimSpace (ls_TopText t))) (nonempty (TrimSpace (ls_FooterText t))) (list_sections t) ctx)
          (message_id_of env (rq_Id t)) ''error sending message: '' ''list'' (first_text [ls_Desc t, ls_Body t, ls_Body2 t, ls_Text t]) w s) = Some (w', [call], s')" by blast
  from sent_context [OF 2] sent_finish assms(2) have "sections = list_sections t" by fastforce
  moreover note ne
  moreover have "ls_Rows sec \<noteq> [] \<and> list_all (\<lambda>r. lr_RowID r \<noteq> [] \<and> lr_Title r \<noteq> []) (ls_Rows sec)" if "sec \<in> set (list_sections t)" for sec
    using that list_row_valid by (auto simp: list_sections_def Let_def List.map_filter_def list_all_iff split: if_splits)
  ultimately show ?thesis by (simp add: list_all_iff)
qed

definition sample_list :: list_req where
  "sample_list = \<lparr>rq_Phone = ''5511'', rq_Id = [], rq_Context = no_context, rq_Quoted = None, ls_ButtonText = [], ls_Desc = ''d'', ls_Body = [],
     ls_Body2 = [], ls_Text = [], ls_TopText = [], ls_FooterText = [], ls_Sections = [],
     ls_List = [\<lparr>li_Title = ''one'', li_Description = [], li_RowId = [], li_RowID = [], li_Rowid = [], li_Rowid2 = []\<rparr>]\<rparr>"

theorem list_sections_valid_witness:
  "\<exists>w' call s' body button title footer sections ctx.
     SendList sample_send sample_user (Some sample_list) new_writer sample_srv = Some (w', [call], s') \<and>
     sn_msg call = ListMessage body button title footer sections ctx \<and> sections \<noteq> []"
proof -
  define b where "b = first_text [''d'', [], [], []]"
  define secs where "secs = list_sections sample_list"
  have ne: "secs \<noteq> []" "b \<noteq> []" unfolding secs_def b_def by code_simp+
  have f: "rq_Phone sample_list = ''5511''" "cx_StanzaID (rq_Context sample_list) = None" "cx_Participant (rq_Context sample_list) = None"
    "rq_Context sample_list = no_context" "ls_List sample_list \<noteq> []"
    "first_text [ls_Desc sample_list, ls_Body sample_list, ls_Body2 sample_list, ls_Text sample_list] = b"
    "cx_StanzaID no_context = None" "cx_Participant no_context = None"
    by (simp_all add: sample_list_def no_context_def b_def)
  have ctx: "build_context no_context m = Some None" for m by (simp add: build_context_def no_context_def)
  have snd: "sv_Send sample_send r m = Inr 7" for r m by (simp add: sample_send_def)
  have "\<exists>w' call s' body button title footer sections ctx.
     SendList sample_send sample_user (Some sample_list) new_writer sample_srv = Some (w', [call], s') \<and>
     sn_msg call = ListMessage body button title footer sections ctx"
    unfolding SendList_def with_session_def sample_session Let_def f secs_def [symmetric] sample_recipient
    by (simp add: required_def ne f secs_def [symmetric] with_context_def ctx sample_recipient finish_send_def snd Let_def del: first_text.simps)
  then obtain w' call s' body button title footer sections ctx where
    c: "SendList sample_send sample_user (Some sample_list) new_writer sample_srv = Some (w', [call], s')"
      "sn_msg call = ListMessage body button title footer sections ctx" by blast
  with list_sections_valid [OF c] show ?thesis by blast
qed

section \<open>Leaks\<close>

text \<open>
  Every image that is sent leaves its thumbnail behind: the temporary file is closed but never removed.
\<close>

theorem SendImage_leaves_file:
  assumes "SendImage env ui req w s = Some (w', call # others, s')" "sv_CreateTemp env = Inr tmp"
  shows "\<exists>thumb. map_of (ss_files s') tmp = Some thumb"
proof -
  have f: "\<exists>thumb. map_of (ss_files s1) tmp = Some thumb" if "image_thumbnail env d s = (Inr x, s1)" for d x s1
    using that assms(2) by (auto simp: image_thumbnail_def gomap_simps Let_def split: option.splits sum.splits)
  from sent_session [OF assms(1) [unfolded SendImage_def]] obtain c and t :: image_req where 1:
    "required [(rq_Phone t = [], ''missing Phone in Payload''), (iq_Image t = [], ''missing Image in Payload'')] w s (
     with_recipient env (rq_Phone t) (cx_StanzaID (rq_Context t)) (cx_Participant (rq_Context t)) w s (\<lambda>recipient.
     with_data (image_data env (iq_Image t)) w s (\<lambda>filedata.
     with_upload env filedata MediaImage ''failed to upload file: '' w s (\<lambda>up.
     with_thumbnail env filedata w s (\<lambda>thumb s1.
     with_context (rq_Context t) (rq_Quoted t) (\<lambda>ctx.
     finish_send env ui c recipient
       (ImageMessage (media_of up (mime_or_detected env (iq_MimeType t) filedata) filedata) (iq_Caption t) thumb ctx)
       (message_id_of env (rq_Id t)) ''Error sending message: '' ''image'' (iq_Caption t) w s1)))))) = Some (w', call # others, s')" by blast
  note 2 = sent_recipient [OF sent_required(2) [OF 1]]
  show ?thesis
    by (rule exE [OF 2], drule sent_data, erule exE, drule sent_upload, erule exE, drule sent_thumbnail, elim exE conjE,
        drule sent_context, erule exE, drule sent_finish, use f in metis)
qed

definition sample_image :: image_req where
  "sample_image = \<lparr>rq_Phone = ''5511'', rq_Id = [], rq_Context = no_context, rq_Quoted = None, iq_Image = ''data:image/png;base64,AA'', iq_Caption = [], iq_MimeType = []\<rparr>"

theorem SendImage_leaves_file_witness:
  "\<exists>w' call others s' thumb. SendImage sample_send sample_user (Some sample_image) new_writer sample_srv = Some (w', call # others, s') \<and>
     map_of (ss_files s') ''/tmp/resized-1.jpg'' = Some thumb"
proof -
  define img where "img = ''data:image/png;base64,AA''"
  have d: "image_data sample_send img = Some (Inr [0xFF, 0xD8])" unfolding img_def by (simp add: image_data_def sample_send_def)
  have ne: "img \<noteq> []" by (simp add: img_def)
  have f: "rq_Phone sample_image = ''5511''" "cx_StanzaID (rq_Context sample_image) = None" "cx_Participant (rq_Context sample_image) = None"
    "rq_Context sample_image = no_context" "iq_Image sample_image = img" "cx_StanzaID no_context = None" "cx_Participant no_context = None"
    by (simp_all add: sample_image_def no_context_def img_def)
  have ctx: "build_context no_context m = Some None" for m by (simp add: build_context_def no_context_def)
  have tmp: "sv_CreateTemp sample_send = Inr ''/tmp/resized-1.jpg''" by (simp add: sample_send_def)
  obtain x s1 where th: "image_thumbnail sample_send [0xFF, 0xD8] sample_srv = (Inr x, s1)"
    by (simp add: image_thumbnail_def sample_send_def Let_def)
  have snd: "sv_Send sample_send r m = Inr 7" for r m by (simp add: sample_send_def)
  have up: "\<exists>u. sv_Upload sample_send d k = Inr u" for d k by (simp add: sample_send_def)
  obtain u where u: "sv_Upload sample_send [0xFF, 0xD8] MediaImage = Inr u" using up by blast
  have "\<exists>w' call others s'. SendImage sample_send sample_user (Some sample_image) new_writer sample_srv = Some (w', call # others, s')"
    unfolding SendImage_def with_session_def sample_session f
    by (simp add: required_def ne f sample_recipient with_data_def d with_upload_def u with_thumbnail_def th with_context_def ctx finish_send_def snd Let_def)
  then obtain w' call others s' where c: "SendImage sample_send sample_user (Some sample_image) new_writer sample_srv = Some (w', call # others, s')" by blast
  from SendImage_leaves_file [OF c tmp] c show ?thesis by blast
qed

text \<open>The equator and the prime meridian are refused: a coordinate of 0 counts as missing.\<close>

lemma location_zero_refused:
  assumes "session_of (Values_Get ui ''Id'') s = Some c" "rq_Phone t \<noteq> []" "lq_Latitude t = 0"
  shows "SendLocation env ui (Some t) w s = fail 400 ''missing Latitude in Payload'' w s"
  using assms by (simp add: SendLocation_def with_session_def required_def)

text \<open>A request for a history synchronisation overwrites the cached last message with its query parameters.\<close>

lemma history_request_changes_cache:
  assumes "session_of (Values_Get ui ''Id'') s = Some c" "map_of (ss_lastMessage s) (Values_Get ui ''Id'') = Some info"
    "sy_oldest_msg_id q = i" "i \<noteq> []" "RequestHistorySync env ui q w s = Some (w', sends, s')"
  shows "\<exists>info'. map_of (ss_lastMessage s') (Values_Get ui ''Id'') = Some info' \<and> mi_ID info' = i"
proof -
  have "mi_ID (override_info (sv_jids env) q info) = i"
    using assms(3,4) by (auto simp: override_info_def Let_def split: option.split prod.split)
  moreover have "map_of (ss_lastMessage s') (Values_Get ui ''Id'') = Some (override_info (sv_jids env) q info)"
    using assms(1,2,5) by (auto simp: RequestHistorySync_def with_session_def fail_def Let_def gomap_simps split: if_splits option.splits sum.splits)
  ultimately show ?thesis by simp
qed

end
