(* ===== verification/Chats.thy ===== *)
theory Chats
  imports Outgoing
begin

text \<open>
  The endpoints of \<^verbatim>\<open>cmd/api/handlers.go\<close> that query or change contacts, chats, groups, calls and
  newsletters, and the downloads. Each makes calls of the WhatsApp client and answers with their result;
  none changes the state of the server. Results are those of \<^theory_text>\<open>Outgoing\<close>.
\<close>

section \<open>Calls of the client\<close>

datatype wa_op =
    OpIsOnWhatsApp "string list"
  | OpGetUserInfo "JID list"
  | OpSendPresence string
  | OpGetProfilePictureInfo JID bool
  | OpGetAllContacts
  | OpUpdateBlocklist JID bool
  | OpSendChatPresence JID string string
  | OpDownload string
  | OpMarkRead "message_id list" JID JID
  | OpSetStatusMessage string
  | OpRejectCall JID string
  | OpGetLIDForPN JID
  | OpArchive JID bool
  | OpGetJoinedGroups
  | OpGetGroupInfo JID
  | OpGetGroupInviteLink JID bool
  | OpJoinGroupWithLink string
  | OpCreateGroup string "JID list"
  | OpSetGroupLocked JID bool
  | OpSetDisappearingTimer JID int
  | OpSetGroupPhoto JID "bytes option"
  | OpUpdateGroupParticipants JID "JID list" string
  | OpGetGroupInfoFromLink string
  | OpSetGroupName JID string
  | OpSetGroupTopic JID string
  | OpLeaveGroup JID
  | OpSetGroupAnnounce JID bool
  | OpGetSubscribedNewsletters

type_synonym chat_result = "(ref \<times> wa_op) api_result"

record download_req =
  dl_Url :: string
  dl_DirectPath :: string
  dl_MediaKey :: bytes
  dl_Mimetype :: string
  dl_FileEncSHA256 :: bytes
  dl_FileSHA256 :: bytes
  dl_FileLength :: "64 word"

text \<open>
  What the libraries give: \<open>ce_call\<close> is the error of a call or its result, as the value its JSON encoding
  denotes; \<open>ce_onWhatsApp\<close> gives the entries of \<^verbatim>\<open>IsOnWhatsApp\<close>, \<open>ce_blocklist\<close> hash and members of the new
  block list, if there is one, \<open>ce_LID\<close> and \<open>ce_PN\<close> the mappings of the store, with an empty JID when there is none;
  \<open>ce_makeDir\<close> checks for a user's directory and creates it.
\<close>

record chat_env =
  ce_jids :: jid_env
  ce_call :: "wa_op \<Rightarrow> string + json"
  ce_onWhatsApp :: "string list \<Rightarrow> string + (string \<times> bool \<times> string \<times> string option) list"
  ce_blocklist :: "JID \<Rightarrow> bool \<Rightarrow> string + (string \<times> JID list) option"
  ce_LID :: "JID \<Rightarrow> string + JID"
  ce_PN :: "JID \<Rightarrow> (string + JID) option"
  ce_Server :: "JID \<Rightarrow> string"
  ce_ToNonAD :: "JID \<Rightarrow> JID"
  ce_withServer :: "string \<Rightarrow> JID \<Rightarrow> JID"
  ce_userDirectory :: "string \<Rightarrow> string"
  ce_makeDir :: "string \<Rightarrow> bool"
  ce_Download :: "download_req \<Rightarrow> string + bytes"
  ce_NewDataURL :: "bytes \<Rightarrow> string \<Rightarrow> string option"
  ce_DecodeString :: "string \<Rightarrow> (bytes \<times> string) option"

text \<open>
  Many handlers pass \<^verbatim>\<open>Respond\<close> the text of an error, not an error: it is not JSON, so the envelope has the
  status, no data, and claims success.
\<close>

definition respond_text :: "nat \<Rightarrow> string \<Rightarrow> writer \<Rightarrow> writer" where
  "respond_text status msg w = Respond status (RData (JStr msg)) w"

definition details :: "string \<Rightarrow> json" where
  "details t = JObj [(''Details'', JStr t)]"

text \<open>A call, its error as an error or as a text, and the answer made from its result.\<close>

definition run_op :: "chat_env \<Rightarrow> ref \<Rightarrow> wa_op \<Rightarrow> (string \<Rightarrow> writer \<Rightarrow> writer) \<Rightarrow> (json \<Rightarrow> json) \<Rightarrow> writer \<Rightarrow> srv \<Rightarrow> chat_result" where
  "run_op env c op onError reply w s =
     (case ce_call env op of
        Inl e \<Rightarrow> Some (onError e w, [(c, op)], s)
      | Inr j \<Rightarrow> Some (Respond 200 (RData (reply j)) w, [(c, op)], s))"

definition as_error :: "string \<Rightarrow> string \<Rightarrow> writer \<Rightarrow> writer" where
  "as_error prefix e w = Respond 500 (RErr (prefix @ e)) w"

definition fixed_error :: "string \<Rightarrow> string \<Rightarrow> writer \<Rightarrow> writer" where
  "fixed_error msg e w = Respond 500 (RErr msg) w"

definition as_text :: "string \<Rightarrow> string \<Rightarrow> writer \<Rightarrow> writer" where
  "as_text prefix e w = respond_text 500 (prefix @ e) w"

section \<open>Users\<close>

definition CheckUser :: "chat_env \<Rightarrow> user_values \<Rightarrow> string list option \<Rightarrow> writer \<Rightarrow> srv \<Rightarrow> chat_result" where
  "CheckUser env ui req w s =
     with_session ui req ''could not decode Payload'' w s (\<lambda>c phones.
     required [(length phones < 1, ''missing Phone in Payload'')] w s (
     case ce_onWhatsApp env phones of
       Inl e \<Rightarrow> Some (Respond 500 (RErr (''failed to check if users are on WhatsApp: '' @ e)) w, [(c, OpIsOnWhatsApp phones)], s)
     | Inr resp \<Rightarrow>
         (let users = map (\<lambda>(query, isIn, jid, name).
                JObj [(''Query'', JStr query), (''IsInWhatsapp'', JBool isIn), (''JID'', JStr jid),
                      (''VerifiedName'', JStr (case name of Some n \<Rightarrow> n | None \<Rightarrow> []))]) resp
          in Some (Respond 200 (RData (JObj [(''Users'', if users = [] then JNull else JArr users)])) w, [(c, OpIsOnWhatsApp phones)], s))))"

fun parse_all :: "jid_env \<Rightarrow> string list \<Rightarrow> JID list option" where
  "parse_all je [] = Some []"
| "parse_all je (arg # args) =
     (case je_ParseJID je arg of
        (_, Some err) \<Rightarrow> None
      | (jid, None) \<Rightarrow> map_option (\<lambda>js. jid # js) (parse_all je args))"

text \<open>When an argument does not parse, the handler returns without an answer.\<close>

definition GetUser :: "chat_env \<Rightarrow> user_values \<Rightarrow> string list option \<Rightarrow> writer \<Rightarrow> srv \<Rightarrow> chat_result" where
  "GetUser env ui req w s =
     with_session ui req ''could not decode Payload'' w s (\<lambda>c phones.
     required [(length phones < 1, ''missing Phone in Payload'')] w s (
     case parse_all (ce_jids env) phones of
       None \<Rightarrow> Some (w, [], s)
     | Some jids \<Rightarrow>
         run_op env c (OpGetUserInfo jids) (as_text ''Failed to get user info: '') (\<lambda>j. JObj [(''Users'', j)]) w s))"

definition quoted_name :: "string \<Rightarrow> string" where
  "quoted_name t = [CHR 0x27] @ t @ [CHR 0x27]"

definition SendPresence :: "chat_env \<Rightarrow> user_values \<Rightarrow> string option \<Rightarrow> writer \<Rightarrow> srv \<Rightarrow> chat_result" where
  "SendPresence env ui req w s =
     with_session ui req ''could not decode Payload'' w s (\<lambda>c ty.
     required [(ty \<noteq> ''available'' \<and> ty \<noteq> ''unavailable'',
                ''invalid presence type. Allowed values: '' @ quoted_name ''available'' @ '', '' @ quoted_name ''unavailable'')] w s (
     run_op env c (OpSendPresence ty) (fixed_error ''failure sending presence to Whatsapp servers'')
       (\<lambda>_. details ''Presence set successfuly'') w s))"

record avatar_req =
  av_Phone :: string
  av_Preview :: bool

definition GetAvatar :: "chat_env \<Rightarrow> user_values \<Rightarrow> avatar_req option \<Rightarrow> writer \<Rightarrow> srv \<Rightarrow> chat_result" where
  "GetAvatar env ui req w s =
     with_session ui req ''could not decode Payload'' w s (\<lambda>c t.
     required [(length (av_Phone t) < 1, ''missing Phone in Payload'')] w s (
     with_parsed (ce_jids env) (av_Phone t) ''could not parse Phone'' w s (\<lambda>jid.
     let op = OpGetProfilePictureInfo jid (av_Preview t)
     in case ce_call env op of
          Inl e \<Rightarrow> Some (as_error ''failed to get avatar: '' e w, [(c, op)], s)
        | Inr pic \<Rightarrow>
            if pic = JNull then Some (Respond 500 (RErr ''no avatar found'') w, [(c, op)], s)
            else Some (Respond 200 (RData pic) w, [(c, op)], s))))"

definition GetContacts :: "chat_env \<Rightarrow> user_values \<Rightarrow> writer \<Rightarrow> srv \<Rightarrow> chat_result" where
  "GetContacts env ui w s =
     with_session ui (Some ()) [] w s (\<lambda>c _. run_op env c OpGetAllContacts (as_error []) (\<lambda>j. j) w s)"

subsection \<open>The block list\<close>

definition normalizeBlocklistJID :: "chat_env \<Rightarrow> JID \<Rightarrow> JID" where
  "normalizeBlocklistJID env jid =
     (let jid = ce_ToNonAD env jid
      in if ce_Server env jid = ''c.us'' then ce_withServer env ''s.whatsapp.net'' jid else jid)"

text \<open>A missing store and a missing entry are errors, as are servers other than those of phone numbers and LIDs.\<close>

definition getCachedPNForLID :: "chat_env \<Rightarrow> JID \<Rightarrow> string + JID" where
  "getCachedPNForLID env jid =
     (case ce_PN env jid of
        None \<Rightarrow> Inl ''LID-to-PN mapping store is not available''
      | Some (Inl e) \<Rightarrow> Inl (''could not resolve phone-number JID for LID '' @ jv_String jid @ '': '' @ e)
      | Some (Inr pn) \<Rightarrow>
          if ce_Server env pn = [] then Inl (''could not resolve phone-number JID for LID '' @ jv_String jid) else Inr pn)"

text \<open>\<^verbatim>\<open>%q\<close> of a string of ASCII characters; other characters are kept as they are.\<close>

definition quote_char :: "char \<Rightarrow> string" where
  "quote_char c =
     (if c = CHR 0x22 \<or> c = CHR 0x5C then [CHR 0x5C, c]
      else case map_of [(CHR 0x07, CHR ''a''), (CHR 0x08, CHR ''b''), (CHR 0x0C, CHR ''f''), (CHR 0x0A, CHR ''n''),
                        (CHR 0x0D, CHR ''r''), (CHR 0x09, CHR ''t''), (CHR 0x0B, CHR ''v'')] c of
             Some e \<Rightarrow> [CHR 0x5C, e]
           | None \<Rightarrow>
               if (of_char c :: nat) < 32 \<or> (of_char c :: nat) = 127 then [CHR 0x5C, CHR ''x''] @ hex_encode [of_char c]
               else [c])"

definition quoted :: "string \<Rightarrow> string" where
  "quoted s = [CHR 0x22] @ concat (map quote_char s) @ [CHR 0x22]"

definition resolveBlocklistPNJID :: "chat_env \<Rightarrow> JID \<Rightarrow> string + JID" where
  "resolveBlocklistPNJID env jid =
     (let jid = normalizeBlocklistJID env jid
      in if ce_Server env jid = ''s.whatsapp.net'' then Inr jid
         else if ce_Server env jid = ''lid'' then
           (case getCachedPNForLID env jid of Inl e \<Rightarrow> Inl e | Inr pn \<Rightarrow> Inr (normalizeBlocklistJID env pn))
         else Inl (''unsupported blocklist JID server '' @ quoted (ce_Server env jid)))"

record blocklist_req =
  bl_Phone :: string
  bl_JID :: string

definition updateUserBlocklist :: "bool \<Rightarrow> chat_env \<Rightarrow> user_values \<Rightarrow> blocklist_req option \<Rightarrow> writer \<Rightarrow> srv \<Rightarrow> chat_result" where
  "updateUserBlocklist block env ui req w s =
     with_session ui req ''could not decode Payload'' w s (\<lambda>c t.
     let target = TrimSpace (if bl_JID t = [] then bl_Phone t else bl_JID t)
     in required [(target = [], ''missing Phone or JID in Payload'')] w s (
     with_parsed (ce_jids env) target ''could not parse Phone or JID'' w s (\<lambda>parsed.
     let jid = normalizeBlocklistJID env parsed
     in case resolveBlocklistPNJID env jid of
          Inl e \<Rightarrow> fail 500 (''failed to update blocklist: '' @ e) w s
        | Inr blocklistJID \<Rightarrow>
            (let call = (c, OpUpdateBlocklist blocklistJID block)
             in case ce_blocklist env blocklistJID block of
                  Inl e \<Rightarrow> Some (Respond 500 (RErr (''failed to update blocklist: '' @ e)) w, [call], s)
                | Inr blocklist \<Rightarrow>
                    (let blocked = (case blocklist of None \<Rightarrow> [] | Some (_, js) \<Rightarrow> map (\<lambda>j. JStr (jv_String j)) js);
                         dhash = (case blocklist of None \<Rightarrow> [] | Some (h, _) \<Rightarrow> h)
                     in Some (Respond 200 (RData (JObj
                          ([(''Details'', JStr (if block then ''User blocked'' else ''User unblocked'')),
                            (''JID'', JStr (jv_String blocklistJID)), (''Blocklist'', JArr blocked), (''DHash'', JStr dhash)] @
                           (if blocklistJID \<noteq> jid then [(''RequestedJID'', JStr (jv_String jid))] else [])))) w, [call], s))))))"

definition BlockUser :: "chat_env \<Rightarrow> user_values \<Rightarrow> blocklist_req option \<Rightarrow> writer \<Rightarrow> srv \<Rightarrow> chat_result" where
  "BlockUser = updateUserBlocklist True"

definition UnblockUser :: "chat_env \<Rightarrow> user_values \<Rightarrow> blocklist_req option \<Rightarrow> writer \<Rightarrow> srv \<Rightarrow> chat_result" where
  "UnblockUser = updateUserBlocklist False"

definition GetUserLID :: "chat_env \<Rightarrow> user_values \<Rightarrow> string \<Rightarrow> writer \<Rightarrow> srv \<Rightarrow> chat_result" where
  "GetUserLID env ui jidParam w s =
     with_session ui (Some ()) [] w s (\<lambda>c _.
     required [(jidParam = [], ''missing jid parameter'')] w s (
     with_parsed (ce_jids env) jidParam ''invalid jid format'' w s (\<lambda>jid.
     case ce_LID env jid of
       Inl e \<Rightarrow> Some (Respond 404 (RErr (''LID not found for this number: '' @ e)) w, [(c, OpGetLIDForPN jid)], s)
     | Inr lid \<Rightarrow>
         if ce_Server env lid = [] then Some (Respond 404 (RErr ''LID not found for this number'') w, [(c, OpGetLIDForPN jid)], s)
         else Some (Respond 200 (RData (JObj [(''jid'', JStr (jv_String jid)), (''lid'', JStr (jv_String lid))])) w, [(c, OpGetLIDForPN jid)], s))))"

section \<open>Chats and calls\<close>

record chat_presence_req =
  cp_Phone :: string
  cp_State :: string
  cp_Media :: string

definition ChatPresence :: "chat_env \<Rightarrow> user_values \<Rightarrow> chat_presence_req option \<Rightarrow> writer \<Rightarrow> srv \<Rightarrow> chat_result" where
  "ChatPresence env ui req w s =
     with_session ui req ''could not decode Payload'' w s (\<lambda>c t.
     required [(length (cp_Phone t) < 1, ''missing Phone in Payload''), (length (cp_State t) < 1, ''missing State in Payload'')] w s (
     with_parsed (ce_jids env) (cp_Phone t) ''could not parse Phone'' w s (\<lambda>jid.
     run_op env c (OpSendChatPresence jid (cp_State t) (cp_Media t)) (fixed_error ''failure sending chat presence to Whatsapp servers'')
       (\<lambda>_. details ''Chat presence set successfuly'') w s)))"

record mark_read_req =
  mr_Id :: "message_id list"
  mr_Chat :: JID
  mr_Sender :: JID
  mr_ChatPhone :: string
  mr_SenderPhone :: string

definition MarkRead :: "chat_env \<Rightarrow> user_values \<Rightarrow> mark_read_req option \<Rightarrow> writer \<Rightarrow> srv \<Rightarrow> chat_result" where
  "MarkRead env ui req w s =
     with_session ui req ''could not decode Payload'' w s (\<lambda>c t.
     let finish = (\<lambda>jidChat jidSender.
           required [(length (mr_Id t) < 1, ''missing Id in Payload'')] w s (
           run_op env c (OpMarkRead (mr_Id t) jidChat jidSender) (fixed_error ''failure marking messages as read'')
             (\<lambda>_. details ''Message(s) marked as read'') w s));
         sender = (\<lambda>jidChat.
           if length (mr_SenderPhone t) > 0 then with_parsed (ce_jids env) (mr_SenderPhone t) ''could not parse SenderPhone'' w s (finish jidChat)
           else if jv_String (mr_Sender t) \<noteq> [] then finish jidChat (mr_Sender t)
           else finish jidChat \<lparr>jv_User = [], jv_String = [], jv_isGroup = False\<rparr>)
     in if length (mr_ChatPhone t) > 0 then with_parsed (ce_jids env) (mr_ChatPhone t) ''could not parse ChatPhone'' w s sender
        else if jv_String (mr_Chat t) \<noteq> [] then sender (mr_Chat t)
        else fail 400 ''missing ChatPhone in Payload'' w s)"

definition SetStatusMessage :: "chat_env \<Rightarrow> user_values \<Rightarrow> string option \<Rightarrow> writer \<Rightarrow> srv \<Rightarrow> chat_result" where
  "SetStatusMessage env ui req w s =
     with_session ui req ''could not decode Payload'' w s (\<lambda>c body.
     required [(body = [], ''missing Body in Payload'')] w s (
     run_op env c (OpSetStatusMessage body) (as_error ''error sending status message: '') (\<lambda>_. details ''Set'') w s))"

record reject_req =
  rj_CallFrom :: string
  rj_CallID :: string

definition RejectCall :: "chat_env \<Rightarrow> user_values \<Rightarrow> reject_req option \<Rightarrow> writer \<Rightarrow> srv \<Rightarrow> chat_result" where
  "RejectCall env ui req w s =
     with_session ui req ''could not decode Payload'' w s (\<lambda>c t.
     required [(rj_CallFrom t = [], ''missing call_from in Payload''), (rj_CallID t = [], ''missing call_id in Payload'')] w s (
     with_parsed (ce_jids env) (rj_CallFrom t) ''could not parse call_from'' w s (\<lambda>jid.
     run_op env c (OpRejectCall jid (rj_CallID t)) (as_error ''error rejecting call: '')
       (\<lambda>_. JObj [(''Details'', JStr ''Call rejected''), (''CallID'', JStr (rj_CallID t))]) w s)))"

record archive_req =
  ar_Jid :: string
  ar_Archive :: bool

definition ArchiveChat :: "chat_env \<Rightarrow> user_values \<Rightarrow> archive_req option \<Rightarrow> writer \<Rightarrow> srv \<Rightarrow> chat_result" where
  "ArchiveChat env ui req w s =
     with_session ui req ''could not decode Payload'' w s (\<lambda>c t.
     required [(ar_Jid t = [], ''missing jid in Payload''),
               (snd (je_ParseJID (ce_jids env) (ar_Jid t)) \<noteq> None, ''invalid Chat JID format'')] w s (
     run_op env c (OpArchive (fst (je_ParseJID (ce_jids env) (ar_Jid t))) (ar_Archive t)) (as_error ''failed to archive chat: '')
       (\<lambda>_. JObj [(''success'', JBool True), (''message'', JStr (if ar_Archive t then ''Chat archived'' else ''Chat unarchived''))]) w s))"

section \<open>Downloads\<close>

text \<open>
  The five download handlers differ in the kind of message they build and its name. The directory of the
  user is made before the payload is decoded. \<^verbatim>\<open>dataurl.New\<close> panics on a media type that is none.
\<close>

definition download :: "string \<Rightarrow> chat_env \<Rightarrow> user_values \<Rightarrow> download_req option \<Rightarrow> writer \<Rightarrow> srv \<Rightarrow> chat_result" where
  "download kind env ui req w s =
     with_session ui (Some ()) [] w s (\<lambda>c _.
     if \<not> ce_makeDir env (Values_Get ui ''Id'')
     then fail 500 (''could not create user directory ('' @ ce_userDirectory env (Values_Get ui ''Id'') @ '')'') w s
     else (case req of
             None \<Rightarrow> fail 400 ''could not decode Payload'' w s
           | Some t \<Rightarrow>
               (case ce_Download env t of
                  Inl e \<Rightarrow> Some (Respond 500 (RErr (''failed to download '' @ kind @ '' '' @ e)) w, [(c, OpDownload kind)], s)
                | Inr data \<Rightarrow>
                    (case ce_NewDataURL env data (dl_Mimetype t) of
                       None \<Rightarrow> None
                     | Some url \<Rightarrow>
                         Some (Respond 200 (RData (JObj [(''Mimetype'', JStr (dl_Mimetype t)), (''Data'', JStr url)])) w,
                               [(c, OpDownload kind)], s)))))"

definition DownloadImage :: "chat_env \<Rightarrow> user_values \<Rightarrow> download_req option \<Rightarrow> writer \<Rightarrow> srv \<Rightarrow> chat_result" where
  "DownloadImage = download ''image''"

definition DownloadDocument :: "chat_env \<Rightarrow> user_values \<Rightarrow> download_req option \<Rightarrow> writer \<Rightarrow> srv \<Rightarrow> chat_result" where
  "DownloadDocument = download ''document''"

definition DownloadVideo :: "chat_env \<Rightarrow> user_values \<Rightarrow> download_req option \<Rightarrow> writer \<Rightarrow> srv \<Rightarrow> chat_result" where
  "DownloadVideo = download ''video''"

definition DownloadAudio :: "chat_env \<Rightarrow> user_values \<Rightarrow> download_req option \<Rightarrow> writer \<Rightarrow> srv \<Rightarrow> chat_result" where
  "DownloadAudio = download ''audio''"

definition DownloadSticker :: "chat_env \<Rightarrow> user_values \<Rightarrow> download_req option \<Rightarrow> writer \<Rightarrow> srv \<Rightarrow> chat_result" where
  "DownloadSticker = download ''sticker''"

section \<open>Groups\<close>

definition ListGroups :: "chat_env \<Rightarrow> user_values \<Rightarrow> writer \<Rightarrow> srv \<Rightarrow> chat_result" where
  "ListGroups env ui w s =
     with_session ui (Some ()) [] w s (\<lambda>c _.
     run_op env c OpGetJoinedGroups (as_text ''failed to get group list: '')
       (\<lambda>j. JObj [(''Groups'', case j of JArr [] \<Rightarrow> JNull | _ \<Rightarrow> j)]) w s)"

definition GetGroupInfo :: "chat_env \<Rightarrow> user_values \<Rightarrow> string \<Rightarrow> writer \<Rightarrow> srv \<Rightarrow> chat_result" where
  "GetGroupInfo env ui groupJID w s =
     with_session ui (Some ()) [] w s (\<lambda>c _.
     required [(groupJID = [], ''missing groupJID parameter'')] w s (
     with_parsed (ce_jids env) groupJID ''could not parse Group JID'' w s (\<lambda>grp.
     run_op env c (OpGetGroupInfo grp) (as_text ''Failed to get group info: '') (\<lambda>j. j) w s)))"

definition GetGroupInviteLink :: "chat_env \<Rightarrow> user_values \<Rightarrow> string \<Rightarrow> string \<Rightarrow> writer \<Rightarrow> srv \<Rightarrow> chat_result" where
  "GetGroupInviteLink env ui groupJID resetParam w s =
     with_session ui (Some ()) [] w s (\<lambda>c _.
     required [(groupJID = [], ''missing groupJID parameter''),
               (resetParam \<noteq> [] \<and> ParseBool resetParam = None, ''invalid reset parameter, must be true or false'')] w s (
     with_parsed (ce_jids env) groupJID ''could not parse Group JID'' w s (\<lambda>grp.
     run_op env c (OpGetGroupInviteLink grp (ParseBool resetParam = Some True)) (as_text ''Failed to get group invite link: '')
       (\<lambda>j. JObj [(''InviteLink'', j)]) w s)))"

definition GroupJoin :: "chat_env \<Rightarrow> user_values \<Rightarrow> string option \<Rightarrow> writer \<Rightarrow> srv \<Rightarrow> chat_result" where
  "GroupJoin env ui req w s =
     with_session ui req ''could not decode Payload'' w s (\<lambda>c code.
     required [(code = [], ''missing Code in Payload'')] w s (
     run_op env c (OpJoinGroupWithLink code) (as_text ''failed to join group: '') (\<lambda>_. details ''Group joined successfully'') w s))"

text \<open>\<^verbatim>\<open>parseJID\<close> on every phone number, which panics on an empty one; \<^term>\<open>Inl\<close> is a number that does not parse.\<close>

fun parse_phones :: "jid_env \<Rightarrow> string list \<Rightarrow> (unit + JID list) option" where
  "parse_phones je [] = Some (Inr [])"
| "parse_phones je (phone # phones) =
     (case parseJID je phone of
        None \<Rightarrow> None
      | Some (_, False) \<Rightarrow> Some (Inl ())
      | Some (jid, True) \<Rightarrow>
          (case parse_phones je phones of
             None \<Rightarrow> None | Some (Inl u) \<Rightarrow> Some (Inl u) | Some (Inr jids) \<Rightarrow> Some (Inr (jid # jids))))"

definition with_phones :: "chat_env \<Rightarrow> string list \<Rightarrow> string \<Rightarrow> writer \<Rightarrow> srv \<Rightarrow> (JID list \<Rightarrow> chat_result) \<Rightarrow> chat_result" where
  "with_phones env phones e w s k =
     (case parse_phones (ce_jids env) phones of
        None \<Rightarrow> None | Some (Inl _) \<Rightarrow> fail 400 e w s | Some (Inr jids) \<Rightarrow> k jids)"

record create_group_req =
  cg_Name :: string
  cg_Participants :: "string list"

definition CreateGroup :: "chat_env \<Rightarrow> user_values \<Rightarrow> create_group_req option \<Rightarrow> writer \<Rightarrow> srv \<Rightarrow> chat_result" where
  "CreateGroup env ui req w s =
     with_session ui req ''could not decode Payload'' w s (\<lambda>c t.
     required [(cg_Name t = [], ''missing Name in Payload''), (length (cg_Participants t) < 1, ''missing Participants in Payload'')] w s (
     with_phones env (cg_Participants t) ''could not parse Participant Phone'' w s (\<lambda>jids.
     run_op env c (OpCreateGroup (cg_Name t) jids) (as_text ''failed to create group: '') (\<lambda>j. j) w s)))"

text \<open>The handlers on one group parse its JID first, without checking that it is there.\<close>

definition on_group :: "chat_env \<Rightarrow> user_values \<Rightarrow> 'r option \<Rightarrow> ('r \<Rightarrow> string) \<Rightarrow> writer \<Rightarrow> srv \<Rightarrow> (ref \<Rightarrow> 'r \<Rightarrow> JID \<Rightarrow> chat_result) \<Rightarrow> chat_result" where
  "on_group env ui req groupJID w s k =
     with_session ui req ''could not decode Payload'' w s (\<lambda>c t.
     with_parsed (ce_jids env) (groupJID t) ''could not parse Group JID'' w s (k c t))"

definition SetGroupLocked :: "chat_env \<Rightarrow> user_values \<Rightarrow> (string \<times> bool) option \<Rightarrow> writer \<Rightarrow> srv \<Rightarrow> chat_result" where
  "SetGroupLocked env ui req w s =
     on_group env ui req fst w s (\<lambda>c t grp.
     run_op env c (OpSetGroupLocked grp (snd t)) (as_text ''failed to set group locked: '')
       (\<lambda>_. details ''Group Locked setting updated successfully'') w s)"

text \<open>A \<^verbatim>\<open>time.Duration\<close> counts nanoseconds.\<close>

definition timer_duration :: "string \<Rightarrow> int option" where
  "timer_duration d = map_of [(''24h'', 24 * 3600000000000), (''7d'', 7 * 24 * 3600000000000), (''90d'', 90 * 24 * 3600000000000), (''off'', 0)] d"

definition SetDisappearingTimer :: "chat_env \<Rightarrow> user_values \<Rightarrow> (string \<times> string) option \<Rightarrow> writer \<Rightarrow> srv \<Rightarrow> chat_result" where
  "SetDisappearingTimer env ui req w s =
     on_group env ui req fst w s (\<lambda>c t grp.
     required [(snd t = [], ''missing Duration in Payload''),
               (timer_duration (snd t) = None, ''invalid duration. Use: 24h, 7d, 90d, or off'')] w s (
     run_op env c (OpSetDisappearingTimer grp (the (timer_duration (snd t)))) (as_text ''failed to set disappearing timer: '')
       (\<lambda>_. details ''Disappearing timer set successfully'') w s))"

definition RemoveGroupPhoto :: "chat_env \<Rightarrow> user_values \<Rightarrow> string option \<Rightarrow> writer \<Rightarrow> srv \<Rightarrow> chat_result" where
  "RemoveGroupPhoto env ui req w s =
     on_group env ui req (\<lambda>g. g) w s (\<lambda>c t grp.
     run_op env c (OpSetGroupPhoto grp None) (as_text ''failed to remove group photo: '')
       (\<lambda>_. details ''Group Photo removed successfully'') w s)"

record participants_req =
  gp_GroupJID :: string
  gp_Phone :: "string list"
  gp_Action :: string

definition UpdateGroupParticipants :: "chat_env \<Rightarrow> user_values \<Rightarrow> participants_req option \<Rightarrow> writer \<Rightarrow> srv \<Rightarrow> chat_result" where
  "UpdateGroupParticipants env ui req w s =
     on_group env ui req gp_GroupJID w s (\<lambda>c t grp.
     required [(length (gp_Phone t) < 1, ''missing Phone in Payload'')] w s (
     with_phones env (gp_Phone t) ''could not parse Phone'' w s (\<lambda>jids.
     required [(gp_Action t = [], ''missing Action in Payload''),
               (gp_Action t \<notin> set [''add'', ''remove'', ''promote'', ''demote''], ''invalid Action in Payload'')] w s (
     run_op env c (OpUpdateGroupParticipants grp jids (gp_Action t)) (as_text ''failed to change participant group: '')
       (\<lambda>_. details ''Group Participants updated successfully'') w s))))"

definition GetGroupInviteInfo :: "chat_env \<Rightarrow> user_values \<Rightarrow> string option \<Rightarrow> writer \<Rightarrow> srv \<Rightarrow> chat_result" where
  "GetGroupInviteInfo env ui req w s =
     with_session ui req ''could not decode Payload'' w s (\<lambda>c code.
     required [(code = [], ''missing Code in Payload'')] w s (
     run_op env c (OpGetGroupInfoFromLink code) (as_text ''failed to get group invite info: '') (\<lambda>j. j) w s))"

text \<open>The photo must be a data URL of a JPEG file, which starts with \<^verbatim>\<open>FF D8 FF\<close>.\<close>

definition group_photo :: "chat_env \<Rightarrow> string \<Rightarrow> string + bytes" where
  "group_photo env img =
     (if length img > 10 \<and> take 10 img = ''data:image'' then
        (case ce_DecodeString env img of
           None \<Rightarrow> Inl ''could not decode base64 encoded data from payload''
         | Some (filedata, _) \<Rightarrow>
             if length filedata = 0 then Inl ''no image data found in payload''
             else if length filedata < 3 \<or> filedata ! 0 \<noteq> 0xFF \<or> filedata ! 1 \<noteq> 0xD8 \<or> filedata ! 2 \<noteq> 0xFF
             then Inl ''image must be in JPEG format. WhatsApp only accepts JPEG images for group photos''
             else Inr filedata)
      else Inl ''image data should start with \"data:image/\" (supported formats: jpeg, png, gif, webp)'')"

definition SetGroupPhoto :: "chat_env \<Rightarrow> user_values \<Rightarrow> (string \<times> string) option \<Rightarrow> writer \<Rightarrow> srv \<Rightarrow> chat_result" where
  "SetGroupPhoto env ui req w s =
     on_group env ui req fst w s (\<lambda>c t grp.
     required [(snd t = [], ''missing Image in Payload'')] w s (
     case group_photo env (snd t) of
       Inl e \<Rightarrow> fail 400 e w s
     | Inr filedata \<Rightarrow>
         run_op env c (OpSetGroupPhoto grp (Some filedata)) (as_text ''failed to set group photo: '')
           (\<lambda>j. JObj [(''Details'', JStr ''Group Photo set successfully''), (''PictureID'', j)]) w s))"

definition SetGroupName :: "chat_env \<Rightarrow> user_values \<Rightarrow> (string \<times> string) option \<Rightarrow> writer \<Rightarrow> srv \<Rightarrow> chat_result" where
  "SetGroupName env ui req w s =
     on_group env ui req fst w s (\<lambda>c t grp.
     required [(snd t = [], ''missing Name in Payload'')] w s (
     run_op env c (OpSetGroupName grp (snd t)) (as_text ''failed to set group name: '') (\<lambda>_. details ''Group Name set successfully'') w s))"

definition SetGroupTopic :: "chat_env \<Rightarrow> user_values \<Rightarrow> (string \<times> string) option \<Rightarrow> writer \<Rightarrow> srv \<Rightarrow> chat_result" where
  "SetGroupTopic env ui req w s =
     on_group env ui req fst w s (\<lambda>c t grp.
     required [(snd t = [], ''missing Topic in Payload'')] w s (
     run_op env c (OpSetGroupTopic grp (snd t)) (as_text ''failed to set group topic: '') (\<lambda>_. details ''Group Topic set successfully'') w s))"

definition GroupLeave :: "chat_env \<Rightarrow> user_values \<Rightarrow> string option \<Rightarrow> writer \<Rightarrow> srv \<Rightarrow> chat_result" where
  "GroupLeave env ui req w s =
     on_group env ui req (\<lambda>g. g) w s (\<lambda>c t grp.
     run_op env c (OpLeaveGroup grp) (as_text ''failed to leave group: '') (\<lambda>_. details ''Group left successfully'') w s)"

definition SetGroupAnnounce :: "chat_env \<Rightarrow> user_values \<Rightarrow> (string \<times> bool) option \<Rightarrow> writer \<Rightarrow> srv \<Rightarrow> chat_result" where
  "SetGroupAnnounce env ui req w s =
     on_group env ui req fst w s (\<lambda>c t grp.
     run_op env c (OpSetGroupAnnounce grp (snd t)) (as_text ''failed to set group announce: '') (\<lambda>_. details ''Group Announce set successfully'') w s)"

definition ListNewsletter :: "chat_env \<Rightarrow> user_values \<Rightarrow> writer \<Rightarrow> srv \<Rightarrow> chat_result" where
  "ListNewsletter env ui w s =
     with_session ui (Some ()) [] w s (\<lambda>c _.
     run_op env c OpGetSubscribedNewsletters (as_text ''failed to get newsletter list: '') (\<lambda>j. JObj [(''Newsletter'', j)]) w s)"

section \<open>Routes\<close>

datatype chat_request =
    PostCheck "string list option" | PostInfo "string list option" | PostPresence "string option" | PostAvatar "avatar_req option"
  | GetAllContacts | PostBlock "blocklist_req option" | PostUnblock "blocklist_req option" | GetLID string
  | PostChatPresence "chat_presence_req option" | PostMarkRead "mark_read_req option" | PostStatus "string option"
  | PostReject "reject_req option" | PostArchive "archive_req option"
  | PostDownload string "download_req option" | GetNewsletters

datatype group_request =
    PostCreate "create_group_req option" | GetGroups | GetInfo string | GetInviteLink string string
  | PostPhoto "(string \<times> string) option" | PostPhotoRemove "string option" | PostLeave "string option"
  | PostName "(string \<times> string) option" | PostTopic "(string \<times> string) option" | PostAnnounce "(string \<times> bool) option"
  | PostLocked "(string \<times> bool) option" | PostEphemeral "(string \<times> string) option" | PostJoin "string option"
  | PostInviteInfo "string option" | PostParticipants "participants_req option"

fun serve_chat :: "chat_env \<Rightarrow> user_values \<Rightarrow> chat_request \<Rightarrow> writer \<Rightarrow> srv \<Rightarrow> chat_result" where
  "serve_chat env ui (PostCheck r) w s = CheckUser env ui r w s"
| "serve_chat env ui (PostInfo r) w s = GetUser env ui r w s"
| "serve_chat env ui (PostPresence r) w s = SendPresence env ui r w s"
| "serve_chat env ui (PostAvatar r) w s = GetAvatar env ui r w s"
| "serve_chat env ui GetAllContacts w s = GetContacts env ui w s"
| "serve_chat env ui (PostBlock r) w s = BlockUser env ui r w s"
| "serve_chat env ui (PostUnblock r) w s = UnblockUser env ui r w s"
| "serve_chat env ui (GetLID j) w s = GetUserLID env ui j w s"
| "serve_chat env ui (PostChatPresence r) w s = ChatPresence env ui r w s"
| "serve_chat env ui (PostMarkRead r) w s = MarkRead env ui r w s"
| "serve_chat env ui (PostStatus r) w s = SetStatusMessage env ui r w s"
| "serve_chat env ui (PostReject r) w s = RejectCall env ui r w s"
| "serve_chat env ui (PostArchive r) w s = ArchiveChat env ui r w s"
| "serve_chat env ui (PostDownload kind r) w s = download kind env ui r w s"
| "serve_chat env ui GetNewsletters w s = ListNewsletter env ui w s"

fun serve_group :: "chat_env \<Rightarrow> user_values \<Rightarrow> group_request \<Rightarrow> writer \<Rightarrow> srv \<Rightarrow> chat_result" where
  "serve_group env ui (PostCreate r) w s = CreateGroup env ui r w s"
| "serve_group env ui GetGroups w s = ListGroups env ui w s"
| "serve_group env ui (GetInfo j) w s = GetGroupInfo env ui j w s"
| "serve_group env ui (GetInviteLink j b) w s = GetGroupInviteLink env ui j b w s"
| "serve_group env ui (PostPhoto r) w s = SetGroupPhoto env ui r w s"
| "serve_group env ui (PostPhotoRemove r) w s = RemoveGroupPhoto env ui r w s"
| "serve_group env ui (PostLeave r) w s = GroupLeave env ui r w s"
| "serve_group env ui (PostName r) w s = SetGroupName env ui r w s"
| "serve_group env ui (PostTopic r) w s = SetGroupTopic env ui r w s"
| "serve_group env ui (PostAnnounce r) w s = SetGroupAnnounce env ui r w s"
| "serve_group env ui (PostLocked r) w s = SetGroupLocked env ui r w s"
| "serve_group env ui (PostEphemeral r) w s = SetDisappearingTimer env ui r w s"
| "serve_group env ui (PostJoin r) w s = GroupJoin env ui r w s"
| "serve_group env ui (PostInviteInfo r) w s = GetGroupInviteInfo env ui r w s"
| "serve_group env ui (PostParticipants r) w s = UpdateGroupParticipants env ui r w s"

end
