(* ===== verification/Chats_Props.thy ===== *)
theory Chats_Props
  imports Chats Outgoing_Props
begin

text \<open>
  Properties of the endpoints for users, chats, downloads and groups: the contract they share, as a locale that
  every handler interprets, their panics, the photos and block lists they pass on, and how they report errors.
\<close>

section \<open>The contract of a query\<close>

text \<open>
  A handler leaves the server as it was, makes at most one call, through the session of the user, and answers
  once; success needs the call. Only a \<^term>\<open>quiet\<close> request has no answer, and then no call is made.
\<close>

definition chat_outcome :: "bool \<Rightarrow> user_values \<Rightarrow> writer \<Rightarrow> srv \<Rightarrow> chat_result \<Rightarrow> bool" where
  "chat_outcome quiet ui w s res \<longleftrightarrow> (\<forall>w' calls s'. res = Some (w', calls, s') \<longrightarrow>
     s' = s \<and> length calls \<le> 1 \<and> list_all (\<lambda>x. session_of (Values_Get ui ''Id'') s = Some (fst x)) calls \<and>
     ((\<exists>st d. w' = Respond st d w \<and> st \<in> {200, 400, 404, 500} \<and> (st = 200 \<longrightarrow> calls \<noteq> [])) \<or> quiet \<and> w' = w \<and> calls = []))"

lemma chat_None [simp]: "chat_outcome q ui w s None"
  by (simp add: chat_outcome_def)

lemma chat_fail: "st = 400 \<or> st = 500 \<Longrightarrow> chat_outcome q ui w s (fail st e w s)"
  by (auto simp: chat_outcome_def fail_def)

lemma chat_answer:
  "session_of (Values_Get ui ''Id'') s = Some c \<Longrightarrow> st \<in> {200, 400, 404, 500} \<Longrightarrow>
   chat_outcome q ui w s (Some (Respond st d w, [(c, op)], s))"
  by (auto simp: chat_outcome_def)

lemma chat_session:
  "(\<And>c t. session_of (Values_Get ui ''Id'') s = Some c \<Longrightarrow> req = Some t \<Longrightarrow> chat_outcome q ui w s (k c t)) \<Longrightarrow>
   chat_outcome q ui w s (with_session ui req e w s k)"
  by (simp add: with_session_def chat_fail split: option.split)

lemma chat_required: "chat_outcome q ui w s k \<Longrightarrow> chat_outcome q ui w s (required checks w s k)"
  by (simp add: required_def chat_fail split: option.split)

lemma chat_parsed: "(\<And>r. chat_outcome q ui w s (k r)) \<Longrightarrow> chat_outcome q ui w s (with_parsed je p e w s k)"
  by (simp add: with_parsed_def chat_fail split: option.split)

lemma chat_phones: "(\<And>js. chat_outcome q ui w s (k js)) \<Longrightarrow> chat_outcome q ui w s (with_phones env ps e w s k)"
  by (simp add: with_phones_def chat_fail split: option.split sum.split)

lemma chat_group:
  "(\<And>c t g. session_of (Values_Get ui ''Id'') s = Some c \<Longrightarrow> chat_outcome q ui w s (k c t g)) \<Longrightarrow>
   chat_outcome q ui w s (on_group env ui req gid w s k)"
  unfolding on_group_def by (intro chat_session chat_parsed) simp

text \<open>The answer of a failed call is one of three forms, all of status 500.\<close>

lemma chat_run:
  assumes "session_of (Values_Get ui ''Id'') s = Some c" "onError = as_error p \<or> onError = as_text p \<or> onError = fixed_error p"
  shows "chat_outcome q ui w s (run_op env c op onError reply w s)"
  using assms by (auto simp: run_op_def as_error_def as_text_def fixed_error_def respond_text_def intro!: chat_answer split: sum.split)

lemma chat_runs [intro]:
  assumes "session_of (Values_Get ui ''Id'') s = Some c"
  shows "chat_outcome q ui w s (run_op env c op (as_error p) reply w s)" "chat_outcome q ui w s (run_op env c op (as_text p) reply w s)"
    "chat_outcome q ui w s (run_op env c op (fixed_error p) reply w s)"
  using assms by (auto intro: chat_run)

lemmas chat_rules = chat_session chat_required chat_parsed chat_phones chat_group chat_runs

locale chat_endpoint =
  fixes handler :: "chat_env \<Rightarrow> user_values \<Rightarrow> 'r \<Rightarrow> writer \<Rightarrow> srv \<Rightarrow> chat_result"
    and quiet :: "chat_env \<Rightarrow> 'r \<Rightarrow> bool"
  assumes outcome: "chat_outcome (quiet env req) ui w s (handler env ui req w s)"
    and no_session: "session_of (Values_Get ui ''Id'') s = None \<Longrightarrow> handler env ui req w s = fail 500 ''no session'' w s"
begin

lemma state_kept: "handler env ui req w s = Some (w', cs, s') \<Longrightarrow> s' = s"
  using outcome [of env req ui w s] by (simp add: chat_outcome_def)

lemma own_session_only:
  "handler env ui req w s = Some (w', cs, s') \<Longrightarrow> x \<in> set cs \<Longrightarrow> session_of (Values_Get ui ''Id'') s = Some (fst x)"
  using outcome [of env req ui w s] by (auto simp: chat_outcome_def list_all_iff)

lemma answered:
  "handler env ui req w s = Some (w', cs, s') \<Longrightarrow> \<not> quiet env req \<Longrightarrow> \<exists>st d. w' = Respond st d w"
  using outcome [of env req ui w s] by (auto simp: chat_outcome_def)

end

abbreviation never :: "chat_env \<Rightarrow> 'r \<Rightarrow> bool" where
  "never env req \<equiv> False"

text \<open>\<^verbatim>\<open>GetUser\<close> returns without an answer when one of its arguments does not parse.\<close>

fun unparsable :: "chat_env \<Rightarrow> string list option \<Rightarrow> bool" where
  "unparsable env (Some phones) = (parse_all (ce_jids env) phones = None)"
| "unparsable env None = False"

subsection \<open>Users, chats and downloads\<close>

interpretation check_user: chat_endpoint CheckUser never
  by unfold_locales (auto simp: CheckUser_def Let_def with_session_none intro!: chat_session chat_required intro: chat_answer split: sum.split)

lemma GetUser_outcome: "chat_outcome (unparsable env req) ui w s (GetUser env ui req w s)"
  unfolding GetUser_def
  by (intro chat_session chat_required) (auto simp: chat_outcome_def run_op_def as_text_def respond_text_def split: option.splits sum.splits)

interpretation get_user: chat_endpoint GetUser unparsable
  by unfold_locales (rule GetUser_outcome, simp add: GetUser_def with_session_none)

interpretation send_presence: chat_endpoint SendPresence never
  by unfold_locales (auto simp: SendPresence_def with_session_none intro!: chat_session chat_required)

interpretation get_avatar: chat_endpoint GetAvatar never
  by unfold_locales (auto simp: GetAvatar_def Let_def as_error_def with_session_none intro!: chat_session chat_required chat_parsed chat_answer split: sum.split)

interpretation get_contacts: chat_endpoint "\<lambda>env ui (_ :: unit). GetContacts env ui" never
  by unfold_locales (auto simp: GetContacts_def with_session_none intro!: chat_session)

lemma blocklist_outcome: "chat_outcome q ui w s (updateUserBlocklist b env ui req w s)"
  unfolding updateUserBlocklist_def Let_def
  by (intro chat_session chat_required chat_parsed) (auto intro: chat_fail chat_answer split: sum.split)

interpretation block_user: chat_endpoint BlockUser never
  by unfold_locales (simp add: BlockUser_def blocklist_outcome, simp add: BlockUser_def updateUserBlocklist_def with_session_none)

interpretation unblock_user: chat_endpoint UnblockUser never
  by unfold_locales (simp add: UnblockUser_def blocklist_outcome, simp add: UnblockUser_def updateUserBlocklist_def with_session_none)

interpretation get_lid: chat_endpoint GetUserLID never
  by unfold_locales (auto simp: GetUserLID_def with_session_none intro!: chat_session chat_required chat_parsed chat_answer split: sum.split)

interpretation chat_presence: chat_endpoint ChatPresence never
  by unfold_locales (auto simp: ChatPresence_def with_session_none intro!: chat_session chat_required chat_parsed)

interpretation mark_read: chat_endpoint MarkRead never
  by unfold_locales (auto simp: MarkRead_def Let_def with_session_none intro!: chat_session chat_required chat_parsed intro: chat_fail)

interpretation set_status: chat_endpoint SetStatusMessage never
  by unfold_locales (auto simp: SetStatusMessage_def with_session_none intro!: chat_session chat_required)

interpretation reject_call: chat_endpoint RejectCall never
  by unfold_locales (auto simp: RejectCall_def with_session_none intro!: chat_session chat_required chat_parsed)

interpretation archive_chat: chat_endpoint ArchiveChat never
  by unfold_locales (auto simp: ArchiveChat_def with_session_none intro!: chat_session chat_required)

lemma download_outcome: "chat_outcome q ui w s (download kind env ui req w s)"
  unfolding download_def by (intro chat_session) (auto intro: chat_fail chat_answer split: option.split sum.split)

interpretation downloads: chat_endpoint "\<lambda>env ui (kind, req). download kind env ui req" never
  by unfold_locales (simp add: download_outcome split: prod.split, simp add: download_def with_session_none split: prod.split)

interpretation list_newsletter: chat_endpoint "\<lambda>env ui (_ :: unit). ListNewsletter env ui" never
  by unfold_locales (auto simp: ListNewsletter_def with_session_none intro!: chat_session)

subsection \<open>Groups\<close>

interpretation list_groups: chat_endpoint "\<lambda>env ui (_ :: unit). ListGroups env ui" never
  by unfold_locales (auto simp: ListGroups_def with_session_none intro!: chat_session)

interpretation group_info: chat_endpoint GetGroupInfo never
  by unfold_locales (auto simp: GetGroupInfo_def with_session_none intro!: chat_session chat_required chat_parsed)

interpretation invite_link: chat_endpoint "\<lambda>env ui (g, r). GetGroupInviteLink env ui g r" never
  by unfold_locales (auto simp: GetGroupInviteLink_def with_session_none intro!: chat_session chat_required chat_parsed)

interpretation group_join: chat_endpoint GroupJoin never
  by unfold_locales (auto simp: GroupJoin_def with_session_none intro!: chat_session chat_required)

interpretation create_group: chat_endpoint CreateGroup never
  by unfold_locales (auto simp: CreateGroup_def with_session_none intro!: chat_session chat_required chat_phones)

interpretation group_locked: chat_endpoint SetGroupLocked never
  by unfold_locales (auto simp: SetGroupLocked_def on_group_def with_session_none intro!: chat_session chat_parsed)

interpretation disappearing: chat_endpoint SetDisappearingTimer never
  by unfold_locales (auto simp: SetDisappearingTimer_def on_group_def with_session_none intro!: chat_session chat_parsed chat_required)

interpretation photo_remove: chat_endpoint RemoveGroupPhoto never
  by unfold_locales (auto simp: RemoveGroupPhoto_def on_group_def with_session_none intro!: chat_session chat_parsed)

interpretation participants: chat_endpoint UpdateGroupParticipants never
  by unfold_locales (auto simp: UpdateGroupParticipants_def on_group_def with_session_none intro!: chat_session chat_parsed chat_required chat_phones)

interpretation invite_info: chat_endpoint GetGroupInviteInfo never
  by unfold_locales (auto simp: GetGroupInviteInfo_def with_session_none intro!: chat_session chat_required)

interpretation photo: chat_endpoint SetGroupPhoto never
  by unfold_locales (auto simp: SetGroupPhoto_def on_group_def with_session_none intro!: chat_session chat_parsed chat_required intro: chat_fail split: sum.split)

interpretation group_name: chat_endpoint SetGroupName never
  by unfold_locales (auto simp: SetGroupName_def on_group_def with_session_none intro!: chat_session chat_parsed chat_required)

interpretation group_topic: chat_endpoint SetGroupTopic never
  by unfold_locales (auto simp: SetGroupTopic_def on_group_def with_session_none intro!: chat_session chat_parsed chat_required)

interpretation group_leave: chat_endpoint GroupLeave never
  by unfold_locales (auto simp: GroupLeave_def on_group_def with_session_none intro!: chat_session chat_parsed)

interpretation announce: chat_endpoint SetGroupAnnounce never
  by unfold_locales (auto simp: SetGroupAnnounce_def on_group_def with_session_none intro!: chat_session chat_parsed)

section \<open>All routes\<close>

fun quiet_chat :: "chat_env \<Rightarrow> chat_request \<Rightarrow> bool" where
  "quiet_chat env (PostInfo r) = unparsable env r"
| "quiet_chat env _ = False"

lemma serve_chat_outcome: "chat_outcome (quiet_chat env req) ui w s (serve_chat env ui req w s)"
  by (cases req) (simp_all add: check_user.outcome get_user.outcome send_presence.outcome get_avatar.outcome get_contacts.outcome
      block_user.outcome unblock_user.outcome get_lid.outcome chat_presence.outcome mark_read.outcome set_status.outcome
      reject_call.outcome archive_chat.outcome download_outcome list_newsletter.outcome)

lemma invite_outcome: "chat_outcome False ui w s (GetGroupInviteLink env ui g r w s)"
  using invite_link.outcome [where req = "(g, r)"] by simp

lemma invite_no_session:
  "session_of (Values_Get ui ''Id'') s = None \<Longrightarrow> GetGroupInviteLink env ui g r w s = fail 500 ''no session'' w s"
  using invite_link.no_session [where req = "(g, r)"] by simp

lemma serve_group_outcome: "chat_outcome False ui w s (serve_group env ui req w s)"
  by (cases req) (simp_all add: list_groups.outcome group_info.outcome invite_outcome group_join.outcome
      create_group.outcome group_locked.outcome disappearing.outcome photo_remove.outcome participants.outcome invite_info.outcome
      photo.outcome group_name.outcome group_topic.outcome group_leave.outcome announce.outcome)


definition sample_chat :: chat_env where
  "sample_chat = \<lparr>ce_jids = \<lparr>je_NewJID = plain_jid, je_ParseJID = (\<lambda>u. (plain_jid u, None))\<rparr>, ce_call = (\<lambda>_. Inl ''offline''),
     ce_onWhatsApp = (\<lambda>_. Inl ''offline''), ce_blocklist = (\<lambda>_ _. Inr None), ce_LID = Inr, ce_PN = (\<lambda>_. None),
     ce_Server = (\<lambda>_. ''s.whatsapp.net''), ce_ToNonAD = (\<lambda>j. j), ce_withServer = (\<lambda>_ j. j), ce_userDirectory = (\<lambda>u. u),
     ce_makeDir = (\<lambda>_. True), ce_Download = (\<lambda>_. Inr []), ce_NewDataURL = (\<lambda>_ _. Some ''data:''),
     ce_DecodeString = (\<lambda>_. Some ([0xFF, 0xD8, 0xFF, 0xE0], ''image/jpeg''))\<rparr>"


section \<open>Panics\<close>

lemma run_returns: "returns (run_op env c op onError reply w s)"
  by (simp add: returns_def run_op_def split: sum.split)

lemma parse_phones_panic: "parse_phones je phones = None \<Longrightarrow> [] \<in> set phones"
  by (induction phones) (auto simp: parseJID_panic split: option.splits sum.splits if_splits bool.splits)

lemma returns_phones: "[] \<notin> set phones \<Longrightarrow> (\<And>js. returns (k js)) \<Longrightarrow> returns (with_phones env phones e w s k)"
  using parse_phones_panic by (auto simp: returns_def with_phones_def fail_def split: option.splits sum.splits)

lemma returns_group:
  "(\<And>t. req = Some t \<Longrightarrow> gid t \<noteq> []) \<Longrightarrow> (\<And>c t g. req = Some t \<Longrightarrow> returns (k c t g)) \<Longrightarrow> returns (on_group env ui req gid w s k)"
  unfolding on_group_def by (intro total_session total_parsed) auto

lemma panic_group:
  "session_of (Values_Get ui ''Id'') s = Some c \<Longrightarrow> gid t = [] \<Longrightarrow> on_group env ui (Some t) gid w s k = None"
  by (simp add: on_group_def with_session_def with_parsed_def parseJID_def)

text \<open>The group a request names without the handler having checked that it does, and the phone numbers it lists.\<close>

fun group_of :: "group_request \<Rightarrow> string option" where
  "group_of (PostPhoto r) = map_option fst r"
| "group_of (PostPhotoRemove r) = r"
| "group_of (PostLeave r) = r"
| "group_of (PostName r) = map_option fst r"
| "group_of (PostTopic r) = map_option fst r"
| "group_of (PostAnnounce r) = map_option fst r"
| "group_of (PostLocked r) = map_option fst r"
| "group_of (PostEphemeral r) = map_option fst r"
| "group_of (PostParticipants r) = map_option gp_GroupJID r"
| "group_of _ = None"

fun phones_of :: "group_request \<Rightarrow> string list" where
  "phones_of (PostCreate (Some t)) = cg_Participants t"
| "phones_of (PostParticipants (Some t)) = gp_Phone t"
| "phones_of _ = []"

lemmas group_handler_defs = SetGroupPhoto_def RemoveGroupPhoto_def GroupLeave_def SetGroupName_def SetGroupTopic_def
  SetGroupAnnounce_def SetGroupLocked_def SetDisappearingTimer_def UpdateGroupParticipants_def

lemma serve_group_returns:
  assumes "group_of req \<noteq> Some []" "[] \<notin> set (phones_of req)"
  shows "returns (serve_group env ui req w s)"
proof (cases req)
  case (PostCreate r)
  with assms show ?thesis by (auto simp: CreateGroup_def intro!: total_session total_required returns_phones run_returns)
next
  case (PostParticipants r)
  with assms show ?thesis
    by (auto simp: UpdateGroupParticipants_def intro!: total_required returns_group returns_phones run_returns)
next
  case (PostPhoto r)
  with assms show ?thesis by (auto simp: SetGroupPhoto_def intro!: total_required returns_group run_returns split: sum.split)
qed (use assms in \<open>auto simp: group_handler_defs ListGroups_def GetGroupInfo_def GetGroupInviteLink_def GroupJoin_def GetGroupInviteInfo_def
      list_all_iff intro!: total_session total_required total_parsed returns_group run_returns\<close>)



text \<open>
  The routes for users, chats, downloads and newsletters panic in one case only: a downloaded file whose claimed media type
  \<^verbatim>\<open>dataurl.New\<close> rejects. The type is taken from the request, after the file has been fetched.
\<close>

theorem chat_routes_panic:
  assumes "serve_chat env ui req w s = None"
  shows "\<exists>kind t data. req = PostDownload kind (Some t) \<and> ce_Download env t = Inr data \<and> ce_NewDataURL env data (dl_Mimetype t) = None"
proof (cases req)
  case (PostDownload kind r)
  with assms show ?thesis by (auto simp: download_def with_session_def fail_def split: option.splits sum.splits if_splits)
next
  case (PostMarkRead r)
  have "returns (serve_chat env ui req w s)"
    by (auto simp: PostMarkRead MarkRead_def Let_def intro!: total_session total_required total_parsed run_returns)
  with assms show ?thesis by (simp add: returns_def)
next
  case (PostBlock r)
  have "returns (serve_chat env ui req w s)"
    by (auto simp: PostBlock BlockUser_def updateUserBlocklist_def Let_def intro!: total_session total_required total_parsed split: sum.split)
  with assms show ?thesis by (simp add: returns_def)
next
  case (PostUnblock r)
  have "returns (serve_chat env ui req w s)"
    by (auto simp: PostUnblock UnblockUser_def updateUserBlocklist_def Let_def intro!: total_session total_required total_parsed split: sum.split)
  with assms show ?thesis by (simp add: returns_def)
next
  case (PostInfo r)
  have "returns (serve_chat env ui req w s)"
    by (auto simp: PostInfo GetUser_def intro!: total_session total_required run_returns split: option.split)
  with assms show ?thesis by (simp add: returns_def)
next
  case (PostAvatar r)
  have "returns (serve_chat env ui req w s)"
    by (auto simp: PostAvatar GetAvatar_def Let_def intro!: total_session total_required total_parsed split: sum.split)
  with assms show ?thesis by (simp add: returns_def)
next
  case (GetLID r)
  have "returns (serve_chat env ui req w s)"
    by (auto simp: GetLID GetUserLID_def intro!: total_session total_required total_parsed split: sum.split)
  with assms show ?thesis by (simp add: returns_def)
next
  case (PostCheck r)
  have "returns (serve_chat env ui req w s)"
    by (auto simp: PostCheck CheckUser_def Let_def intro!: total_session total_required split: sum.split)
  with assms show ?thesis by (simp add: returns_def)
next
  case (PostReject r)
  have "returns (serve_chat env ui req w s)"
    by (auto simp: PostReject RejectCall_def intro!: total_session total_required total_parsed run_returns)
  with assms show ?thesis by (simp add: returns_def)
next
  case (PostChatPresence r)
  have "returns (serve_chat env ui req w s)"
    by (auto simp: PostChatPresence ChatPresence_def intro!: total_session total_required total_parsed run_returns)
  with assms show ?thesis by (simp add: returns_def)
next
  case (PostPresence r)
  have "returns (serve_chat env ui req w s)" unfolding PostPresence serve_chat.simps SendPresence_def
    by (intro total_session total_required run_returns)
  with assms show ?thesis by (simp add: returns_def)
next
  case (PostStatus r)
  have "returns (serve_chat env ui req w s)" unfolding PostStatus serve_chat.simps SetStatusMessage_def
    by (intro total_session total_required run_returns)
  with assms show ?thesis by (simp add: returns_def)
next
  case (PostArchive r)
  have "returns (serve_chat env ui req w s)" unfolding PostArchive serve_chat.simps ArchiveChat_def
    by (intro total_session total_required run_returns)
  with assms show ?thesis by (simp add: returns_def)
next
  case GetAllContacts
  have "returns (serve_chat env ui req w s)" unfolding GetAllContacts serve_chat.simps GetContacts_def by (intro total_session run_returns)
  with assms show ?thesis by (simp add: returns_def)
next
  case GetNewsletters
  have "returns (serve_chat env ui req w s)" unfolding GetNewsletters serve_chat.simps ListNewsletter_def by (intro total_session run_returns)
  with assms show ?thesis by (simp add: returns_def)
qed

section \<open>Calls for groups\<close>

text \<open>What holds of the one call of a handler and of the answer behind it.\<close>

definition call_ok :: "(writer \<Rightarrow> wa_op \<Rightarrow> bool) \<Rightarrow> chat_result \<Rightarrow> bool" where
  "call_ok Q res \<longleftrightarrow> (\<forall>w' c op s'. res = Some (w', [(c, op)], s') \<longrightarrow> Q w' op)"

lemma call_fail [simp]: "call_ok Q (fail st e w s)"
  by (simp add: call_ok_def fail_def)

lemma call_session: "(\<And>c t. call_ok Q (k c t)) \<Longrightarrow> call_ok Q (with_session ui req e w s k)"
  by (simp add: with_session_def split: option.split)

lemma call_required: "call_ok Q k \<Longrightarrow> call_ok Q (required checks w s k)"
  by (simp add: required_def split: option.split)

lemma call_parsed: "(\<And>r. call_ok Q (k r)) \<Longrightarrow> call_ok Q (with_parsed je p e w s k)"
  by (simp add: with_parsed_def call_ok_def [of Q None] split: option.split)

lemma call_phones: "(\<And>js. call_ok Q (k js)) \<Longrightarrow> call_ok Q (with_phones env ps e w s k)"
  by (simp add: with_phones_def call_ok_def [of Q None] split: option.split sum.split)

lemma call_group: "(\<And>c t g. call_ok Q (k c t g)) \<Longrightarrow> call_ok Q (on_group env ui req gid w s k)"
  unfolding on_group_def by (intro call_session call_parsed)

definition group_call :: "chat_env \<Rightarrow> writer \<Rightarrow> writer \<Rightarrow> wa_op \<Rightarrow> bool" where
  "group_call env w w' op \<longleftrightarrow> (\<forall>e. ce_call env op = Inl e \<longrightarrow> (\<exists>t. w' = respond_text 500 t w)) \<and>
     (\<forall>g d. op = OpSetGroupPhoto g (Some d) \<longrightarrow> take 3 d = [0xFF, 0xD8, 0xFF])"

lemma call_run:
  "(\<And>g d. op = OpSetGroupPhoto g (Some d) \<Longrightarrow> take 3 d = [0xFF, 0xD8, 0xFF]) \<Longrightarrow>
   call_ok (group_call env w) (run_op env c op (as_text p) reply w s)"
  by (auto simp: call_ok_def group_call_def run_op_def as_text_def split: sum.splits)

lemma group_photo_jpeg: "group_photo env img = Inr d \<Longrightarrow> take 3 d = [0xFF, 0xD8, 0xFF]"
  by (cases d rule: list.exhaust; cases "tl d"; cases "tl (tl d)")
    (auto simp: group_photo_def split: if_splits option.splits prod.splits)

lemmas call_rules = call_session call_required call_parsed call_phones call_group call_run

lemma serve_group_call: "call_ok (group_call env w) (serve_group env ui req w s)"
proof (cases req)
  case (PostPhoto r)
  then show ?thesis
    by (auto simp: SetGroupPhoto_def intro!: call_group call_required call_run dest: group_photo_jpeg split: sum.split)
qed (auto simp: group_handler_defs CreateGroup_def ListGroups_def GetGroupInfo_def GetGroupInviteLink_def GroupJoin_def
    GetGroupInviteInfo_def intro!: call_rules)

text \<open>
  C26. Only JPEG files become group photos: whatever is posted, a photo that is passed to WhatsApp starts with the bytes
  \<^verbatim>\<open>FF D8 FF\<close>. And whatever is asked of a group, when WhatsApp refuses, the answer has status 500 but an
  envelope that claims success and contains no error.
\<close>

theorem group_calls:
  assumes "serve_group env ui req w s = Some (w', [(c, op)], s')"
  shows "(\<forall>g d. op = OpSetGroupPhoto g (Some d) \<longrightarrow> take 3 d = [0xFF, 0xD8, 0xFF]) \<and>
    (\<forall>e. ce_call env op = Inl e \<longrightarrow> (\<exists>d. w' = Respond 500 d w \<and> respond_envelope 500 d = JObj [(''code'', JNum 500), (''success'', JBool True)]))"
  using serve_group_call [of env w ui req s] assms
  by (auto simp: call_ok_def group_call_def respond_text_def respond_envelope_def)

theorem group_calls_witness:
  "\<exists>w' c op s'. serve_group sample_chat sample_user GetGroups new_writer sample_srv = Some (w', [(c, op)], s') \<and>
     (\<exists>d. w' = Respond 500 d new_writer \<and> respond_envelope 500 d = JObj [(''code'', JNum 500), (''success'', JBool True)])"
proof -
  obtain w' c op s' where r: "serve_group sample_chat sample_user GetGroups new_writer sample_srv = Some (w', [(c, op)], s')"
    by (simp add: ListGroups_def with_session_def sample_session run_op_def sample_chat_def)
  moreover have "ce_call sample_chat op = Inl ''offline''" by (simp add: sample_chat_def)
  ultimately show ?thesis using group_calls [OF r] by blast
qed

end
