(* ===== verification/Autosync.thy ===== *)
theory Autosync
  imports Outgoing_Props
begin

text \<open>
  The synchronisation of the history after a pairing, from \<^verbatim>\<open>cmd/api/wmiau.go\<close> and \<^verbatim>\<open>cmd/api/handlers.go\<close>: the goroutine that
  \<^verbatim>\<open>myEventHandler\<close> starts when the column \<^verbatim>\<open>days_to_sync_history\<close> of the user is positive, and \<^verbatim>\<open>syncHistoryForChat\<close>.
  No migration creates that column, so the goroutine runs only on a table that got it by other means.
\<close>

section \<open>One chat\<close>

definition empty_jid :: JID where
  "empty_jid = \<lparr>jv_User = [], jv_String = [], jv_isGroup = False\<rparr>"

text \<open>The last message that the history has of a chat, with the zero time, or just the chat.\<close>

definition last_known :: "jid_env \<Rightarrow> string \<Rightarrow> JID \<Rightarrow> pg \<Rightarrow> MessageInfo" where
  "last_known je userID chat d =
     (let none = zero_info\<lparr>mi_Chat := chat, mi_IsGroup := jv_isGroup chat\<rparr>
      in case newest_first (chat_rows userID (jv_String chat) (history_tbl d)) of
           [] \<Rightarrow> none
         | r # _ \<Rightarrow>
             if h_message_id r = [] then none
             else none\<lparr>mi_ID := h_message_id r,
                       mi_Sender := (if h_sender_jid r \<noteq> [] \<and> h_sender_jid r \<noteq> ''me'' then
                                       (case je_ParseJID je (h_sender_jid r) of (j, None) \<Rightarrow> j | (_, Some e) \<Rightarrow> empty_jid)
                                     else empty_jid)\<rparr>)"

text \<open>
  \<^verbatim>\<open>syncHistoryForChat\<close> with its error and the messages it sends. A registry without client makes the send
  fail with \<open>nilError\<close>.
\<close>

definition syncHistoryForChat ::
    "send_env \<Rightarrow> string \<Rightarrow> string \<Rightarrow> JID \<Rightarrow> int \<Rightarrow> srv \<Rightarrow> (string + unit) \<times> sent list \<times> srv" where
  "syncHistoryForChat env nilError userID chat count s =
     (case on_db (pg_query (last_known (sv_jids env) userID chat)) s of
        (Inl e, s1) \<Rightarrow> (Inl (''failed to get last message from history: '' @ e), [], s1)
      | (Inr info, s1) \<Rightarrow>
          if \<not> sv_syncRequest env info count then (Inl ''failed to build history sync request'', [], s1)
          else
            (case GetMyClient userID (ss_cm s1) of
               None \<Rightarrow> (Inl ''client store not available'', [], s1)
             | Some m \<Rightarrow>
            (case sv_StoreID env (mc_WAClient (my_objs (ss_cm s1) m)) of
               None \<Rightarrow> (Inl ''client store not available'', [], s1)
             | Some own \<Rightarrow>
            (case session_of userID s1 of
               None \<Rightarrow> (Inl (''failed to send history sync request: '' @ nilError), [], s1)
             | Some c \<Rightarrow>
                 (let call = \<lparr>sn_client = c, sn_to = own, sn_msg = BuildHistorySyncRequest info count, sn_id = None\<rparr>
                  in case sv_Send env own (BuildHistorySyncRequest info count) of
                       Inl e \<Rightarrow> (Inl (''failed to send history sync request: '' @ e), [call], s1)
                     | Inr ts \<Rightarrow> (Inr (), [call], s1))))))"

section \<open>All chats\<close>

definition sync_count :: "int \<Rightarrow> int" where
  "sync_count days =
     (let count = days * 15; count = (if count > 500 then 500 else count) in if count < 50 then 50 else count)"

text \<open>Contacts and groups, each of which may fail to be read; contacts come in no particular order.\<close>

definition sync_chats :: "string + JID list \<Rightarrow> string + JID list \<Rightarrow> string list" where
  "sync_chats contacts groups =
     (case contacts of Inl e \<Rightarrow> [] | Inr js \<Rightarrow> map jv_String js) @
     (case groups of Inl e \<Rightarrow> [] | Inr js \<Rightarrow> map jv_String js)"

fun sync_loop :: "send_env \<Rightarrow> string \<Rightarrow> string \<Rightarrow> int \<Rightarrow> string list \<Rightarrow> srv \<Rightarrow> sent list \<times> srv" where
  "sync_loop env nilError userID count [] s = ([], s)"
| "sync_loop env nilError userID count (chatJIDStr # chats) s =
     (case je_ParseJID (sv_jids env) chatJIDStr of
        (_, Some e) \<Rightarrow> sync_loop env nilError userID count chats s
      | (chat, None) \<Rightarrow>
          (let (_, sends, s1) = syncHistoryForChat env nilError userID chat count s;
               (others, s2) = sync_loop env nilError userID count chats s1
           in (sends @ others, s2)))"

definition auto_history_sync ::
    "send_env \<Rightarrow> string \<Rightarrow> string \<Rightarrow> int \<Rightarrow> string + JID list \<Rightarrow> string + JID list \<Rightarrow> srv \<Rightarrow> sent list \<times> srv" where
  "auto_history_sync env nilError userID days contacts groups s =
     (if days > 0 then sync_loop env nilError userID (sync_count days) (sync_chats contacts groups) s else ([], s))"

section \<open>Properties\<close>

lemma sync_count_bounds: "50 \<le> sync_count days \<and> sync_count days \<le> 500"
  by (simp add: sync_count_def)

text \<open>A request asks the own account, through the own client, for the chat; nothing but the count of statements changes.\<close>

definition own_request :: "send_env \<Rightarrow> string \<Rightarrow> int \<Rightarrow> srv \<Rightarrow> sent \<Rightarrow> bool" where
  "own_request env userID count s x \<longleftrightarrow> session_of userID s = Some (sn_client x) \<and>
     (\<exists>m info. GetMyClient userID (ss_cm s) = Some m \<and> sv_StoreID env (mc_WAClient (my_objs (ss_cm s) m)) = Some (sn_to x) \<and>
        sn_msg x = BuildHistorySyncRequest info count)"

lemma syncHistoryForChat_own:
  assumes "syncHistoryForChat env nilError userID chat count s = (r, sends, s')"
  shows "list_all (own_request env userID count s) sends \<and> length sends \<le> 1 \<and> s' = s\<lparr>ss_db := (ss_db s)\<lparr>calls := Suc (calls (ss_db s))\<rparr>\<rparr>"
proof -
  obtain q s1 where q: "on_db (pg_query (last_known (sv_jids env) userID chat)) s = (q, s1)" by (rule prod.exhaust)
  obtain d where d: "pg_query (last_known (sv_jids env) userID chat) (ss_db s) = (q, d)" "s1 = s\<lparr>ss_db := d\<rparr>"
    using q by (auto simp: on_db_def split: prod.splits)
  have s1: "s1 = s\<lparr>ss_db := (ss_db s)\<lparr>calls := Suc (calls (ss_db s))\<rparr>\<rparr>" using pg_query_tables [OF d(1)] d(2) by simp
  then have same: "ss_cm s1 = ss_cm s" "session_of userID s1 = session_of userID s" by (simp_all add: session_of_def)
  show ?thesis
  proof (cases q)
    case (Inr info)
    with assms q same s1 show ?thesis
      by (auto simp: syncHistoryForChat_def own_request_def Let_def split: if_splits option.splits sum.splits)
  qed (use assms q s1 in \<open>simp add: syncHistoryForChat_def\<close>)
qed

lemma sync_loop_own:
  "sync_loop env nilError userID count chats s = (sends, s') \<Longrightarrow>
   list_all (own_request env userID count s) sends \<and> length sends \<le> length chats \<and> ss_cm s' = ss_cm s"
proof (induction chats arbitrary: s sends s')
  case (Cons chatStr chats)
  obtain chat e where p: "je_ParseJID (sv_jids env) chatStr = (chat, e)" by (rule prod.exhaust)
  show ?case
  proof (cases e)
    case None
    obtain r a s1 where a: "syncHistoryForChat env nilError userID chat count s = (r, a, s1)" by (rule prod_cases3)
    obtain b s2 where b: "sync_loop env nilError userID count chats s1 = (b, s2)" by (rule prod.exhaust)
    note ha = syncHistoryForChat_own [OF a]
    then have "own_request env userID count s1 = own_request env userID count s"
      by (simp add: fun_eq_iff own_request_def session_of_def)
    moreover have "sends = a @ b" "s' = s2" using Cons.prems None p a b by auto
    ultimately show ?thesis using ha Cons.IH [OF b] by auto
  qed (use Cons p in \<open>simp add: le_SucI\<close>)
qed simp

text \<open>
  The synchronisation after a pairing stays within the account: it sends at most one request per contact and group, each
  through the user's own client to the user's own account, and each asks for 50 to 500 messages; for 0 or
  fewer days it sends nothing.
\<close>

theorem auto_history_sync_bounded:
  assumes "auto_history_sync env nilError userID days contacts groups s = (sends, s')"
  shows "length sends \<le> length (sync_chats contacts groups) \<and> ss_cm s' = ss_cm s \<and> (days \<le> 0 \<longrightarrow> sends = []) \<and>
    list_all (\<lambda>x. session_of userID s = Some (sn_client x) \<and>
      (\<exists>m info n. GetMyClient userID (ss_cm s) = Some m \<and> sv_StoreID env (mc_WAClient (my_objs (ss_cm s) m)) = Some (sn_to x) \<and>
         sn_msg x = BuildHistorySyncRequest info n \<and> 50 \<le> n \<and> n \<le> 500)) sends"
proof (cases "days > 0")
  case True
  with assms have "sync_loop env nilError userID (sync_count days) (sync_chats contacts groups) s = (sends, s')"
    by (simp add: auto_history_sync_def)
  with sync_loop_own [OF this] True sync_count_bounds [of days] show ?thesis
    by (auto simp: own_request_def list_all_iff)
qed (use assms in \<open>simp add: auto_history_sync_def\<close>)

theorem auto_history_sync_bounded_witness:
  "\<exists>x s'. auto_history_sync sample_send [] ''u'' 7 (Inr [plain_jid ''5511'']) (Inl ''offline'') (on_cm (SetMyClient ''u'' (Some 5)) sample_srv) =
     ([x], s') \<and> (\<exists>info n. sn_msg x = BuildHistorySyncRequest info n \<and> n \<le> 500)"
proof -
  let ?s = "on_cm (SetMyClient ''u'' (Some 5)) sample_srv"
  have ses: "session_of ''u'' ?s = Some 1" "GetMyClient ''u'' (ss_cm ?s) = Some 5"
    by (simp_all add: session_of_def on_cm_def sample_srv_def registry_ops)
  have nf: "no_faults (ss_db ?s)" by (simp add: no_faults_def on_cm_def sample_srv_def idle_srv_def)
  have q: "\<exists>i s1. on_db (pg_query (last_known je u j)) ?s = (Inr i, s1) \<and> session_of ''u'' s1 = Some 1 \<and> GetMyClient ''u'' (ss_cm s1) = Some 5" for je u j
    using ses by (simp add: on_db_def pg_query_no_fault [OF nf] session_of_def)
  have "\<exists>x s'. syncHistoryForChat sample_send [] ''u'' j n ?s = (Inr (), [x], s')" for j n
    using q [of "sv_jids sample_send" "''u''" j]
    by (auto simp: syncHistoryForChat_def sample_send_def Let_def)
  then obtain x s' where "auto_history_sync sample_send [] ''u'' 7 (Inr [plain_jid ''5511'']) (Inl ''offline'') ?s = ([x], s')"
    by (simp add: auto_history_sync_def sync_chats_def Let_def split_beta) (simp add: sample_send_def, metis fst_conv snd_conv)
  with auto_history_sync_bounded [OF this] show ?thesis by auto
qed

end
