(* ===== verification/Legacy.thy ===== *)
theory Legacy
  imports Session_Props
begin

text \<open>
  Two handlers of \<^verbatim>\<open>cmd/api/handlers.go\<close> that no route reaches any more, \<^verbatim>\<open>ListUsers\<close> and \<^verbatim>\<open>GetHealth\<close>, and how the
  packages \<^verbatim>\<open>internal/users\<close> and \<^verbatim>\<open>internal/health\<close>, which replace them, agree with them.
\<close>

section \<open>The list of users\<close>

text \<open>\<^verbatim>\<open>connected\<close> is an integer column that is scanned into a \<^verbatim>\<open>sql.NullBool\<close>: other integers than 0 and 1 fail.\<close>

definition struct_scan :: "user_row \<Rightarrow> bool" where
  "struct_scan r = (case u_connected r of None \<Rightarrow> True | Some n \<Rightarrow> n = 0 \<or> n = 1)"

text \<open>The S3 columns, read again by the id of the row; when that fails the defaults stand.\<close>

definition legacy_s3 :: "string + user_row option \<Rightarrow> json" where
  "legacy_s3 q =
     (case q of
        Inr (Some r) \<Rightarrow>
          JObj [(''enabled'', JBool (coalesce (u_s3_enabled r) False)), (''endpoint'', JStr (coalesce (u_s3_endpoint r) [])),
                (''region'', JStr (coalesce (u_s3_region r) [])), (''bucket'', JStr (coalesce (u_s3_bucket r) [])),
                (''access_key'', JStr ''***''), (''path_style'', JBool (coalesce (u_s3_path_style r) False)),
                (''public_url'', JStr (coalesce (u_s3_public_url r) [])), (''media_delivery'', JStr (coalesce (u_media_delivery r) [])),
                (''retention_days'', JNum (coalesce (u_s3_retention_days r) 0))]
      | _ \<Rightarrow>
          JObj [(''enabled'', JBool False), (''endpoint'', JStr []), (''region'', JStr []), (''bucket'', JStr []),
                (''access_key'', JStr ''***''), (''path_style'', JBool False), (''public_url'', JStr []),
                (''media_delivery'', JStr []), (''retention_days'', JNum 0)])"

definition legacy_user :: "srv \<Rightarrow> user_row \<Rightarrow> json \<Rightarrow> json" where
  "legacy_user s r s3Config =
     (let proxyURL = coalesce (u_proxy_url r) []
      in JObj [(''id'', JStr (u_id r)), (''name'', JStr (u_name r)), (''token'', JStr (u_token r)), (''webhook'', JStr (u_webhook r)),
               (''jid'', JStr (u_jid r)), (''qrcode'', JStr (u_qrcode r)),
               (''connected'', JBool (IsConnected s (session_of (u_id r) s))), (''loggedIn'', JBool (IsLoggedIn s (session_of (u_id r) s))),
               (''expiration'', JNum (coalesce (u_expiration r) 0)), (''proxy_url'', JStr proxyURL), (''events'', JStr (u_events r)),
               (''proxy_config'', JObj [(''enabled'', JBool (proxyURL \<noteq> [])), (''proxy_url'', JStr proxyURL)]),
               (''s3_config'', s3Config)])"

text \<open>The loop over the rows; \<^term>\<open>None\<close> is a row that does not scan.\<close>

fun legacy_loop :: "user_row list \<Rightarrow> srv \<Rightarrow> json list option \<times> srv" where
  "legacy_loop [] s = (Some [], s)"
| "legacy_loop (r # rs) s =
     (if \<not> struct_scan r then (None, s)
      else (let (q, s1) = on_db (pg_query (find_user (u_id r))) s; u = legacy_user s1 r (legacy_s3 q);
                (us, s2) = legacy_loop rs s1
            in (map_option (\<lambda>js. u # js) us, s2)))"

definition ListUsers :: "string option \<Rightarrow> writer \<Rightarrow> srv \<Rightarrow> writer \<times> srv" where
  "ListUsers userID w s =
     (case on_db (pg_query (\<lambda>d. case userID of None \<Rightarrow> users_tbl d | Some i \<Rightarrow> filter (\<lambda>r. u_id r = i) (users_tbl d))) s of
        (Inl e, s1) \<Rightarrow> (Respond 500 (RErr ''problem accessing DB'') w, s1)
      | (Inr rows, s1) \<Rightarrow>
          (case legacy_loop rows s1 of
             (None, s2) \<Rightarrow> (Respond 500 (RErr ''problem accessing DB'') w, s2)
           | (Some users, s2) \<Rightarrow> (Respond 200 (RData (JArr users)) w, s2)))"

section \<open>The health report\<close>

definition legacy_counts :: "srv \<Rightarrow> nat \<times> nat" where
  "legacy_counts s =
     fold (\<lambda>(_, client) (connectedUsers, loggedInUsers).
        case client of
          None \<Rightarrow> (connectedUsers, loggedInUsers)
        | Some c \<Rightarrow> (if ss_connected s c then Suc connectedUsers else connectedUsers,
                     if ss_loggedIn s c then Suc loggedInUsers else loggedInUsers))
       (whatsmeowClients (ss_cm s)) (0, 0)"

text \<open>\<open>alloc\<close>, \<open>totalAlloc\<close>, \<open>sys\<close> and \<open>numGC\<close> are fields of \<^verbatim>\<open>runtime.MemStats\<close>.\<close>

definition GetHealth ::
    "int \<Rightarrow> string \<Rightarrow> (int \<Rightarrow> string) \<Rightarrow> (int \<Rightarrow> string) \<Rightarrow> int \<Rightarrow> 64 word \<Rightarrow> 64 word \<Rightarrow> 64 word \<Rightarrow> 32 word \<Rightarrow> nat \<Rightarrow>
     writer \<Rightarrow> srv \<Rightarrow> writer \<times> srv" where
  "GetHealth startTime version fmtTime fmtDur now alloc totalAlloc sys numGC goroutines w s =
     (let (q, s1) = on_db (pg_query (\<lambda>d. length (users_tbl d))) s;
          totalUsers = (case q of Inr n \<Rightarrow> int n | Inl e \<Rightarrow> 0);
          (connectedUsers, loggedInUsers) = legacy_counts s1;
          response = JObj
            ([(''status'', JStr ''ok''), (''timestamp'', JStr (fmtTime now)), (''uptime'', JStr (fmtDur (now - startTime))),
              (''active_connections'', JNum (int (length (whatsmeowClients (ss_cm s1))))), (''total_users'', JNum totalUsers),
              (''connected_users'', JNum (int connectedUsers)), (''logged_in_users'', JNum (int loggedInUsers)),
              (''memory_stats'', JObj
                 [(''alloc_mb'', JNum (uint (alloc div 1024 div 1024))), (''total_alloc_mb'', JNum (uint (totalAlloc div 1024 div 1024))),
                  (''sys_mb'', JNum (uint (sys div 1024 div 1024))), (''num_gc'', JNum (uint numGC))]),
              (''goroutines'', JNum (int goroutines))] @
             (if version \<noteq> [] then [(''version'', JStr version)] else []))
      in (WriteBody response (WriteHeader 200 (SetHeader ''Content-Type'' ''application/json'' w)), s1))"

section \<open>Agreement\<close>

lemma legacy_counts_spec:
  "legacy_counts s = (healthStats_ConnectedUsers (ss_connected s) (Some (ss_cm s)), healthStats_LoggedInUsers (ss_loggedIn s) (Some (ss_cm s)))"
proof -
  have "fold (\<lambda>(_, client) (a, b). case client of None \<Rightarrow> (a, b)
          | Some c \<Rightarrow> (if ss_connected s c then Suc a else a, if ss_loggedIn s c then Suc b else b)) m (n, k) =
        (count_clients (ss_connected s) m n, count_clients (ss_loggedIn s) m k)" for m :: "(string, ref option) gomap" and n k
    by (induction m arbitrary: n k) (auto split: option.split)
  then show ?thesis by (simp add: legacy_counts_def healthStats_ConnectedUsers_def healthStats_LoggedInUsers_def)
qed

text \<open>
  The health handler of \<^verbatim>\<open>internal/health\<close> is a drop-in replacement of the legacy handler: for the same process, clock
  and database both write the same response and leave the same state.
\<close>

theorem GetHealth_replaced:
  "GetHealth startTime version ft fd now alloc totalAlloc sys numGC g w s =
     (case health_ServeHTTP \<lparr>hs_isConnected = ss_connected s, hs_isLoggedIn = ss_loggedIn s, hs_start = startTime, hs_version = version\<rparr>
             ft fd now (SystemMem_Read alloc totalAlloc sys numGC) g (Some (ss_cm s)) w (Some (ss_db s)) of
        (w', db') \<Rightarrow> (w', s\<lparr>ss_db := the db'\<rparr>))"
proof -
  obtain q d where q: "pg_query (\<lambda>d. length (users_tbl d)) (ss_db s) = (q, d)" by (rule prod.exhaust)
  have c: "legacy_counts (s\<lparr>ss_db := d\<rparr>) = legacy_counts s" by (simp add: legacy_counts_spec)
  show ?thesis
    by (cases q) (simp_all add: GetHealth_def health_ServeHTTP_def Report_def healthStats_TotalUsers_def healthStats_ActiveConnections_def
        on_db_def q c legacy_counts_spec SystemMem_Read_def Let_def)
qed

lemma legacy_loop_ok:
  assumes "no_faults (ss_db s)" "list_all struct_scan rs"
  shows "\<exists>s'. legacy_loop rs s =
    (Some (map (\<lambda>r. legacy_user s r (legacy_s3 (Inr (find_user (u_id r) (ss_db s))))) rs), s')"
  using assms
proof (induction rs arbitrary: s)
  case (Cons r rs)
  define s1 where "s1 = s\<lparr>ss_db := (ss_db s)\<lparr>calls := Suc (calls (ss_db s))\<rparr>\<rparr>"
  have q: "on_db (pg_query (find_user i)) s = (Inr (find_user i (ss_db s)), s1)" for i
    using Cons.prems(1) by (simp add: on_db_def pg_query_no_fault s1_def find_user_def)
  have live: "IsConnected s1 = IsConnected s" "IsLoggedIn s1 = IsLoggedIn s"
    by (simp_all add: s1_def fun_eq_iff IsConnected_def IsLoggedIn_def split: option.split)
  have same: "legacy_user s1 r' j = legacy_user s r' j" "find_user i (ss_db s1) = find_user i (ss_db s)" for r' j i
    using live by (simp_all add: s1_def legacy_user_def session_of_def find_user_def)
  have "no_faults (ss_db s1)" using Cons.prems(1) by (simp add: s1_def no_faults_def)
  with Cons.IH [of s1] Cons.prems(2) obtain s' where
    "legacy_loop rs s1 = (Some (map (\<lambda>r. legacy_user s1 r (legacy_s3 (Inr (find_user (u_id r) (ss_db s1))))) rs), s')" by auto
  with Cons.prems(2) show ?case by (simp add: q same)
qed simp

lemma find_own_row: "distinct (map u_id rs) \<Longrightarrow> r \<in> set rs \<Longrightarrow> find (\<lambda>x. u_id x = u_id r) rs = Some r"
  by (induction rs) (auto simp: rev_image_eqI)

lemma live_state:
  "IsConnected s (session_of i s) = usersConnState_Connected (ss_connected s) (Some (ss_cm s)) i"
  "IsLoggedIn s (session_of i s) = usersConnState_LoggedIn (ss_loggedIn s) (Some (ss_cm s)) i"
  by (simp_all add: IsConnected_def IsLoggedIn_def session_of_def usersConnState_Connected_def usersConnState_LoggedIn_def
      GetWhatsmeowClient_def gm_ptr_def split: option.split)

lemma legacy_user_json:
  "legacy_user s r (legacy_s3 (Inr (Some r))) =
   user_json (applyLiveState (scanRow r) (usersConnState_Connected (ss_connected s) (Some (ss_cm s)))
     (usersConnState_LoggedIn (ss_loggedIn s) (Some (ss_cm s))))"
  unfolding legacy_user_def legacy_s3_def user_json_def applyLiveState_def scanRow_def live_state Let_def
  by (simp add: mask_s3_def s3_json_def proxy_json_def)

definition list_request :: "string option \<Rightarrow> admin_request" where
  "list_request i = \<lparr>rq_Method = ''GET'', rq_id = i, rq_create = None, rq_update = None\<rparr>"

lemma service_list:
  assumes "no_faults (ss_db s)"
  shows "\<exists>s'. Service_List (newUsersService cy key ir nr) s =
    (Inr (map (\<lambda>r. applyLiveState (scanRow r) (usersConnState_Connected (ss_connected s) (Some (ss_cm s)))
       (usersConnState_LoggedIn (ss_loggedIn s) (Some (ss_cm s)))) (users_tbl (ss_db s))), s')"
  using assms
  by (simp add: Service_List_def newUsersService_def WithUpdateHook_def WithHMACEncryptor_def WithIDGenerator_def New_def server_repo_def
      PostgresRepository_def on_db_def pgList_def lift_err_def pg_query_no_fault)

text \<open>
  C25. The list of users of \<^verbatim>\<open>internal/users\<close> matches the legacy handler, as its comment demands: with a working
  database, distinct ids and \<^verbatim>\<open>connected\<close> columns of 0, 1 or NULL both write the same response.
\<close>

theorem ListUsers_replaced:
  assumes "no_faults (ss_db s)" "distinct (map u_id (users_tbl (ss_db s)))" "list_all struct_scan (users_tbl (ss_db s))"
  shows "fst (ListUsers None w s) = snd (users_ServeHTTP (newUsersService cy key ir nr) (list_request None) (s, w))"
proof -
  define s1 where "s1 = s\<lparr>ss_db := (ss_db s)\<lparr>calls := Suc (calls (ss_db s))\<rparr>\<rparr>"
  have q: "on_db (pg_query users_tbl) s = (Inr (users_tbl (ss_db s)), s1)"
    using assms(1) by (simp add: on_db_def pg_query_no_fault s1_def)
  have nf: "no_faults (ss_db s1)" using assms(1) by (simp add: s1_def no_faults_def)
  have row: "legacy_user s1 r (legacy_s3 (Inr (find_user (u_id r) (ss_db s1)))) =
      user_json (applyLiveState (scanRow r) (usersConnState_Connected (ss_connected s) (Some (ss_cm s)))
        (usersConnState_LoggedIn (ss_loggedIn s) (Some (ss_cm s))))" if "r \<in> set (users_tbl (ss_db s))" for r
  proof -
    have "find_user (u_id r) (ss_db s1) = Some r" using find_own_row [OF assms(2) that] by (simp add: find_user_def s1_def)
    then show ?thesis by (simp only: legacy_user_json) (simp add: s1_def)
  qed
  obtain s2 where l: "legacy_loop (users_tbl (ss_db s)) s1 =
      (Some (map (\<lambda>r. legacy_user s1 r (legacy_s3 (Inr (find_user (u_id r) (ss_db s1))))) (users_tbl (ss_db s))), s2)"
    using legacy_loop_ok [OF nf assms(3)] by blast
  obtain s3 where n: "Service_List (newUsersService cy key ir nr) s =
    (Inr (map (\<lambda>r. applyLiveState (scanRow r) (usersConnState_Connected (ss_connected s) (Some (ss_cm s)))
       (usersConnState_LoggedIn (ss_loggedIn s) (Some (ss_cm s)))) (users_tbl (ss_db s))), s3)"
    using service_list [OF assms(1)] by blast
  have maps: "map (\<lambda>r. legacy_user s1 r (legacy_s3 (Inr (find_user (u_id r) (ss_db s1))))) (users_tbl (ss_db s)) =
     map user_json (map (\<lambda>r. applyLiveState (scanRow r) (usersConnState_Connected (ss_connected s) (Some (ss_cm s)))
       (usersConnState_LoggedIn (ss_loggedIn s) (Some (ss_cm s)))) (users_tbl (ss_db s)))"
    using row by simp
  show ?thesis
    unfolding ListUsers_def users_ServeHTTP_def list_request_def
    by (simp add: q l n maps Respond_def respond_envelope_def writeEnvelope_def Let_def del: map_map)
qed

theorem ListUsers_replaced_witness:
  "fst (ListUsers None new_writer (auth_srv [alice] [])) =
   snd (users_ServeHTTP (newUsersService sample_crypto [] [] []) (list_request None) (auth_srv [alice] [], new_writer))"
  by (rule ListUsers_replaced) (simp_all add: srv_eval no_faults_def struct_scan_def)

text \<open>
  For a single user they differ: the legacy handler answers 200 with an array, empty when there is no such user, where the new
  handler answers 200 with an object or 404.
\<close>

lemma ListUsers_single_differs:
  assumes "no_faults (ss_db s)" "find_user i (ss_db s) = None"
  shows "fst (ListUsers (Some i) w s) = Respond 200 (RData (JArr [])) w"
proof -
  have "filter (\<lambda>r. u_id r = i) (users_tbl (ss_db s)) = []"
    using assms(2) by (simp add: find_user_def find_None_iff filter_empty_conv)
  with assms(1) show ?thesis by (simp add: ListUsers_def on_db_def pg_query_no_fault)
qed

end
