(* ===== verification/Config.thy ===== *)
theory Config
  imports Migrations Session_Props
begin

text \<open>
  How the process is configured and started: the flags and environment variables of \<^verbatim>\<open>cmd/api/main.go\<close>, the generated secrets,
  the database configuration of \<^verbatim>\<open>cmd/api/db.go\<close>, and the order of \<^verbatim>\<open>main\<close> up to the listening server.
\<close>

section \<open>Flags\<close>

record flags =
  fl_address :: string
  fl_port :: string
  fl_waDebug :: string
  fl_logType :: string
  fl_skipMedia :: bool
  fl_osName :: string
  fl_platformType :: string
  fl_colorOutput :: bool
  fl_sslcert :: string
  fl_sslprivkey :: string
  fl_adminToken :: string
  fl_globalEncryptionKey :: string
  fl_globalHMACKey :: string
  fl_globalWebhook :: string
  fl_versionFlag :: bool
  fl_dataDir :: string
  fl_webhookRetryEnabled :: bool
  fl_webhookRetryCount :: int
  fl_webhookRetryDelaySeconds :: int

definition default_flags :: flags where
  "default_flags =
     \<lparr>fl_address = ''0.0.0.0'', fl_port = ''8080'', fl_waDebug = [], fl_logType = ''console'', fl_skipMedia = False,
      fl_osName = ''Mac OS 10'', fl_platformType = ''DESKTOP'', fl_colorOutput = False, fl_sslcert = [], fl_sslprivkey = [],
      fl_adminToken = [], fl_globalEncryptionKey = [], fl_globalHMACKey = [], fl_globalWebhook = [], fl_versionFlag = False,
      fl_dataDir = [], fl_webhookRetryEnabled = True, fl_webhookRetryCount = 5, fl_webhookRetryDelaySeconds = 30\<rparr>"

text \<open>\<^verbatim>\<open>os.Getenv\<close>, after the \<^verbatim>\<open>.env\<close> file has been loaded: empty when a variable is not set.\<close>

type_synonym getenv = "string \<Rightarrow> string"

text \<open>A variable overrides the current value when it is set.\<close>

definition env_or :: "string \<Rightarrow> string \<Rightarrow> string" where
  "env_or v current = (if v \<noteq> [] then v else current)"

text \<open>The first part of \<^verbatim>\<open>main\<close>, after the flags have been parsed.\<close>

definition listen_env :: "getenv \<Rightarrow> flags \<Rightarrow> flags" where
  "listen_env getenv fl =
     fl\<lparr>fl_address := (if fl_address fl = ''0.0.0.0'' \<or> fl_address fl = [] then env_or (getenv ''WUZAPI_ADDRESS'') (fl_address fl) else fl_address fl),
        fl_port := (if fl_port fl = ''8080'' \<or> fl_port fl = [] then env_or (getenv ''WUZAPI_PORT'') (fl_port fl) else fl_port fl)\<rparr>"

definition retry_env :: "getenv \<Rightarrow> flags \<Rightarrow> flags" where
  "retry_env getenv fl =
     fl\<lparr>fl_webhookRetryEnabled := (let v = getenv ''WEBHOOK_RETRY_ENABLED''
          in if v \<noteq> [] then ToLower v = ''true'' \<or> v = ''1'' else fl_webhookRetryEnabled fl),
        fl_webhookRetryCount := (let v = getenv ''WEBHOOK_RETRY_COUNT''
          in if v \<noteq> [] then (case Atoi v of Some n \<Rightarrow> n | None \<Rightarrow> fl_webhookRetryCount fl) else fl_webhookRetryCount fl),
        fl_webhookRetryDelaySeconds := (let v = getenv ''WEBHOOK_RETRY_DELAY_SECONDS''
          in if v \<noteq> [] then (case Atoi v of Some n \<Rightarrow> n | None \<Rightarrow> fl_webhookRetryDelaySeconds fl) else fl_webhookRetryDelaySeconds fl)\<rparr>"

definition device_env :: "getenv \<Rightarrow> flags \<Rightarrow> flags" where
  "device_env getenv fl =
     fl\<lparr>fl_osName := env_or (getenv ''SESSION_DEVICE_NAME'') (fl_osName fl),
        fl_platformType := env_or (getenv ''SESSION_PLATFORM_TYPE'') (fl_platformType fl)\<rparr>"

section \<open>Secrets\<close>

definition charset :: string where
  "charset = ''abcdefghijklmnopqrstuvwxyzABCDEFGHIJKLMNOPQRSTUVWXYZ0123456789''"

text \<open>\<open>intn k n\<close> is the \<open>k\<close>-th result of \<^verbatim>\<open>rand.Intn(n)\<close> of \<^verbatim>\<open>math/rand\<close>; 32 of them make a secret.\<close>

type_synonym intn = "nat \<Rightarrow> nat \<Rightarrow> nat"

definition generated :: "intn \<Rightarrow> nat \<Rightarrow> string" where
  "generated intn drawn = map (\<lambda>i. charset ! intn (drawn + i) (length charset)) [0..<32]"

text \<open>A secret is the flag, or the variable, or generated; the number of random draws so far is passed on.\<close>

definition secret :: "intn \<Rightarrow> string \<Rightarrow> string \<Rightarrow> nat \<Rightarrow> string \<times> nat" where
  "secret intn flag variable drawn =
     (if flag \<noteq> [] then (flag, drawn)
      else if variable \<noteq> [] then (variable, drawn)
      else (generated intn drawn, drawn + 32))"

definition secrets :: "intn \<Rightarrow> getenv \<Rightarrow> flags \<Rightarrow> flags" where
  "secrets intn getenv fl =
     (let (admin, n1) = secret intn (fl_adminToken fl) (getenv ''WUZAPI_ADMIN_TOKEN'') 0;
          (key, n2) = secret intn (fl_globalEncryptionKey fl) (getenv ''WUZAPI_GLOBAL_ENCRYPTION_KEY'') n1;
          hook = (if fl_globalWebhook fl = [] then env_or (getenv ''WUZAPI_GLOBAL_WEBHOOK'') [] else fl_globalWebhook fl);
          (hmac, n3) = secret intn (fl_globalHMACKey fl) (getenv ''WUZAPI_GLOBAL_HMAC_KEY'') n2
      in fl\<lparr>fl_adminToken := admin, fl_globalEncryptionKey := key, fl_globalWebhook := hook, fl_globalHMACKey := hmac\<rparr>)"

definition configure :: "intn \<Rightarrow> getenv \<Rightarrow> flags \<Rightarrow> flags" where
  "configure intn getenv fl = secrets intn getenv (device_env getenv (retry_env getenv (listen_env getenv fl)))"

section \<open>The database\<close>

record DatabaseConfig =
  db_Type :: string
  db_Host :: string
  db_Port :: string
  db_User :: string
  db_Password :: string
  db_Name :: string
  db_Path :: string
  db_SSLMode :: string

definition getDatabaseConfig :: "getenv \<Rightarrow> DatabaseConfig" where
  "getDatabaseConfig getenv =
     (let dbSSL = getenv ''DB_SSLMODE'';
          sslMode = (if dbSSL = ''true'' then ''require'' else if dbSSL = ''false'' \<or> dbSSL = [] then ''disable'' else dbSSL)
      in \<lparr>db_Type = ''postgres'', db_Host = getenv ''DB_HOST'', db_Port = getenv ''DB_PORT'', db_User = getenv ''DB_USER'',
          db_Password = getenv ''DB_PASSWORD'', db_Name = getenv ''DB_NAME'', db_Path = [], db_SSLMode = sslMode\<rparr>)"

definition dsn_of :: "DatabaseConfig \<Rightarrow> string" where
  "dsn_of c = ''user='' @ db_User c @ '' password='' @ db_Password c @ '' dbname='' @ db_Name c @ '' host='' @ db_Host c @
     '' port='' @ db_Port c @ '' sslmode='' @ db_SSLMode c"

text \<open>\<open>open_db\<close> and \<open>ping\<close> give the error of \<^verbatim>\<open>sqlx.Open\<close> and of \<^verbatim>\<open>db.Ping()\<close> for a connection string, if any.\<close>

definition initializePostgres :: "(string \<Rightarrow> string option) \<Rightarrow> (string \<Rightarrow> string option) \<Rightarrow> DatabaseConfig \<Rightarrow> string + string" where
  "initializePostgres open_db ping c =
     (if db_User c = [] \<or> db_Password c = [] \<or> db_Name c = [] \<or> db_Host c = [] \<or> db_Port c = []
      then Inl ''postgres configuration incomplete: set DB_USER, DB_PASSWORD, DB_NAME, DB_HOST, DB_PORT''
      else (case open_db (dsn_of c) of
              Some e \<Rightarrow> Inl (''failed to open postgres connection: '' @ e)
            | None \<Rightarrow>
           (case ping (dsn_of c) of
              Some e \<Rightarrow> Inl (''failed to ping postgres database: '' @ e)
            | None \<Rightarrow> Inr (dsn_of c))))"

definition InitializeDatabase :: "(string \<Rightarrow> string option) \<Rightarrow> (string \<Rightarrow> string option) \<Rightarrow> getenv \<Rightarrow> string + string" where
  "InitializeDatabase open_db ping getenv = initializePostgres open_db ping (getDatabaseConfig getenv)"

section \<open>Starting\<close>

text \<open>
  The world \<^verbatim>\<open>main\<close> starts in: random draws, environment, the error of \<^verbatim>\<open>os.Executable\<close>, the database driver, the error of
  \<^verbatim>\<open>sqlstore.New\<close> for a connection string, failures of single SQL statements of the migrations, the cipher with its
  nonces, and the files that exist.
\<close>

record boot_env =
  bt_intn :: intn
  bt_getenv :: getenv
  bt_Executable :: "string option"
  bt_Open :: "string \<Rightarrow> string option"
  bt_Ping :: "string \<Rightarrow> string option"
  bt_sqlstore :: "string \<Rightarrow> string option"
  bt_sql :: sql_fault
  bt_crypto :: crypto
  bt_nonces :: bytes
  bt_fileExists :: "string \<Rightarrow> bool"
  bt_base64 :: "bytes \<Rightarrow> string"

datatype listener = ListenAndServe string | ListenAndServeTLS string string string

text \<open>\<^verbatim>\<open>startHTTPMode\<close>: the listener, or \<^term>\<open>None\<close> when a certificate file is missing, which is fatal.\<close>

definition startHTTPMode :: "(string \<Rightarrow> bool) \<Rightarrow> flags \<Rightarrow> listener option" where
  "startHTTPMode exists fl =
     (let addr = fl_address fl @ '':'' @ fl_port fl
      in if fl_sslcert fl \<noteq> [] then
           (if fl_sslprivkey fl \<noteq> [] \<and> (\<not> exists (fl_sslcert fl) \<or> \<not> exists (fl_sslprivkey fl)) then None
            else Some (ListenAndServeTLS addr (fl_sslcert fl) (fl_sslprivkey fl)))
         else Some (ListenAndServe addr))"

record serving =
  sg_flags :: flags
  sg_globalHMACKeyEncrypted :: bytes
  sg_dsn :: string
  sg_listener :: "listener option"

text \<open>\<^verbatim>\<open>main\<close>: \<^term>\<open>Inl\<close> is the status the process exits with before it serves.\<close>

definition main_start :: "boot_env \<Rightarrow> flags \<Rightarrow> schema \<Rightarrow> srv \<Rightarrow> (nat + serving) \<times> schema \<times> srv" where
  "main_start env args sch s =
     (let fl0 = device_env (bt_getenv env) (retry_env (bt_getenv env) (listen_env (bt_getenv env) args))
      in if fl_versionFlag fl0 then (Inl 0, sch, s)
         else
           (let fl = secrets (bt_intn env) (bt_getenv env) fl0;
                enc = (case encryptHMACKey (bt_crypto env) (fl_globalEncryptionKey fl) (bt_nonces env) (fl_globalHMACKey fl) of
                         Inl e \<Rightarrow> [] | Inr b \<Rightarrow> b)
            in if bt_Executable env \<noteq> None then (Inl 1, sch, s)
               else (case InitializeDatabase (bt_Open env) (bt_Ping env) (bt_getenv env) of
                       Inl e \<Rightarrow> (Inl 1, sch, s)
                     | Inr dsn \<Rightarrow>
                         (let s1 = s\<lparr>ss_s3 := SetDB (ss_s3 s)\<rparr>
                          in if bt_sqlstore env dsn \<noteq> None then (Inl 1, sch, s1)
                             else (case initializeSchema (bt_sql env) sch of
                                     (Some e, sch1) \<Rightarrow> (Inl 1, sch1, s1)
                                   | (None, sch1) \<Rightarrow>
                                       (Inr \<lparr>sg_flags = fl, sg_globalHMACKeyEncrypted = enc, sg_dsn = dsn,
                                             sg_listener = startHTTPMode (bt_fileExists env) fl\<rparr>,
                                        sch1, connectOnStartup (bt_base64 env) s1))))))"

section \<open>Properties of the configuration\<close>

lemma charset_length: "length charset = 62"
  by (simp add: charset_def)

lemma generated_valid:
  assumes "\<And>k n. n > 0 \<Longrightarrow> intn k n < n"
  shows "length (generated intn d) = 32" "set (generated intn d) \<subseteq> set charset"
  using assms [of 62] by (auto simp: generated_def charset_length)

lemma secret_cases:
  "fst (secret intn f v d) = (if f \<noteq> [] then f else if v \<noteq> [] then v else generated intn d)"
  by (simp add: secret_def)

lemma secrets_spec:
  "\<exists>d1 d2 d3. fl_adminToken (secrets intn getenv fl) = fst (secret intn (fl_adminToken fl) (getenv ''WUZAPI_ADMIN_TOKEN'') d1) \<and>
     fl_globalEncryptionKey (secrets intn getenv fl) = fst (secret intn (fl_globalEncryptionKey fl) (getenv ''WUZAPI_GLOBAL_ENCRYPTION_KEY'') d2) \<and>
     fl_globalHMACKey (secrets intn getenv fl) = fst (secret intn (fl_globalHMACKey fl) (getenv ''WUZAPI_GLOBAL_HMAC_KEY'') d3)"
proof -
  obtain a n1 where 1: "secret intn (fl_adminToken fl) (getenv ''WUZAPI_ADMIN_TOKEN'') 0 = (a, n1)" by (rule prod.exhaust)
  obtain k n2 where 2: "secret intn (fl_globalEncryptionKey fl) (getenv ''WUZAPI_GLOBAL_ENCRYPTION_KEY'') n1 = (k, n2)" by (rule prod.exhaust)
  obtain h n3 where 3: "secret intn (fl_globalHMACKey fl) (getenv ''WUZAPI_GLOBAL_HMAC_KEY'') n2 = (h, n3)" by (rule prod.exhaust)
  have "fl_adminToken (secrets intn getenv fl) = a" "fl_globalEncryptionKey (secrets intn getenv fl) = k"
    "fl_globalHMACKey (secrets intn getenv fl) = h"
    unfolding secrets_def by (simp_all add: 1 2 3)
  with 1 2 3 show ?thesis by (metis fst_conv)
qed

lemma env_parts_keep:
  "fl_adminToken (device_env g (retry_env g (listen_env g fl))) = fl_adminToken fl"
  "fl_globalEncryptionKey (device_env g (retry_env g (listen_env g fl))) = fl_globalEncryptionKey fl"
  "fl_globalHMACKey (device_env g (retry_env g (listen_env g fl))) = fl_globalHMACKey fl"
  "fl_versionFlag (device_env g (retry_env g (listen_env g fl))) = fl_versionFlag fl"
  by (simp_all add: device_env_def retry_env_def listen_env_def)

text \<open>Where a secret may come from: the flag, else the variable, else 32 characters of the alphabet.\<close>

definition chosen :: "string \<Rightarrow> string \<Rightarrow> string \<Rightarrow> bool" where
  "chosen flag variable value \<longleftrightarrow> value \<noteq> [] \<and>
     (if flag \<noteq> [] then value = flag
      else if variable \<noteq> [] then value = variable
      else length value = 32 \<and> set value \<subseteq> set charset)"

lemma chosen_secret:
  assumes "\<And>k n. n > 0 \<Longrightarrow> intn k n < n"
  shows "chosen f v (fst (secret intn f v d))"
proof -
  have gen: "length (generated intn k) = 32" "set (generated intn k) \<subseteq> set charset" for k
    by (rule generated_valid, rule assms, assumption)+
  then have "generated intn d \<noteq> []" by (metis list.size(3) zero_neq_numeral)
  with gen show ?thesis by (simp add: chosen_def secret_cases)
qed

text \<open>
  C23. The process never serves with an empty secret: the admin token, the encryption key and the HMAC key of a serving
  process are the flag, else the environment variable, else 32 characters drawn from the alphabet; and the encrypted
  HMAC key it signs with is missing exactly when the configured encryption key is no AES key, and otherwise decrypts
  to the HMAC key.
\<close>

theorem serving_secrets:
  assumes "main_start env args sch s = (Inr srv, sch', s')" "\<And>k n. n > 0 \<Longrightarrow> bt_intn env k n < n"
    "crypto_ok (bt_crypto env)" "length (bt_nonces env) \<ge> NonceSize"
  shows "chosen (fl_adminToken args) (bt_getenv env ''WUZAPI_ADMIN_TOKEN'') (fl_adminToken (sg_flags srv)) \<and>
    chosen (fl_globalEncryptionKey args) (bt_getenv env ''WUZAPI_GLOBAL_ENCRYPTION_KEY'') (fl_globalEncryptionKey (sg_flags srv)) \<and>
    chosen (fl_globalHMACKey args) (bt_getenv env ''WUZAPI_GLOBAL_HMAC_KEY'') (fl_globalHMACKey (sg_flags srv)) \<and>
    (if aes_key_ok (fl_globalEncryptionKey (sg_flags srv))
     then decryptHMACKey (bt_crypto env) (fl_globalEncryptionKey (sg_flags srv)) (sg_globalHMACKeyEncrypted srv) = Inr (fl_globalHMACKey (sg_flags srv))
     else sg_globalHMACKeyEncrypted srv = [])"
proof -
  define fl0 where "fl0 = device_env (bt_getenv env) (retry_env (bt_getenv env) (listen_env (bt_getenv env) args))"
  define fl where "fl = secrets (bt_intn env) (bt_getenv env) fl0"
  have srv: "sg_flags srv = fl"
    "sg_globalHMACKeyEncrypted srv = (case encryptHMACKey (bt_crypto env) (fl_globalEncryptionKey fl) (bt_nonces env) (fl_globalHMACKey fl) of
       Inl e \<Rightarrow> [] | Inr b \<Rightarrow> b)"
    using assms(1) by (auto simp: main_start_def fl0_def [symmetric] fl_def [symmetric] Let_def split: if_splits sum.splits prod.splits option.splits)
  obtain d1 d2 d3 where d: "fl_adminToken fl = fst (secret (bt_intn env) (fl_adminToken args) (bt_getenv env ''WUZAPI_ADMIN_TOKEN'') d1)"
    "fl_globalEncryptionKey fl = fst (secret (bt_intn env) (fl_globalEncryptionKey args) (bt_getenv env ''WUZAPI_GLOBAL_ENCRYPTION_KEY'') d2)"
    "fl_globalHMACKey fl = fst (secret (bt_intn env) (fl_globalHMACKey args) (bt_getenv env ''WUZAPI_GLOBAL_HMAC_KEY'') d3)"
    using secrets_spec [of "bt_intn env" "bt_getenv env" fl0] unfolding fl_def [symmetric] by (auto simp: fl0_def env_parts_keep)
  have ch: "chosen f v (fst (secret (bt_intn env) f v k))" for f v k by (rule chosen_secret, rule assms(2))
  have key: "fl_globalEncryptionKey fl \<noteq> []" unfolding d using ch by (simp add: chosen_def)
  have "if aes_key_ok (fl_globalEncryptionKey fl)
     then decryptHMACKey (bt_crypto env) (fl_globalEncryptionKey fl) (sg_globalHMACKeyEncrypted srv) = Inr (fl_globalHMACKey fl)
     else sg_globalHMACKeyEncrypted srv = []"
  proof (cases "aes_key_ok (fl_globalEncryptionKey fl)")
    case True
    then obtain b where b: "encryptHMACKey (bt_crypto env) (fl_globalEncryptionKey fl) (bt_nonces env) (fl_globalHMACKey fl) = Inr b"
      using key assms(4) by (simp add: encryptHMACKey_def Let_def)
    with True decrypt_encrypt(1) [OF assms(3) b] show ?thesis by (simp add: srv)
  qed (simp add: srv encryptHMACKey_def key)
  with ch show ?thesis unfolding srv(1) d by blast
qed

definition sample_boot :: boot_env where
  "sample_boot =
     \<lparr>bt_intn = (\<lambda>_ _. 0), bt_getenv = (\<lambda>v. if v \<in> set [''DB_USER'', ''DB_PASSWORD'', ''DB_NAME'', ''DB_HOST'', ''DB_PORT''] then ''x'' else []),
      bt_Executable = None, bt_Open = (\<lambda>_. None), bt_Ping = (\<lambda>_. None), bt_sqlstore = (\<lambda>_. None), bt_sql = no_fault,
      bt_crypto = sample_crypto, bt_nonces = replicate 12 3, bt_fileExists = (\<lambda>_. True), bt_base64 = (\<lambda>_. [])\<rparr>"

lemma sample_boot_dsn: "\<exists>dsn. InitializeDatabase (bt_Open sample_boot) (bt_Ping sample_boot) (bt_getenv sample_boot) = Inr dsn"
  by (simp add: InitializeDatabase_def initializePostgres_def getDatabaseConfig_def sample_boot_def Let_def)

lemma sample_boot_serves: "\<exists>srv sch' s'. main_start sample_boot default_flags fresh_schema s = (Inr srv, sch', s')"
proof -
  obtain dsn where d: "InitializeDatabase (bt_Open sample_boot) (bt_Ping sample_boot) (bt_getenv sample_boot) = Inr dsn"
    using sample_boot_dsn by blast
  obtain sch' where m: "initializeSchema no_fault fresh_schema = (None, sch')"
    using initializeSchema_fresh_columns by (auto simp: Let_def split: prod.splits)
  have v: "\<not> fl_versionFlag (device_env g (retry_env g (listen_env g default_flags)))" for g
    by (simp add: env_parts_keep default_flags_def)
  show ?thesis
    unfolding main_start_def Let_def d using v by (simp add: sample_boot_def m)
qed

theorem serving_secrets_witness:
  "\<exists>srv sch' s'. main_start sample_boot default_flags fresh_schema (auth_srv [] []) = (Inr srv, sch', s') \<and>
     length (fl_adminToken (sg_flags srv)) = 32 \<and> length (fl_globalEncryptionKey (sg_flags srv)) = 32 \<and>
     decryptHMACKey sample_crypto (fl_globalEncryptionKey (sg_flags srv)) (sg_globalHMACKeyEncrypted srv) = Inr (fl_globalHMACKey (sg_flags srv))"
proof -
  obtain srv sch' s' where b: "main_start sample_boot default_flags fresh_schema (auth_srv [] []) = (Inr srv, sch', s')"
    using sample_boot_serves by blast
  have "n > 0 \<Longrightarrow> bt_intn sample_boot k n < n" for k n by (simp add: sample_boot_def)
  note r = serving_secrets [OF b this]
  have f: "fl_adminToken default_flags = []" "fl_globalEncryptionKey default_flags = []" "fl_globalHMACKey default_flags = []"
    by (simp_all add: default_flags_def)
  have g: "bt_getenv sample_boot ''WUZAPI_ADMIN_TOKEN'' = []" "bt_getenv sample_boot ''WUZAPI_GLOBAL_ENCRYPTION_KEY'' = []"
    "bt_getenv sample_boot ''WUZAPI_GLOBAL_HMAC_KEY'' = []" "bt_crypto sample_boot = sample_crypto" "length (bt_nonces sample_boot) = 12"
    by (simp_all add: sample_boot_def)
  then have "chosen [] [] (fl_adminToken (sg_flags srv))" "chosen [] [] (fl_globalEncryptionKey (sg_flags srv))"
    "aes_key_ok (fl_globalEncryptionKey (sg_flags srv)) \<Longrightarrow>
       decryptHMACKey sample_crypto (fl_globalEncryptionKey (sg_flags srv)) (sg_globalHMACKeyEncrypted srv) = Inr (fl_globalHMACKey (sg_flags srv))"
    using r by (simp_all add: f g sample_crypto_ok NonceSize_def)
  with b show ?thesis by (simp add: chosen_def aes_key_ok_def)
qed



text \<open>The values of a connection string are not quoted: different settings can give the same string.\<close>

lemma dsn_ambiguous:
  "dsn_of \<lparr>db_Type = t, db_Host = h, db_Port = p, db_User = u, db_Password = ''x dbname=y'', db_Name = ''z'', db_Path = [], db_SSLMode = m\<rparr> =
   dsn_of \<lparr>db_Type = t, db_Host = h, db_Port = p, db_User = u, db_Password = ''x'', db_Name = ''y dbname=z'', db_Path = [], db_SSLMode = m\<rparr>"
  by (simp add: dsn_of_def)

end
