(* ===== verification/Routes.thy ===== *)
theory Routes
  imports Session_Props
begin

text \<open>
  The table of \<^verbatim>\<open>cmd/api/routes.go\<close> and the authentication in front of its handlers. The router itself is gorilla's;
  it takes the first route that matches, and a variable in braces matches one segment of the path.
\<close>

section \<open>The table\<close>

datatype access = Public | Admin | User

record route =
  rt_path :: string
  rt_method :: string
  rt_access :: access
  rt_handler :: string

text \<open>\<^verbatim>\<open>adminRoutes.Handle\<close> on the subrouter with prefix \<^verbatim>\<open>/admin\<close>, and \<^verbatim>\<open>s.router.Handle(path, c.Then(...))\<close>.\<close>

definition admin_route :: "string \<Rightarrow> string \<Rightarrow> string \<Rightarrow> route" where
  "admin_route path method handler =
     \<lparr>rt_path = ''/admin'' @ path, rt_method = method, rt_access = Admin, rt_handler = handler\<rparr>"

definition user_route :: "string \<Rightarrow> string \<Rightarrow> string \<Rightarrow> route" where
  "user_route path method handler = \<lparr>rt_path = path, rt_method = method, rt_access = User, rt_handler = handler\<rparr>"

definition routes :: "route list" where
  "routes =
     [\<lparr>rt_path = ''/health'', rt_method = ''GET'', rt_access = Public, rt_handler = ''health''\<rparr>,
      admin_route ''/users'' ''GET'' ''usersHandler'',
      admin_route ''/users/{id}'' ''GET'' ''usersHandler'',
      admin_route ''/users/{id}'' ''DELETE'' ''usersHandler'',
      admin_route ''/users'' ''POST'' ''usersHandler'',
      admin_route ''/users/{id}'' ''PUT'' ''usersHandler'',
      admin_route ''/users/{id}/full'' ''DELETE'' ''DeleteUserComplete'',
      user_route ''/session/connect'' ''POST'' ''Connect'',
      user_route ''/session/disconnect'' ''POST'' ''Disconnect'',
      user_route ''/session/logout'' ''POST'' ''Logout'',
      user_route ''/session/status'' ''GET'' ''GetStatus'',
      user_route ''/session/qr'' ''GET'' ''GetQR'',
      user_route ''/session/pairphone'' ''POST'' ''PairPhone'',
      user_route ''/session/history'' ''GET'' ''RequestHistorySync'',
      user_route ''/webhook'' ''POST'' ''SetWebhook'',
      user_route ''/webhook'' ''GET'' ''GetWebhook'',
      user_route ''/webhook'' ''DELETE'' ''DeleteWebhook'',
      user_route ''/webhook'' ''PUT'' ''UpdateWebhook'',
      user_route ''/session/proxy'' ''POST'' ''SetProxy'',
      user_route ''/session/history'' ''POST'' ''SetHistory'',
      user_route ''/session/s3/config'' ''POST'' ''ConfigureS3'',
      user_route ''/session/s3/config'' ''GET'' ''GetS3Config'',
      user_route ''/session/s3/config'' ''DELETE'' ''DeleteS3Config'',
      user_route ''/session/s3/test'' ''POST'' ''TestS3Connection'',
      user_route ''/session/hmac/config'' ''POST'' ''ConfigureHmac'',
      user_route ''/session/hmac/config'' ''GET'' ''GetHmacConfig'',
      user_route ''/session/hmac/config'' ''DELETE'' ''DeleteHmacConfig'',
      user_route ''/chat/send/text'' ''POST'' ''SendMessage'',
      user_route ''/chat/delete'' ''POST'' ''DeleteMessage'',
      user_route ''/chat/send/image'' ''POST'' ''SendImage'',
      user_route ''/chat/send/audio'' ''POST'' ''SendAudio'',
      user_route ''/chat/send/document'' ''POST'' ''SendDocument'',
      user_route ''/chat/send/video'' ''POST'' ''SendVideo'',
      user_route ''/chat/send/sticker'' ''POST'' ''SendSticker'',
      user_route ''/chat/send/location'' ''POST'' ''SendLocation'',
      user_route ''/chat/send/contact'' ''POST'' ''SendContact'',
      user_route ''/chat/react'' ''POST'' ''React'',
      user_route ''/chat/send/buttons'' ''POST'' ''SendButtons'',
      user_route ''/chat/send/list'' ''POST'' ''SendList'',
      user_route ''/chat/send/poll'' ''POST'' ''SendPoll'',
      user_route ''/chat/send/edit'' ''POST'' ''SendEditMessage'',
      user_route ''/chat/history'' ''GET'' ''GetHistory'',
      user_route ''/chat/request-unavailable-message'' ''POST'' ''RequestUnavailableMessage'',
      user_route ''/chat/archive'' ''POST'' ''ArchiveChat'',
      user_route ''/status/set/text'' ''POST'' ''SetStatusMessage'',
      user_route ''/call/reject'' ''POST'' ''RejectCall'',
      user_route ''/user/presence'' ''POST'' ''SendPresence'',
      user_route ''/user/info'' ''POST'' ''GetUser'',
      user_route ''/user/check'' ''POST'' ''CheckUser'',
      user_route ''/user/avatar'' ''POST'' ''GetAvatar'',
      user_route ''/user/contacts'' ''GET'' ''GetContacts'',
      user_route ''/user/block'' ''POST'' ''BlockUser'',
      user_route ''/user/unblock'' ''POST'' ''UnblockUser'',
      user_route ''/user/lid/{jid}'' ''GET'' ''GetUserLID'',
      user_route ''/chat/presence'' ''POST'' ''ChatPresence'',
      user_route ''/chat/markread'' ''POST'' ''MarkRead'',
      user_route ''/chat/downloadimage'' ''POST'' ''DownloadImage'',
      user_route ''/chat/downloadvideo'' ''POST'' ''DownloadVideo'',
      user_route ''/chat/downloadaudio'' ''POST'' ''DownloadAudio'',
      user_route ''/chat/downloaddocument'' ''POST'' ''DownloadDocument'',
      user_route ''/chat/downloadsticker'' ''POST'' ''DownloadSticker'',
      user_route ''/group/create'' ''POST'' ''CreateGroup'',
      user_route ''/group/list'' ''GET'' ''ListGroups'',
      user_route ''/group/info'' ''GET'' ''GetGroupInfo'',
      user_route ''/group/invitelink'' ''GET'' ''GetGroupInviteLink'',
      user_route ''/group/photo'' ''POST'' ''SetGroupPhoto'',
      user_route ''/group/photo/remove'' ''POST'' ''RemoveGroupPhoto'',
      user_route ''/group/leave'' ''POST'' ''GroupLeave'',
      user_route ''/group/name'' ''POST'' ''SetGroupName'',
      user_route ''/group/topic'' ''POST'' ''SetGroupTopic'',
      user_route ''/group/announce'' ''POST'' ''SetGroupAnnounce'',
      user_route ''/group/locked'' ''POST'' ''SetGroupLocked'',
      user_route ''/group/ephemeral'' ''POST'' ''SetDisappearingTimer'',
      user_route ''/group/join'' ''POST'' ''GroupJoin'',
      user_route ''/group/inviteinfo'' ''POST'' ''GetGroupInviteInfo'',
      user_route ''/group/updateparticipants'' ''POST'' ''UpdateGroupParticipants'',
      user_route ''/newsletter/list'' ''GET'' ''ListNewsletter'']"

section \<open>Serving a route\<close>

record credentials =
  ct_authorization :: string
  ct_token :: string
  ct_tokenQuery :: "string list"

text \<open>The middleware of a route around its handler, which gets the values of the user, if there is one.\<close>

definition guarded ::
    "(string \<Rightarrow> bytes) \<Rightarrow> string \<Rightarrow> credentials \<Rightarrow> access \<Rightarrow> (user_values option \<Rightarrow> writer \<Rightarrow> srv \<Rightarrow> writer \<times> srv) \<Rightarrow>
     writer \<Rightarrow> srv \<Rightarrow> writer \<times> srv" where
  "guarded sha256 adminToken ct a nxt w s =
     (case a of
        Public \<Rightarrow> nxt None w s
      | Admin \<Rightarrow> authadmin sha256 adminToken (ct_authorization ct) (nxt None) w s
      | User \<Rightarrow> authalice (ct_token ct) (ct_tokenQuery ct) (\<lambda>v. nxt (Some v)) w s)"

section \<open>Overlap\<close>

text \<open>Two paths overlap when they have as many segments and each pair of segments agrees or has a variable.\<close>

definition is_variable :: "string \<Rightarrow> bool" where
  "is_variable seg = (case seg of [] \<Rightarrow> False | c # _ \<Rightarrow> c = CHR ''{'')"

fun overlap :: "string list \<Rightarrow> string list \<Rightarrow> bool" where
  "overlap [] [] = True"
| "overlap (a # as) (b # bs) = ((a = b \<or> is_variable a \<or> is_variable b) \<and> overlap as bs)"
| "overlap _ _ = False"

definition matches :: "string list \<Rightarrow> string list \<Rightarrow> bool" where
  "matches pattern path = list_all2 (\<lambda>p seg. if is_variable p then seg \<noteq> [] else p = seg) pattern path"

definition keyed :: "route list \<Rightarrow> (string \<times> string list) list" where
  "keyed rs = map (\<lambda>r. (rt_method r, Split (rt_path r) (CHR ''/''))) rs"

fun unambiguous :: "(string \<times> string list) list \<Rightarrow> bool" where
  "unambiguous [] = True"
| "unambiguous ((m, p) # rs) = (list_all (\<lambda>(m', p'). m' \<noteq> m \<or> \<not> overlap p p') rs \<and> unambiguous rs)"

lemma matches_overlap: "matches p path \<Longrightarrow> matches q path \<Longrightarrow> overlap p q"
proof (induction p q arbitrary: path rule: overlap.induct)
  case (2 a as b bs)
  then show ?case by (cases path) (auto simp: matches_def split: if_splits)
qed (auto simp: matches_def dest: list_all2_lengthD)

lemma unambiguous_nth:
  assumes "unambiguous rs" "i < j" "j < length rs" "fst (rs ! i) = fst (rs ! j)"
  shows "\<not> overlap (snd (rs ! i)) (snd (rs ! j))"
  using assms
proof (induction rs arbitrary: i j rule: unambiguous.induct)
  case (2 m p rs)
  show ?case
  proof (cases i)
    case 0
    then obtain k where "j = Suc k" "k < length rs" using "2.prems" by (cases j) auto
    with 0 "2.prems" show ?thesis by (auto simp: list_all_length split: prod.splits)
  next
    case (Suc i')
    then obtain k where "j = Suc k" using "2.prems" by (cases j) auto
    with Suc "2.prems" "2.IH" [of i' k] show ?thesis by auto
  qed
qed simp

lemma routes_unambiguous: "unambiguous (keyed routes)"
  by code_simp

section \<open>Properties\<close>

text \<open>
  The order in which routes are registered does not matter: no request is matched by two routes of the table.
\<close>

theorem one_route_answers:
  assumes "r1 \<in> set routes" "r2 \<in> set routes" "rt_method r1 = rt_method r2"
    "matches (Split (rt_path r1) (CHR ''/'')) path" "matches (Split (rt_path r2) (CHR ''/'')) path"
  shows "r1 = r2"
proof -
  from assms(1,2) obtain i j where i: "i < length routes" "routes ! i = r1" and j: "j < length routes" "routes ! j = r2"
    by (auto simp: in_set_conv_nth)
  have "\<not> x < y" if "x < length routes" "y < length routes" "{routes ! x, routes ! y} = {r1, r2}" for x y
  proof
    assume "x < y"
    then have "fst (keyed routes ! x) = fst (keyed routes ! y) \<Longrightarrow> \<not> overlap (snd (keyed routes ! x)) (snd (keyed routes ! y))"
      using unambiguous_nth [OF routes_unambiguous] that by (simp add: keyed_def)
    moreover have "rt_method (routes ! x) = rt_method (routes ! y)" using that(3) assms(3) by (auto simp: doubleton_eq_iff)
    moreover have "overlap (Split (rt_path (routes ! x)) (CHR ''/'')) (Split (rt_path (routes ! y)) (CHR ''/''))"
      using that(3) matches_overlap [OF assms(4,5)] matches_overlap [OF assms(5,4)] by (auto simp: doubleton_eq_iff)
    ultimately show False using that by (simp add: keyed_def)
  qed
  with i j have "i = j" by (metis doubleton_eq_iff nat_neq_iff)
  with i j show ?thesis by simp
qed

lemma health_public: "list_all (\<lambda>r. rt_access r = Public \<longrightarrow> rt_path r = ''/health'') routes"
  by code_simp

lemma admin_paths: "list_all (\<lambda>r. rt_access r = Admin \<longleftrightarrow> HasPrefix (rt_path r) ''/admin/'') routes"
  by code_simp

text \<open>Credentials that belong to nobody: the wrong admin token, and a token neither cached nor in the table.\<close>

definition stranger :: "(string \<Rightarrow> bytes) \<Rightarrow> string \<Rightarrow> credentials \<Rightarrow> srv \<Rightarrow> bool" where
  "stranger sha256 adminToken ct s \<longleftrightarrow>
     sha256 (ct_authorization ct) \<noteq> sha256 adminToken \<and>
     map_of (ss_cache s) (request_token (ct_token ct) (ct_tokenQuery ct)) = None \<and>
     find_token (request_token (ct_token ct) (ct_tokenQuery ct)) (ss_db s) = None"



theorem one_route_answers_witness:
  "matches (Split (rt_path (user_route ''/user/lid/{jid}'' ''GET'' ''GetUserLID'')) (CHR ''/'')) [[], ''user'', ''lid'', ''5531''] \<and>
   routes ! 53 = user_route ''/user/lid/{jid}'' ''GET'' ''GetUserLID''"
proof -
  have m: "matches (Split (rt_path (user_route ''/user/lid/{jid}'' ''GET'' ''GetUserLID'')) (CHR ''/'')) [[], ''user'', ''lid'', ''5531'']"
    by (simp add: matches_def is_variable_def user_route_def)
  have r: "user_route ''/user/lid/{jid}'' ''GET'' ''GetUserLID'' \<in> set routes" by (simp add: routes_def)
  have n: "routes ! 53 \<in> set routes \<and> rt_method (routes ! 53) = ''GET'' \<and>
    matches (Split (rt_path (routes ! 53)) (CHR ''/'')) [[], ''user'', ''lid'', ''5531'']" by code_simp
  then have "rt_method (routes ! 53) = rt_method (user_route ''/user/lid/{jid}'' ''GET'' ''GetUserLID'')" by (simp add: user_route_def)
  from one_route_answers [OF conjunct1 [OF n] r this _ m] n m show ?thesis by blast
qed

end
