(* ===== verification/Spec2Isabelle.thy ===== *)
theory Spec2Isabelle
  imports Webp_Props Httpmw Fetch_Props S3_Props Migrations History_Props Session_Props Lifecycle_Props Dispatcher_Props
    Outgoing_Props Chats_Props Autosync Legacy Config Routes
begin

text \<open>
  A verification library for zapfast, an HTTP API for WhatsApp written in Go: a server that keeps one WhatsApp
  client per user, answers REST requests, and forwards the events of the clients to webhooks.

  \<^bold>\<open>The program and its parts.\<close> A request passes the middleware of \<^verbatim>\<open>internal/httpmw\<close> and, except for
  \<^verbatim>\<open>/health\<close> and \<^verbatim>\<open>/admin\<close>, the authentication \<^verbatim>\<open>authalice\<close>, which puts the values of the caller's row of the
  table \<^verbatim>\<open>users\<close> into a cache and hands them to the handler. Handlers of \<^verbatim>\<open>cmd/api/handlers.go\<close> change the row,
  the cache and the registries of \<^verbatim>\<open>clients.go\<close>, or call the user's client. \<^verbatim>\<open>startClient\<close> of \<^verbatim>\<open>wmiau.go\<close> runs
  as a goroutine per client and ends when the user's kill channel receives a signal; \<^verbatim>\<open>myEventHandler\<close> receives
  the events of the client, stores messages, uploads media through \<^verbatim>\<open>s3manager.go\<close> and calls webhooks.

  \<^bold>\<open>Theories.\<close> Each component has a theory with its definitions, in the order of the code, and, where there is more
  to prove than fits beside them, a second theory \<open>_Props\<close>.

    \<^item> \<open>Prelude\<close>: strings as Go handles them (\<^verbatim>\<open>strings.TrimSpace\<close>, \<open>Split\<close>, \<^verbatim>\<open>strconv.Atoi\<close>), JSON values, response
      writers, maps as association lists, and the collections of simplification rules the proofs share.
    \<^item> \<open>Events\<close>: \<^verbatim>\<open>constants.go\<close> and every loop that builds or reads a list of subscriptions.
    \<^item> \<open>Database\<close>: the tables \<^verbatim>\<open>users\<close>, \<^verbatim>\<open>message_history\<close> and \<^verbatim>\<open>whatsmeow_message_secrets\<close> as lists of rows, and
      a statement as a function on them that an oracle may let fail.
    \<^item> \<open>Users\<close>, \<open>Users_Laws\<close>, \<open>Users_Props\<close>: \<^verbatim>\<open>internal/users\<close>, its repository interface, the PostgreSQL
      implementation, the service and the HTTP handler.
    \<^item> \<open>Webp\<close>: stickers and WebP containers of \<^verbatim>\<open>helpers.go\<close>, byte by byte.
    \<^item> \<open>Httpmw\<close>: CORS and the recovery from panics.
    \<^item> \<open>Fetch\<close>: the HTTP client that refuses private addresses (\<^verbatim>\<open>main.go\<close>), bounded downloads, link previews.
    \<^item> \<open>Clients\<close>: the registries of \<^verbatim>\<open>clients.go\<close>, the adapters for users and health, the health report.
    \<^item> \<open>Webhook\<close>: HMAC keys and signatures, the retry loops, the way of an event to its webhooks.
    \<^item> \<open>S3\<close>: the S3 manager, object keys, uploads, deletion in batches, media processing.
    \<^item> \<open>Migrations\<close>: the migrations of \<^verbatim>\<open>migrations.go\<close> as functions on schemas.
    \<^item> \<open>History\<close>: \<^verbatim>\<open>saveMessageToHistory\<close>, \<^verbatim>\<open>trimMessageHistory\<close> and the history endpoint.
    \<^item> \<open>Server\<close>: the state all handlers share, as the record \<open>srv\<close> (database, cache, registries, kill channels, S3 manager,
      log of client calls), the response envelope and the two authentications.
    \<^item> \<open>Session\<close>, \<open>Settings\<close>: the handlers that connect, disconnect, log out, pair, report and remove a user,
      \<^verbatim>\<open>connectOnStartup\<close>, and the handlers for webhook, history, proxy, S3 and HMAC settings.
    \<^item> \<open>Jids\<close>, \<open>Lifecycle\<close>: \<^verbatim>\<open>parseJID\<close>, \<^verbatim>\<open>validateMessageFields\<close>, and \<^verbatim>\<open>startClient\<close>, whose goroutines are interleaved by
      the step relation \<open>life_step\<close>.
    \<^item> \<open>Dispatcher\<close>: \<^verbatim>\<open>myEventHandler\<close> with all cases of its switch.
    \<^item> \<open>Outgoing\<close>, \<open>Chats\<close>: the handlers that send messages; those that query or change contacts, chats and groups.
    \<^item> \<open>Autosync\<close>: the history synchronisation after a pairing, \<^verbatim>\<open>syncHistoryForChat\<close>.
    \<^item> \<open>Legacy\<close>: \<^verbatim>\<open>ListUsers\<close> and \<^verbatim>\<open>GetHealth\<close>, which the packages under \<^verbatim>\<open>internal\<close> have replaced, and their agreement.
    \<^item> \<open>Config\<close>: flags, environment, generated secrets and database configuration of \<^verbatim>\<open>main.go\<close> and \<^verbatim>\<open>db.go\<close>, and \<^verbatim>\<open>main\<close>
      up to the listener.
    \<^item> \<open>Routes\<close>: the table of \<^verbatim>\<open>routes.go\<close> and the authentication in front of each route.

  \<^bold>\<open>Correspondence.\<close> Definitions keep the names of the code. A Go struct is a record; its JSON decoding is a parameter, so
  a handler takes the decoded payload, or \<^term>\<open>None\<close> when it does not decode. A handler takes the values of the
  authenticated user, the response writer and the server state and returns them changed. A panic is \<^term>\<open>None\<close>,
  an error is \<^term>\<open>Inl\<close> with its text. Objects behind pointers are references into a store where aliasing
  matters (\<^verbatim>\<open>MyClient\<close>), and the cached \<^verbatim>\<open>Values\<close> are updated in place as in the code. Code outside the repository (whatsmeow,
  PostgreSQL, the S3 SDK, HTTP transport, ffmpeg, image codecs, hashing and encryption) is a record of functions that
  each component takes as an argument; properties that rely on such code say so in their hypotheses.

  \<^bold>\<open>Interfaces.\<close> Contracts are locales, interpreted on the definitions of the model: a keyed registry in \<open>Clients\<close>, with
  the three client maps as instances; the user repository in \<open>Users_Laws\<close>, with PostgreSQL as instance and the service's lemmas
  proved inside; message endpoints in \<open>Outgoing_Props\<close> with fifteen handlers and query endpoints in \<open>Chats_Props\<close>
  with thirty as instances. The properties of a group of routes follow from them.

  \<^bold>\<open>What is shown.\<close> Users: creation is all or nothing, updates refine a patch of the row, answers do not depend on stored
  keys. Authentication: no request is served with the values of another user, and settings handlers keep cache
  and rows in agreement. Sessions: starting, disconnecting, logging out and deleting leave registries, kill channels and rows as they
  should be, under every interleaving of the goroutines. Events: webhooks are called only for subscribed events, at most
  \<^verbatim>\<open>maxRetries\<close> times, with signatures that verify. Messages: what a handler sends, through which client, when it panics;
  polls from request to vote. Media: WebP injection refines an edit of the chunk list; S3 keys and deletions stay with their user.
  History: the newest messages are kept, once each. The findings of the manifest name the theorems that show a defect.

  Start: no secret is empty, the process serves only a migrated database, every route but \<^verbatim>\<open>/health\<close> is closed
  to strangers, and no request is matched by two routes.

  \<^bold>\<open>Bounds and fuel.\<close> The loops that end by a counter or a shrinking list are \<open>fun\<close> or \<open>function\<close> with a measure:
  \<open>connect_loop\<close> makes at most three attempts, \<open>hook_loop\<close> at most \<^verbatim>\<open>maxRetries\<close>, the WebP parser consumes at least
  eight bytes a turn. Only \<open>delete_loop\<close>, which asks the object store for pages until it says there are no more, may not
  end: it is a partial function whose value \<^term>\<open>None\<close> is not returning, and \<open>DeleteAllUserObjects_complete\<close>
  shows that it returns when the listing ends. Integers of the protocol are words where the code gives them a width.

  \<^bold>\<open>Not modelled.\<close> Log output and its set-up, the request logging middleware, the time zone, and the shutdown on a signal.
  \<^verbatim>\<open>SendTemplate\<close>, which is commented out in the source. \<^verbatim>\<open>publishSentMessageEvent\<close>, which computes an event and drops it.
  JSON text itself: values are compared before they are encoded. Parallel execution of handlers is modelled
  only for the goroutines of clients; single handlers are atomic, and the goroutine of a history synchronisation
  runs to its end behind the event that starts it. Errors of a result set between two rows are not modelled.
\<close>

end
